(* ===== verification/Prelude.thy ===== *)
theory Prelude
  imports Main "HOL-Library.Word"
begin

text \<open>
  Shared vocabulary of the development.

  A Rust \<^verbatim>\<open>String\<close> is modelled by its UTF-8 bytes: \<open>string\<close> is \<open>char list\<close> and a
  \<open>char\<close> of HOL is one byte, so \<open>length\<close> is Rust's \<^verbatim>\<open>len()\<close>.  A \<^verbatim>\<open>Uuid\<close> is a 128-bit word,
  a timestamp an integer.  \<^verbatim>\<open>usize\<close> values are natural numbers with the 64-bit bound written
  out where the code saturates, wraps or rejects.

  The theory holds the string operations of the Rust standard library that the code uses
  (\<^verbatim>\<open>strip_prefix\<close>, \<^verbatim>\<open>split_inclusive\<close>, \<^verbatim>\<open>trim\<close>, decimal formatting and parsing) with the
  lemmas about them that more than one component needs, and the collections
  \<open>model_simps\<close> and \<open>model_splits\<close> that the component theories fill.
\<close>

named_theorems model_simps
named_theorems model_splits

type_synonym uuid = "128 word"
type_synonym datetime = int

lemmas result_splits = if_splits option.splits sum.splits prod.splits


section \<open>64-bit unsigned arithmetic on natural numbers\<close>

definition usize_max :: nat where
  "usize_max = 2 ^ 64 - 1"

definition saturating_add :: "nat \<Rightarrow> nat \<Rightarrow> nat" where
  "saturating_add a b = min (a + b) usize_max"

definition saturating_sub :: "nat \<Rightarrow> nat \<Rightarrow> nat" where
  "saturating_sub a b = a - b"

definition wrapping_succ :: "nat \<Rightarrow> nat" where
  "wrapping_succ n = (n + 1) mod 2 ^ 64"

lemma saturating_add_exact [simp]: "a + b \<le> usize_max \<Longrightarrow> saturating_add a b = a + b"
  by (simp add: saturating_add_def)

lemma wrapping_succ_exact: "n < usize_max \<Longrightarrow> wrapping_succ n = Suc n"
  by (simp add: wrapping_succ_def usize_max_def)

lemma wrapping_succ_bound: "wrapping_succ n \<le> usize_max"
  using mod_less_divisor [of "2 ^ 64" "n + 1"] by (simp add: wrapping_succ_def usize_max_def)


text \<open>The maximum over a list, as the loops of the code compute it.\<close>

lemma fold_max_ge: "(i :: 'a :: linorder) \<le> fold max is i" "j \<in> set is \<Longrightarrow> j \<le> fold max is i"
proof (induction "is" arbitrary: i j)
  case (Cons a "is")
  { case 1 show ?case using Cons.IH(1) [of "max a i"] by simp }
  { case 2 then show ?case using Cons.IH(1) [of "max a i"] Cons.IH(2) [of j "max a i"] by auto }
qed auto


section \<open>Prefixes and suffixes\<close>

fun strip_prefix :: "'a list \<Rightarrow> 'a list \<Rightarrow> 'a list option" where
  "strip_prefix [] s = Some s"
| "strip_prefix (p # ps) [] = None"
| "strip_prefix (p # ps) (c # cs) = (if p = c then strip_prefix ps cs else None)"

definition starts_with :: "'a list \<Rightarrow> 'a list \<Rightarrow> bool" where
  "starts_with p s = (strip_prefix p s \<noteq> None)"

definition ends_with :: "'a list \<Rightarrow> 'a list \<Rightarrow> bool" where
  "ends_with p s = starts_with (rev p) (rev s)"

fun contains :: "'a list \<Rightarrow> 'a list \<Rightarrow> bool" where
  "contains pat [] = (pat = [])"
| "contains pat (c # cs) = (starts_with pat (c # cs) \<or> contains pat cs)"

text \<open>\<^verbatim>\<open>words.join(" ")\<close>.\<close>

fun join_words :: "string list \<Rightarrow> string" where
  "join_words [] = []"
| "join_words [w] = w"
| "join_words (w # ws) = w @ '' '' @ join_words ws"

text \<open>\<^verbatim>\<open>line.starts_with([c1, c2])\<close>: the first character is one of the given ones.\<close>

definition starts_with_any :: "char list \<Rightarrow> string \<Rightarrow> bool" where
  "starts_with_any cs s = (case s of [] \<Rightarrow> False | c # _ \<Rightarrow> c \<in> set cs)"

lemma strip_prefix_Some_iff: "strip_prefix p s = Some r \<longleftrightarrow> s = p @ r"
  by (induction p s rule: strip_prefix.induct) auto

lemma strip_prefix_append [simp]: "strip_prefix p (p @ r) = Some r"
  by (simp add: strip_prefix_Some_iff)

lemma starts_with_iff: "starts_with p s \<longleftrightarrow> (\<exists>r. s = p @ r)"
  by (auto simp: starts_with_def strip_prefix_Some_iff)

lemma starts_with_Cons [simp]: "starts_with (p # ps) (c # cs) \<longleftrightarrow> p = c \<and> starts_with ps cs"
  by (simp add: starts_with_def)

lemma starts_with_Nil [simp]: "starts_with [] s" "\<not> starts_with (p # ps) []"
  by (simp_all add: starts_with_def)

lemma ends_with_iff: "ends_with p s \<longleftrightarrow> (\<exists>r. s = r @ p)"
proof -
  have "starts_with (rev p) (rev s) \<longleftrightarrow> (\<exists>r. rev s = rev p @ r)"
    by (rule starts_with_iff)
  also have "\<dots> \<longleftrightarrow> (\<exists>r. s = r @ p)"
    by (metis append_eq_append_conv2 rev_append rev_rev_ident)
  finally show ?thesis by (simp add: ends_with_def)
qed

lemma ends_with_single: "ends_with [c] s \<longleftrightarrow> s \<noteq> [] \<and> last s = c"
  by (metis append_butlast_last_id ends_with_iff last_snoc snoc_eq_iff_butlast)


section \<open>Lines\<close>

abbreviation newline :: char where
  "newline \<equiv> CHR 0x0A"

text \<open>\<^verbatim>\<open>str::split_inclusive\<close>: the terminator stays at the end of each piece.\<close>

fun split_inclusive :: "'a \<Rightarrow> 'a list \<Rightarrow> 'a list list" where
  "split_inclusive d [] = []"
| "split_inclusive d (c # cs) =
     (if c = d then [c] # split_inclusive d cs
      else case split_inclusive d cs of
             [] \<Rightarrow> [[c]]
           | l # ls \<Rightarrow> (c # l) # ls)"

lemma concat_split_inclusive [simp]: "concat (split_inclusive d s) = s"
  by (induction s) (auto split: list.split)

lemma split_inclusive_eq_Nil [simp]: "split_inclusive d s = [] \<longleftrightarrow> s = []"
  by (cases s) (auto split: list.split)

lemma split_inclusive_nonempty: "l \<in> set (split_inclusive d s) \<Longrightarrow> l \<noteq> []"
  by (induction s arbitrary: l) (auto split: list.splits if_splits)

lemma Nil_notin_split_inclusive [simp]: "[] \<notin> set (split_inclusive d s)"
  by (auto dest: split_inclusive_nonempty)

text \<open>A piece that is not the last one ends with the terminator and holds it nowhere else.\<close>

lemma split_inclusive_terminated:
  "i < length (split_inclusive d s) \<Longrightarrow>
   d \<notin> set (butlast (split_inclusive d s ! i)) \<and>
   (Suc i < length (split_inclusive d s) \<longrightarrow> last (split_inclusive d s ! i) = d)"
proof (induction s arbitrary: i)
  case Nil
  then show ?case by simp
next
  case (Cons c cs)
  show ?case
  proof (cases "split_inclusive d cs")
    case Nil
    with Cons.prems show ?thesis by auto
  next
    case (Cons l ls)
    have l: "l \<noteq> []" using split_inclusive_nonempty [of l d cs] Cons by simp
    show ?thesis
    proof (cases i)
      case 0
      with Cons.IH [of 0] Cons l show ?thesis by auto
    next
      case (Suc j)
      with Cons.IH [of i] Cons.IH [of j] Cons.prems Cons show ?thesis by auto
    qed
  qed
qed

text \<open>\<^verbatim>\<open>str::lines\<close>: the terminator \<^verbatim>\<open>\n\<close> or \<^verbatim>\<open>\r\n\<close> is removed.\<close>

definition strip_line_end :: "string \<Rightarrow> string" where
  "strip_line_end l =
     (if ends_with [newline] l
      then (if ends_with [CHR 0x0D] (butlast l) then butlast (butlast l) else butlast l)
      else l)"

definition str_lines :: "string \<Rightarrow> string list" where
  "str_lines s = map strip_line_end (split_inclusive newline s)"

lemma split_inclusive_line: "d \<notin> set l \<Longrightarrow> split_inclusive d (l @ d # rest) = (l @ [d]) # split_inclusive d rest"
  by (induction l) auto

lemma str_lines_line:
  "newline \<notin> set l \<Longrightarrow> \<not> ends_with [CHR 0x0D] l \<Longrightarrow> str_lines (l @ newline # rest) = l # str_lines rest"
  by (auto simp: str_lines_def split_inclusive_line strip_line_end_def ends_with_single)

text \<open>Total length of a list of strings, the \<^verbatim>\<open>sum\<close> of the lengths.\<close>

definition total_length :: "'a list list \<Rightarrow> nat" where
  "total_length ls = sum_list (map length ls)"

lemma total_length_concat: "total_length ls = length (concat ls)"
  by (simp add: total_length_def length_concat)

lemma total_length_simps [simp]:
  "total_length [] = 0"
  "total_length (l # ls) = length l + total_length ls"
  "total_length (ls @ ms) = total_length ls + total_length ms"
  by (simp_all add: total_length_def)


section \<open>White space\<close>

text \<open>
  \<^verbatim>\<open>str::trim\<close> removes the characters with the Unicode property White\_Space; here as their
  UTF-8 encodings.  UTF-8 is self-synchronising, so a suffix of bytes that spells such a
  character is that character.
\<close>

definition bytes :: "nat list \<Rightarrow> string" where
  "bytes = map char_of"

definition white_space :: "string list" where
  "white_space = map bytes
     ([[9], [10], [11], [12], [13], [32], [0xC2, 0x85], [0xC2, 0xA0], [0xE1, 0x9A, 0x80]]
      @ map (\<lambda>b. [0xE2, 0x80, b]) [0x80 ..< 0x8B]
      @ [[0xE2, 0x80, 0xA8], [0xE2, 0x80, 0xA9], [0xE2, 0x80, 0xAF], [0xE2, 0x81, 0x9F],
         [0xE3, 0x80, 0x80]])"

text \<open>\<open>strip_while ws s\<close> drops leading elements of \<open>ws\<close> as long as one matches.\<close>

function strip_while :: "'a list list \<Rightarrow> 'a list \<Rightarrow> 'a list" where
  "strip_while ws s =
     (case find (\<lambda>w. w \<noteq> [] \<and> starts_with w s) ws of
        None \<Rightarrow> s
      | Some w \<Rightarrow> strip_while ws (drop (length w) s))"
  by pat_completeness auto
termination
proof (relation "measure (\<lambda>(ws, s). length s)")
  fix ws :: "'a list list" and s w
  assume "find (\<lambda>w. w \<noteq> [] \<and> starts_with w s) ws = Some w"
  then have "w \<noteq> []" and "starts_with w s" by (auto simp: find_Some_iff)
  then have "0 < length w" and "0 < length s" by (auto simp: starts_with_iff)
  then show "((ws, drop (length w) s), (ws, s)) \<in> measure (\<lambda>(ws, s). length s)" by simp
qed simp

declare strip_while.simps [simp del]

definition trim_start :: "string \<Rightarrow> string" where
  "trim_start s = strip_while white_space s"

definition trim_end :: "string \<Rightarrow> string" where
  "trim_end s = rev (strip_while (map rev white_space) (rev s))"

definition trim :: "string \<Rightarrow> string" where
  "trim s = trim_end (trim_start s)"

text \<open>Trimming twice is trimming once.\<close>

lemma strip_while_stuck: "w \<in> set ws \<Longrightarrow> w \<noteq> [] \<Longrightarrow> \<not> starts_with w (strip_while ws s)"
proof (induction ws s rule: strip_while.induct)
  case (1 ws s)
  show ?case
  proof (cases "find (\<lambda>w. w \<noteq> [] \<and> starts_with w s) ws")
    case None
    then have "strip_while ws s = s" by (subst strip_while.simps) simp
    with None 1(2,3) show ?thesis by (auto simp: find_None_iff)
  next
    case (Some v)
    then have "strip_while ws s = strip_while ws (drop (length v) s)" by (subst strip_while.simps) simp
    with 1(1) [OF Some 1(2,3)] show ?thesis by simp
  qed
qed

lemma strip_while_id: "(\<And>w. w \<in> set ws \<Longrightarrow> w \<noteq> [] \<Longrightarrow> \<not> starts_with w s) \<Longrightarrow> strip_while ws s = s"
  by (subst strip_while.simps) (auto simp: find_Some_iff split: option.split)

lemma strip_while_suffix: "\<exists>p. s = p @ strip_while ws s"
proof (induction ws s rule: strip_while.induct)
  case (1 ws s)
  show ?case
  proof (cases "find (\<lambda>w. w \<noteq> [] \<and> starts_with w s) ws")
    case None
    then show ?thesis by (subst strip_while.simps) simp
  next
    case (Some v)
    with 1 obtain p where "drop (length v) s = p @ strip_while ws (drop (length v) s)" by blast
    moreover have "strip_while ws s = strip_while ws (drop (length v) s)"
      using Some by (subst strip_while.simps) simp
    ultimately have "s = (take (length v) s @ p) @ strip_while ws s"
      by (metis append.assoc append_take_drop_id)
    then show ?thesis ..
  qed
qed

lemma trim_idem: "trim (trim s) = trim s"
proof -
  let ?t = "trim_start s"
  obtain p where p: "?t = trim_end ?t @ p"
    using strip_while_suffix [of "rev ?t" "map rev white_space"] by (metis rev_append rev_rev_ident trim_end_def)
  have "\<not> starts_with w (trim_end ?t)" if "w \<in> set white_space" "w \<noteq> []" for w
    using strip_while_stuck [OF that, of s] p by (metis append.assoc starts_with_iff trim_start_def)
  then have "trim_start (trim_end ?t) = trim_end ?t" unfolding trim_start_def [of "trim_end ?t"] by (intro strip_while_id) blast
  moreover have "trim_end (trim_end ?t) = trim_end ?t"
    unfolding trim_end_def rev_rev_ident by (subst strip_while_id) (use strip_while_stuck in blast, rule refl)
  ultimately show ?thesis by (simp add: trim_def)
qed

text \<open>SQLite's \<^verbatim>\<open>TRIM(x)\<close> with one argument removes the space character only.\<close>

definition sql_trim :: "string \<Rightarrow> string" where
  "sql_trim s = rev (dropWhile (\<lambda>c. c = CHR '' '') (rev (dropWhile (\<lambda>c. c = CHR '' '') s)))"

lemma all_dropWhile: "(\<forall>x \<in> set (dropWhile P xs). P x) \<longleftrightarrow> (\<forall>x \<in> set xs. P x)"
  by (induction xs) auto

lemma sql_trim_eq_Nil: "sql_trim s = [] \<longleftrightarrow> (\<forall>c \<in> set s. c = CHR '' '')"
  unfolding sql_trim_def rev_is_Nil_conv dropWhile_eq_Nil_conv set_rev all_dropWhile ..


section \<open>Decimal numbers\<close>

definition digit_char :: "nat \<Rightarrow> char" where
  "digit_char d = char_of (48 + d)"

definition digit_value :: "char \<Rightarrow> nat option" where
  "digit_value c = (let n = of_char c in if 48 \<le> n \<and> n \<le> 57 then Some (n - 48) else None)"

fun show_nat :: "nat \<Rightarrow> string" where
  "show_nat n = (if n < 10 then [digit_char n] else show_nat (n div 10) @ [digit_char (n mod 10)])"

declare show_nat.simps [simp del]

text \<open>\<^verbatim>\<open>parse::<usize>()\<close>: digits with an optional plus sign, rejected when they overflow.\<close>

fun parse_digits :: "nat \<Rightarrow> string \<Rightarrow> nat option" where
  "parse_digits acc [] = Some acc"
| "parse_digits acc (c # cs) =
     (case digit_value c of
        None \<Rightarrow> None
      | Some d \<Rightarrow> if acc * 10 + d \<le> usize_max then parse_digits (acc * 10 + d) cs else None)"

definition parse_usize :: "string \<Rightarrow> nat option" where
  "parse_usize s =
     (case s of
        [] \<Rightarrow> None
      | c # cs \<Rightarrow>
          if c = CHR ''+'' then (if cs = [] then None else parse_digits 0 cs)
          else parse_digits 0 s)"

lemma digit_value_digit_char [simp]: "d < 10 \<Longrightarrow> digit_value (digit_char d) = Some d"
  by (simp add: digit_value_def digit_char_def)

lemma digit_char_not_plus [simp]: "d < 10 \<Longrightarrow> digit_char d \<noteq> CHR ''+''"
  using digit_value_digit_char [of d] by (auto simp: digit_value_def)

lemma parse_digits_append:
  "parse_digits acc (xs @ ys) =
     (case parse_digits acc xs of None \<Rightarrow> None | Some a \<Rightarrow> parse_digits a ys)"
  by (induction xs arbitrary: acc) (auto split: option.splits)

lemma parse_digits_bound: "acc \<le> usize_max \<Longrightarrow> parse_digits acc s = Some n \<Longrightarrow> n \<le> usize_max"
  by (induction s arbitrary: acc) (auto split: option.splits if_splits)

lemma parse_usize_bound: "parse_usize s = Some n \<Longrightarrow> n \<le> usize_max"
  by (auto simp: parse_usize_def simp del: parse_digits.simps
      split: list.splits if_splits intro: parse_digits_bound [of 0])

lemma parse_digits_show_nat: "n \<le> usize_max \<Longrightarrow> parse_digits 0 (show_nat n) = Some n"
proof (induction n rule: show_nat.induct)
  case (1 n)
  show ?case
  proof (cases "n < 10")
    case True
    with "1.prems" show ?thesis by (simp add: show_nat.simps)
  next
    case False
    with 1 have "parse_digits 0 (show_nat (n div 10)) = Some (n div 10)" by simp
    with False "1.prems" show ?thesis
      by (simp add: show_nat.simps [of n] parse_digits_append)
  qed
qed

lemma show_nat_Cons: "\<exists>d cs. d < 10 \<and> show_nat n = digit_char d # cs"
proof (induction n rule: show_nat.induct)
  case (1 n)
  then show ?case by (cases "n < 10") (auto simp: show_nat.simps [of n])
qed

lemma parse_usize_show_nat [simp]: "n \<le> usize_max \<Longrightarrow> parse_usize (show_nat n) = Some n"
  using parse_digits_show_nat [of n] show_nat_Cons [of n]
  by (auto simp: parse_usize_def simp del: parse_digits.simps)

lemma show_nat_inject: "n \<le> usize_max \<Longrightarrow> m \<le> usize_max \<Longrightarrow> show_nat n = show_nat m \<longleftrightarrow> n = m"
  by (metis option.inject parse_usize_show_nat)

end
