(* ===== verification/Log_Entries.thy ===== *)
theory Log_Entries
  imports Prelude
begin

text \<open>
  The log vocabulary shared by the executors, the message store and the approvals service:
  \<^verbatim>\<open>crates/executors/src/logs/mod.rs\<close> (normalised entries), \<^verbatim>\<open>crates/utils/src/log_msg.rs\<close>
  (messages), \<^verbatim>\<open>crates/utils/src/approvals.rs\<close> (approval data),
  \<^verbatim>\<open>crates/executors/src/logs/utils/patch.rs\<close> (conversation patches) and the data types of
  \<^verbatim>\<open>crates/utils/src/diff.rs\<close>.

  A JSON patch is a list of the six RFC 6902 operations.  A value of a patch that is the
  serialisation of a \<^verbatim>\<open>PatchType\<close> is kept as that \<open>patch_type\<close>; \<open>OtherValue\<close> is any JSON value
  that does not have this shape.  So \<^verbatim>\<open>to_value\<close> and \<^verbatim>\<open>from_value\<close> of serde on these types are
  the identity of the model.
\<close>

section \<open>JSON values\<close>

datatype json =
    JNull
  | JBool bool
  | JNumber string
  | JString string
  | JArray "json list"
  | JObject "(string \<times> json) list"

definition json_get :: "json \<Rightarrow> string \<Rightarrow> json option" where
  "json_get j k = (case j of JObject fs \<Rightarrow> map_of fs k | _ \<Rightarrow> None)"

definition json_as_str :: "json \<Rightarrow> string option" where
  "json_as_str j = (case j of JString s \<Rightarrow> Some s | _ \<Rightarrow> None)"


section \<open>Approval data\<close>

datatype approval_status =
    AS_Pending
  | AS_Approved
  | AS_Denied "string option"
  | AS_TimedOut

record approval_request =
  ar_id :: string
  ar_tool_name :: string
  ar_tool_input :: json
  ar_tool_call_id :: string
  ar_execution_process_id :: uuid
  ar_created_at :: datetime
  ar_timeout_at :: datetime

record create_approval_request =
  car_tool_name :: string
  car_tool_input :: json
  car_tool_call_id :: string

record approval_response =
  resp_execution_process_id :: uuid
  resp_status :: approval_status

definition APPROVAL_TIMEOUT_SECONDS :: int where
  "APPROVAL_TIMEOUT_SECONDS = 3600"

text \<open>Timestamps count seconds; \<open>new_id\<close> is the fresh \<^verbatim>\<open>Uuid::new_v4().to_string()\<close>.\<close>

definition from_create ::
  "string \<Rightarrow> datetime \<Rightarrow> create_approval_request \<Rightarrow> uuid \<Rightarrow> approval_request" where
  "from_create new_id now request execution_process_id =
     \<lparr> ar_id = new_id,
       ar_tool_name = car_tool_name request,
       ar_tool_input = car_tool_input request,
       ar_tool_call_id = car_tool_call_id request,
       ar_execution_process_id = execution_process_id,
       ar_created_at = now,
       ar_timeout_at = now + APPROVAL_TIMEOUT_SECONDS \<rparr>"


section \<open>Normalised entries\<close>

datatype tool_result_value_type = Markdown | Json

record tool_result =
  tr_type :: tool_result_value_type
  tr_value :: json

datatype command_exit_status = ExitCode int | ExitSuccess bool

record command_run_result =
  exit_status :: "command_exit_status option"
  run_output :: "string option"

datatype normalized_entry_error = SetupRequired | OtherError

record todo_item =
  todo_content :: string
  todo_status :: string
  todo_priority :: "string option"

datatype file_change =
    Write string
  | Delete
  | Rename string
  | Edit string bool

datatype action_type =
    FileRead string
  | FileEdit string "file_change list"
  | CommandRun string "command_run_result option"
  | Search string
  | WebFetch string
  | Tool string "json option" "tool_result option"
  | TaskCreate string
  | PlanPresentation string
  | TodoManagement "todo_item list" string
  | OtherAction string

datatype tool_status =
    TS_Created
  | TS_Success
  | TS_Failed
  | TS_Denied "string option"
  | TS_PendingApproval string datetime datetime
  | TS_TimedOut

datatype normalized_entry_type =
    UserMessage
  | UserFeedback string
  | AssistantMessage
  | ToolUse string action_type tool_status
  | SystemMessage
  | ErrorMessage normalized_entry_error
  | Thinking
  | Loading
  | NextAction bool nat bool

record normalized_entry =
  ne_timestamp :: "string option"
  entry_type :: normalized_entry_type
  ne_content :: string
  ne_metadata :: "json option"

definition with_tool_status :: "normalized_entry \<Rightarrow> tool_status \<Rightarrow> normalized_entry option" where
  "with_tool_status e status =
     (case entry_type e of
        ToolUse tool_name action _ \<Rightarrow> Some (e\<lparr>entry_type := ToolUse tool_name action status\<rparr>)
      | _ \<Rightarrow> None)"

fun from_approval_status :: "approval_status \<Rightarrow> tool_status option" where
  "from_approval_status AS_Approved = Some TS_Created"
| "from_approval_status (AS_Denied reason) = Some (TS_Denied reason)"
| "from_approval_status AS_TimedOut = Some TS_TimedOut"
| "from_approval_status AS_Pending = None"

definition is_tool_use :: "normalized_entry \<Rightarrow> bool" where
  "is_tool_use e = (case entry_type e of ToolUse _ _ _ \<Rightarrow> True | _ \<Rightarrow> False)"

definition tool_status_of :: "normalized_entry \<Rightarrow> tool_status option" where
  "tool_status_of e = (case entry_type e of ToolUse _ _ s \<Rightarrow> Some s | _ \<Rightarrow> None)"

lemma with_tool_status_None_iff: "with_tool_status e s = None \<longleftrightarrow> \<not> is_tool_use e"
  by (simp add: with_tool_status_def is_tool_use_def split: normalized_entry_type.split)

lemma with_tool_status_Some:
  "is_tool_use e \<Longrightarrow> \<exists>e'. with_tool_status e s = Some e' \<and> tool_status_of e' = Some s
     \<and> ne_metadata e' = ne_metadata e \<and> ne_content e' = ne_content e"
  by (cases "entry_type e") (auto simp: with_tool_status_def is_tool_use_def tool_status_of_def)

lemma with_tool_status_status:
  "with_tool_status e s = Some e' \<Longrightarrow> tool_status_of e' = Some s \<and> is_tool_use e'"
  by (cases "entry_type e")
     (auto simp: with_tool_status_def is_tool_use_def tool_status_of_def)

lemma is_tool_use_iff_status: "is_tool_use e \<longleftrightarrow> tool_status_of e \<noteq> None"
  by (simp add: is_tool_use_def tool_status_of_def split: normalized_entry_type.split)

text \<open>
  \<^verbatim>\<open>serde_json::from_value::<ToolCallMetadata>\<close>: a struct is read from an object, other fields
  ignored, or from an array with exactly its fields.
\<close>

definition tool_call_metadata :: "json \<Rightarrow> string option" where
  "tool_call_metadata j =
     (case j of
        JObject fs \<Rightarrow> Option.bind (map_of fs ''tool_call_id'') json_as_str
      | JArray [x] \<Rightarrow> json_as_str x
      | _ \<Rightarrow> None)"


section \<open>Diffs\<close>

datatype diff_change_kind = Added | Deleted | Modified | Renamed | Copied | PermissionChange

record diff =
  d_change :: diff_change_kind
  d_old_path :: "string option"
  d_new_path :: "string option"
  d_old_content :: "string option"
  d_new_content :: "string option"
  d_content_omitted :: bool
  d_additions :: "nat option"
  d_deletions :: "nat option"


section \<open>Conversation patches\<close>

datatype patch_type =
    PT_NormalizedEntry normalized_entry
  | PT_Stdout string
  | PT_Stderr string
  | PT_Diff diff

datatype patch_value = TypedValue patch_type | OtherValue json

datatype patch_operation =
    OpAdd string patch_value
  | OpRemove string
  | OpReplace string patch_value
  | OpMove string string
  | OpCopy string string
  | OpTest string patch_value

type_synonym patch = "patch_operation list"

definition entries_prefix :: string where
  "entries_prefix = ''/entries/''"

definition entry_path :: "nat \<Rightarrow> string" where
  "entry_path entry_index = entries_prefix @ show_nat entry_index"

definition add_normalized_entry :: "nat \<Rightarrow> normalized_entry \<Rightarrow> patch" where
  "add_normalized_entry entry_index entry =
     [OpAdd (entry_path entry_index) (TypedValue (PT_NormalizedEntry entry))]"

definition add_stdout :: "nat \<Rightarrow> string \<Rightarrow> patch" where
  "add_stdout entry_index entry = [OpAdd (entry_path entry_index) (TypedValue (PT_Stdout entry))]"

definition add_stderr :: "nat \<Rightarrow> string \<Rightarrow> patch" where
  "add_stderr entry_index entry = [OpAdd (entry_path entry_index) (TypedValue (PT_Stderr entry))]"

definition add_diff :: "string \<Rightarrow> diff \<Rightarrow> patch" where
  "add_diff entry_index d = [OpAdd (entries_prefix @ entry_index) (TypedValue (PT_Diff d))]"

definition replace_diff :: "string \<Rightarrow> diff \<Rightarrow> patch" where
  "replace_diff entry_index d = [OpReplace (entries_prefix @ entry_index) (TypedValue (PT_Diff d))]"

definition remove_diff :: "string \<Rightarrow> patch" where
  "remove_diff entry_index = [OpRemove (entries_prefix @ entry_index)]"

definition replace_entry :: "nat \<Rightarrow> normalized_entry \<Rightarrow> patch" where
  "replace_entry entry_index entry =
     [OpReplace (entry_path entry_index) (TypedValue (PT_NormalizedEntry entry))]"

definition remove_entry :: "nat \<Rightarrow> patch" where
  "remove_entry entry_index = [OpRemove (entry_path entry_index)]"

fun op_path :: "patch_operation \<Rightarrow> string" where
  "op_path (OpAdd p _) = p"
| "op_path (OpRemove p) = p"
| "op_path (OpReplace p _) = p"
| "op_path (OpMove _ p) = p"
| "op_path (OpCopy _ p) = p"
| "op_path (OpTest p _) = p"

fun op_value :: "patch_operation \<Rightarrow> patch_value option" where
  "op_value (OpAdd _ v) = Some v"
| "op_value (OpReplace _ v) = Some v"
| "op_value (OpTest _ v) = Some v"
| "op_value _ = None"

text \<open>The closure of \<^verbatim>\<open>find_map\<close> in \<^verbatim>\<open>extract_normalized_entry_from_patch\<close>.\<close>

definition extract_from_op :: "patch_operation \<Rightarrow> (nat \<times> normalized_entry) option" where
  "extract_from_op oper =
     (case Option.bind (strip_prefix entries_prefix (op_path oper)) parse_usize of
        None \<Rightarrow> None
      | Some entry_index \<Rightarrow>
          (case op_value oper of
             Some (TypedValue (PT_NormalizedEntry entry)) \<Rightarrow> Some (entry_index, entry)
           | _ \<Rightarrow> None))"

fun find_map :: "('a \<Rightarrow> 'b option) \<Rightarrow> 'a list \<Rightarrow> 'b option" where
  "find_map f [] = None"
| "find_map f (x # xs) = (case f x of None \<Rightarrow> find_map f xs | Some y \<Rightarrow> Some y)"

definition extract_normalized_entry_from_patch :: "patch \<Rightarrow> (nat \<times> normalized_entry) option" where
  "extract_normalized_entry_from_patch p = find_map extract_from_op (rev p)"

lemma find_map_Some: "find_map f xs = Some y \<Longrightarrow> \<exists>x \<in> set xs. f x = Some y"
  by (induction xs) (auto split: option.splits)

lemma find_map_append:
  "find_map f (xs @ ys) = (case find_map f xs of None \<Rightarrow> find_map f ys | Some y \<Rightarrow> Some y)"
  by (induction xs) (auto split: option.splits)

lemma find_map_None: "find_map f xs = None \<longleftrightarrow> (\<forall>x \<in> set xs. f x = None)"
  by (induction xs) (auto split: option.splits)

lemma parse_entry_path:
  "n \<le> usize_max \<Longrightarrow> Option.bind (strip_prefix entries_prefix (entry_path n)) parse_usize = Some n"
  by (simp add: entry_path_def)

lemma extract_add_normalized_entry [simp]:
  "n \<le> usize_max \<Longrightarrow>
   extract_normalized_entry_from_patch (add_normalized_entry n e) = Some (n, e)"
  by (simp add: extract_normalized_entry_from_patch_def add_normalized_entry_def extract_from_op_def
      parse_entry_path)

lemma extract_replace_entry [simp]:
  "n \<le> usize_max \<Longrightarrow> extract_normalized_entry_from_patch (replace_entry n e) = Some (n, e)"
  by (simp add: extract_normalized_entry_from_patch_def replace_entry_def extract_from_op_def
      parse_entry_path)

lemma extract_other_patches [simp]:
  "extract_normalized_entry_from_patch (remove_entry n) = None"
  "extract_normalized_entry_from_patch (remove_diff s) = None"
  "extract_normalized_entry_from_patch (add_stdout n x) = None"
  "extract_normalized_entry_from_patch (add_stderr n x) = None"
  "extract_normalized_entry_from_patch (add_diff s d) = None"
  "extract_normalized_entry_from_patch (replace_diff s d) = None"
  by (simp_all add: extract_normalized_entry_from_patch_def extract_from_op_def remove_entry_def
      remove_diff_def add_stdout_def add_stderr_def add_diff_def replace_diff_def
      split: option.split)


subsection \<open>JSON pointer segments\<close>

text \<open>
  \<^verbatim>\<open>s.replace('~', "~0").replace('/', "~1")\<close>.  \<open>unescape_json_pointer_segment\<close> is the
  decoding RFC 6901 prescribes; the code has no such function, it is the reader's side.
\<close>

definition replace_char :: "char \<Rightarrow> string \<Rightarrow> string \<Rightarrow> string" where
  "replace_char c t s = concat (map (\<lambda>x. if x = c then t else [x]) s)"

definition escape_json_pointer_segment :: "string \<Rightarrow> string" where
  "escape_json_pointer_segment s =
     replace_char (CHR ''/'') ''~1'' (replace_char (CHR ''~'') ''~0'' s)"

fun unescape_json_pointer_segment :: "string \<Rightarrow> string option" where
  "unescape_json_pointer_segment [] = Some []"
| "unescape_json_pointer_segment (c # cs) =
     (if c = CHR ''~'' then
        (case cs of
           [] \<Rightarrow> None
         | d # ds \<Rightarrow>
             if d = CHR ''0'' then map_option (Cons (CHR ''~'')) (unescape_json_pointer_segment ds)
             else if d = CHR ''1'' then map_option (Cons (CHR ''/'')) (unescape_json_pointer_segment ds)
             else None)
      else map_option (Cons c) (unescape_json_pointer_segment cs))"

lemma replace_char_simps [simp]:
  "replace_char c t [] = []"
  "replace_char c t (x # s) = (if x = c then t else [x]) @ replace_char c t s"
  "replace_char c t (s @ s') = replace_char c t s @ replace_char c t s'"
  by (simp_all add: replace_char_def)

lemma escape_json_pointer_segment_simps [simp]:
  "escape_json_pointer_segment [] = []"
  "escape_json_pointer_segment (x # s) =
     (if x = CHR ''~'' then ''~0'' else if x = CHR ''/'' then ''~1'' else [x])
     @ escape_json_pointer_segment s"
  by (simp_all add: escape_json_pointer_segment_def)

lemma unescape_escape: "unescape_json_pointer_segment (escape_json_pointer_segment s) = Some s"
  by (induction s) simp_all

lemma escape_no_slash: "CHR ''/'' \<notin> set (escape_json_pointer_segment s)"
  by (induction s) auto


section \<open>Log messages\<close>

datatype log_msg =
    Stdout string
  | Stderr string
  | JsonPatch patch
  | SessionId string
  | Finished

fun log_msg_name :: "log_msg \<Rightarrow> string" where
  "log_msg_name (Stdout _) = ''stdout''"
| "log_msg_name (Stderr _) = ''stderr''"
| "log_msg_name (JsonPatch _) = ''json_patch''"
| "log_msg_name (SessionId _) = ''session_id''"
| "log_msg_name Finished = ''finished''"

text \<open>
  \<^verbatim>\<open>serde_json::to_string\<close> of a patch is a parameter \<open>ser\<close>; \<open>None\<close> is its error.
\<close>

fun to_sse_event :: "(patch \<Rightarrow> string option) \<Rightarrow> log_msg \<Rightarrow> string \<times> string" where
  "to_sse_event ser (Stdout s) = (''stdout'', s)"
| "to_sse_event ser (Stderr s) = (''stderr'', s)"
| "to_sse_event ser (JsonPatch p) =
     (''json_patch'', case ser p of Some d \<Rightarrow> d | None \<Rightarrow> ''[]'')"
| "to_sse_event ser (SessionId s) = (''session_id'', s)"
| "to_sse_event ser Finished = (''finished'', [])"

fun approx_bytes :: "(patch \<Rightarrow> string option) \<Rightarrow> log_msg \<Rightarrow> nat" where
  "approx_bytes ser (Stdout s) = length ''stdout'' + length s + 8"
| "approx_bytes ser (Stderr s) = length ''stderr'' + length s + 8"
| "approx_bytes ser (JsonPatch p) =
     length ''json_patch'' + (case ser p of Some d \<Rightarrow> length d | None \<Rightarrow> 2) + 8"
| "approx_bytes ser (SessionId s) = length ''session_id'' + length s + 8"
| "approx_bytes ser Finished = length ''finished'' + 8"

lemma approx_bytes_sse:
  "approx_bytes ser m = length (fst (to_sse_event ser m)) + length (snd (to_sse_event ser m)) + 8"
  by (cases m) (auto split: option.split)

lemma approx_bytes_pos [simp]: "0 < approx_bytes ser m"
  by (simp add: approx_bytes_sse)

end
