(* ===== verification/Msg_Store.thy ===== *)
theory Msg_Store
  imports Log_Entries "HOL-Library.Multiset"
begin

text \<open>
  \<^verbatim>\<open>crates/utils/src/msg_store.rs\<close>: a byte-budgeted history of log messages with live
  listeners, and \<^verbatim>\<open>crates/executors/src/logs/utils/entry_index.rs\<close>, the entry counter that
  is seeded from such a history.

  The first part models the store as a record and each method as a function of it.  The
  second part splits \<^verbatim>\<open>push\<close> and \<^verbatim>\<open>history_plus_stream\<close> into the steps that other threads
  can interleave with.
\<close>

section \<open>The history interface\<close>

text \<open>
  What the clients of a message history rely on: a message that is added becomes the newest
  one, and the only other change is that oldest messages may go.
\<close>

locale message_history =
  fixes inv :: "'s \<Rightarrow> bool"
    and hist :: "'s \<Rightarrow> 'm list"
    and add :: "'m \<Rightarrow> 's \<Rightarrow> 's"
    and ok :: "'m \<Rightarrow> bool"
  assumes inv_add: "inv s \<Longrightarrow> ok m \<Longrightarrow> inv (add m s)"
    and hist_add: "inv s \<Longrightarrow> ok m \<Longrightarrow> \<exists>k. hist (add m s) = drop k (hist s) @ [m]"
begin

lemma hist_add_last: "inv s \<Longrightarrow> ok m \<Longrightarrow> hist (add m s) \<noteq> [] \<and> last (hist (add m s)) = m"
  using hist_add by fastforce

lemma inv_fold_add: "inv s \<Longrightarrow> list_all ok ms \<Longrightarrow> inv (fold add ms s)"
  by (induction ms arbitrary: s) (auto simp: inv_add)

lemma hist_fold_add:
  "inv s \<Longrightarrow> list_all ok ms \<Longrightarrow> \<exists>k. hist (fold add ms s) = drop k (hist s @ ms)"
proof (induction ms arbitrary: s)
  case Nil
  have "hist s = drop 0 (hist s)" by simp
  then show ?case by (metis append_Nil2 fold_simps(1))
next
  case (Cons m ms)
  then have "inv s" "ok m" by auto
  from hist_add [OF this] obtain j where j: "hist (add m s) = drop j (hist s) @ [m]" ..
  from Cons obtain k where "hist (fold add ms (add m s)) = drop k (hist (add m s) @ ms)"
    using inv_add by fastforce
  moreover have "drop j (hist s) @ m # ms = drop (min j (length (hist s))) (hist s @ m # ms)"
    by (cases "j \<le> length (hist s)") simp_all
  ultimately show ?case using j by (metis append.assoc append_Cons append_Nil drop_drop fold_simps(2))
qed

lemma hist_fold_add_last:
  assumes "inv s" "list_all ok ms" "ms \<noteq> []"
  shows "hist (fold add ms s) \<noteq> [] \<and> last (hist (fold add ms s)) = last ms"
proof -
  from assms obtain init m where ms: "ms = init @ [m]" by (cases ms rule: rev_cases) auto
  with assms have "inv (fold add init s)" "ok m" by (auto intro: inv_fold_add)
  then show ?thesis using hist_add_last ms by simp
qed

end


section \<open>The store\<close>

record stored_msg =
  msg :: log_msg
  sm_bytes :: nat

record msg_store =
  history :: "stored_msg list"
  total_bytes :: nat

definition HISTORY_BYTES :: nat where
  "HISTORY_BYTES = 100000 * 1024"

definition new_msg_store :: msg_store where
  "new_msg_store = \<lparr> history = [], total_bytes = 0 \<rparr>"

text \<open>The \<^verbatim>\<open>while\<close> loop of \<^verbatim>\<open>push\<close>: pop the front until the new message fits.\<close>

fun evict :: "nat \<Rightarrow> stored_msg list \<Rightarrow> nat \<Rightarrow> stored_msg list \<times> nat" where
  "evict bs [] tot = ([], tot)"
| "evict bs (front # rest) tot =
     (if saturating_add tot bs > HISTORY_BYTES
      then evict bs rest (saturating_sub tot (sm_bytes front))
      else (front # rest, tot))"

definition push :: "(patch \<Rightarrow> string option) \<Rightarrow> log_msg \<Rightarrow> msg_store \<Rightarrow> msg_store" where
  "push ser m s =
     (let bs = approx_bytes ser m;
          (kept, tot) = evict bs (history s) (total_bytes s)
      in \<lparr> history = kept @ [\<lparr> msg = m, sm_bytes = bs \<rparr>],
           total_bytes = saturating_add tot bs \<rparr>)"

definition push_stdout :: "(patch \<Rightarrow> string option) \<Rightarrow> string \<Rightarrow> msg_store \<Rightarrow> msg_store" where
  "push_stdout ser t = push ser (Stdout t)"

definition push_stderr :: "(patch \<Rightarrow> string option) \<Rightarrow> string \<Rightarrow> msg_store \<Rightarrow> msg_store" where
  "push_stderr ser t = push ser (Stderr t)"

definition push_patch :: "(patch \<Rightarrow> string option) \<Rightarrow> patch \<Rightarrow> msg_store \<Rightarrow> msg_store" where
  "push_patch ser p = push ser (JsonPatch p)"

definition push_session_id :: "(patch \<Rightarrow> string option) \<Rightarrow> string \<Rightarrow> msg_store \<Rightarrow> msg_store" where
  "push_session_id ser t = push ser (SessionId t)"

definition push_finished :: "(patch \<Rightarrow> string option) \<Rightarrow> msg_store \<Rightarrow> msg_store" where
  "push_finished ser = push ser Finished"

definition get_history :: "msg_store \<Rightarrow> log_msg list" where
  "get_history s = map msg (history s)"

text \<open>
  \<^verbatim>\<open>stdout_chunked_stream\<close> and \<^verbatim>\<open>stderr_chunked_stream\<close> on the sequence of messages that
  \<^verbatim>\<open>history_plus_stream\<close> yields: stop at \<^verbatim>\<open>Finished\<close>, keep the one kind of chunk.
\<close>

definition stdout_chunked_stream :: "log_msg list \<Rightarrow> string list" where
  "stdout_chunked_stream ms =
     List.map_filter (\<lambda>m. case m of Stdout t \<Rightarrow> Some t | _ \<Rightarrow> None) (takeWhile (\<lambda>m. m \<noteq> Finished) ms)"

definition stderr_chunked_stream :: "log_msg list \<Rightarrow> string list" where
  "stderr_chunked_stream ms =
     List.map_filter (\<lambda>m. case m of Stderr t \<Rightarrow> Some t | _ \<Rightarrow> None) (takeWhile (\<lambda>m. m \<noteq> Finished) ms)"

definition sse_stream :: "(patch \<Rightarrow> string option) \<Rightarrow> log_msg list \<Rightarrow> (string \<times> string) list" where
  "sse_stream ser ms = map (to_sse_event ser) ms"

text \<open>\<^verbatim>\<open>spawn_forwarder\<close>: items of the forwarded stream are messages or the text of an error.\<close>

fun forward :: "(patch \<Rightarrow> string option) \<Rightarrow> (string + log_msg) list \<Rightarrow> msg_store \<Rightarrow> msg_store" where
  "forward ser [] s = s"
| "forward ser (Inr m # rest) s = forward ser rest (push ser m s)"
| "forward ser (Inl e # rest) s = forward ser rest (push ser (Stderr (''stream error: '' @ e)) s)"


subsection \<open>Accounting and the byte budget\<close>

definition stored_bytes :: "stored_msg list \<Rightarrow> nat" where
  "stored_bytes h = sum_list (map sm_bytes h)"

text \<open>
  The cached total is the sum of the stored sizes, and it is within the budget unless the
  history is one message that alone exceeds it.
\<close>

definition store_inv :: "msg_store \<Rightarrow> bool" where
  "store_inv s \<longleftrightarrow>
     total_bytes s = stored_bytes (history s) \<and>
     (total_bytes s \<le> HISTORY_BYTES \<or> length (history s) = 1)"

definition fits_usize :: "(patch \<Rightarrow> string option) \<Rightarrow> log_msg \<Rightarrow> bool" where
  "fits_usize ser m \<longleftrightarrow> approx_bytes ser m \<le> usize_max"

lemma stored_bytes_simps [simp]:
  "stored_bytes [] = 0"
  "stored_bytes (x # h) = sm_bytes x + stored_bytes h"
  "stored_bytes (h @ h') = stored_bytes h + stored_bytes h'"
  by (simp_all add: stored_bytes_def)

lemma HISTORY_BYTES_le_usize_max: "HISTORY_BYTES < usize_max"
  by (simp add: HISTORY_BYTES_def usize_max_def)

lemma saturating_add_gt_HISTORY:
  "saturating_add a b > HISTORY_BYTES \<longleftrightarrow> a + b > HISTORY_BYTES"
  using HISTORY_BYTES_le_usize_max by (auto simp: saturating_add_def)

text \<open>
  On an exact total the loop drops the least number of messages that makes room.
\<close>

lemma evict_spec:
  "evict bs h (stored_bytes h) = (kept, tot) \<Longrightarrow>
   \<exists>k. kept = drop k h \<and> tot = stored_bytes kept
     \<and> (kept = [] \<or> stored_bytes kept + bs \<le> HISTORY_BYTES)
     \<and> (\<forall>j < k. stored_bytes (drop j h) + bs > HISTORY_BYTES)"
proof (induction h arbitrary: kept tot)
  case Nil
  then show ?case by (intro exI [of _ 0]) simp
next
  case (Cons f h)
  show ?case
  proof (cases "saturating_add (stored_bytes (f # h)) bs > HISTORY_BYTES")
    case False
    with Cons.prems show ?thesis
      by (intro exI [of _ 0]) (auto simp: saturating_add_gt_HISTORY)
  next
    case True
    with Cons.prems have "evict bs h (stored_bytes h) = (kept, tot)"
      by (simp add: saturating_sub_def)
    then obtain k where k: "kept = drop k h" "tot = stored_bytes kept"
      "kept = [] \<or> stored_bytes kept + bs \<le> HISTORY_BYTES"
      "\<forall>j < k. stored_bytes (drop j h) + bs > HISTORY_BYTES"
      using Cons.IH by blast
    have "\<forall>j < Suc k. stored_bytes (drop j (f # h)) + bs > HISTORY_BYTES"
      using k(4) True by (auto simp: saturating_add_gt_HISTORY less_Suc_eq_0_disj)
    with k(1-3) show ?thesis by (intro exI [of _ "Suc k"]) simp
  qed
qed

lemma push_spec:
  assumes "store_inv s" and "fits_usize ser m"
  obtains k where
    "history (push ser m s) = drop k (history s) @ [\<lparr> msg = m, sm_bytes = approx_bytes ser m \<rparr>]"
    "total_bytes (push ser m s) = stored_bytes (history (push ser m s))"
    "drop k (history s) = [] \<or> total_bytes (push ser m s) \<le> HISTORY_BYTES"
    "\<forall>j < k. stored_bytes (drop j (history s)) + approx_bytes ser m > HISTORY_BYTES"
proof -
  obtain kept tot where e: "evict (approx_bytes ser m) (history s) (total_bytes s) = (kept, tot)"
    by fastforce
  with assms(1) obtain k where k: "kept = drop k (history s)" "tot = stored_bytes kept"
    "kept = [] \<or> stored_bytes kept + approx_bytes ser m \<le> HISTORY_BYTES"
    "\<forall>j < k. stored_bytes (drop j (history s)) + approx_bytes ser m > HISTORY_BYTES"
    using evict_spec by (fastforce simp: store_inv_def)
  have "tot + approx_bytes ser m \<le> usize_max"
    using k(2,3) assms(2) HISTORY_BYTES_le_usize_max by (auto simp: fits_usize_def)
  with e k show ?thesis
    by (intro that [of k]) (auto simp: push_def Let_def)
qed

lemma store_inv_new [simp]: "store_inv new_msg_store"
  by (simp add: store_inv_def new_msg_store_def)

lemma store_inv_push:
  assumes "store_inv s" and "fits_usize ser m"
  shows "store_inv (push ser m s)"
  using push_spec [OF assms] by (metis append_Nil length_Cons list.size(3) One_nat_def store_inv_def)

lemma get_history_push:
  assumes "store_inv s" and "fits_usize ser m"
  shows "\<exists>k. get_history (push ser m s) = drop k (get_history s) @ [m]"
proof -
  from push_spec [OF assms] obtain k where
    "history (push ser m s) = drop k (history s) @ [\<lparr> msg = m, sm_bytes = approx_bytes ser m \<rparr>]" .
  then show ?thesis by (intro exI [of _ k]) (simp add: get_history_def drop_map)
qed

interpretation ms: message_history store_inv get_history "push ser" "fits_usize ser" for ser
  by unfold_locales (auto intro: store_inv_push get_history_push)

lemma forward_fold:
  "forward ser items s =
   fold (push ser) (map (\<lambda>i. case i of Inr m \<Rightarrow> m | Inl e \<Rightarrow> Stderr (''stream error: '' @ e)) items) s"
  by (induction ser items s rule: forward.induct) auto


section \<open>The entry counter\<close>

text \<open>
  \<^verbatim>\<open>EntryIndexProvider\<close> is a shared \<^verbatim>\<open>AtomicUsize\<close>; the model is its value.  \<open>next_index\<close>
  returns the value and the counter after \<^verbatim>\<open>fetch_add(1)\<close>, which wraps.
\<close>

type_synonym entry_index_provider = nat

definition new_provider :: entry_index_provider where
  "new_provider = 0"

definition next_index :: "entry_index_provider \<Rightarrow> nat \<times> entry_index_provider" where
  "next_index p = (p, wrapping_succ p)"

definition current_index :: "entry_index_provider \<Rightarrow> nat" where
  "current_index p = p"

definition reset_provider :: "entry_index_provider \<Rightarrow> entry_index_provider" where
  "reset_provider p = 0"

definition added_index :: "patch_operation \<Rightarrow> nat option" where
  "added_index oper =
     (case oper of
        OpAdd path _ \<Rightarrow> Option.bind (strip_prefix entries_prefix path) parse_usize
      | _ \<Rightarrow> None)"

definition msg_index :: "log_msg \<Rightarrow> nat option" where
  "msg_index m = (case m of JsonPatch p \<Rightarrow> find_map added_index p | _ \<Rightarrow> None)"

definition max_index :: "log_msg list \<Rightarrow> nat option" where
  "max_index ms =
     (case List.map_filter msg_index ms of [] \<Rightarrow> None | i # is \<Rightarrow> Some (fold max is i))"

definition start_from :: "msg_store \<Rightarrow> entry_index_provider" where
  "start_from s = (case max_index (get_history s) of None \<Rightarrow> 0 | Some n \<Rightarrow> saturating_add n 1)"

lemma in_map_filter: "x \<in> set xs \<Longrightarrow> f x = Some y \<Longrightarrow> y \<in> set (List.map_filter f xs)"
  by (force simp: List.map_filter_def)

lemma max_index_ge:
  assumes "m \<in> set ms" and "msg_index m = Some i"
  shows "\<exists>n. max_index ms = Some n \<and> i \<le> n"
proof (cases "List.map_filter msg_index ms")
  case Nil
  with in_map_filter [where f = msg_index, OF assms] show ?thesis by simp
next
  case (Cons j js)
  have "i \<in> set (j # js)" using in_map_filter [where f = msg_index, OF assms] Cons by simp
  with Cons show ?thesis by (auto simp: max_index_def fold_max_ge)
qed

text \<open>
  Below the largest index the counter can be seeded with, a fresh index is larger than the
  one of every patch of the history.
\<close>

lemma start_from_above:
  assumes "m \<in> set (get_history s)" and "msg_index m = Some i"
    and "\<And>n. max_index (get_history s) = Some n \<Longrightarrow> n < usize_max"
  shows "i < fst (next_index (start_from s))"
proof -
  from max_index_ge [OF assms(1,2)] obtain n where n: "max_index (get_history s) = Some n" "i \<le> n"
    by blast
  with assms(3) have "saturating_add n 1 = n + 1" by simp
  with n show ?thesis by (simp add: start_from_def next_index_def)
qed

lemma msg_index_add_normalized_entry [simp]:
  "n \<le> usize_max \<Longrightarrow> msg_index (JsonPatch (add_normalized_entry n e)) = Some n"
  by (simp add: msg_index_def add_normalized_entry_def added_index_def parse_entry_path)

text \<open>Consecutive calls hand out consecutive indexes until the counter wraps.\<close>

fun next_indexes :: "nat \<Rightarrow> entry_index_provider \<Rightarrow> nat list \<times> entry_index_provider" where
  "next_indexes 0 p = ([], p)"
| "next_indexes (Suc n) p =
     (let (i, p1) = next_index p; (is, p2) = next_indexes n p1 in (i # is, p2))"

lemma next_indexes_upt:
  "p + n \<le> usize_max \<Longrightarrow> next_indexes n p = ([p ..< p + n], p + n)"
proof (induction n arbitrary: p)
  case 0
  then show ?case by simp
next
  case (Suc n)
  then have "next_indexes n (Suc p) = ([Suc p ..< Suc p + n], Suc p + n)" by simp
  moreover have "[p ..< p + Suc n] = p # [Suc p ..< Suc p + n]" using upt_conv_Cons by simp
  ultimately show ?case using Suc.prems by (simp add: next_index_def wrapping_succ_exact Let_def)
qed


section \<open>Interleaving of writers and a subscriber\<close>

text \<open>
  \<^verbatim>\<open>push\<close> first sends the message on the broadcast channel and only then takes the lock and
  records it; \<^verbatim>\<open>history_plus_stream\<close> first copies the history and only then subscribes.
  Other threads run between the two halves.  The state holds the sequence of messages sent so
  far, the writers between their two halves, the store, and one subscriber: the copy it took
  and the number of messages that had been sent when it subscribed.  A subscriber receives what
  is sent after its subscription (a receiver that lags behind the channel capacity loses
  messages on top of that).
\<close>

record stream_state =
  sent :: "log_msg list"
  in_flight :: "log_msg list"
  live_store :: msg_store
  snapshot :: "log_msg list option"
  subscribed_at :: "nat option"

definition init_stream :: stream_state where
  "init_stream = \<lparr> sent = [], in_flight = [], live_store = new_msg_store,
                   snapshot = None, subscribed_at = None \<rparr>"

inductive stream_step :: "(patch \<Rightarrow> string option) \<Rightarrow> stream_state \<Rightarrow> stream_state \<Rightarrow> bool"
  for ser where
  send: "fits_usize ser m \<Longrightarrow>
     stream_step ser s (s\<lparr>sent := sent s @ [m], in_flight := m # in_flight s\<rparr>)"
| record_msg: "in_flight s = ms1 @ m # ms2 \<Longrightarrow>
     stream_step ser s (s\<lparr>in_flight := ms1 @ ms2, live_store := push ser m (live_store s)\<rparr>)"
| copy_history: "snapshot s = None \<Longrightarrow>
     stream_step ser s (s\<lparr>snapshot := Some (get_history (live_store s))\<rparr>)"
| subscribe: "snapshot s = Some h \<Longrightarrow> subscribed_at s = None \<Longrightarrow>
     stream_step ser s (s\<lparr>subscribed_at := Some (length (sent s))\<rparr>)"

inductive stream_reachable :: "(patch \<Rightarrow> string option) \<Rightarrow> stream_state \<Rightarrow> bool" for ser where
  start: "stream_reachable ser init_stream"
| step: "stream_reachable ser s \<Longrightarrow> stream_step ser s t \<Longrightarrow> stream_reachable ser t"

inductive_simps stream_step_simps: "stream_step ser s t"

text \<open>What the subscriber's stream has yielded once it has caught up.\<close>

definition delivered :: "stream_state \<Rightarrow> log_msg list" where
  "delivered s =
     (case (snapshot s, subscribed_at s) of
        (Some h, Some n) \<Rightarrow> h @ drop n (sent s)
      | (Some h, None) \<Rightarrow> h
      | (None, _) \<Rightarrow> [])"

definition stream_inv :: "(patch \<Rightarrow> string option) \<Rightarrow> stream_state \<Rightarrow> bool" where
  "stream_inv ser s \<longleftrightarrow>
     store_inv (live_store s) \<and> list_all (fits_usize ser) (in_flight s)
     \<and> mset (get_history (live_store s)) + mset (in_flight s) \<subseteq># mset (sent s)
     \<and> (case snapshot s of
          None \<Rightarrow> subscribed_at s = None
        | Some h \<Rightarrow>
            (case subscribed_at s of
               None \<Rightarrow> mset h \<subseteq># mset (sent s)
             | Some n \<Rightarrow> n \<le> length (sent s) \<and> mset h \<subseteq># mset (take n (sent s))))"

lemma mset_drop_subset: "mset (drop k xs) \<subseteq># mset xs"
  by (metis append_take_drop_id mset_append mset_subset_eq_add_right)

lemma stream_inv_init: "stream_inv ser init_stream"
  by (simp add: stream_inv_def init_stream_def get_history_def new_msg_store_def store_inv_def)

lemma stream_inv_record:
  assumes "stream_inv ser s" and "in_flight s = ms1 @ m # ms2"
  shows "stream_inv ser (s\<lparr>in_flight := ms1 @ ms2, live_store := push ser m (live_store s)\<rparr>)"
proof -
  have inv: "store_inv (live_store s)" and fit: "fits_usize ser m"
    using assms by (auto simp: stream_inv_def)
  from ms.hist_add [OF this] obtain k where
    "get_history (push ser m (live_store s)) = drop k (get_history (live_store s)) @ [m]" ..
  then have "mset (get_history (push ser m (live_store s))) + mset (ms1 @ ms2)
      \<subseteq># mset (get_history (live_store s)) + mset (in_flight s)"
    using mset_drop_subset [of k "get_history (live_store s)"] assms(2) by simp
  also have "\<dots> \<subseteq># mset (sent s)" using assms(1) by (simp add: stream_inv_def)
  finally have "mset (get_history (push ser m (live_store s))) + mset (ms1 @ ms2) \<subseteq># mset (sent s)" .
  with assms ms.inv_add [OF inv fit] show ?thesis
    by (simp add: stream_inv_def split: option.splits)
qed

lemma stream_inv_step: "stream_step ser s t \<Longrightarrow> stream_inv ser s \<Longrightarrow> stream_inv ser t"
proof (induction rule: stream_step.induct)
  case (send m s)
  then show ?case
    by (auto simp: stream_inv_def intro: subset_mset.order_trans split: option.splits)
next
  case (record_msg s ms1 m ms2)
  then show ?case by (blast intro: stream_inv_record)
next
  case (copy_history s)
  then have "mset (get_history (live_store s)) + mset (in_flight s) \<subseteq># mset (sent s)"
    by (simp add: stream_inv_def)
  then have "mset (get_history (live_store s)) \<subseteq># mset (sent s)"
    by (rule subset_mset.order_trans [rotated]) simp
  with copy_history show ?case by (simp add: stream_inv_def)
next
  case (subscribe s h)
  then show ?case by (auto simp: stream_inv_def split: option.splits)
qed

lemma stream_reachable_inv: "stream_reachable ser s \<Longrightarrow> stream_inv ser s"
  by (induction rule: stream_reachable.induct) (auto intro: stream_inv_init stream_inv_step)

lemma delivered_subset: "stream_inv ser s \<Longrightarrow> mset (delivered s) \<subseteq># mset (sent s)"
proof -
  assume inv: "stream_inv ser s"
  show ?thesis
  proof (cases "snapshot s")
    case None
    then show ?thesis by (simp add: delivered_def)
  next
    case (Some h)
    show ?thesis
    proof (cases "subscribed_at s")
      case None
      with Some inv show ?thesis by (simp add: delivered_def stream_inv_def)
    next
      case n: (Some n)
      with Some inv have "mset h \<subseteq># mset (take n (sent s))" by (simp add: stream_inv_def)
      then have "mset (h @ drop n (sent s)) \<subseteq># mset (take n (sent s) @ drop n (sent s))"
        unfolding mset_append by (rule subset_mset.add_right_mono)
      with Some n show ?thesis by (simp add: delivered_def)
    qed
  qed
qed


section \<open>Properties\<close>

text \<open>
  C2: After any sequence of pushes the cached byte count is the sum of the stored sizes, the
  history is within the byte budget (unless it is one message that alone exceeds it), it is a
  suffix of the pushed sequence, and its last message is the last one pushed.
\<close>

theorem push_keeps_budget_and_suffix:
  assumes "list_all (fits_usize ser) ms" and "ms \<noteq> []"
  shows "store_inv (fold (push ser) ms new_msg_store)
     \<and> (\<exists>k. get_history (fold (push ser) ms new_msg_store) = drop k ms)
     \<and> last (get_history (fold (push ser) ms new_msg_store)) = last ms"
  using ms.inv_fold_add [OF store_inv_new assms(1)] ms.hist_fold_add [OF store_inv_new assms(1)]
    ms.hist_fold_add_last [OF store_inv_new assms]
  by (simp add: get_history_def new_msg_store_def)

theorem push_keeps_budget_and_suffix_witness:
  "store_inv (fold (push (\<lambda>_. None)) [Stdout ''a'', Finished] new_msg_store)
   \<and> (\<exists>k. get_history (fold (push (\<lambda>_. None)) [Stdout ''a'', Finished] new_msg_store)
         = drop k [Stdout ''a'', Finished])
   \<and> last (get_history (fold (push (\<lambda>_. None)) [Stdout ''a'', Finished] new_msg_store)) = Finished"
  using push_keeps_budget_and_suffix [of "\<lambda>_. None" "[Stdout ''a'', Finished]"]
  by (simp add: fits_usize_def usize_max_def)

text \<open>
  A push evicts no more than it has to: it drops the shortest run of oldest messages after
  which the new message fits the budget, and nothing when it fits already.
\<close>

theorem push_evicts_least:
  assumes "store_inv s" and "fits_usize ser m"
  shows "\<exists>k. get_history (push ser m s) = drop k (get_history s) @ [m]
     \<and> (drop k (history s) = [] \<or> stored_bytes (drop k (history s)) + approx_bytes ser m \<le> HISTORY_BYTES)
     \<and> (\<forall>j < k. stored_bytes (drop j (history s)) + approx_bytes ser m > HISTORY_BYTES)"
proof -
  from push_spec [OF assms] obtain k where k:
    "history (push ser m s) = drop k (history s) @ [\<lparr> msg = m, sm_bytes = approx_bytes ser m \<rparr>]"
    "total_bytes (push ser m s) = stored_bytes (history (push ser m s))"
    "drop k (history s) = [] \<or> total_bytes (push ser m s) \<le> HISTORY_BYTES"
    "\<forall>j < k. stored_bytes (drop j (history s)) + approx_bytes ser m > HISTORY_BYTES" .
  then show ?thesis by (intro exI [of _ k]) (auto simp: get_history_def drop_map)
qed

theorem push_evicts_least_witness:
  "\<exists>k. get_history (push (\<lambda>_. None) (Stderr ''x'') new_msg_store) = drop k (get_history new_msg_store) @ [Stderr ''x'']
     \<and> (drop k (history new_msg_store) = []
        \<or> stored_bytes (drop k (history new_msg_store)) + approx_bytes (\<lambda>_. None) (Stderr ''x'') \<le> HISTORY_BYTES)
     \<and> (\<forall>j < k. stored_bytes (drop j (history new_msg_store)) + approx_bytes (\<lambda>_. None) (Stderr ''x'') > HISTORY_BYTES)"
  by (rule push_evicts_least) (simp_all add: fits_usize_def usize_max_def)

text \<open>
  C31: Whatever the interleaving of writers with a subscriber, the subscriber's stream (its copy
  of the history, then the live messages) never yields a message more often than it was pushed.
\<close>

theorem stream_delivers_at_most_once:
  assumes "stream_reachable ser s"
  shows "mset (delivered s) \<subseteq># mset (sent s)"
  using assms by (intro delivered_subset stream_reachable_inv)

theorem stream_delivers_at_most_once_witness:
  "mset (delivered (init_stream\<lparr>sent := [Finished], in_flight := [Finished]\<rparr>))
     \<subseteq># mset (sent (init_stream\<lparr>sent := [Finished], in_flight := [Finished]\<rparr>))"
proof (rule stream_delivers_at_most_once)
  have "stream_step (\<lambda>_. None) init_stream
      (init_stream\<lparr>sent := sent init_stream @ [Finished], in_flight := Finished # in_flight init_stream\<rparr>)"
    by (rule stream_step.send) (simp add: fits_usize_def usize_max_def)
  then show "stream_reachable (\<lambda>_. None) (init_stream\<lparr>sent := [Finished], in_flight := [Finished]\<rparr>)"
    using stream_reachable.step [OF stream_reachable.start] by (simp add: init_stream_def)
qed

text \<open>
  C38: A message can be lost: there is a run in which a message is pushed completely, between
  the copy of the history and the subscription, and the caught-up subscriber never sees it.
\<close>

theorem stream_can_lose_message:
  "\<exists>s. stream_reachable (\<lambda>_. None) s \<and> in_flight s = [] \<and> subscribed_at s \<noteq> None
     \<and> Finished \<in> set (get_history (live_store s)) \<and> Finished \<notin> set (delivered s)"
proof -
  let ?s1 = "init_stream\<lparr>snapshot := Some []\<rparr>"
  let ?s2 = "?s1\<lparr>sent := [Finished], in_flight := [Finished]\<rparr>"
  let ?s3 = "?s2\<lparr>in_flight := [], live_store := push (\<lambda>_. None) Finished new_msg_store\<rparr>"
  let ?s4 = "?s3\<lparr>subscribed_at := Some 1\<rparr>"
  have fit: "fits_usize (\<lambda>_. None) Finished" by (simp add: fits_usize_def usize_max_def)
  have "stream_step (\<lambda>_. None) init_stream ?s1"
    using stream_step.copy_history [of init_stream "\<lambda>_. None"]
    by (simp add: init_stream_def get_history_def new_msg_store_def)
  moreover have "stream_step (\<lambda>_. None) ?s1 ?s2"
    using stream_step.send [OF fit, of ?s1] by (simp add: init_stream_def)
  moreover have "stream_step (\<lambda>_. None) ?s2 ?s3"
    using stream_step.record_msg [of ?s2 "[]" Finished "[]" "\<lambda>_. None"] by (simp add: init_stream_def)
  moreover have "stream_step (\<lambda>_. None) ?s3 ?s4"
    using stream_step.subscribe [of ?s3 "[]" "\<lambda>_. None"] by (simp add: init_stream_def)
  ultimately have "stream_reachable (\<lambda>_. None) ?s4"
    by (meson stream_reachable.intros)
  moreover have "Finished \<in> set (get_history (live_store ?s4))" "Finished \<notin> set (delivered ?s4)"
    by (simp_all add: get_history_def push_def new_msg_store_def delivered_def)
  ultimately show ?thesis by (intro exI [of _ ?s4]) simp
qed

text \<open>
  C32: A counter seeded from a store hands out an index above that of every entry added in the
  store's history, as long as the history stays below the largest machine index.
\<close>

theorem start_from_is_fresh:
  assumes "JsonPatch (add_normalized_entry i e) \<in> set (get_history s)" and "i \<le> usize_max"
    and "\<forall>n. max_index (get_history s) = Some n \<longrightarrow> n < usize_max"
  shows "i < fst (next_index (start_from s))"
  using start_from_above [OF assms(1)] assms(2,3) by simp

theorem start_from_is_fresh_witness:
  "4 < fst (next_index (start_from (push (\<lambda>_. None)
      (JsonPatch (add_normalized_entry 4 \<lparr> ne_timestamp = None, entry_type = Loading, ne_content = [], ne_metadata = None \<rparr>))
      new_msg_store)))"
  by (rule start_from_is_fresh)
     (auto simp: push_def new_msg_store_def get_history_def max_index_def usize_max_def List.map_filter_def)

end
