(* ===== verification/Plain_Text.thy ===== *)
theory Plain_Text
  imports Msg_Store
begin

text \<open>
  \<^verbatim>\<open>crates/executors/src/logs/plain_text_processor.rs\<close>: the line buffer and the processor that
  turns a stream of text chunks into patches of a conversation, and its use for stderr,
  \<^verbatim>\<open>crates/executors/src/logs/stderr_processor.rs\<close>.

  The closures of the processor are functions in its record; \<^verbatim>\<open>transform_lines\<close> is an
  \<^verbatim>\<open>FnMut\<close> and carries a state of type \<open>'t\<close>.  Time is an argument of \<open>process\<close>.  The boundary
  loop runs until the predicate stops asking for splits, which nothing guarantees, so it is a
  \<open>partial_function (option)\<close>: \<open>None\<close> is a loop that does not end.
\<close>

section \<open>The line buffer\<close>

record plain_text_buffer =
  buf_lines :: "string list"
  buf_total_len :: nat

definition new_buffer :: plain_text_buffer where
  "new_buffer = \<lparr> buf_lines = [], buf_total_len = 0 \<rparr>"

definition is_partial :: "string list \<Rightarrow> bool" where
  "is_partial ls \<longleftrightarrow> ls \<noteq> [] \<and> \<not> ends_with [newline] (last ls)"

definition ingest :: "string \<Rightarrow> plain_text_buffer \<Rightarrow> plain_text_buffer" where
  "ingest text_chunk b =
     (let (current_partial, ls, len) =
            (if is_partial (buf_lines b)
             then (last (buf_lines b), butlast (buf_lines b),
                   saturating_sub (buf_total_len b) (length (last (buf_lines b))))
             else ([], buf_lines b, buf_total_len b));
          combined_text = current_partial @ text_chunk
      in \<lparr> buf_lines = ls @ split_inclusive newline combined_text,
           buf_total_len = len + length combined_text \<rparr>)"

definition drain_lines :: "nat \<Rightarrow> plain_text_buffer \<Rightarrow> string list \<times> plain_text_buffer" where
  "drain_lines n b =
     (let k = min n (length (buf_lines b));
          drained = take k (buf_lines b)
      in (drained,
          \<lparr> buf_lines = drop k (buf_lines b),
            buf_total_len = foldl (\<lambda>len line. saturating_sub len (length line)) (buf_total_len b) drained \<rparr>))"

text \<open>The counting loop of \<^verbatim>\<open>drain_size\<close>.\<close>

fun lines_to_drain :: "nat \<Rightarrow> string list \<Rightarrow> nat \<Rightarrow> nat \<Rightarrow> nat" where
  "lines_to_drain len [] drained_len n = n"
| "lines_to_drain len (line # rest) drained_len n =
     (if drained_len \<ge> len \<and> n > 0 then n
      else lines_to_drain len rest (drained_len + length line) (n + 1))"

definition drain_size :: "nat \<Rightarrow> plain_text_buffer \<Rightarrow> string list \<times> plain_text_buffer" where
  "drain_size len b = drain_lines (lines_to_drain len (buf_lines b) 0 0) b"

definition flush :: "plain_text_buffer \<Rightarrow> string list \<times> plain_text_buffer" where
  "flush b = (buf_lines b, \<lparr> buf_lines = [], buf_total_len = 0 \<rparr>)"

definition recompute_len :: "plain_text_buffer \<Rightarrow> plain_text_buffer" where
  "recompute_len b = b\<lparr>buf_total_len := total_length (buf_lines b)\<rparr>"

definition partial_line :: "plain_text_buffer \<Rightarrow> string option" where
  "partial_line b = (if is_partial (buf_lines b) then Some (last (buf_lines b)) else None)"

definition buf_is_empty :: "plain_text_buffer \<Rightarrow> bool" where
  "buf_is_empty b \<longleftrightarrow> buf_total_len b = 0"


subsection \<open>Buffer invariant\<close>

text \<open>The cached length is exact and no line is empty; a line other than the last is complete.\<close>

definition buffer_ok :: "plain_text_buffer \<Rightarrow> bool" where
  "buffer_ok b \<longleftrightarrow>
     buf_total_len b = total_length (buf_lines b) \<and> [] \<notin> set (buf_lines b)
     \<and> (\<forall>i. Suc i < length (buf_lines b) \<longrightarrow> ends_with [newline] (buf_lines b ! i))"

definition buffer_text :: "plain_text_buffer \<Rightarrow> string" where
  "buffer_text b = concat (buf_lines b)"

lemma total_length_butlast:
  "ls \<noteq> [] \<Longrightarrow> total_length ls = total_length (butlast ls) + length (last ls)"
  by (metis append_butlast_last_id total_length_simps add.right_neutral)

lemma ingest_text: "buffer_text (ingest c b) = buffer_text b @ c"
proof (cases "is_partial (buf_lines b)")
  case True
  then have "buf_lines b = butlast (buf_lines b) @ [last (buf_lines b)]"
    by (simp add: is_partial_def)
  then have "buffer_text b = concat (butlast (buf_lines b)) @ last (buf_lines b)"
    unfolding buffer_text_def by (metis concat.simps concat_append append_Nil2)
  with True show ?thesis by (simp add: ingest_def buffer_text_def Let_def)
qed (simp add: ingest_def buffer_text_def Let_def)

lemma complete_lines_append:
  assumes "\<forall>i < length xs. ends_with [newline] (xs ! i)"
    and "\<forall>i. Suc i < length ys \<longrightarrow> ends_with [newline] (ys ! i)"
  shows "\<forall>i. Suc i < length (xs @ ys) \<longrightarrow> ends_with [newline] ((xs @ ys) ! i)"
  using assms by (auto simp: nth_append Suc_diff_le not_less)

lemma split_inclusive_complete:
  "Suc i < length (split_inclusive newline s) \<Longrightarrow> ends_with [newline] (split_inclusive newline s ! i)"
  using split_inclusive_terminated [of i newline s]
    split_inclusive_nonempty [OF nth_mem, of i newline s]
  by (simp add: ends_with_single)

lemma buffer_ok_new [simp]: "buffer_ok new_buffer"
  by (simp add: buffer_ok_def new_buffer_def)

lemma buffer_ok_ingest: "buffer_ok b \<Longrightarrow> buffer_ok (ingest c b)"
proof -
  assume ok: "buffer_ok b"
  let ?ls = "if is_partial (buf_lines b) then butlast (buf_lines b) else buf_lines b"
  let ?t = "(if is_partial (buf_lines b) then last (buf_lines b) else []) @ c"
  have lines: "buf_lines (ingest c b) = ?ls @ split_inclusive newline ?t"
    by (simp add: ingest_def Let_def)
  have "buf_total_len (ingest c b) = total_length (buf_lines (ingest c b))"
    using ok total_length_butlast [of "buf_lines b"]
    by (auto simp: ingest_def Let_def buffer_ok_def saturating_sub_def total_length_concat is_partial_def)
  moreover have "[] \<notin> set (buf_lines (ingest c b))"
    using ok lines by (auto simp: buffer_ok_def dest: in_set_butlastD)
  moreover have "\<forall>i < length ?ls. ends_with [newline] (?ls ! i)"
  proof (intro allI impI)
    fix i assume i: "i < length ?ls"
    show "ends_with [newline] (?ls ! i)"
    proof (cases "Suc i < length (buf_lines b)")
      case True
      with i ok show ?thesis by (auto simp: buffer_ok_def nth_butlast)
    next
      case False
      with i have "\<not> is_partial (buf_lines b)" and "i = length (buf_lines b) - 1"
        and "buf_lines b \<noteq> []" by (auto split: if_splits)
      then show ?thesis by (simp add: is_partial_def last_conv_nth)
    qed
  qed
  ultimately show ?thesis
    unfolding buffer_ok_def lines
    using complete_lines_append split_inclusive_complete by blast
qed

lemma foldl_saturating_sub:
  "foldl (\<lambda>len line. saturating_sub len (length line)) n ls = n - total_length ls"
  by (induction ls arbitrary: n) (simp_all add: saturating_sub_def)

lemma drain_lines_eq:
  "drain_lines n b =
     (take n (buf_lines b),
      \<lparr> buf_lines = drop n (buf_lines b),
        buf_total_len = buf_total_len b - total_length (take n (buf_lines b)) \<rparr>)"
  by (cases "n \<le> length (buf_lines b)") (simp_all add: drain_lines_def Let_def foldl_saturating_sub)

lemma buffer_ok_drain_lines: "buffer_ok b \<Longrightarrow> buffer_ok (snd (drain_lines n b))"
proof -
  assume ok: "buffer_ok b"
  have "total_length (buf_lines b)
      = total_length (take n (buf_lines b)) + total_length (drop n (buf_lines b))"
    by (metis append_take_drop_id total_length_simps(3))
  with ok show ?thesis
    by (auto simp: buffer_ok_def drain_lines_eq dest: in_set_dropD)
qed

lemma drain_lines_text:
  "concat (fst (drain_lines n b)) @ buffer_text (snd (drain_lines n b)) = buffer_text b"
  by (simp add: drain_lines_eq buffer_text_def flip: concat_append)

lemma buffer_ok_flush [simp]: "buffer_ok (snd (flush b))"
  by (simp add: flush_def buffer_ok_def)

lemma buffer_is_empty_iff: "buffer_ok b \<Longrightarrow> buf_is_empty b \<longleftrightarrow> buf_lines b = []"
  by (cases "buf_lines b") (auto simp: buf_is_empty_def buffer_ok_def)

lemma lines_to_drain_mono: "n \<le> lines_to_drain len ls d n"
  by (induction ls arbitrary: d n) (auto intro: Suc_leD)

lemma lines_to_drain_pos: "ls \<noteq> [] \<Longrightarrow> 0 < lines_to_drain len ls d 0"
  using lines_to_drain_mono [of "Suc 0"] by (cases ls) (auto simp: Suc_le_eq)

text \<open>
  \<open>drain_size\<close> takes the shortest non-empty run of lines that reaches the requested length,
  or everything.
\<close>

lemma lines_to_drain_spec:
  assumes "lines_to_drain len ls d n = n + k" and "0 < n \<or> 0 < k"
  shows "(k < length ls \<longrightarrow> len \<le> d + total_length (take k ls))
       \<and> k \<le> length ls
       \<and> (\<forall>j < k. 0 < n + j \<longrightarrow> d + total_length (take j ls) < len)"
  using assms
proof (induction ls arbitrary: d n k)
  case Nil
  then show ?case by simp
next
  case (Cons l ls)
  show ?case
  proof (cases "d \<ge> len \<and> n > 0")
    case True
    with Cons.prems show ?thesis by simp
  next
    case False
    with Cons.prems have eq: "lines_to_drain len ls (d + length l) (n + 1) = n + k" by simp
    then have "n + 1 \<le> n + k" using lines_to_drain_mono by metis
    then obtain k' where k: "k = Suc k'" by (cases k) auto
    with eq Cons.IH [of "d + length l" "n + 1" k']
    have IH: "(k' < length ls \<longrightarrow> len \<le> d + length l + total_length (take k' ls)) \<and> k' \<le> length ls
        \<and> (\<forall>j < k'. d + length l + total_length (take j ls) < len)" by simp
    have "\<forall>j < Suc k'. 0 < n + j \<longrightarrow> d + total_length (take j (l # ls)) < len"
      using IH False by (auto simp: less_Suc_eq_0_disj)
    with IH k show ?thesis by (simp add: add.assoc)
  qed
qed


section \<open>The processor\<close>

datatype message_boundary = Split nat | IncompleteContent

record 't processor =
  buffer :: plain_text_buffer
  index_provider :: entry_index_provider
  entry_size_threshold :: "nat option"
  time_gap :: "int option"
  format_chunk :: "(string option \<Rightarrow> string \<Rightarrow> string) option"
  transform_lines :: "('t \<Rightarrow> string list \<Rightarrow> string list \<times> 't) option"
  transform_state :: 't
  message_boundary_predicate :: "(string list \<Rightarrow> message_boundary option) option"
  normalized_entry_producer :: "string \<Rightarrow> normalized_entry"
  last_chunk_arrival_time :: datetime
  current_entry_index :: "nat option"

definition new_processor ::
  "(string \<Rightarrow> normalized_entry) \<Rightarrow> nat option \<Rightarrow> int option \<Rightarrow> (string option \<Rightarrow> string \<Rightarrow> string) option
   \<Rightarrow> ('t \<Rightarrow> string list \<Rightarrow> string list \<times> 't) option \<Rightarrow> 't
   \<Rightarrow> (string list \<Rightarrow> message_boundary option) option \<Rightarrow> entry_index_provider \<Rightarrow> datetime \<Rightarrow> 't processor" where
  "new_processor producer size_threshold gap fmt transform tstate predicate provider now =
     \<lparr> buffer = new_buffer,
       index_provider = provider,
       entry_size_threshold =
         (if size_threshold = None \<and> gap = None then Some (8 * 1024) else size_threshold),
       time_gap = gap,
       format_chunk = fmt,
       transform_lines = transform,
       transform_state = tstate,
       message_boundary_predicate = predicate,
       normalized_entry_producer = producer,
       last_chunk_arrival_time = now,
       current_entry_index = None \<rparr>"

definition create_patch :: "string list \<Rightarrow> 't processor \<Rightarrow> patch \<times> 't processor" where
  "create_patch ls p =
     (let entry = normalized_entry_producer p (concat ls)
      in case current_entry_index p of
           Some idx \<Rightarrow> (replace_entry idx entry, p)
         | None \<Rightarrow>
             (let (idx, provider) = next_index (index_provider p)
              in (add_normalized_entry idx entry,
                  p\<lparr>index_provider := provider, current_entry_index := Some idx\<rparr>)))"

text \<open>One \<^verbatim>\<open>Split(line_idx)\<close> arm of the boundary loop.\<close>

definition split_step :: "nat \<Rightarrow> 't processor \<Rightarrow> patch list \<times> 't processor" where
  "split_step line_idx p =
     (let (ls, b) = drain_lines line_idx (buffer p);
          p1 = p\<lparr>buffer := b\<rparr>
      in if ls = [] then ([], p1)
         else (let (pt, p2) = create_patch ls p1 in ([pt], p2\<lparr>current_entry_index := None\<rparr>)))"

partial_function (option) boundary_loop ::
  "'t processor \<Rightarrow> patch list \<Rightarrow> (bool \<times> patch list \<times> 't processor) option" where
  "boundary_loop p patches =
     (case Option.bind (message_boundary_predicate p) (\<lambda>predicate. predicate (buf_lines (buffer p))) of
        Some (Split line_idx) \<Rightarrow>
          boundary_loop (snd (split_step line_idx p)) (patches @ fst (split_step line_idx p))
      | Some IncompleteContent \<Rightarrow> Some (True, patches, p)
      | None \<Rightarrow> Some (False, patches, p))"

text \<open>The \<^verbatim>\<open>while\<close> loop that breaks large entries.\<close>

function size_loop :: "nat \<Rightarrow> 't processor \<Rightarrow> patch list \<Rightarrow> patch list \<times> 't processor" where
  "size_loop size_threshold p patches =
     (if buf_total_len (buffer p) \<ge> size_threshold then
        (let ls = fst (drain_size size_threshold (buffer p));
             p1 = p\<lparr>buffer := snd (drain_size size_threshold (buffer p))\<rparr>
         in if ls = [] then (patches, p1)
            else size_loop size_threshold ((snd (create_patch ls p1))\<lparr>current_entry_index := None\<rparr>)
                   (patches @ [fst (create_patch ls p1)]))
      else (patches, p))"
  by pat_completeness auto
termination
  by (relation "measure (\<lambda>(t, p, ps). length (buf_lines (buffer p)))")
     (auto simp: create_patch_def Let_def drain_size_def drain_lines_eq next_index_def split: option.splits)

declare size_loop.simps [simp del]

text \<open>
  \<open>process_buffered\<close> is the part of \<^verbatim>\<open>process\<close> from the boundary loop on, \<open>process_chunk\<close> the
  part from the arrival-time update on, \<open>process\<close> the whole method.
\<close>

definition process_buffered :: "'t processor \<Rightarrow> (patch list \<times> 't processor) option" where
  "process_buffered p =
     (case boundary_loop p [] of
        None \<Rightarrow> None
      | Some (incomplete, patches, p1) \<Rightarrow>
          if incomplete then Some (patches, p1)
          else
            (let (patches2, p2) =
                   (case entry_size_threshold p1 of
                      Some size_threshold \<Rightarrow> size_loop size_threshold p1 patches
                    | None \<Rightarrow> (patches, p1))
             in if \<not> buf_is_empty (buffer p2)
                then (let (pt, p3) = create_patch (buf_lines (buffer p2)) p2 in Some (patches2 @ [pt], p3))
                else Some (patches2, p2)))"

definition process_chunk :: "datetime \<Rightarrow> string \<Rightarrow> 't processor \<Rightarrow> (patch list \<times> 't processor) option" where
  "process_chunk now text_chunk p0 =
     (let p = p0\<lparr>last_chunk_arrival_time := now\<rparr>;
          formatted_chunk =
            (case format_chunk p of
               Some f \<Rightarrow> f (partial_line (buffer p)) text_chunk
             | None \<Rightarrow> text_chunk)
      in if formatted_chunk = [] then Some ([], p)
         else
           (let p1 = p\<lparr>buffer := ingest formatted_chunk (buffer p)\<rparr>
            in case transform_lines p1 of
                 None \<Rightarrow> process_buffered p1
               | Some f \<Rightarrow>
                   (let (ls, st) = f (transform_state p1) (buf_lines (buffer p1));
                        p2 = p1\<lparr>buffer := recompute_len ((buffer p1)\<lparr>buf_lines := ls\<rparr>), transform_state := st\<rparr>
                    in if buf_is_empty (buffer p2) then Some ([], p2) else process_buffered p2)))"

definition gap_elapsed :: "datetime \<Rightarrow> 't processor \<Rightarrow> bool" where
  "gap_elapsed now p \<longleftrightarrow>
     \<not> buf_is_empty (buffer p)
     \<and> (case time_gap p of None \<Rightarrow> False | Some gap \<Rightarrow> now - last_chunk_arrival_time p \<ge> gap)"

definition process :: "datetime \<Rightarrow> string \<Rightarrow> 't processor \<Rightarrow> (patch list \<times> 't processor) option" where
  "process now text_chunk p =
     (if text_chunk = [] then Some ([], p)
      else if gap_elapsed now p then
        (let (ls, b) = flush (buffer p); p1 = p\<lparr>buffer := b\<rparr>
         in if ls \<noteq> [] then (let (pt, p2) = create_patch ls p1 in Some ([pt], p2))
            else process_chunk now text_chunk (p1\<lparr>current_entry_index := None\<rparr>))
      else process_chunk now text_chunk p)"

text \<open>Feeding a sequence of timed chunks.\<close>

fun process_all :: "(datetime \<times> string) list \<Rightarrow> 't processor \<Rightarrow> (patch list \<times> 't processor) option" where
  "process_all [] p = Some ([], p)"
| "process_all ((now, c) # rest) p =
     (case process now c p of
        None \<Rightarrow> None
      | Some (ps, p1) \<Rightarrow>
          (case process_all rest p1 of None \<Rightarrow> None | Some (qs, p2) \<Rightarrow> Some (ps @ qs, p2)))"


subsection \<open>Termination of the boundary loop\<close>

text \<open>
  The loop ends when every split the predicate asks for removes a line: no \<^verbatim>\<open>Split(0)\<close>, and no
  split of an empty buffer.
\<close>

definition productive :: "(string list \<Rightarrow> message_boundary option) \<Rightarrow> bool" where
  "productive predicate \<longleftrightarrow> (\<forall>ls n. predicate ls = Some (Split n) \<longrightarrow> 0 < n \<and> ls \<noteq> [])"

lemma split_step_frame [simp]:
  "message_boundary_predicate (snd (split_step n p)) = message_boundary_predicate p"
  "entry_size_threshold (snd (split_step n p)) = entry_size_threshold p"
  "normalized_entry_producer (snd (split_step n p)) = normalized_entry_producer p"
  "buffer (snd (split_step n p)) = snd (drain_lines n (buffer p))"
  by (auto simp: split_step_def create_patch_def Let_def next_index_def split: prod.splits option.splits)

lemma boundary_loop_terminates:
  assumes "case message_boundary_predicate p of None \<Rightarrow> True | Some predicate \<Rightarrow> productive predicate"
  shows "\<exists>r. boundary_loop p patches = Some r"
  using assms
proof (induction "length (buf_lines (buffer p))" arbitrary: p patches rule: less_induct)
  case less
  let ?b = "Option.bind (message_boundary_predicate p) (\<lambda>predicate. predicate (buf_lines (buffer p)))"
  show ?case
  proof (cases "\<exists>n. ?b = Some (Split n)")
    case False
    then show ?thesis
      by (subst boundary_loop.simps) (auto split: option.split message_boundary.split)
  next
    case True
    then obtain n where n: "?b = Some (Split n)" ..
    with less.prems have "0 < n" and "buf_lines (buffer p) \<noteq> []"
      by (fastforce simp: productive_def bind_eq_Some_conv)+
    then have "length (buf_lines (buffer (snd (split_step n p)))) < length (buf_lines (buffer p))"
      by (simp add: drain_lines_eq)
    then obtain r where
      "boundary_loop (snd (split_step n p)) (patches @ fst (split_step n p)) = Some r"
      using less.hyps [of "snd (split_step n p)"] less.prems by fastforce
    with n show ?thesis by (subst boundary_loop.simps) (simp del: split_paired_Ex)
  qed
qed

text \<open>A predicate that keeps asking for \<^verbatim>\<open>Split(0)\<close> makes the loop spin forever.\<close>

lemma split_step_zero: "split_step 0 p = ([], p\<lparr>buffer := buffer p\<rparr>)"
  by (simp add: split_step_def drain_lines_eq)

lemma boundary_loop_Split_zero:
  assumes "\<forall>ls. predicate ls = Some (Split 0)" and "message_boundary_predicate p = Some predicate"
  shows "boundary_loop p patches = None"
proof (rule ccontr)
  assume "boundary_loop p patches \<noteq> None"
  then obtain r where r: "boundary_loop p patches = Some r" by blast
  have "message_boundary_predicate p = Some predicate \<longrightarrow> False"
  proof (rule boundary_loop.raw_induct
      [where P = "\<lambda>p patches r. message_boundary_predicate p = Some predicate \<longrightarrow> False", OF _ r])
    fix loop p patches r
    assume IH: "\<And>p patches r. loop p patches = Some r \<Longrightarrow> message_boundary_predicate p = Some predicate \<longrightarrow> False"
      and eq: "(case Option.bind (message_boundary_predicate p) (\<lambda>predicate. predicate (buf_lines (buffer p))) of
          None \<Rightarrow> Some (False, patches, p)
        | Some (Split line_idx) \<Rightarrow> loop (snd (split_step line_idx p)) (patches @ fst (split_step line_idx p))
        | Some IncompleteContent \<Rightarrow> Some (True, patches, p)) = Some r"
    show "message_boundary_predicate p = Some predicate \<longrightarrow> False"
    proof
      assume p: "message_boundary_predicate p = Some predicate"
      with eq assms(1) have "loop (snd (split_step 0 p)) (patches @ fst (split_step 0 p)) = Some r" by simp
      from IH [OF this] p show False by simp
    qed
  qed
  with assms(2) show False by simp
qed


subsection \<open>The conversation the patches build\<close>

text \<open>
  A reader keeps the entries from index \<open>base\<close> on as a list.  An added entry must be the next
  one, a replaced entry must exist; anything else is an error.
\<close>

definition apply_entry_op ::
  "nat \<Rightarrow> normalized_entry list \<Rightarrow> patch_operation \<Rightarrow> normalized_entry list option" where
  "apply_entry_op base doc oper =
     (case extract_from_op oper of
        None \<Rightarrow> None
      | Some (i, e) \<Rightarrow>
          (case oper of
             OpAdd _ _ \<Rightarrow> if i = base + length doc then Some (doc @ [e]) else None
           | OpReplace _ _ \<Rightarrow>
               if base \<le> i \<and> i < base + length doc then Some (doc[i - base := e]) else None
           | _ \<Rightarrow> None))"

fun apply_entry_ops ::
  "nat \<Rightarrow> normalized_entry list \<Rightarrow> patch_operation list \<Rightarrow> normalized_entry list option" where
  "apply_entry_ops base doc [] = Some doc"
| "apply_entry_ops base doc (oper # rest) =
     (case apply_entry_op base doc oper of None \<Rightarrow> None | Some doc1 \<Rightarrow> apply_entry_ops base doc1 rest)"

definition apply_patches ::
  "nat \<Rightarrow> normalized_entry list \<Rightarrow> patch list \<Rightarrow> normalized_entry list option" where
  "apply_patches base doc ps = apply_entry_ops base doc (concat ps)"

lemma apply_entry_ops_append:
  "apply_entry_ops base doc (xs @ ys) =
     (case apply_entry_ops base doc xs of None \<Rightarrow> None | Some doc1 \<Rightarrow> apply_entry_ops base doc1 ys)"
  by (induction xs arbitrary: doc) (auto split: option.splits)

lemma apply_patches_append:
  "apply_patches base doc (ps @ qs) =
     (case apply_patches base doc ps of None \<Rightarrow> None | Some doc1 \<Rightarrow> apply_patches base doc1 qs)"
  by (simp add: apply_patches_def apply_entry_ops_append split: option.split)

lemma apply_add:
  "base + length doc \<le> usize_max \<Longrightarrow>
   apply_patches base doc [add_normalized_entry (base + length doc) e] = Some (doc @ [e])"
  by (simp add: apply_patches_def apply_entry_op_def add_normalized_entry_def extract_from_op_def parse_entry_path)

lemma apply_replace_last:
  "base + length doc \<le> usize_max \<Longrightarrow>
   apply_patches base (doc @ [e0]) [replace_entry (base + length doc) e] = Some (doc @ [e])"
  by (simp add: apply_patches_def apply_entry_op_def replace_entry_def extract_from_op_def parse_entry_path)

text \<open>
  The relation between a processor and the conversation it has built so far from \<open>text\<close>: some
  closed entries, at most one open entry that the next patch replaces, and the rest of the
  text in the buffer.
\<close>

definition tracks_at ::
  "nat \<Rightarrow> 't processor \<Rightarrow> normalized_entry list \<Rightarrow> string \<Rightarrow> string list \<Rightarrow> string list \<Rightarrow> bool" where
  "tracks_at base p doc text closed opened \<longleftrightarrow>
     buffer_ok (buffer p)
     \<and> text = concat closed @ buffer_text (buffer p) \<and> [] \<notin> set closed
     \<and> doc = map (normalized_entry_producer p) (closed @ opened)
     \<and> index_provider p = base + length doc
     \<and> (case current_entry_index p of
          None \<Rightarrow> opened = []
        | Some i \<Rightarrow> i = base + length closed \<and> length opened = 1 \<and> buf_lines (buffer p) \<noteq> [])"

definition tracks :: "nat \<Rightarrow> 't processor \<Rightarrow> normalized_entry list \<Rightarrow> string \<Rightarrow> bool" where
  "tracks base p doc text \<longleftrightarrow> (\<exists>closed opened. tracks_at base p doc text closed opened)"

lemma tracks_new:
  "tracks base (new_processor producer st gap fmt tr ts pred base now) [] []"
  unfolding tracks_def tracks_at_def
  by (intro exI [of _ "[]"]) (simp add: new_processor_def buffer_text_def new_buffer_def buffer_ok_def)

lemma buffer_text_Nil_iff: "buffer_ok b \<Longrightarrow> buffer_text b = [] \<longleftrightarrow> buf_lines b = []"
  by (cases "buf_lines b") (auto simp: buffer_text_def buffer_ok_def)

lemma length_le_concat: "[] \<notin> set xs \<Longrightarrow> length xs \<le> length (concat xs)"
proof (induction xs)
  case (Cons a xs)
  then obtain c cs where "a = c # cs" by (cases a) auto
  with Cons show ?case by simp
qed simp

lemma create_patch_frame [simp]:
  "buffer (snd (create_patch ls p)) = buffer p"
  "normalized_entry_producer (snd (create_patch ls p)) = normalized_entry_producer p"
  "entry_size_threshold (snd (create_patch ls p)) = entry_size_threshold p"
  "message_boundary_predicate (snd (create_patch ls p)) = message_boundary_predicate p"
  "format_chunk (snd (create_patch ls p)) = format_chunk p"
  "transform_lines (snd (create_patch ls p)) = transform_lines p"
  "time_gap (snd (create_patch ls p)) = time_gap p"
  "last_chunk_arrival_time (snd (create_patch ls p)) = last_chunk_arrival_time p"
  by (simp_all add: create_patch_def next_index_def Let_def split: option.splits)

text \<open>Both uses of \<open>create_patch\<close>: it makes its text the content of the entry at \<open>length closed\<close>.\<close>

lemma create_patch_applies:
  assumes doc: "doc = map (normalized_entry_producer p) (closed @ opened)"
    and idx: "index_provider p = base + length doc"
    and cur: "case current_entry_index p of
                None \<Rightarrow> opened = [] | Some i \<Rightarrow> i = base + length closed \<and> length opened = 1"
    and bound: "base + length closed < usize_max"
  shows "apply_patches base doc [fst (create_patch ls p)]
           = Some (map (normalized_entry_producer p) (closed @ [concat ls]))"
    and "index_provider (snd (create_patch ls p)) = base + length closed + 1"
    and "current_entry_index (snd (create_patch ls p)) = Some (base + length closed)"
proof -
  have "apply_patches base doc [fst (create_patch ls p)]
           = Some (map (normalized_entry_producer p) (closed @ [concat ls]))
       \<and> index_provider (snd (create_patch ls p)) = base + length closed + 1
       \<and> current_entry_index (snd (create_patch ls p)) = Some (base + length closed)"
  proof (cases "current_entry_index p")
    case None
    with doc idx cur bound show ?thesis
      using apply_add [of base "map (normalized_entry_producer p) closed"]
      by (simp add: create_patch_def next_index_def wrapping_succ_exact)
  next
    case (Some i)
    with cur obtain x where "opened = [x]" by (auto simp: length_Suc_conv)
    with Some doc idx cur bound show ?thesis
      using apply_replace_last [of base "map (normalized_entry_producer p) closed"]
      by (simp add: create_patch_def)
  qed
  then show "apply_patches base doc [fst (create_patch ls p)]
           = Some (map (normalized_entry_producer p) (closed @ [concat ls]))"
    and "index_provider (snd (create_patch ls p)) = base + length closed + 1"
    and "current_entry_index (snd (create_patch ls p)) = Some (base + length closed)" by simp_all
qed

text \<open>Closed entries are not empty, so the length of the text bounds the indexes in use.\<close>

lemma tracks_at_bound:
  assumes "tracks_at base p doc text closed opened" and "buf_lines (buffer p) \<noteq> []"
    and "base + length text \<le> usize_max"
  shows "base + length closed < usize_max"
proof -
  from assms have "buffer_text (buffer p) \<noteq> []" and ncl: "[] \<notin> set closed"
    and tx: "text = concat closed @ buffer_text (buffer p)"
    by (auto simp: tracks_at_def buffer_text_Nil_iff)
  then obtain c cs where "buffer_text (buffer p) = c # cs" by (cases "buffer_text (buffer p)") auto
  with assms(3) length_le_concat [OF ncl] show ?thesis unfolding tx by simp
qed

lemma take_lines_text:
  assumes "buffer_ok b" and "ls = take n (buf_lines b)" and "ls \<noteq> []"
  shows "concat ls \<noteq> []"
proof -
  from assms(3) obtain l ls' where ls: "ls = l # ls'" by (cases ls) auto
  have "l \<in> set (buf_lines b)" using assms(2) ls by (metis in_set_takeD list.set_intros(1))
  with assms(1) ls show ?thesis by (auto simp: buffer_ok_def)
qed

lemma closing_step:
  assumes tr: "tracks base p doc text"
    and dr: "drain_lines n (buffer p) = (ls, b)" and ne: "ls \<noteq> []"
    and bound: "base + length text \<le> usize_max"
  shows "\<exists>doc'. apply_patches base doc [fst (create_patch ls (p\<lparr>buffer := b\<rparr>))] = Some doc'
     \<and> tracks base ((snd (create_patch ls (p\<lparr>buffer := b\<rparr>)))\<lparr>current_entry_index := None\<rparr>) doc' text"
proof -
  let ?p = "p\<lparr>buffer := b\<rparr>" and ?f = "normalized_entry_producer p"
  from tr obtain closed opened where at: "tracks_at base p doc text closed opened"
    by (auto simp: tracks_def)
  then have ok: "buffer_ok (buffer p)" and doc: "doc = map (normalized_entry_producer ?p) (closed @ opened)"
    and idx: "index_provider ?p = base + length doc"
    and cur: "case current_entry_index ?p of
                None \<Rightarrow> opened = [] | Some i \<Rightarrow> i = base + length closed \<and> length opened = 1"
    by (auto simp: tracks_at_def split: option.splits)
  have bt: "buffer_text (buffer p) = concat ls @ buffer_text b"
    using drain_lines_text [of n "buffer p"] dr by simp
  have cne: "concat ls \<noteq> []" using take_lines_text [OF ok _ ne, of n] dr unfolding drain_lines_eq by blast
  have "buf_lines (buffer p) \<noteq> []" using dr ne by (auto simp: drain_lines_eq)
  note cp = create_patch_applies [OF doc idx cur tracks_at_bound [OF at this bound], of ls]
  have "buffer_ok b" using buffer_ok_drain_lines [OF ok, of n] dr by simp
  with at bt cne cp(2) have "tracks_at base ((snd (create_patch ls ?p))\<lparr>current_entry_index := None\<rparr>)
      (map ?f (closed @ [concat ls])) text (closed @ [concat ls]) []"
    by (simp add: tracks_at_def)
  with cp(1) show ?thesis by (auto simp: tracks_def)
qed

lemma tracks_drained:
  assumes "tracks base p doc text" and "drain_lines n (buffer p) = ([], b)"
  shows "tracks base (p\<lparr>buffer := b\<rparr>) doc text"
proof -
  have "buf_lines b = buf_lines (buffer p)" using assms(2) by (auto simp: drain_lines_eq)
  moreover have "buffer_ok (buffer p) \<Longrightarrow> buffer_ok b"
    using buffer_ok_drain_lines [of "buffer p" n] assms(2) by simp
  ultimately have "tracks_at base p doc text cl op \<Longrightarrow> tracks_at base (p\<lparr>buffer := b\<rparr>) doc text cl op" for cl op
    by (simp add: tracks_at_def buffer_text_def split: option.splits)
  with assms(1) show ?thesis by (auto simp: tracks_def)
qed

lemma split_step_tracks:
  assumes "tracks base p doc text" and "base + length text \<le> usize_max"
  shows "\<exists>doc'. apply_patches base doc (fst (split_step n p)) = Some doc'
     \<and> tracks base (snd (split_step n p)) doc' text"
proof (cases "fst (drain_lines n (buffer p)) = []")
  case True
  with assms(1) show ?thesis
    using tracks_drained [where n = n]
    by (auto simp: split_step_def Let_def apply_patches_def split: prod.splits)
next
  case False
  then show ?thesis
    using closing_step [OF assms(1) _ _ assms(2), of n "fst (drain_lines n (buffer p))"]
    by (auto simp: split_step_def Let_def split: prod.splits)
qed


lemma boundary_loop_tracks:
  assumes "boundary_loop p patches = Some (incomplete, out, p')"
    and "tracks base p doc text" and "base + length text \<le> usize_max"
  shows "\<exists>ps doc'. out = patches @ ps \<and> apply_patches base doc ps = Some doc' \<and> tracks base p' doc' text
     \<and> normalized_entry_producer p' = normalized_entry_producer p
     \<and> entry_size_threshold p' = entry_size_threshold p"
proof -
  let ?Q = "\<lambda>p patches r. \<forall>doc. tracks base p doc text \<longrightarrow>
      (\<exists>ps doc'. fst (snd r) = patches @ ps \<and> apply_patches base doc ps = Some doc'
         \<and> tracks base (snd (snd r)) doc' text
         \<and> normalized_entry_producer (snd (snd r)) = normalized_entry_producer p
         \<and> entry_size_threshold (snd (snd r)) = entry_size_threshold p)"
  have "?Q p patches (incomplete, out, p')"
  proof (rule boundary_loop.raw_induct [where P = ?Q, OF _ assms(1)])
    fix loop :: "'a processor \<Rightarrow> patch list \<Rightarrow> (bool \<times> patch list \<times> 'a processor) option"
      and p patches r
    assume IH: "\<And>p patches r. loop p patches = Some r \<Longrightarrow> ?Q p patches r"
      and eq: "(case Option.bind (message_boundary_predicate p) (\<lambda>predicate. predicate (buf_lines (buffer p))) of
          None \<Rightarrow> Some (False, patches, p)
        | Some (Split line_idx) \<Rightarrow> loop (snd (split_step line_idx p)) (patches @ fst (split_step line_idx p))
        | Some IncompleteContent \<Rightarrow> Some (True, patches, p)) = Some r"
    show "?Q p patches r"
    proof (intro allI impI)
      fix doc assume tr: "tracks base p doc text"
      let ?R = "\<lambda>ps doc'. fst (snd r) = patches @ ps \<and> apply_patches base doc ps = Some doc'
         \<and> tracks base (snd (snd r)) doc' text
         \<and> normalized_entry_producer (snd (snd r)) = normalized_entry_producer p
         \<and> entry_size_threshold (snd (snd r)) = entry_size_threshold p"
      show "\<exists>ps doc'. ?R ps doc'"
      proof (cases "\<exists>n. Option.bind (message_boundary_predicate p)
            (\<lambda>predicate. predicate (buf_lines (buffer p))) = Some (Split n)")
        case False
        with eq tr have "?R [] doc"
          by (auto simp: apply_patches_def split: option.splits message_boundary.splits)
        then show ?thesis by blast
      next
        case True
        then obtain n where
          n: "loop (snd (split_step n p)) (patches @ fst (split_step n p)) = Some r"
          using eq by auto
        from split_step_tracks [OF tr assms(3), of n] obtain doc1 where
          d1: "apply_patches base doc (fst (split_step n p)) = Some doc1"
            "tracks base (snd (split_step n p)) doc1 text" by blast
        with IH [OF n] obtain ps doc' where
          "fst (snd r) = (patches @ fst (split_step n p)) @ ps" "apply_patches base doc1 ps = Some doc'"
          "tracks base (snd (snd r)) doc' text"
          "normalized_entry_producer (snd (snd r)) = normalized_entry_producer p"
          "entry_size_threshold (snd (snd r)) = entry_size_threshold p" by auto
        with d1 have "?R (fst (split_step n p) @ ps) doc'" by (simp add: apply_patches_append)
        then show ?thesis by blast
      qed
    qed
  qed
  with assms(2) show ?thesis by simp
qed

lemma size_loop_tracks:
  assumes "tracks base p doc text" and "base + length text \<le> usize_max"
  shows "\<exists>ps doc'. fst (size_loop thr p patches) = patches @ ps \<and> apply_patches base doc ps = Some doc'
     \<and> tracks base (snd (size_loop thr p patches)) doc' text
     \<and> normalized_entry_producer (snd (size_loop thr p patches)) = normalized_entry_producer p"
  using assms(1)
proof (induction thr p patches arbitrary: doc rule: size_loop.induct)
  case (1 thr p patches)
  let ?ls = "fst (drain_size thr (buffer p))" and ?b = "snd (drain_size thr (buffer p))"
  let ?n = "lines_to_drain thr (buf_lines (buffer p)) 0 0"
  let ?cp = "create_patch ?ls (p\<lparr>buffer := ?b\<rparr>)"
  have dr: "drain_lines ?n (buffer p) = (?ls, ?b)" by (simp add: drain_size_def)
  consider (stop) "\<not> thr \<le> buf_total_len (buffer p)"
    | (empty) "thr \<le> buf_total_len (buffer p)" "?ls = []"
    | (go) "thr \<le> buf_total_len (buffer p)" "?ls \<noteq> []" by blast
  then show ?case
  proof cases
    case stop
    with "1.prems" show ?thesis
      by (intro exI [of _ "[]"] exI [of _ doc]) (simp add: size_loop.simps [of thr p] apply_patches_def)
  next
    case empty
    with "1.prems" dr tracks_drained [of base p doc "text" ?n ?b] show ?thesis
      by (intro exI [of _ "[]"] exI [of _ doc]) (simp add: size_loop.simps [of thr p] apply_patches_def)
  next
    case go
    from closing_step [OF "1.prems" dr go(2) assms(2)] obtain doc1 where
      d1: "apply_patches base doc [fst ?cp] = Some doc1"
        "tracks base ((snd ?cp)\<lparr>current_entry_index := None\<rparr>) doc1 text" by blast
    from "1.IH" [OF go(1) refl refl go(2) d1(2)] obtain ps doc' where
      "fst (size_loop thr p patches) = (patches @ [fst ?cp]) @ ps" "apply_patches base doc1 ps = Some doc'"
      "tracks base (snd (size_loop thr p patches)) doc' text"
      "normalized_entry_producer (snd (size_loop thr p patches)) = normalized_entry_producer p"
      using go by (auto simp: size_loop.simps [of thr p patches] Let_def)
    with d1(1) apply_patches_append [of base doc "[fst ?cp]" ps] show ?thesis
      by (intro exI [of _ "[fst ?cp] @ ps"] exI [of _ doc']) simp
  qed
qed


lemma opening_step:
  assumes tr: "tracks base p doc text" and ne: "buf_lines (buffer p) \<noteq> []"
    and bound: "base + length text \<le> usize_max"
  shows "\<exists>contents. apply_patches base doc [fst (create_patch (buf_lines (buffer p)) p)]
           = Some (map (normalized_entry_producer p) contents) \<and> concat contents = text
     \<and> tracks base (snd (create_patch (buf_lines (buffer p)) p)) (map (normalized_entry_producer p) contents) text"
proof -
  let ?ls = "buf_lines (buffer p)"
  from tr obtain closed opened where at: "tracks_at base p doc text closed opened"
    by (auto simp: tracks_def)
  then have doc: "doc = map (normalized_entry_producer p) (closed @ opened)"
    and idx: "index_provider p = base + length doc"
    and cur: "case current_entry_index p of
                None \<Rightarrow> opened = [] | Some i \<Rightarrow> i = base + length closed \<and> length opened = 1"
    by (auto simp: tracks_at_def split: option.splits)
  note cp = create_patch_applies [OF doc idx cur tracks_at_bound [OF at ne bound], of ?ls]
  from at ne cp(2,3) have "tracks_at base (snd (create_patch ?ls p))
      (map (normalized_entry_producer p) (closed @ [concat ?ls])) text closed [concat ?ls]"
    by (simp add: tracks_at_def)
  moreover from at have "concat (closed @ [concat ?ls]) = text"
    by (simp add: tracks_at_def buffer_text_def)
  ultimately show ?thesis
    using cp(1) tracks_def by blast
qed

definition plain :: "'t processor \<Rightarrow> bool" where
  "plain p \<longleftrightarrow> format_chunk p = None \<and> transform_lines p = None
     \<and> message_boundary_predicate p = None"

text \<open>What a processor step without closures leaves as it was.\<close>

definition same_setup :: "'t processor \<Rightarrow> 't processor \<Rightarrow> bool" where
  "same_setup p p' \<longleftrightarrow>
     plain p' = plain p \<and> time_gap p' = time_gap p
     \<and> normalized_entry_producer p' = normalized_entry_producer p
     \<and> last_chunk_arrival_time p' = last_chunk_arrival_time p"

text \<open>The conversation shows the whole text.\<close>

definition shows_text :: "nat \<Rightarrow> 't processor \<Rightarrow> normalized_entry list \<Rightarrow> string \<Rightarrow> bool" where
  "shows_text base p doc text \<longleftrightarrow>
     tracks base p doc text
     \<and> (\<exists>contents. doc = map (normalized_entry_producer p) contents \<and> concat contents = text)"

lemma tracks_ingest:
  assumes "tracks base p doc text"
  shows "tracks base (p\<lparr>last_chunk_arrival_time := now, buffer := ingest c (buffer p)\<rparr>) doc (text @ c)"
proof -
  have "buffer_ok (buffer p) \<Longrightarrow> buf_lines (buffer p) \<noteq> [] \<Longrightarrow> buf_lines (ingest c (buffer p)) \<noteq> []"
    using ingest_text [of c "buffer p"] buffer_ok_ingest [of "buffer p" c]
    by (metis append_is_Nil_conv buffer_text_Nil_iff)
  then have "tracks_at base p doc text cl op \<Longrightarrow>
      tracks_at base (p\<lparr>last_chunk_arrival_time := now, buffer := ingest c (buffer p)\<rparr>) doc (text @ c) cl op"
    for cl op
    by (auto simp: tracks_at_def ingest_text buffer_ok_ingest split: option.splits)
  with assms show ?thesis by (auto simp: tracks_def)
qed

lemma tracks_buffer_ok: "tracks base p doc text \<Longrightarrow> buffer_ok (buffer p)"
  by (auto simp: tracks_def tracks_at_def)

lemma shows_text_empty_buffer:
  assumes "tracks base p doc text" and "buf_is_empty (buffer p)"
  shows "shows_text base p doc text"
proof -
  have "buf_lines (buffer p) = []"
    using assms(2) buffer_is_empty_iff [OF tracks_buffer_ok [OF assms(1)]] by simp
  with assms(1) show ?thesis
    by (auto simp: shows_text_def tracks_def tracks_at_def buffer_text_def split: option.splits)
qed

lemma create_patch_same_setup: "same_setup p (snd (create_patch ls p))"
  by (simp add: same_setup_def plain_def)

lemma size_loop_same_setup: "same_setup p (snd (size_loop thr p patches))"
proof (induction thr p patches rule: size_loop.induct)
  case (1 thr p patches)
  let ?p1 = "p\<lparr>buffer := snd (drain_size thr (buffer p))\<rparr>" and ?ls = "fst (drain_size thr (buffer p))"
  let ?p2 = "(snd (create_patch ?ls ?p1))\<lparr>current_entry_index := None\<rparr>"
  have p1: "same_setup p ?p1" and p2: "same_setup p ?p2"
    by (simp_all add: same_setup_def plain_def)
  show ?case
  proof (cases "thr \<le> buf_total_len (buffer p) \<and> ?ls \<noteq> []")
    case True
    with "1.IH" [OF _ refl refl] p2 show ?thesis
      by (subst size_loop.simps) (auto simp: same_setup_def Let_def)
  next
    case False
    with p1 show ?thesis by (subst size_loop.simps) (auto simp: same_setup_def Let_def)
  qed
qed

lemma boundary_loop_None: "message_boundary_predicate p = None \<Longrightarrow> boundary_loop p ps = Some (False, ps, p)"
  by (subst boundary_loop.simps) simp

lemma process_buffered_shows:
  assumes "plain p" and "tracks base p doc text" and "base + length text \<le> usize_max"
  shows "\<exists>ps p' doc'. process_buffered p = Some (ps, p') \<and> apply_patches base doc ps = Some doc'
     \<and> shows_text base p' doc' text \<and> same_setup p p'"
proof -
  define r where "r = (case entry_size_threshold p of Some t \<Rightarrow> size_loop t p [] | None \<Rightarrow> ([], p))"
  obtain ps2 p2 where r2: "r = (ps2, p2)" by fastforce
  have "\<exists>doc2. apply_patches base doc ps2 = Some doc2 \<and> tracks base p2 doc2 text \<and> same_setup p p2"
  proof (cases "entry_size_threshold p")
    case None
    with r2 assms show ?thesis by (auto simp: r_def apply_patches_def same_setup_def)
  next
    case (Some t)
    with r2 have "size_loop t p [] = (ps2, p2)" by (simp add: r_def)
    with size_loop_tracks [OF assms(2,3), of t "[]"] size_loop_same_setup [of p t "[]"]
    show ?thesis by auto
  qed
  then obtain doc2 where d2: "apply_patches base doc ps2 = Some doc2" "tracks base p2 doc2 text"
    "same_setup p p2" by blast
  have pb: "process_buffered p =
      (if \<not> buf_is_empty (buffer p2)
       then Some (ps2 @ [fst (create_patch (buf_lines (buffer p2)) p2)], snd (create_patch (buf_lines (buffer p2)) p2))
       else Some (ps2, p2))"
    using assms(1) r2 unfolding r_def
    by (simp add: process_buffered_def plain_def boundary_loop_None case_prod_beta cong: option.case_cong)
  show ?thesis
  proof (cases "buf_is_empty (buffer p2)")
    case True
    with pb d2 shows_text_empty_buffer [OF d2(2)] show ?thesis by simp
  next
    case False
    then have "buf_lines (buffer p2) \<noteq> []" using tracks_buffer_ok [OF d2(2)] by (simp add: buffer_is_empty_iff)
    from opening_step [OF d2(2) this assms(3)] False pb d2
      create_patch_same_setup [of p2 "buf_lines (buffer p2)"]
    show ?thesis by (auto simp: apply_patches_append shows_text_def same_setup_def)
  qed
qed

lemma process_shows:
  assumes "plain p" and "\<not> gap_elapsed now p"
    and "shows_text base p doc text" and "base + length (text @ c) \<le> usize_max"
  shows "\<exists>ps p' doc'. process now c p = Some (ps, p') \<and> apply_patches base doc ps = Some doc'
     \<and> shows_text base p' doc' (text @ c)
     \<and> same_setup (if c = [] then p else p\<lparr>last_chunk_arrival_time := now\<rparr>) p'"
proof (cases "c = []")
  case True
  with assms show ?thesis by (simp add: process_def apply_patches_def same_setup_def)
next
  case False
  let ?p = "p\<lparr>last_chunk_arrival_time := now, buffer := ingest c (buffer p)\<rparr>"
  have "process now c p = process_buffered ?p"
    using False assms(1,2) by (simp add: process_def process_chunk_def plain_def)
  moreover have "tracks base ?p doc (text @ c)"
    using assms(3) by (simp add: shows_text_def tracks_ingest)
  moreover have "plain ?p" using assms(1) by (simp add: plain_def)
  moreover have "same_setup ?p p' = same_setup (p\<lparr>last_chunk_arrival_time := now\<rparr>) p'" for p'
    by (simp add: same_setup_def plain_def)
  ultimately show ?thesis using process_buffered_shows [of ?p] assms(4) False by fastforce
qed

text \<open>No chunk of the sequence arrives so late that it starts a new entry.\<close>

fun gap_free :: "int option \<Rightarrow> datetime \<Rightarrow> (datetime \<times> string) list \<Rightarrow> bool" where
  "gap_free gap last_time [] = True"
| "gap_free gap last_time ((now, c) # rest) =
     ((case gap of None \<Rightarrow> True | Some g \<Rightarrow> now - last_time < g)
      \<and> gap_free gap (if c = [] then last_time else now) rest)"

lemma process_all_shows:
  assumes "plain p" and "shows_text base p doc text"
    and "gap_free (time_gap p) (last_chunk_arrival_time p) cs"
    and "base + length (text @ concat (map snd cs)) \<le> usize_max"
  shows "\<exists>ps p' doc'. process_all cs p = Some (ps, p') \<and> apply_patches base doc ps = Some doc'
     \<and> shows_text base p' doc' (text @ concat (map snd cs))
     \<and> normalized_entry_producer p' = normalized_entry_producer p"
  using assms
proof (induction cs arbitrary: p doc "text")
  case Nil
  then show ?case by (simp add: apply_patches_def)
next
  case (Cons x cs)
  obtain now c where x: "x = (now, c)" by fastforce
  with Cons.prems have b: "base + length (text @ c) \<le> usize_max" and "\<not> gap_elapsed now p"
    by (auto simp: gap_elapsed_def split: option.splits)
  from process_shows [OF Cons.prems(1) this(2) Cons.prems(2) b] obtain ps1 p1 doc1 where
    1: "process now c p = Some (ps1, p1)" "apply_patches base doc ps1 = Some doc1"
      "shows_text base p1 doc1 (text @ c)"
      "same_setup (if c = [] then p else p\<lparr>last_chunk_arrival_time := now\<rparr>) p1" by blast
  then have "plain p1" and p1: "gap_free (time_gap p1) (last_chunk_arrival_time p1) cs"
    and eq: "normalized_entry_producer p1 = normalized_entry_producer p"
    using Cons.prems(1,3) x by (auto simp: same_setup_def plain_def split: if_splits)
  from Cons.IH [OF this(1) 1(3) p1] Cons.prems(4) x obtain ps2 p2 doc2 where
    "process_all cs p1 = Some (ps2, p2)" "apply_patches base doc1 ps2 = Some doc2"
    "shows_text base p2 doc2 (text @ concat (map snd (x # cs)))"
    "normalized_entry_producer p2 = normalized_entry_producer p1" by auto
  with 1 x eq show ?case by (auto simp: apply_patches_append)
qed

lemma shows_text_new:
  "shows_text base (new_processor producer st gap fmt tr ts pred base now) [] []"
  using tracks_new by (force simp: shows_text_def)

section \<open>Stderr\<close>

text \<open>
  \<^verbatim>\<open>normalize_stderr_logs\<close>.  \<open>strip\<close> stands for \<^verbatim>\<open>strip_ansi_escapes::strip_str\<close>; instants count
  nanoseconds.  The argument \<open>chunks\<close> is the stream of stderr chunks with their arrival times.
\<close>

definition stderr_entry :: "(string \<Rightarrow> string) \<Rightarrow> string \<Rightarrow> normalized_entry" where
  "stderr_entry strip content =
     \<lparr> ne_timestamp = None, entry_type = ErrorMessage OtherError, ne_content = strip content, ne_metadata = None \<rparr>"

definition stderr_time_gap :: int where
  "stderr_time_gap = 2 * 10 ^ 9"

definition stderr_processor :: "(string \<Rightarrow> string) \<Rightarrow> entry_index_provider \<Rightarrow> datetime \<Rightarrow> unit processor" where
  "stderr_processor strip provider now =
     new_processor (stderr_entry strip) None (Some stderr_time_gap) None None () None provider now"

fun stderr_loop ::
  "(patch \<Rightarrow> string option) \<Rightarrow> (datetime \<times> string) list \<Rightarrow> unit processor \<Rightarrow> msg_store \<Rightarrow> msg_store option" where
  "stderr_loop ser [] p s = Some s"
| "stderr_loop ser ((now, chunk) # rest) p s =
     (case process now chunk p of
        None \<Rightarrow> None
      | Some (patches, p1) \<Rightarrow> stderr_loop ser rest p1 (fold (push_patch ser) patches s))"

definition normalize_stderr_logs ::
  "(patch \<Rightarrow> string option) \<Rightarrow> (string \<Rightarrow> string) \<Rightarrow> datetime \<Rightarrow> entry_index_provider
   \<Rightarrow> (datetime \<times> string) list \<Rightarrow> msg_store \<Rightarrow> msg_store option" where
  "normalize_stderr_logs ser strip now provider chunks s =
     stderr_loop ser chunks (stderr_processor strip provider now) s"

lemma stderr_loop_process_all:
  "stderr_loop ser cs p s =
     (case process_all cs p of None \<Rightarrow> None | Some (ps, _) \<Rightarrow> Some (fold (push_patch ser) ps s))"
  by (induction cs arbitrary: p s) (auto split: option.splits)

lemma plain_stderr_processor [simp]: "plain (stderr_processor strip provider now)"
  by (simp add: plain_def stderr_processor_def new_processor_def)

lemma process_one_entry:
  assumes "plain p" and "entry_size_threshold p = None" and "\<not> gap_elapsed now p"
    and "buffer_ok (buffer p)" and "c \<noteq> []"
  shows "process now c p =
     (let p1 = p\<lparr>last_chunk_arrival_time := now, buffer := ingest c (buffer p)\<rparr>;
          (pt, p2) = create_patch (buf_lines (buffer p1)) p1
      in Some ([pt], p2))"
proof -
  have ok: "buffer_ok (ingest c (buffer p))" using assms(4) by (rule buffer_ok_ingest)
  moreover have "buffer_text (ingest c (buffer p)) \<noteq> []" using assms(5) by (simp add: ingest_text)
  ultimately have "\<not> buf_is_empty (ingest c (buffer p))"
    by (simp add: buffer_is_empty_iff buffer_text_Nil_iff)
  with assms show ?thesis
    by (simp add: process_def process_chunk_def process_buffered_def plain_def boundary_loop_None Let_def)
qed

text \<open>Without a size threshold the processor stays on its entry once it has one.\<close>

lemma process_all_provider:
  assumes "plain p" and "entry_size_threshold p = None" and "buffer_ok (buffer p)"
    and "current_entry_index p = Some i" and "gap_free (time_gap p) (last_chunk_arrival_time p) cs"
    and "process_all cs p = Some (ps, p')"
  shows "index_provider p' = index_provider p"
  using assms
proof (induction cs arbitrary: p ps)
  case (Cons x cs)
  obtain now c where x: "x = (now, c)" by fastforce
  with Cons.prems(5) have ng: "\<not> gap_elapsed now p" by (auto simp: gap_elapsed_def split: option.splits)
  let ?p1 = "p\<lparr>last_chunk_arrival_time := now, buffer := ingest c (buffer p)\<rparr>"
  show ?case
  proof (cases "c = []")
    case True
    then have "process now c p = Some ([], p)" by (simp add: process_def)
    with Cons.prems x True Cons.IH [OF Cons.prems(1-4)] show ?thesis by (auto split: option.splits)
  next
    case False
    from process_one_entry [OF Cons.prems(1,2) ng Cons.prems(3) False] Cons.prems(4)
    have "process now c p = Some ([replace_entry i (normalized_entry_producer p (buffer_text (buffer ?p1)))], ?p1)"
      by (simp add: create_patch_def buffer_text_def)
    with Cons.prems x False obtain qs where "process_all cs ?p1 = Some (qs, p')"
      by (auto split: option.splits)
    moreover have "plain ?p1" using Cons.prems(1) by (simp add: plain_def)
    ultimately show ?thesis
      using Cons.IH [of ?p1 qs] Cons.prems x False by (simp add: buffer_ok_ingest)
  qed
qed simp


section \<open>Properties\<close>

text \<open>
  C5: Whatever the size threshold, a processor with no time gap and no closures shows the whole
  input: applied in order, the patches of a sequence of chunks are valid, and the entries they
  leave have contents whose concatenation is the concatenation of the chunks.
\<close>

theorem plain_processor_shows_text:
  assumes "base + length (concat (map snd cs)) \<le> usize_max"
  shows "\<exists>ps p' contents.
     process_all cs (new_processor producer threshold None None None ts None base now) = Some (ps, p')
     \<and> apply_patches base [] ps = Some (map producer contents)
     \<and> concat contents = concat (map snd cs)"
proof -
  let ?p = "new_processor producer threshold None None None ts None base now"
  have gf: "gap_free None t cs" for t by (induction cs arbitrary: t) auto
  have p: "plain ?p" "time_gap ?p = None" "normalized_entry_producer ?p = producer"
    by (simp_all add: plain_def new_processor_def)
  with process_all_shows [of ?p base "[]" "[]" cs, OF p(1) shows_text_new] gf assms
  obtain ps p' doc' where r: "process_all cs ?p = Some (ps, p')" "apply_patches base [] ps = Some doc'"
    "shows_text base p' doc' (concat (map snd cs))" "normalized_entry_producer p' = producer"
    by auto
  from r(3,4) obtain contents where
    c: "doc' = map producer contents" "concat contents = concat (map snd cs)"
    by (auto simp: shows_text_def)
  show ?thesis using r(1,2) c by blast
qed

theorem plain_processor_shows_text_witness:
  "\<exists>ps p' contents.
     process_all [(0, ''ab''), (1, ''c'')] (new_processor (stderr_entry id) (Some 2) None None None () None 7 0)
       = Some (ps, p')
     \<and> apply_patches 7 [] ps = Some (map (stderr_entry id) contents) \<and> concat contents = ''abc''"
  using plain_processor_shows_text [of 7 "[(0, ''ab''), (1, ''c'')]" "stderr_entry id" "Some 2" "()" 0]
  by (simp add: usize_max_def)

text \<open>
  Stderr chunks that follow each other within two seconds become one error entry: the
  normaliser ends, and what it pushes to the store builds the single entry whose text is the
  whole stderr text, stripped of escape codes.
\<close>

theorem stderr_chunks_one_entry:
  assumes "c \<noteq> []" and "gap_free (Some stderr_time_gap) t cs"
    and "base + length (c @ concat (map snd cs)) \<le> usize_max"
  shows "\<exists>ps. normalize_stderr_logs ser strip now base ((t, c) # cs) s = Some (fold (push_patch ser) ps s)
     \<and> apply_patches base [] ps = Some [stderr_entry strip (c @ concat (map snd cs))]"
proof -
  let ?p = "stderr_processor strip base now"
  let ?p1 = "?p\<lparr>last_chunk_arrival_time := t, buffer := ingest c new_buffer\<rparr>"
  let ?cp = "create_patch (buf_lines (buffer ?p1)) ?p1"
  have p: "buffer ?p = new_buffer" "entry_size_threshold ?p = None" "time_gap ?p = Some stderr_time_gap"
      "current_entry_index ?p = None" "index_provider ?p = base"
      "normalized_entry_producer ?p = stderr_entry strip"
    by (simp_all add: stderr_processor_def new_processor_def)
  have first: "\<not> gap_elapsed t ?p" by (simp add: gap_elapsed_def p buf_is_empty_def new_buffer_def)
  have st: "shows_text base ?p [] []" unfolding stderr_processor_def by (rule shows_text_new)
  have 1: "process t c ?p = Some ([fst ?cp], snd ?cp)"
    using process_one_entry [OF plain_stderr_processor p(2) first _ assms(1)] p by (simp add: case_prod_beta Let_def)
  from process_shows [OF plain_stderr_processor first st, of c] assms 1 obtain doc1 where
    d1: "apply_patches base [] [fst ?cp] = Some doc1" "shows_text base (snd ?cp) doc1 c" by auto
  have "base < usize_max" using assms by (cases c) auto
  then have cp: "plain (snd ?cp)" "current_entry_index (snd ?cp) = Some base" "index_provider (snd ?cp) = Suc base"
    "gap_free (time_gap (snd ?cp)) (last_chunk_arrival_time (snd ?cp)) cs"
    "entry_size_threshold (snd ?cp) = None" "buffer_ok (buffer (snd ?cp))"
    "normalized_entry_producer (snd ?cp) = stderr_entry strip"
    using p assms(2) plain_stderr_processor [of strip base now]
    by (simp_all add: create_patch_def next_index_def wrapping_succ_exact plain_def buffer_ok_ingest)
  from process_all_shows [OF cp(1) d1(2) cp(4)] assms(3) cp(7) obtain ps2 p2 doc2 where
    2: "process_all cs (snd ?cp) = Some (ps2, p2)" "apply_patches base doc1 ps2 = Some doc2"
      "shows_text base p2 doc2 (c @ concat (map snd cs))" "normalized_entry_producer p2 = stderr_entry strip"
    by (auto simp del: create_patch_frame)
  have "index_provider p2 = base + length doc2" using 2(3)
    by (auto simp: shows_text_def tracks_def tracks_at_def)
  with process_all_provider [OF cp(1,5,6,2,4) 2(1)] cp(3) have "length doc2 = 1" by simp
  with 2(3,4) have "doc2 = [stderr_entry strip (c @ concat (map snd cs))]"
    by (auto simp: shows_text_def length_Suc_conv)
  with 1 2 d1(1) show ?thesis
    by (intro exI [of _ "[fst ?cp] @ ps2"])
       (simp add: normalize_stderr_logs_def stderr_loop_process_all apply_patches_append del: append.simps)
qed

theorem stderr_chunks_one_entry_witness:
  "\<exists>ps. normalize_stderr_logs (\<lambda>_. None) id 0 0 [(5, ''er''), (6, ''ror'')] new_msg_store
       = Some (fold (push_patch (\<lambda>_. None)) ps new_msg_store)
     \<and> apply_patches 0 [] ps = Some [stderr_entry id ''error'']"
  using stderr_chunks_one_entry [of "''er''" 5 "[(6, ''ror'')]" 0 "\<lambda>_. None" id 0 new_msg_store]
  by (simp add: stderr_time_gap_def usize_max_def)

text \<open>
  C37: A chunk that arrives after the time gap is lost, and so is the text before it.  The
  processor only re-sends the buffered text, whatever the chunk is, keeps the entry's index,
  and the next chunk replaces that same entry by its own text alone.
\<close>

theorem late_chunk_is_dropped:
  assumes "plain p" and "entry_size_threshold p = None" and "buffer_ok (buffer p)"
    and "current_entry_index p = Some i" and "gap_elapsed now p" and "c \<noteq> []" and "d \<noteq> []"
  shows "\<exists>p' p''. process now c p
          = Some ([replace_entry i (normalized_entry_producer p (buffer_text (buffer p)))], p')
     \<and> process later d p' = Some ([replace_entry i (normalized_entry_producer p d)], p'')"
proof -
  let ?p' = "p\<lparr>buffer := snd (flush (buffer p))\<rparr>"
  have "buf_lines (buffer p) \<noteq> []"
    using assms(3,5) by (auto simp: gap_elapsed_def buf_is_empty_def buffer_ok_def)
  then have 1: "process now c p
      = Some ([replace_entry i (normalized_entry_producer p (buffer_text (buffer p)))], ?p')"
    using assms(4-6) by (simp add: process_def flush_def create_patch_def buffer_text_def)
  have e: "buf_is_empty (snd (flush (buffer p)))" by (simp add: flush_def buf_is_empty_def)
  have "process later d ?p' = Some ([replace_entry i (normalized_entry_producer p
      (buffer_text (ingest d (snd (flush (buffer p))))))],
      ?p'\<lparr>last_chunk_arrival_time := later, buffer := ingest d (snd (flush (buffer p)))\<rparr>)"
    using process_one_entry [of ?p' later d] assms(1,2,4,7) e
    by (simp add: plain_def gap_elapsed_def create_patch_def buffer_text_def)
  moreover have "buffer_text (ingest d (snd (flush (buffer p)))) = d"
    by (simp add: ingest_text) (simp add: flush_def buffer_text_def)
  ultimately show ?thesis using 1 by auto
qed

theorem late_chunk_is_dropped_witness:
  "\<exists>p p' p''. process 0 ''a'' (stderr_processor id 0 0) = Some ([add_normalized_entry 0 (stderr_entry id ''a'')], p)
     \<and> process stderr_time_gap ''b'' p = Some ([replace_entry 0 (stderr_entry id ''a'')], p')
     \<and> process stderr_time_gap ''c'' p' = Some ([replace_entry 0 (stderr_entry id ''c'')], p'')"
proof -
  let ?p = "(stderr_processor id 0 0)\<lparr>last_chunk_arrival_time := 0, buffer := ingest ''a'' new_buffer,
    index_provider := 1, current_entry_index := Some 0\<rparr>"
  have p: "plain ?p" "entry_size_threshold ?p = None" "buffer_ok (buffer ?p)" "current_entry_index ?p = Some 0"
    "gap_elapsed stderr_time_gap ?p" "normalized_entry_producer ?p = stderr_entry id"
    "buffer_text (buffer ?p) = ''a''"
    by (simp_all add: plain_def stderr_processor_def new_processor_def buffer_ok_ingest gap_elapsed_def
        buf_is_empty_def ingest_def new_buffer_def is_partial_def buffer_text_def buffer_ok_def)
  have "process 0 ''a'' (stderr_processor id 0 0) = Some ([add_normalized_entry 0 (stderr_entry id ''a'')], ?p)"
    using process_one_entry [OF plain_stderr_processor, of id 0 0 0 "''a''"]
    by (simp add: stderr_processor_def new_processor_def gap_elapsed_def buf_is_empty_def new_buffer_def
        create_patch_def next_index_def ingest_def is_partial_def wrapping_succ_def buffer_ok_def)
  with late_chunk_is_dropped [OF p(1-5), of "''b''" "''c''" stderr_time_gap] p(6,7) show ?thesis by auto
qed

text \<open>
  C33: The boundary loop of the processor ends, and so does \<open>process\<close>, when every split its
  predicate asks for removes at least one buffered line.
\<close>

theorem process_terminates:
  assumes "case message_boundary_predicate p of None \<Rightarrow> True | Some predicate \<Rightarrow> productive predicate"
  shows "\<exists>patches p'. process now c p = Some (patches, p')"
proof -
  have buffered: "\<exists>r. process_buffered q = Some r"
    if "message_boundary_predicate q = message_boundary_predicate p" for q
  proof -
    from boundary_loop_terminates [of q "[]"] that assms obtain r where "boundary_loop q [] = Some r"
      by (auto split: option.splits)
    then show ?thesis by (cases r) (auto simp: process_buffered_def Let_def split: prod.splits)
  qed
  have "\<exists>r. process_chunk now c q = Some r"
    if "message_boundary_predicate q = message_boundary_predicate p" for q
    unfolding process_chunk_def Let_def
    by (auto intro!: buffered simp: that simp del: split_paired_Ex split: option.splits prod.splits)
  then show ?thesis by (auto simp: process_def Let_def split: prod.splits)
qed

theorem process_terminates_witness:
  "\<exists>patches p'. process 1 ''x'' (new_processor (stderr_entry id) None None None None ()
      (Some (\<lambda>ls. if length ls > 1 then Some (Split 1) else None)) 0 0) = Some (patches, p')"
proof (rule process_terminates)
  show "case message_boundary_predicate (new_processor (stderr_entry id) None None None None ()
      (Some (\<lambda>ls. if length ls > 1 then Some (Split 1) else None)) 0 0) of
      None \<Rightarrow> True | Some predicate \<Rightarrow> productive predicate"
    by (auto simp: new_processor_def productive_def split: if_splits)
qed

end
