(* ===== verification/Executor_Actions.thy ===== *)
theory Executor_Actions
  imports Log_Entries "HOL-Library.AList"
begin

text \<open>
  Executor identities, action chains and executor profiles:
  \<^verbatim>\<open>crates/executors/src/executors/mod.rs\<close> (the agents and their capabilities),
  \<^verbatim>\<open>crates/executors/src/actions/\<close> (what a process is asked to run, and what follows it) and
  \<^verbatim>\<open>crates/executors/src/profile.rs\<close> (the configurations of each agent and how edits of them
  are merged with the built-in ones).

  The configuration of one agent is a type variable \<open>'a\<close>; \<open>agent_of\<close> is its discriminant.  A
  \<^verbatim>\<open>HashMap\<close> that the code iterates over is an association list whose order is the (unspecified)
  iteration order.
\<close>

section \<open>Agents\<close>

datatype base_coding_agent =
    ClaudeCode | Amp | Gemini | Codex | Opencode | CursorAgent | QwenCode | Copilot

datatype base_agent_capability = SessionFork | SetupHelper

fun agent_name :: "base_coding_agent \<Rightarrow> string" where
  "agent_name ClaudeCode = ''CLAUDE_CODE''"
| "agent_name Amp = ''AMP''"
| "agent_name Gemini = ''GEMINI''"
| "agent_name Codex = ''CODEX''"
| "agent_name Opencode = ''OPENCODE''"
| "agent_name CursorAgent = ''CURSOR_AGENT''"
| "agent_name QwenCode = ''QWEN_CODE''"
| "agent_name Copilot = ''COPILOT''"

definition all_agents :: "base_coding_agent list" where
  "all_agents = [ClaudeCode, Amp, Gemini, Codex, Opencode, CursorAgent, QwenCode, Copilot]"

text \<open>\<^verbatim>\<open>EnumString\<close>: the displayed names and the legacy name \<^verbatim>\<open>CURSOR\<close>.\<close>

definition agent_from_str :: "string \<Rightarrow> base_coding_agent option" where
  "agent_from_str s =
     (if s = ''CURSOR'' then Some CursorAgent else find (\<lambda>a. agent_name a = s) all_agents)"

definition to_ascii_uppercase_char :: "char \<Rightarrow> char" where
  "to_ascii_uppercase_char c =
     (if 97 \<le> (of_char c :: nat) \<and> (of_char c :: nat) \<le> 122 then char_of ((of_char c :: nat) - 32) else c)"

definition to_ascii_uppercase :: "string \<Rightarrow> string" where
  "to_ascii_uppercase = map to_ascii_uppercase_char"

definition eq_ignore_ascii_case :: "string \<Rightarrow> string \<Rightarrow> bool" where
  "eq_ignore_ascii_case s t \<longleftrightarrow> to_ascii_uppercase s = to_ascii_uppercase t"

definition de_base_coding_agent_kebab :: "string \<Rightarrow> base_coding_agent option" where
  "de_base_coding_agent_kebab raw =
     agent_from_str (to_ascii_uppercase (replace_char (CHR ''-'') ''_'' raw))"

fun capabilities :: "base_coding_agent \<Rightarrow> base_agent_capability list" where
  "capabilities ClaudeCode = [SessionFork]"
| "capabilities Amp = [SessionFork]"
| "capabilities Codex = [SessionFork]"
| "capabilities Gemini = [SessionFork]"
| "capabilities QwenCode = [SessionFork]"
| "capabilities CursorAgent = [SetupHelper]"
| "capabilities Opencode = []"
| "capabilities Copilot = []"

definition combine_prompt :: "string option \<Rightarrow> string \<Rightarrow> string" where
  "combine_prompt append_prompt prompt =
     (case append_prompt of Some value \<Rightarrow> prompt @ value | None \<Rightarrow> prompt)"

record executor_profile_id =
  executor :: base_coding_agent
  variant :: "string option"

definition new_profile_id :: "base_coding_agent \<Rightarrow> executor_profile_id" where
  "new_profile_id e = \<lparr> executor = e, variant = None \<rparr>"

definition with_variant :: "base_coding_agent \<Rightarrow> string \<Rightarrow> executor_profile_id" where
  "with_variant e v = \<lparr> executor = e, variant = Some v \<rparr>"

definition cache_key :: "executor_profile_id \<Rightarrow> string" where
  "cache_key p =
     (case variant p of
        Some v \<Rightarrow> agent_name (executor p) @ '':'' @ v
      | None \<Rightarrow> agent_name (executor p))"

definition to_default_variant :: "executor_profile_id \<Rightarrow> executor_profile_id" where
  "to_default_variant p = \<lparr> executor = executor p, variant = None \<rparr>"

lemma agent_name_inject: "agent_name a = agent_name b \<longleftrightarrow> a = b"
  by (cases a; cases b) simp_all

lemma agent_name_no_colon: "CHR '':'' \<notin> set (agent_name a)"
  by (cases a) simp_all

lemma agent_from_str_name: "agent_from_str (agent_name a) = Some a"
  by (cases a) (simp_all add: agent_from_str_def all_agents_def)

text \<open>A separator that occurs in neither head decides where to split.\<close>

lemma append_sep_inject:
  "c \<notin> set xs \<Longrightarrow> c \<notin> set ys \<Longrightarrow> xs @ c # s = ys @ c # t \<longleftrightarrow> xs = ys \<and> s = t"
proof (induction xs arbitrary: ys)
  case Nil
  then show ?case by (cases ys) auto
next
  case (Cons x xs)
  then show ?case by (cases ys) auto
qed


section \<open>Actions\<close>

datatype script_context = SetupScriptContext | CleanupScriptContext | DevServerContext

datatype script_request_language = Bash

record script_request =
  script :: string
  sr_language :: script_request_language
  sr_context :: script_context

record coding_agent_initial_request =
  ir_prompt :: string
  ir_executor_profile_id :: executor_profile_id

record coding_agent_follow_up_request =
  fr_prompt :: string
  fr_session_id :: string
  fr_executor_profile_id :: executor_profile_id

datatype executor_action_type =
    CodingAgentInitialRequest coding_agent_initial_request
  | CodingAgentFollowUpRequest coding_agent_follow_up_request
  | ScriptRequest script_request

datatype executor_action =
  ExecutorAction (action_typ: executor_action_type) (next_action: "executor_action option")

fun append_action :: "executor_action \<Rightarrow> executor_action \<Rightarrow> executor_action" where
  "append_action (ExecutorAction t None) action = ExecutorAction t (Some action)"
| "append_action (ExecutorAction t (Some next)) action = ExecutorAction t (Some (append_action next action))"

definition base_executor :: "executor_action \<Rightarrow> base_coding_agent option" where
  "base_executor a =
     (case action_typ a of
        CodingAgentInitialRequest r \<Rightarrow> Some (executor (ir_executor_profile_id r))
      | CodingAgentFollowUpRequest r \<Rightarrow> Some (executor (fr_executor_profile_id r))
      | ScriptRequest _ \<Rightarrow> None)"

text \<open>The steps of a chain in the order in which they run.\<close>

fun action_chain :: "executor_action \<Rightarrow> executor_action_type list" where
  "action_chain (ExecutorAction t None) = [t]"
| "action_chain (ExecutorAction t (Some next)) = t # action_chain next"

lemma action_chain_append: "action_chain (append_action a b) = action_chain a @ action_chain b"
  by (induction a b rule: append_action.induct) auto

lemma action_chain_nonempty [simp]: "action_chain a \<noteq> []"
  by (cases a rule: action_chain.cases) auto

text \<open>The profile an action runs with, \<^verbatim>\<open>None\<close> for scripts.\<close>

definition action_profile :: "executor_action_type \<Rightarrow> executor_profile_id option" where
  "action_profile t =
     (case t of
        CodingAgentInitialRequest r \<Rightarrow> Some (ir_executor_profile_id r)
      | CodingAgentFollowUpRequest r \<Rightarrow> Some (fr_executor_profile_id r)
      | ScriptRequest _ \<Rightarrow> None)"


section \<open>Profiles\<close>

type_synonym 'a executor_config = "(string \<times> 'a) list"
type_synonym 'a executor_configs = "(base_coding_agent \<times> 'a executor_config) list"

datatype profile_error =
    CannotDeleteExecutor base_coding_agent
  | CannotDeleteBuiltInConfig base_coding_agent string
  | Validation string
  | NoAvailableExecutorProfile

definition GENIE_VARIANT :: string where
  "GENIE_VARIANT = ''GENIE''"

text \<open>\<open>screaming\<close> stands for the two \<^verbatim>\<open>to_case\<close> conversions of the crate \<^verbatim>\<open>convert_case\<close>.\<close>

definition canonical_variant_key :: "(string \<Rightarrow> string) \<Rightarrow> string \<Rightarrow> string" where
  "canonical_variant_key screaming key =
     (if eq_ignore_ascii_case key ''DEFAULT'' \<or> eq_ignore_ascii_case key ''GENIE''
      then GENIE_VARIANT else screaming key)"

definition get_variant :: "'a executor_config \<Rightarrow> string \<Rightarrow> 'a option" where
  "get_variant c v = map_of c v"

definition get_default :: "'a executor_config \<Rightarrow> 'a option" where
  "get_default c = map_of c GENIE_VARIANT"

definition new_with_default :: "'a \<Rightarrow> 'a executor_config" where
  "new_with_default a = [(GENIE_VARIANT, a)]"

definition set_variant ::
  "(string \<Rightarrow> string) \<Rightarrow> string \<Rightarrow> 'a \<Rightarrow> 'a executor_config \<Rightarrow> string + 'a executor_config" where
  "set_variant screaming variant_name config c =
     (let key = canonical_variant_key screaming variant_name
      in if key = GENIE_VARIANT
         then Inl ''Cannot override 'GENIE' variant using set_variant, use set_default instead''
         else Inr (AList.update key config c))"

definition set_default :: "'a \<Rightarrow> 'a executor_config \<Rightarrow> 'a executor_config" where
  "set_default config c = AList.update GENIE_VARIANT config c"

definition variant_names :: "'a executor_config \<Rightarrow> string list" where
  "variant_names c = filter (\<lambda>k. k \<noteq> GENIE_VARIANT) (map fst c)"

text \<open>
  \<^verbatim>\<open>canonicalise\<close>: the keys to replace are collected first, then each is removed and its
  configuration entered under the canonical key unless that key is taken.
\<close>

definition or_insert :: "string \<Rightarrow> 'a \<Rightarrow> 'a executor_config \<Rightarrow> 'a executor_config" where
  "or_insert key config c = (if map_of c key = None then c @ [(key, config)] else c)"

definition replace_key :: "string \<times> string \<Rightarrow> 'a executor_config \<Rightarrow> 'a executor_config" where
  "replace_key r c =
     (case map_of c (fst r) of
        None \<Rightarrow> c
      | Some config \<Rightarrow> or_insert (snd r) config (AList.delete (fst r) c))"

definition key_replacements :: "(string \<Rightarrow> string) \<Rightarrow> 'a executor_config \<Rightarrow> (string \<times> string) list" where
  "key_replacements screaming c =
     map (\<lambda>k. (k, canonical_variant_key screaming k))
       (filter (\<lambda>k. canonical_variant_key screaming k \<noteq> k) (map fst c))"

definition canonicalise_config :: "(string \<Rightarrow> string) \<Rightarrow> 'a executor_config \<Rightarrow> 'a executor_config" where
  "canonicalise_config screaming c = fold replace_key (key_replacements screaming c) c"

definition canonicalise :: "(string \<Rightarrow> string) \<Rightarrow> 'a executor_configs \<Rightarrow> 'a executor_configs" where
  "canonicalise screaming cs = map (\<lambda>(k, c). (k, canonicalise_config screaming c)) cs"

text \<open>\<^verbatim>\<open>merge_with_defaults\<close>.\<close>

definition merge_config :: "'a executor_config \<Rightarrow> 'a executor_config \<Rightarrow> 'a executor_config" where
  "merge_config base overrides = fold (\<lambda>(k, a). AList.update k a) overrides base"

definition merge_one ::
  "base_coding_agent \<times> 'a executor_config \<Rightarrow> 'a executor_configs \<Rightarrow> 'a executor_configs" where
  "merge_one ov defaults =
     (case map_of defaults (fst ov) of
        Some default_profile \<Rightarrow> AList.update (fst ov) (merge_config default_profile (snd ov)) defaults
      | None \<Rightarrow> AList.update (fst ov) (snd ov) defaults)"

definition merge_with_defaults ::
  "'a executor_configs \<Rightarrow> 'a executor_configs \<Rightarrow> 'a executor_configs" where
  "merge_with_defaults defaults overrides = fold merge_one overrides defaults"

text \<open>\<^verbatim>\<open>compute_overrides\<close>: the scan for illegal deletions, then the differences.\<close>

definition deleted_config :: "base_coding_agent \<Rightarrow> 'a executor_config \<Rightarrow> 'a executor_config \<Rightarrow> profile_error option" where
  "deleted_config e default_profile current_profile =
     find_map (\<lambda>k. if map_of current_profile k = None then Some (CannotDeleteBuiltInConfig e k) else None)
       (map fst default_profile)"

definition illegal_deletion :: "'a executor_configs \<Rightarrow> 'a executor_configs \<Rightarrow> profile_error option" where
  "illegal_deletion defaults current =
     find_map (\<lambda>(e, default_profile).
        case map_of current e of
          None \<Rightarrow> Some (CannotDeleteExecutor e)
        | Some current_profile \<Rightarrow> deleted_config e default_profile current_profile) defaults"

definition override_config :: "'a executor_config \<Rightarrow> 'a executor_config \<Rightarrow> 'a executor_config" where
  "override_config default_profile current_profile =
     filter (\<lambda>(k, a). map_of default_profile k \<noteq> Some a) current_profile"

definition override_entry ::
  "'a executor_configs \<Rightarrow> base_coding_agent \<times> 'a executor_config
   \<Rightarrow> (base_coding_agent \<times> 'a executor_config) option" where
  "override_entry defaults entry =
     (case map_of defaults (fst entry) of
        Some default_profile \<Rightarrow>
          (let oc = override_config default_profile (snd entry) in if oc \<noteq> [] then Some (fst entry, oc) else None)
      | None \<Rightarrow> Some entry)"

definition compute_overrides ::
  "'a executor_configs \<Rightarrow> 'a executor_configs \<Rightarrow> profile_error + 'a executor_configs" where
  "compute_overrides defaults current =
     (case illegal_deletion defaults current of
        Some e \<Rightarrow> Inl e
      | None \<Rightarrow> Inr (List.map_filter (override_entry defaults) current))"

text \<open>\<^verbatim>\<open>validate_merged\<close>.\<close>

definition quoted :: "string \<Rightarrow> string" where
  "quoted s = [CHR 0x27] @ s @ [CHR 0x27]"

definition validate_config ::
  "('a \<Rightarrow> base_coding_agent) \<Rightarrow> base_coding_agent \<times> 'a executor_config \<Rightarrow> profile_error option" where
  "validate_config agent_of entry =
     (case map_of (snd entry) GENIE_VARIANT of
        None \<Rightarrow>
          Some (Validation (''Executor '' @ quoted (agent_name (fst entry))
            @ '' is missing required '' @ quoted ''GENIE'' @ '' configuration''))
      | Some default_config \<Rightarrow>
          if agent_of default_config \<noteq> fst entry
          then Some (Validation (''Executor key '' @ quoted (agent_name (fst entry))
                 @ '' does not match the agent variant '' @ quoted (agent_name (agent_of default_config))))
          else find_map
                 (\<lambda>k. if starts_with ''__'' k
                      then Some (Validation (''Configuration name '' @ quoted k @ '' is reserved (starts with ''
                             @ quoted ''__'' @ '')''))
                      else None)
                 (map fst (snd entry)))"

definition validate_merged :: "('a \<Rightarrow> base_coding_agent) \<Rightarrow> 'a executor_configs \<Rightarrow> profile_error option" where
  "validate_merged agent_of merged = find_map (validate_config agent_of) merged"

text \<open>
  \<^verbatim>\<open>update_cache\<close>: \<open>builtin\<close> is the parsed \<^verbatim>\<open>default_profiles.json\<close>; the result is the new cache.
\<close>

definition update_cache ::
  "('a \<Rightarrow> base_coding_agent) \<Rightarrow> (string \<Rightarrow> string) \<Rightarrow> 'a executor_configs \<Rightarrow> 'a executor_configs
   \<Rightarrow> profile_error + 'a executor_configs" where
  "update_cache agent_of screaming builtin current =
     (let defaults = canonicalise screaming builtin
      in case compute_overrides defaults (canonicalise screaming current) of
           Inl e \<Rightarrow> Inl e
         | Inr overrides \<Rightarrow>
             (let merged = merge_with_defaults defaults overrides
              in case validate_merged agent_of merged of
                   Some e \<Rightarrow> Inl e
                 | None \<Rightarrow> Inr merged))"

definition get_coding_agent :: "'a executor_configs \<Rightarrow> executor_profile_id \<Rightarrow> 'a option" where
  "get_coding_agent cs p =
     Option.bind (map_of cs (executor p))
       (\<lambda>c. get_variant c (case variant p of Some v \<Rightarrow> v | None \<Rightarrow> GENIE_VARIANT))"

text \<open>\<open>None\<close> is the panic of \<^verbatim>\<open>expect("No GENIE variant found")\<close>.\<close>

definition get_coding_agent_or_default :: "'a executor_configs \<Rightarrow> executor_profile_id \<Rightarrow> 'a option" where
  "get_coding_agent_or_default cs p =
     (case get_coding_agent cs p of
        Some a \<Rightarrow> Some a
      | None \<Rightarrow> get_coding_agent cs (p\<lparr>variant := Some GENIE_VARIANT\<rparr>))"

definition get_recommended_executor_profile ::
  "('a \<Rightarrow> bool) \<Rightarrow> 'a executor_configs \<Rightarrow> profile_error + executor_profile_id" where
  "get_recommended_executor_profile available cs =
     (case find (\<lambda>e. case get_coding_agent cs (new_profile_id e) of Some a \<Rightarrow> available a | None \<Rightarrow> False)
             (map fst cs) of
        Some e \<Rightarrow> Inr (new_profile_id e)
      | None \<Rightarrow> Inl NoAvailableExecutorProfile)"


subsection \<open>Lookups in merged and overriding configurations\<close>

abbreviation dkeys :: "('k \<times> 'v) list \<Rightarrow> bool" where
  "dkeys xs \<equiv> distinct (map fst xs)"

definition wf_configs :: "'a executor_configs \<Rightarrow> bool" where
  "wf_configs cs \<longleftrightarrow> dkeys cs \<and> list_all (\<lambda>(_, c). dkeys c) cs"

lemma map_of_merge_config:
  "dkeys ov \<Longrightarrow>
   map_of (merge_config base ov) k = (case map_of ov k of None \<Rightarrow> map_of base k | Some a \<Rightarrow> Some a)"
  unfolding merge_config_def
proof (induction ov arbitrary: base)
  case (Cons x ov)
  obtain k' a where x: "x = (k', a)" by fastforce
  with Cons.prems have "map_of ov k' = None" by (simp add: map_of_eq_None_iff)
  with Cons x show ?case by (auto simp: update_conv' split: option.split)
qed simp

lemma map_of_merge_with_defaults:
  "dkeys ov \<Longrightarrow>
   map_of (merge_with_defaults defaults ov) e =
     (case map_of ov e of
        None \<Rightarrow> map_of defaults e
      | Some oc \<Rightarrow> (case map_of defaults e of Some dp \<Rightarrow> Some (merge_config dp oc) | None \<Rightarrow> Some oc))"
  unfolding merge_with_defaults_def
proof (induction ov arbitrary: defaults)
  case (Cons x ov)
  obtain e' c where x: "x = (e', c)" by fastforce
  with Cons.prems have "map_of ov e' = None" by (simp add: map_of_eq_None_iff)
  moreover have "map_of (merge_one x defaults) =
      (map_of defaults)(e' \<mapsto> (case map_of defaults e' of Some dp \<Rightarrow> merge_config dp c | None \<Rightarrow> c))"
    by (simp add: merge_one_def x update_conv' split: option.split)
  ultimately show ?case using Cons x by (auto split: option.split)
qed simp

lemma map_of_map_filter:
  assumes "dkeys xs" and "\<And>k v k' v'. g (k, v) = Some (k', v') \<Longrightarrow> k' = k"
  shows "map_of (List.map_filter g xs) k = Option.bind (map_of xs k) (\<lambda>v. map_option snd (g (k, v)))"
  using assms(1)
proof (induction xs)
  case Nil
  then show ?case by (simp add: List.map_filter_def)
next
  case (Cons x xs)
  obtain k0 v0 where x: "x = (k0, v0)" by fastforce
  with Cons.prems have notin: "map_of xs k0 = None" by (simp add: map_of_eq_None_iff)
  show ?case
  proof (cases "g x")
    case None
    with Cons x notin show ?thesis by (auto simp: List.map_filter_def)
  next
    case (Some y)
    obtain k1 v1 where y: "y = (k1, v1)" by fastforce
    with Some x assms(2) have "k1 = k0" by blast
    with Some Cons x y notin show ?thesis by (auto simp: List.map_filter_def)
  qed
qed

lemma map_of_override_config:
  "dkeys cp \<Longrightarrow>
   map_of (override_config dp cp) k =
     (case map_of cp k of None \<Rightarrow> None | Some a \<Rightarrow> if map_of dp k = Some a then None else Some a)"
proof (induction cp)
  case (Cons x cp)
  then show ?case
    by (cases x) (auto simp: override_config_def map_of_eq_None_iff split: option.splits dest: map_of_SomeD)
qed (simp add: override_config_def)

lemma dkeys_override_config: "dkeys cp \<Longrightarrow> dkeys (override_config dp cp)"
  unfolding override_config_def by (rule distinct_map_filter)

lemma override_entry_key: "override_entry defaults (k, v) = Some (k', v') \<Longrightarrow> k' = k"
  by (auto simp: override_entry_def Let_def split: option.splits if_splits)

lemma dkeys_map_filter:
  assumes "dkeys xs" and "\<And>k v k' v'. g (k, v) = Some (k', v') \<Longrightarrow> k' = k"
  shows "dkeys (List.map_filter g xs)"
  using assms(1)
proof (induction xs)
  case (Cons x xs)
  have sub: "fst ` set (List.map_filter g xs) \<subseteq> fst ` set xs"
    using assms(2) by (force simp: List.map_filter_def)
  obtain k0 v0 where x: "x = (k0, v0)" by fastforce
  show ?case
  proof (cases "g x")
    case (Some y)
    obtain k1 v1 where y: "y = (k1, v1)" by fastforce
    with Some x assms(2) have "k1 = k0" by blast
    moreover have "List.map_filter g (x # xs) = y # List.map_filter g xs"
      using Some by (simp add: List.map_filter_def)
    ultimately show ?thesis using Cons x y sub by auto
  qed (use Cons in \<open>simp add: List.map_filter_def\<close>)
qed (simp add: List.map_filter_def)

lemma no_illegal_deletion:
  assumes "illegal_deletion defaults current = None" and "map_of defaults e = Some dp"
  shows "\<exists>cp. map_of current e = Some cp \<and> (\<forall>k. map_of dp k \<noteq> None \<longrightarrow> map_of cp k \<noteq> None)"
proof -
  from map_of_SomeD [OF assms(2)] assms(1) obtain cp where
    "map_of current e = Some cp" "deleted_config e dp cp = None"
    by (auto simp: illegal_deletion_def find_map_None split: option.splits)
  then show ?thesis
    by (intro exI [of _ cp])
       (auto simp: deleted_config_def find_map_None split: if_splits dest!: map_of_SomeD, force+)
qed

text \<open>Merging the computed overrides into one agent's defaults gives its current configurations.\<close>

lemma merge_override_config:
  assumes "dkeys cp" and "\<forall>k. map_of dp k \<noteq> None \<longrightarrow> map_of cp k \<noteq> None"
  shows "map_of (merge_config dp (override_config dp cp)) = map_of cp"
proof
  fix k
  show "map_of (merge_config dp (override_config dp cp)) k = map_of cp k"
    using assms(2) by (auto simp: map_of_merge_config dkeys_override_config assms(1) map_of_override_config
        split: option.split)
qed

lemma wf_configs_inner: "wf_configs cs \<Longrightarrow> map_of cs e = Some c \<Longrightarrow> dkeys c"
  by (auto simp: wf_configs_def list_all_iff dest!: map_of_SomeD)

lemma override_roundtrip:
  assumes "wf_configs defaults" and "wf_configs current" and "compute_overrides defaults current = Inr ov"
  shows "map_option map_of (map_of (merge_with_defaults defaults ov) e) = map_option map_of (map_of current e)"
proof -
  from assms(3) have leg: "illegal_deletion defaults current = None"
    and ov: "ov = List.map_filter (override_entry defaults) current"
    by (auto simp: compute_overrides_def split: option.splits)
  from assms(2) have dc: "dkeys current" by (simp add: wf_configs_def)
  have dov: "dkeys ov" unfolding ov by (rule dkeys_map_filter [OF dc override_entry_key])
  have mov: "map_of ov e = Option.bind (map_of current e) (\<lambda>c. map_option snd (override_entry defaults (e, c)))"
    unfolding ov by (rule map_of_map_filter [OF dc override_entry_key])
  show ?thesis
  proof (cases "map_of defaults e")
    case None
    then show ?thesis
      by (cases "map_of current e") (simp_all add: map_of_merge_with_defaults dov mov override_entry_def)
  next
    case (Some dp)
    from no_illegal_deletion [OF leg Some] obtain cp where
      cp: "map_of current e = Some cp" "\<forall>k. map_of dp k \<noteq> None \<longrightarrow> map_of cp k \<noteq> None" by blast
    note roundtrip = merge_override_config [OF wf_configs_inner [OF assms(2) cp(1)] cp(2)]
    show ?thesis
    proof (cases "override_config dp cp = []")
      case True
      with roundtrip have "map_of dp = map_of cp" by (simp add: merge_config_def)
      with True Some cp show ?thesis by (simp add: map_of_merge_with_defaults dov mov override_entry_def)
    next
      case False
      with roundtrip Some cp show ?thesis
        by (simp add: map_of_merge_with_defaults dov mov override_entry_def Let_def)
    qed
  qed
qed


subsection \<open>Canonical keys\<close>

lemma delete_key_set: "fst ` set (AList.delete k c) = fst ` set c - {k}"
  using arg_cong [OF delete_keys [of k c], of set] by (simp add: set_removeAll)

lemma replace_key_keys:
  assumes "o' \<in> fst ` set c"
  shows "fst ` set (replace_key (o', n) c) = insert n (fst ` set c - {o'})"
proof -
  from assms obtain a where "map_of c o' = Some a" by (cases "map_of c o'") (auto simp: map_of_eq_None_iff)
  then show ?thesis
    by (auto simp: replace_key_def or_insert_def map_of_eq_None_iff delete_key_set image_Un)
qed

lemma fold_replace_key_keys:
  assumes "distinct (map fst rs)" and "fst ` set rs \<subseteq> fst ` set c" and "fst ` set rs \<inter> snd ` set rs = {}"
  shows "fst ` set (fold replace_key rs c) = (fst ` set c - fst ` set rs) \<union> snd ` set rs"
  using assms
proof (induction rs arbitrary: c)
  case (Cons r rs)
  obtain o' n where r: "r = (o', n)" by fastforce
  with Cons.prems have keys: "fst ` set (replace_key r c) = insert n (fst ` set c - {o'})"
    using replace_key_keys [of o' c n] by auto
  have o': "o' \<notin> fst ` set rs" "fst ` set rs \<subseteq> fst ` set c" "n \<notin> fst ` set rs"
    "fst ` set rs \<inter> snd ` set rs = {}"
    using Cons.prems r by auto
  then have "fst ` set rs \<subseteq> fst ` set (replace_key r c)" unfolding keys by blast
  with Cons.IH [of "replace_key r c"] Cons.prems(1) o'(4) keys
  have "fst ` set (fold replace_key rs (replace_key r c))
      = (insert n (fst ` set c - {o'}) - fst ` set rs) \<union> snd ` set rs" by simp
  with o'(1,3) r show ?case by (simp add: insert_Diff_if) blast
qed simp

lemma replace_key_kept:
  "k \<noteq> o' \<Longrightarrow> map_of c k \<noteq> None \<Longrightarrow> map_of (replace_key (o', n) c) k = map_of c k"
  by (auto simp: replace_key_def or_insert_def delete_conv' map_add_def split: option.split)

lemma fold_replace_key_kept:
  "k \<notin> fst ` set rs \<Longrightarrow> map_of c k \<noteq> None \<Longrightarrow> map_of (fold replace_key rs c) k = map_of c k"
proof (induction rs arbitrary: c)
  case (Cons r rs)
  obtain o' n where r: "r = (o', n)" by fastforce
  with Cons.prems have "map_of (replace_key r c) k = map_of c k" by (intro replace_key_kept [of k o' c n, folded r]) auto
  with Cons show ?case by simp
qed simp


lemma canonicalise_config_keys:
  fixes screaming :: "string \<Rightarrow> string"
  defines "canon \<equiv> canonical_variant_key screaming"
  assumes idem: "\<And>k. canon (canon k) = canon k" and "dkeys c"
  shows "fst ` set (canonicalise_config screaming c) = canon ` fst ` set c"
proof -
  let ?rs = "key_replacements screaming c"
  have fsts: "fst ` set ?rs = {k \<in> fst ` set c. canon k \<noteq> k}"
    and snds: "snd ` set ?rs = canon ` {k \<in> fst ` set c. canon k \<noteq> k}"
    by (force simp: key_replacements_def canon_def)+
  have "distinct (map fst ?rs)"
    using assms(3) by (simp add: key_replacements_def comp_def distinct_map_filter)
  moreover have "fst ` set ?rs \<inter> snd ` set ?rs = {}" unfolding fsts snds using idem by auto
  moreover have "fst ` set ?rs \<subseteq> fst ` set c" unfolding fsts by blast
  ultimately have "fst ` set (canonicalise_config screaming c) = (fst ` set c - fst ` set ?rs) \<union> snd ` set ?rs"
    unfolding canonicalise_config_def by (intro fold_replace_key_keys)
  also have "\<dots> = canon ` fst ` set c" unfolding fsts snds by force
  finally show ?thesis .
qed


section \<open>Properties\<close>

text \<open>
  C4: Editing profiles loses nothing: when the overrides of an edited configuration against
  the built-in one are accepted, merging them back into the built-in configuration gives, for
  every agent and every variant, exactly the edited configuration.
\<close>

theorem profile_overrides_roundtrip:
  assumes "wf_configs defaults" and "wf_configs current" and "compute_overrides defaults current = Inr ov"
  shows "\<forall>e. map_option map_of (map_of (merge_with_defaults defaults ov) e) = map_option map_of (map_of current e)"
  using override_roundtrip [OF assms] by blast

theorem profile_overrides_roundtrip_witness:
  "\<exists>ov. compute_overrides [(Amp, [(GENIE_VARIANT, 1::nat)])] [(Amp, [(GENIE_VARIANT, 2), (''PLAN'', 3)]), (Codex, [])] = Inr ov
     \<and> (\<forall>e. map_option map_of (map_of (merge_with_defaults [(Amp, [(GENIE_VARIANT, 1)])] ov) e)
           = map_option map_of (map_of [(Amp, [(GENIE_VARIANT, 2), (''PLAN'', 3)]), (Codex, [])] e))"
proof -
  let ?d = "[(Amp, [(GENIE_VARIANT, 1::nat)])]" and ?c = "[(Amp, [(GENIE_VARIANT, 2), (''PLAN'', 3)]), (Codex, [])]"
  have "wf_configs ?d" "wf_configs ?c" by (simp_all add: wf_configs_def GENIE_VARIANT_def)
  moreover have "compute_overrides ?d ?c = Inr [(Amp, [(GENIE_VARIANT, 2), (''PLAN'', 3)]), (Codex, [])]"
    by (simp add: compute_overrides_def illegal_deletion_def deleted_config_def override_entry_def
        override_config_def List.map_filter_def GENIE_VARIANT_def)
  ultimately show ?thesis using profile_overrides_roundtrip [of ?d ?c] by blast
qed

text \<open>
  C35: After an accepted update of the profiles, looking up the agent of a known executor never
  panics, whatever variant is asked for, and the default variant of an executor is configured
  for that executor.
\<close>

theorem updated_profiles_never_panic:
  assumes "update_cache agent_of screaming builtin current = Inr merged"
    and "map_of merged (executor p) \<noteq> None"
  shows "get_coding_agent_or_default merged p \<noteq> None
     \<and> (\<exists>a. get_coding_agent merged (to_default_variant p) = Some a \<and> agent_of a = executor p)"
proof -
  from assms(2) obtain c where c: "map_of merged (executor p) = Some c" by blast
  from assms(1) have "validate_merged agent_of merged = None"
    by (auto simp: update_cache_def Let_def split: sum.splits option.splits)
  with map_of_SomeD [OF c] have v: "validate_config agent_of (executor p, c) = None"
    unfolding validate_merged_def find_map_None by blast
  then obtain a where "map_of c GENIE_VARIANT = Some a" "agent_of a = executor p"
    by (auto simp: validate_config_def split: option.splits if_splits)
  with c show ?thesis
    by (auto simp: get_coding_agent_or_default_def get_coding_agent_def get_variant_def to_default_variant_def
        split: option.split)
qed

theorem updated_profiles_never_panic_witness:
  "\<exists>merged. update_cache (\<lambda>_. Amp) id [(Amp, [(''GENIE'', 0::nat)])] [(Amp, [(''GENIE'', 5)])] = Inr merged
     \<and> get_coding_agent_or_default merged (with_variant Amp ''X'') \<noteq> None"
proof -
  have u: "update_cache (\<lambda>_. Amp) id [(Amp, [(''GENIE'', 0::nat)])] [(Amp, [(''GENIE'', 5)])]
      = Inr [(Amp, [(''GENIE'', 5)])]"
    by (simp add: update_cache_def canonicalise_def canonicalise_config_def key_replacements_def
        canonical_variant_key_def eq_ignore_ascii_case_def to_ascii_uppercase_def to_ascii_uppercase_char_def
        GENIE_VARIANT_def compute_overrides_def illegal_deletion_def deleted_config_def override_entry_def
        override_config_def List.map_filter_def merge_with_defaults_def merge_one_def merge_config_def
        validate_merged_def validate_config_def)
  from updated_profiles_never_panic [OF u, of "with_variant Amp ''X''"] u show ?thesis
    by (simp add: with_variant_def)
qed

text \<open>
  Canonicalising the variants of an agent leaves exactly the canonical forms of the keys it
  had, and a variant that was stored under its canonical key keeps its configuration, if the
  key conversion is stable on its own results.
\<close>

theorem canonicalise_config_spec:
  assumes "\<forall>k. canonical_variant_key screaming (canonical_variant_key screaming k) = canonical_variant_key screaming k"
    and "dkeys c"
  shows "fst ` set (canonicalise_config screaming c) = canonical_variant_key screaming ` fst ` set c
     \<and> (\<forall>k a. map_of c k = Some a \<and> canonical_variant_key screaming k = k
           \<longrightarrow> map_of (canonicalise_config screaming c) k = Some a)"
proof
  show "fst ` set (canonicalise_config screaming c) = canonical_variant_key screaming ` fst ` set c"
    using assms by (intro canonicalise_config_keys) auto
  have "canonical_variant_key screaming k = k \<Longrightarrow> k \<notin> fst ` set (key_replacements screaming c)" for k
    by (auto simp: key_replacements_def)
  then have "map_of c k = Some a \<Longrightarrow> canonical_variant_key screaming k = k
      \<Longrightarrow> map_of (canonicalise_config screaming c) k = Some a" for k a
    using fold_replace_key_kept [of k "key_replacements screaming c" c]
    by (simp add: canonicalise_config_def)
  then show "\<forall>k a. map_of c k = Some a \<and> canonical_variant_key screaming k = k
      \<longrightarrow> map_of (canonicalise_config screaming c) k = Some a" by blast
qed

lemma to_ascii_uppercase_char_idem: "to_ascii_uppercase_char (to_ascii_uppercase_char c) = to_ascii_uppercase_char c"
proof (cases "97 \<le> (of_char c :: nat) \<and> (of_char c :: nat) \<le> 122")
  case True
  define n where "n = (of_char c :: nat) - 32"
  have up: "to_ascii_uppercase_char c = char_of n"
    using True by (simp add: to_ascii_uppercase_char_def n_def)
  have "n < 97" using True by (auto simp: n_def)
  then have "(of_char (char_of n :: char) :: nat) < 97" by (simp only: of_char_of)
  then show ?thesis unfolding up by (simp only: to_ascii_uppercase_char_def not_le [symmetric] simp_thms if_False)
next
  case False
  then show ?thesis by (simp only: to_ascii_uppercase_char_def if_False)
qed

lemma to_ascii_uppercase_idem: "to_ascii_uppercase (to_ascii_uppercase s) = to_ascii_uppercase s"
  by (simp add: to_ascii_uppercase_def to_ascii_uppercase_char_idem)

theorem canonicalise_config_spec_witness:
  "fst ` set (canonicalise_config to_ascii_uppercase [(''PLAN'', 1::nat), (''default'', 2)])
     = canonical_variant_key to_ascii_uppercase ` {''PLAN'', ''default''}
   \<and> map_of (canonicalise_config to_ascii_uppercase [(''PLAN'', 1::nat), (''default'', 2)]) ''PLAN'' = Some 1"
proof -
  have stable: "\<forall>k. canonical_variant_key to_ascii_uppercase (canonical_variant_key to_ascii_uppercase k)
      = canonical_variant_key to_ascii_uppercase k"
    by (auto simp: canonical_variant_key_def eq_ignore_ascii_case_def GENIE_VARIANT_def to_ascii_uppercase_idem)
  have "canonical_variant_key to_ascii_uppercase ''PLAN'' = ''PLAN''" by code_simp
  moreover have "dkeys [(''PLAN'', 1::nat), (''default'', 2)]" by simp
  note canonicalise_config_spec [OF stable this]
  ultimately show ?thesis by simp
qed

text \<open>
  Distinct executor profiles have distinct cache keys, and the stored names of the agents,
  in the old kebab case too, are read back as the same agent.
\<close>

theorem profile_names_faithful:
  "(cache_key p = cache_key q \<longleftrightarrow> p = q)
   \<and> agent_from_str (agent_name a) = Some a
   \<and> de_base_coding_agent_kebab (agent_name a) = Some a"
proof -
  have "cache_key p = cache_key q \<Longrightarrow> p = q"
  proof -
    assume eq: "cache_key p = cache_key q"
    have colon: "variant r = None \<longleftrightarrow> CHR '':'' \<notin> set (cache_key r)" for r :: executor_profile_id
      by (auto simp: cache_key_def agent_name_no_colon split: option.split)
    from eq colon [of p] colon [of q] have "variant p = None \<longleftrightarrow> variant q = None" by simp
    then show "p = q"
      using eq append_sep_inject [OF agent_name_no_colon agent_name_no_colon]
      by (auto simp: cache_key_def agent_name_inject split: option.splits)
  qed
  moreover have "de_base_coding_agent_kebab (agent_name a) = Some a"
    by (cases a) (simp_all add: de_base_coding_agent_kebab_def to_ascii_uppercase_def to_ascii_uppercase_char_def
        agent_from_str_def all_agents_def)
  ultimately show ?thesis by (auto simp: agent_from_str_name)
qed

end
