(* ===== verification/Sql_Tables.thy ===== *)
theory Sql_Tables
  imports Prelude "HOL-Library.Product_Lexorder"
begin

text \<open>
  The part of SQL the models under \<^verbatim>\<open>crates/db/src/models\<close> use.  A table is the list of its rows
  in insertion order.  \<open>update_where\<close>, \<open>delete_where\<close> and \<open>rows_affected\<close> are the three
  statements, \<open>lookup\<close> is \<^verbatim>\<open>fetch_optional\<close> of a query by key, \<open>order_by_asc\<close> and \<open>order_by_desc\<close>
  are the two orders and \<open>latest\<close> is \<^verbatim>\<open>ORDER BY k DESC LIMIT 1\<close>.  SQL leaves the order of rows
  with equal keys open; here the later row is the later one.

  Timestamps are integers (seconds where the code computes with hours), so the textual formats
  in which the code stores them do not matter.  The errors are those that constraints and the
  code's own checks produce; an unavailable database is not modelled.
\<close>

datatype sqlx_error =
    RowNotFound
  | Protocol string
  | UniqueViolation
  | ForeignKeyViolation
  | CheckViolation

definition update_where :: "('r \<Rightarrow> bool) \<Rightarrow> ('r \<Rightarrow> 'r) \<Rightarrow> 'r list \<Rightarrow> 'r list" where
  "update_where P f t = map (\<lambda>r. if P r then f r else r) t"

definition delete_where :: "('r \<Rightarrow> bool) \<Rightarrow> 'r list \<Rightarrow> 'r list" where
  "delete_where P t = filter (\<lambda>r. \<not> P r) t"

definition rows_affected :: "('r \<Rightarrow> bool) \<Rightarrow> 'r list \<Rightarrow> nat" where
  "rows_affected P t = length (filter P t)"

definition lookup :: "('r \<Rightarrow> 'k) \<Rightarrow> 'k \<Rightarrow> 'r list \<Rightarrow> 'r option" where
  "lookup key k t = find (\<lambda>r. key r = k) t"

definition order_by_asc :: "('r \<Rightarrow> 'k::linorder) \<Rightarrow> 'r list \<Rightarrow> 'r list" where
  "order_by_asc key t = sort_key key t"

definition order_by_desc :: "('r \<Rightarrow> 'k::linorder) \<Rightarrow> 'r list \<Rightarrow> 'r list" where
  "order_by_desc key t = rev (sort_key key t)"

definition limit_1 :: "'r list \<Rightarrow> 'r option" where
  "limit_1 t = (case t of [] \<Rightarrow> None | r # _ \<Rightarrow> Some r)"

definition latest :: "('r \<Rightarrow> 'k::linorder) \<Rightarrow> 'r list \<Rightarrow> 'r option" where
  "latest key t = limit_1 (order_by_desc key t)"

definition unique_by :: "('r \<Rightarrow> 'k) \<Rightarrow> 'r list \<Rightarrow> bool" where
  "unique_by key t = distinct (map key t)"

text \<open>\<^verbatim>\<open>fetch_one\<close>, and \<^verbatim>\<open>ok_or(RowNotFound)\<close>.\<close>

definition ok_or :: "'e \<Rightarrow> 'a option \<Rightarrow> 'e + 'a" where
  "ok_or e r = (case r of None \<Rightarrow> Inl e | Some x \<Rightarrow> Inr x)"

definition bind_result :: "'e + 'a \<Rightarrow> ('a \<Rightarrow> 'e + 'b) \<Rightarrow> 'e + 'b" where
  "bind_result r f = (case r of Inl e \<Rightarrow> Inl e | Inr x \<Rightarrow> f x)"

lemma bind_result_simps [simp]:
  "bind_result (Inl e) f = Inl e"
  "bind_result (Inr x) f = f x"
  by (simp_all add: bind_result_def)

lemma ok_or_simps [simp]:
  "ok_or e None = Inl e"
  "ok_or e (Some x) = Inr x"
  by (simp_all add: ok_or_def)

lemma ok_or_Inr [simp]: "ok_or e r = Inr x \<longleftrightarrow> r = Some x"
  by (cases r) simp_all


section \<open>Statements\<close>

lemma update_where_simps [simp]:
  "update_where P f [] = []"
  "update_where P f (r # t) = (if P r then f r else r) # update_where P f t"
  "update_where P f (s @ t) = update_where P f s @ update_where P f t"
  "length (update_where P f t) = length t"
  by (simp_all add: update_where_def)

lemma set_update_where: "set (update_where P f t) = (\<lambda>r. if P r then f r else r) ` set t"
  by (simp add: update_where_def)

lemma update_where_none: "\<forall>r \<in> set t. \<not> P r \<Longrightarrow> update_where P f t = t"
  by (simp add: update_where_def map_idI)

lemma delete_where_simps [simp]:
  "delete_where P [] = []"
  "delete_where P (s @ t) = delete_where P s @ delete_where P t"
  "set (delete_where P t) = {r \<in> set t. \<not> P r}"
  by (simp_all add: delete_where_def)

lemma rows_affected_pos: "0 < rows_affected P t \<longleftrightarrow> (\<exists>r \<in> set t. P r)"
  by (auto simp: rows_affected_def filter_empty_conv)

lemma rows_affected_zero: "rows_affected P t = 0 \<longleftrightarrow> (\<forall>r \<in> set t. \<not> P r)"
  by (auto simp: rows_affected_def filter_empty_conv)

lemma lookup_Some: "lookup key k t = Some r \<Longrightarrow> r \<in> set t \<and> key r = k"
  by (auto simp: lookup_def find_Some_iff)

lemma lookup_None: "lookup key k t = None \<longleftrightarrow> k \<notin> key ` set t"
  by (auto simp: lookup_def find_None_iff)

lemma lookup_simps [simp]:
  "lookup key k [] = None"
  "lookup key k (r # t) = (if key r = k then Some r else lookup key k t)"
  by (simp_all add: lookup_def)

lemma lookup_append: "lookup key k (s @ t) = (case lookup key k s of None \<Rightarrow> lookup key k t | Some r \<Rightarrow> Some r)"
  by (induction s) simp_all

lemma lookup_unique: "unique_by key t \<Longrightarrow> r \<in> set t \<Longrightarrow> lookup key (key r) t = Some r"
  by (induction t) (auto simp: unique_by_def)

lemma unique_by_Nil [simp]: "unique_by key []"
  by (simp add: unique_by_def)

lemma set_order_by [simp]: "set (order_by_asc key t) = set t" "set (order_by_desc key t) = set t"
  by (simp_all add: order_by_asc_def order_by_desc_def)

lemma latest_None [simp]: "latest key t = None \<longleftrightarrow> t = []"
  by (metis (no_types, lifting) latest_def limit_1_def list.case_eq_if option.distinct(1) set_empty set_order_by(2))

lemma latest_Some:
  assumes "latest key t = Some r"
  shows "r \<in> set t \<and> (\<forall>x \<in> set t. key x \<le> key r)"
proof -
  from assms obtain rs where eq: "rev (sort_key key t) = r # rs"
    by (auto simp: latest_def limit_1_def order_by_desc_def split: list.splits)
  then have s: "sort_key key t = rev rs @ [r]" by (metis rev_rev_ident rev.simps(2))
  have "set t = set (rev rs @ [r])" by (metis s set_sort)
  moreover have "sorted (map key (rev rs @ [r]))" by (metis s sorted_sort_key)
  ultimately show ?thesis by (auto simp: sorted_append)
qed

lemma insort_key_snoc: "key x \<le> key r \<Longrightarrow> insort_key key x (ys @ [r]) = insort_key key x ys @ [r]"
  by (induction ys) auto

lemma sort_key_snoc: "\<forall>x \<in> set t. key x \<le> key r \<Longrightarrow> sort_key key (t @ [r]) = sort_key key t @ [r]"
  by (induction t) (auto simp: insort_key_snoc)

lemma latest_snoc: "\<forall>x \<in> set t. key x \<le> key r \<Longrightarrow> latest key (t @ [r]) = Some r"
  by (simp add: latest_def order_by_desc_def limit_1_def sort_key_snoc)


section \<open>Tables with a key\<close>

text \<open>
  A table whose rows have a key that none of the code's updates changes.  What the code relies
  on of such a table: a row is found after its insertion, an update reaches exactly the rows it
  selects, and uniqueness of the key is kept by every statement.
\<close>

locale keyed_table =
  fixes key :: "'r \<Rightarrow> 'k"
    and writes :: "('r \<Rightarrow> 'r) set"
  assumes key_write: "f \<in> writes \<Longrightarrow> key (f r) = key r"
begin

lemma lookup_insert: "lookup key (key r) t = None \<Longrightarrow> lookup key (key r) (t @ [r]) = Some r"
  by (simp add: lookup_append)

lemma lookup_insert_other: "key r \<noteq> k \<Longrightarrow> lookup key k (t @ [r]) = lookup key k t"
  by (simp add: lookup_append split: option.split)

lemma lookup_update:
  "f \<in> writes \<Longrightarrow>
   lookup key k (update_where P f t) = map_option (\<lambda>r. if P r then f r else r) (lookup key k t)"
  by (induction t) (auto simp: key_write)

lemma unique_insert: "unique_by key t \<Longrightarrow> lookup key (key r) t = None \<Longrightarrow> unique_by key (t @ [r])"
  by (auto simp: unique_by_def lookup_None)

lemma map_key_update: "f \<in> writes \<Longrightarrow> map key (update_where P f t) = map key t"
  by (induction t) (simp_all add: key_write)

lemma unique_update: "f \<in> writes \<Longrightarrow> unique_by key t \<Longrightarrow> unique_by key (update_where P f t)"
  by (simp add: unique_by_def map_key_update)

lemma unique_delete: "unique_by key t \<Longrightarrow> unique_by key (delete_where P t)"
  by (simp add: unique_by_def delete_where_def distinct_map_filter)

lemma lookup_delete:
  "unique_by key t \<Longrightarrow>
   lookup key k (delete_where P t) = (case lookup key k t of None \<Rightarrow> None | Some r \<Rightarrow> if P r then None else Some r)"
proof (induction t)
  case (Cons r t)
  moreover have "lookup key (key r) (delete_where P t) = None" "lookup key (key r) t = None"
    using Cons.prems by (auto simp: unique_by_def lookup_None)
  ultimately show ?case by (auto simp: delete_where_def unique_by_def)
qed simp

end

end
