(* ===== verification/Db_Schema.thy ===== *)
theory Db_Schema
  imports Sql_Tables Executor_Actions
begin

text \<open>
  The rows of the tables behind \<^verbatim>\<open>crates/db/src/models\<close>, as the structs of the code have them,
  and the database as the record of its tables.  Fields carry the usual two-letter alias of
  their table (\<^verbatim>\<open>ta\<close>, \<^verbatim>\<open>ep\<close>, \<^verbatim>\<open>es\<close>) as a prefix.

  Columns with a JSON encoding hold the decoded value.  The foreign keys and \<^verbatim>\<open>CHECK\<close>s of the
  migrations are part of the statements that can violate them.
\<close>

section \<open>Projects and tasks\<close>

record project =
  pj_id :: uuid
  pj_name :: string
  pj_git_repo_path :: string
  pj_setup_script :: "string option"
  pj_dev_script :: "string option"
  pj_cleanup_script :: "string option"
  pj_copy_files :: "string option"
  pj_commit_prompt :: "string option"
  pj_created_at :: datetime
  pj_updated_at :: datetime

datatype task_status = Todo | InProgress | InReview | Done | Cancelled | Agent | Archived

record task =
  tk_id :: uuid
  tk_project_id :: uuid
  tk_title :: string
  tk_description :: "string option"
  tk_status :: task_status
  tk_parent_task_attempt :: "uuid option"
  tk_dev_server_id :: "uuid option"
  tk_created_at :: datetime
  tk_updated_at :: datetime

record task_attempt =
  ta_id :: uuid
  ta_task_id :: uuid
  ta_container_ref :: "string option"
  ta_branch :: string
  ta_target_branch :: string
  ta_executor :: string
  ta_worktree_deleted :: bool
  ta_setup_completed_at :: "datetime option"
  ta_input_tokens :: "int option"
  ta_output_tokens :: "int option"
  ta_cache_creation_tokens :: "int option"
  ta_cache_read_tokens :: "int option"
  ta_created_at :: datetime
  ta_updated_at :: datetime


section \<open>Processes, their logs and sessions\<close>

datatype execution_process_status = Running | Completed | Failed | Killed

datatype run_reason = SetupScript | CleanupScript | CodingAgent | DevServer

datatype executor_action_field = ActionField executor_action | OtherField json

record execution_process =
  ep_id :: uuid
  ep_task_attempt_id :: "uuid option"
  ep_execution_run_id :: "uuid option"
  ep_run_reason :: run_reason
  ep_executor_action :: executor_action_field
  ep_before_head_commit :: "string option"
  ep_after_head_commit :: "string option"
  ep_status :: execution_process_status
  ep_exit_code :: "int option"
  ep_dropped :: bool
  ep_started_at :: datetime
  ep_completed_at :: "datetime option"
  ep_created_at :: datetime
  ep_updated_at :: datetime

record executor_session =
  es_id :: uuid
  es_task_attempt_id :: "uuid option"
  es_execution_process_id :: uuid
  es_session_id :: "string option"
  es_prompt :: "string option"
  es_summary :: "string option"
  es_commit_message :: "string option"
  es_created_at :: datetime
  es_updated_at :: datetime

record execution_process_logs =
  lg_execution_id :: uuid
  lg_logs :: string
  lg_byte_size :: int
  lg_inserted_at :: datetime

record execution_run =
  er_id :: uuid
  er_project_id :: uuid
  er_branch :: string
  er_target_branch :: string
  er_executor :: string
  er_variant :: "string option"
  er_container_ref :: "string option"
  er_prompt :: string
  er_worktree_deleted :: bool
  er_created_at :: datetime
  er_updated_at :: datetime


section \<open>Drafts, merges, images and tags\<close>

datatype draft_type = FollowUp | Retry

record draft =
  dr_id :: uuid
  dr_task_attempt_id :: uuid
  dr_draft_type :: draft_type
  dr_retry_process_id :: "uuid option"
  dr_prompt :: string
  dr_queued :: bool
  dr_sending :: bool
  dr_variant :: "string option"
  dr_image_ids :: "uuid list option"
  dr_created_at :: datetime
  dr_updated_at :: datetime
  dr_version :: int

datatype merge_status = MS_Open | MS_Merged | MS_Closed | MS_Unknown

datatype merge_type = MT_Direct | MT_Pr

record merge_row =
  mg_id :: uuid
  mg_task_attempt_id :: uuid
  mg_merge_type :: merge_type
  mg_merge_commit :: "string option"
  mg_target_branch_name :: string
  mg_pr_number :: "int option"
  mg_pr_url :: "string option"
  mg_pr_status :: "merge_status option"
  mg_pr_merged_at :: "datetime option"
  mg_pr_merge_commit_sha :: "string option"
  mg_created_at :: datetime

record image =
  im_id :: uuid
  im_file_path :: string
  im_original_name :: string
  im_mime_type :: "string option"
  im_size_bytes :: int
  im_hash :: string
  im_created_at :: datetime
  im_updated_at :: datetime

record task_image =
  ti_id :: uuid
  ti_task_id :: uuid
  ti_image_id :: uuid
  ti_created_at :: datetime

record tag =
  tg_id :: uuid
  tg_tag_name :: string
  tg_content :: string
  tg_created_at :: datetime
  tg_updated_at :: datetime


section \<open>The database\<close>

record database =
  projects :: "project list"
  tasks :: "task list"
  task_attempts :: "task_attempt list"
  execution_processes :: "execution_process list"
  executor_sessions :: "executor_session list"
  execution_process_logs :: "execution_process_logs list"
  execution_runs :: "execution_run list"
  drafts :: "draft list"
  merges :: "merge_row list"
  images :: "image list"
  task_images :: "task_image list"
  tags :: "tag list"

definition empty_database :: database where
  "empty_database =
     \<lparr> projects = [], tasks = [], task_attempts = [], execution_processes = [], executor_sessions = [],
       execution_process_logs = [], execution_runs = [], drafts = [], merges = [], images = [],
       task_images = [], tags = [] \<rparr>"

definition exists_row :: "('r \<Rightarrow> 'k) \<Rightarrow> 'k \<Rightarrow> 'r list \<Rightarrow> bool" where
  "exists_row key k t \<longleftrightarrow> lookup key k t \<noteq> None"

definition ref_ok :: "('r \<Rightarrow> 'k) \<Rightarrow> 'k option \<Rightarrow> 'r list \<Rightarrow> bool" where
  "ref_ok key k t \<longleftrightarrow> (case k of None \<Rightarrow> True | Some i \<Rightarrow> exists_row key i t)"

lemma exists_row_iff: "exists_row key k t \<longleftrightarrow> k \<in> key ` set t"
  by (auto simp: exists_row_def lookup_None)

end
