(* ===== verification/Task_Models.thy ===== *)
theory Task_Models
  imports Db_Schema
begin

text \<open>
  Projects, tasks, task attempts and execution runs:
  \<^verbatim>\<open>crates/db/src/models/project.rs\<close>, \<^verbatim>\<open>task.rs\<close>, \<^verbatim>\<open>task_attempt.rs\<close> and \<^verbatim>\<open>execution_run.rs\<close>.

  A function \<open>task_create\<close> models \<^verbatim>\<open>Task::create\<close>, and so on.  Fresh identifiers and the current
  time are arguments.  Foreign keys with \<^verbatim>\<open>ON DELETE CASCADE\<close> and \<^verbatim>\<open>SET NULL\<close> are written out in
  the functions \<open>delete_processes\<close> to \<open>delete_projects\<close>.
\<close>

section \<open>Cascading deletes\<close>

definition delete_processes :: "(execution_process \<Rightarrow> bool) \<Rightarrow> database \<Rightarrow> database" where
  "delete_processes P db =
     (let gone = map ep_id (filter P (execution_processes db))
      in db\<lparr>execution_processes := delete_where P (execution_processes db),
            executor_sessions := delete_where (\<lambda>s. es_execution_process_id s \<in> set gone) (executor_sessions db),
            execution_process_logs := delete_where (\<lambda>l. lg_execution_id l \<in> set gone) (execution_process_logs db),
            drafts := delete_where (\<lambda>d. dr_retry_process_id d \<in> Some ` set gone) (drafts db)\<rparr>)"

definition delete_attempts :: "(task_attempt \<Rightarrow> bool) \<Rightarrow> database \<Rightarrow> database" where
  "delete_attempts P db =
     (let gone = map ta_id (filter P (task_attempts db));
          db1 = delete_processes (\<lambda>p. ep_task_attempt_id p \<in> Some ` set gone) db
      in db1\<lparr>task_attempts := delete_where (\<lambda>a. ta_id a \<in> set gone) (task_attempts db1),
             executor_sessions := delete_where (\<lambda>s. es_task_attempt_id s \<in> Some ` set gone) (executor_sessions db1),
             drafts := delete_where (\<lambda>d. dr_task_attempt_id d \<in> set gone) (drafts db1),
             merges := delete_where (\<lambda>m. mg_task_attempt_id m \<in> set gone) (merges db1),
             tasks := update_where (\<lambda>t. tk_parent_task_attempt t \<in> Some ` set gone)
                        (\<lambda>t. t\<lparr>tk_parent_task_attempt := None\<rparr>) (tasks db1)\<rparr>)"

definition delete_tasks :: "(task \<Rightarrow> bool) \<Rightarrow> database \<Rightarrow> database" where
  "delete_tasks P db =
     (let gone = map tk_id (filter P (tasks db));
          db1 = delete_attempts (\<lambda>a. ta_task_id a \<in> set gone) db
      in db1\<lparr>tasks := delete_where (\<lambda>t. tk_id t \<in> set gone) (tasks db1),
             task_images := delete_where (\<lambda>i. ti_task_id i \<in> set gone) (task_images db1)\<rparr>)"

definition delete_runs :: "(execution_run \<Rightarrow> bool) \<Rightarrow> database \<Rightarrow> database" where
  "delete_runs P db =
     (let gone = map er_id (filter P (execution_runs db));
          db1 = delete_processes (\<lambda>p. ep_execution_run_id p \<in> Some ` set gone) db
      in db1\<lparr>execution_runs := delete_where (\<lambda>r. er_id r \<in> set gone) (execution_runs db1)\<rparr>)"

definition delete_projects :: "(project \<Rightarrow> bool) \<Rightarrow> database \<Rightarrow> database" where
  "delete_projects P db =
     (let gone = map pj_id (filter P (projects db));
          db1 = delete_runs (\<lambda>r. er_project_id r \<in> set gone) (delete_tasks (\<lambda>t. tk_project_id t \<in> set gone) db)
      in db1\<lparr>projects := delete_where (\<lambda>p. pj_id p \<in> set gone) (projects db1)\<rparr>)"


section \<open>Projects\<close>

record create_project =
  cp_name :: string
  cp_git_repo_path :: string
  cp_use_existing_repo :: bool
  cp_setup_script :: "string option"
  cp_dev_script :: "string option"
  cp_cleanup_script :: "string option"
  cp_copy_files :: "string option"
  cp_commit_prompt :: "string option"

definition project_count :: "database \<Rightarrow> nat" where
  "project_count db = length (projects db)"

definition project_find_all :: "database \<Rightarrow> project list" where
  "project_find_all db = order_by_desc pj_created_at (projects db)"

definition project_find_by_id :: "database \<Rightarrow> uuid \<Rightarrow> project option" where
  "project_find_by_id db i = lookup pj_id i (projects db)"

definition project_find_by_git_repo_path :: "database \<Rightarrow> string \<Rightarrow> project option" where
  "project_find_by_git_repo_path db path = find (\<lambda>p. pj_git_repo_path p = path) (projects db)"

definition project_find_by_git_repo_path_excluding_id :: "database \<Rightarrow> string \<Rightarrow> uuid \<Rightarrow> project option" where
  "project_find_by_git_repo_path_excluding_id db path exclude_id =
     find (\<lambda>p. pj_git_repo_path p = path \<and> pj_id p \<noteq> exclude_id) (projects db)"

text \<open>
  \<^verbatim>\<open>find_most_active\<close>: the \<^verbatim>\<open>ORDER BY\<close> is inside the \<^verbatim>\<open>IN\<close> subquery, where it has no effect on the
  rows of the outer query, which come in table order.
\<close>

definition project_find_most_active :: "database \<Rightarrow> nat \<Rightarrow> project list" where
  "project_find_most_active db limit =
     take limit
       (filter (\<lambda>p. \<exists>t \<in> set (tasks db). tk_project_id t = pj_id p
                     \<and> (\<exists>a \<in> set (task_attempts db). ta_task_id a = tk_id t)) (projects db))"

definition project_create ::
  "database \<Rightarrow> create_project \<Rightarrow> uuid \<Rightarrow> datetime \<Rightarrow> sqlx_error + project \<times> database" where
  "project_create db data project_id now =
     (let p = \<lparr> pj_id = project_id, pj_name = cp_name data, pj_git_repo_path = cp_git_repo_path data,
                pj_setup_script = cp_setup_script data, pj_dev_script = cp_dev_script data,
                pj_cleanup_script = cp_cleanup_script data, pj_copy_files = cp_copy_files data,
                pj_commit_prompt = cp_commit_prompt data, pj_created_at = now, pj_updated_at = now \<rparr>
      in if exists_row pj_id project_id (projects db)
            \<or> exists_row pj_git_repo_path (cp_git_repo_path data) (projects db) then Inl UniqueViolation
         else Inr (p, db\<lparr>projects := projects db @ [p]\<rparr>))"

definition set_project ::
  "string \<Rightarrow> string \<Rightarrow> string option \<Rightarrow> string option \<Rightarrow> string option \<Rightarrow> string option \<Rightarrow> string option
   \<Rightarrow> project \<Rightarrow> project" where
  "set_project name path setup dev cleanup copies commit_prompt p =
     p\<lparr>pj_name := name, pj_git_repo_path := path, pj_setup_script := setup, pj_dev_script := dev,
       pj_cleanup_script := cleanup, pj_copy_files := copies, pj_commit_prompt := commit_prompt\<rparr>"

definition project_update ::
  "database \<Rightarrow> uuid \<Rightarrow> string \<Rightarrow> string \<Rightarrow> string option \<Rightarrow> string option \<Rightarrow> string option \<Rightarrow> string option
   \<Rightarrow> string option \<Rightarrow> sqlx_error + project \<times> database" where
  "project_update db i name path setup dev cleanup copies commit_prompt =
     (if project_find_by_git_repo_path_excluding_id db path i \<noteq> None \<and> exists_row pj_id i (projects db)
      then Inl UniqueViolation
      else
        (let t = update_where (\<lambda>p. pj_id p = i) (set_project name path setup dev cleanup copies commit_prompt) (projects db)
         in bind_result (ok_or RowNotFound (lookup pj_id i t)) (\<lambda>p. Inr (p, db\<lparr>projects := t\<rparr>))))"

definition project_delete :: "database \<Rightarrow> uuid \<Rightarrow> nat \<times> database" where
  "project_delete db i =
     (rows_affected (\<lambda>p. pj_id p = i) (projects db), delete_projects (\<lambda>p. pj_id p = i) db)"

definition project_exists :: "database \<Rightarrow> uuid \<Rightarrow> bool" where
  "project_exists db i \<longleftrightarrow> 0 < rows_affected (\<lambda>p. pj_id p = i) (projects db)"


section \<open>Tasks\<close>

record create_task =
  ct_project_id :: uuid
  ct_title :: string
  ct_description :: "string option"
  ct_parent_task_attempt :: "uuid option"
  ct_image_ids :: "uuid list option"

definition from_title_description :: "uuid \<Rightarrow> string \<Rightarrow> string option \<Rightarrow> create_task" where
  "from_title_description project_id title description =
     \<lparr> ct_project_id = project_id, ct_title = title, ct_description = description,
       ct_parent_task_attempt = None, ct_image_ids = None \<rparr>"

definition to_prompt :: "task \<Rightarrow> string" where
  "to_prompt t =
     (case tk_description t of
        Some d \<Rightarrow> if trim d \<noteq> [] then tk_title t @ [newline, newline] @ d else tk_title t
      | None \<Rightarrow> tk_title t)"

definition task_find_by_id :: "database \<Rightarrow> uuid \<Rightarrow> task option" where
  "task_find_by_id db i = lookup tk_id i (tasks db)"

definition task_parent_project :: "database \<Rightarrow> task \<Rightarrow> project option" where
  "task_parent_project db t = project_find_by_id db (tk_project_id t)"

definition task_find_by_id_and_project_id :: "database \<Rightarrow> uuid \<Rightarrow> uuid \<Rightarrow> task option" where
  "task_find_by_id_and_project_id db i pid = find (\<lambda>t. tk_id t = i \<and> tk_project_id t = pid) (tasks db)"

definition task_create_with_status ::
  "database \<Rightarrow> create_task \<Rightarrow> uuid \<Rightarrow> task_status \<Rightarrow> datetime \<Rightarrow> sqlx_error + task \<times> database" where
  "task_create_with_status db data i status now =
     (let t = \<lparr> tk_id = i, tk_project_id = ct_project_id data, tk_title = ct_title data,
                tk_description = ct_description data, tk_status = status,
                tk_parent_task_attempt = ct_parent_task_attempt data, tk_dev_server_id = None,
                tk_created_at = now, tk_updated_at = now \<rparr>
      in if exists_row tk_id i (tasks db) then Inl UniqueViolation
         else if \<not> exists_row pj_id (ct_project_id data) (projects db)
              \<or> \<not> ref_ok ta_id (ct_parent_task_attempt data) (task_attempts db) then Inl ForeignKeyViolation
         else Inr (t, db\<lparr>tasks := tasks db @ [t]\<rparr>))"

definition task_create :: "database \<Rightarrow> create_task \<Rightarrow> uuid \<Rightarrow> datetime \<Rightarrow> sqlx_error + task \<times> database" where
  "task_create db data i now = task_create_with_status db data i Todo now"

definition set_task :: "string \<Rightarrow> string option \<Rightarrow> task_status \<Rightarrow> uuid option \<Rightarrow> task \<Rightarrow> task" where
  "set_task title description status parent t =
     t\<lparr>tk_title := title, tk_description := description, tk_status := status, tk_parent_task_attempt := parent\<rparr>"

definition task_update ::
  "database \<Rightarrow> uuid \<Rightarrow> uuid \<Rightarrow> string \<Rightarrow> string option \<Rightarrow> task_status \<Rightarrow> uuid option
   \<Rightarrow> sqlx_error + task \<times> database" where
  "task_update db i project_id title description status parent =
     (let P = (\<lambda>t. tk_id t = i \<and> tk_project_id t = project_id);
          t' = update_where P (set_task title description status parent) (tasks db)
      in if (\<exists>t \<in> set (tasks db). P t) \<and> \<not> ref_ok ta_id parent (task_attempts db) then Inl ForeignKeyViolation
         else bind_result (ok_or RowNotFound (find P t')) (\<lambda>t. Inr (t, db\<lparr>tasks := t'\<rparr>)))"

definition set_task_status :: "task_status \<Rightarrow> datetime \<Rightarrow> task \<Rightarrow> task" where
  "set_task_status status now t = t\<lparr>tk_status := status, tk_updated_at := now\<rparr>"

definition task_update_status :: "database \<Rightarrow> uuid \<Rightarrow> task_status \<Rightarrow> datetime \<Rightarrow> database" where
  "task_update_status db i status now =
     db\<lparr>tasks := update_where (\<lambda>t. tk_id t = i) (set_task_status status now) (tasks db)\<rparr>"

definition clear_parent :: "task \<Rightarrow> task" where
  "clear_parent t = t\<lparr>tk_parent_task_attempt := None\<rparr>"

definition nullify_children_by_attempt_id :: "database \<Rightarrow> uuid \<Rightarrow> nat \<times> database" where
  "nullify_children_by_attempt_id db attempt_id =
     (rows_affected (\<lambda>t. tk_parent_task_attempt t = Some attempt_id) (tasks db),
      db\<lparr>tasks := update_where (\<lambda>t. tk_parent_task_attempt t = Some attempt_id) clear_parent (tasks db)\<rparr>)"

definition task_delete :: "database \<Rightarrow> uuid \<Rightarrow> nat \<times> database" where
  "task_delete db i = (rows_affected (\<lambda>t. tk_id t = i) (tasks db), delete_tasks (\<lambda>t. tk_id t = i) db)"

definition task_exists :: "database \<Rightarrow> uuid \<Rightarrow> uuid \<Rightarrow> bool" where
  "task_exists db i project_id \<longleftrightarrow> task_find_by_id_and_project_id db i project_id \<noteq> None"

definition find_children_by_attempt_id :: "database \<Rightarrow> uuid \<Rightarrow> task list" where
  "find_children_by_attempt_id db attempt_id =
     order_by_desc tk_created_at (filter (\<lambda>t. tk_parent_task_attempt t = Some attempt_id) (tasks db))"

record task_with_attempt_status =
  ws_task :: task
  ws_has_in_progress_attempt :: bool
  ws_has_merged_attempt :: bool
  ws_last_attempt_failed :: bool
  ws_executor :: "string option"
  ws_attempt_count :: nat

text \<open>
  The subqueries of \<^verbatim>\<open>find_by_project_id_with_attempt_status\<close>.  The executor of a task without an
  attempt is SQL's \<^verbatim>\<open>NULL\<close>, here \<open>None\<close>.
\<close>

definition attempts_of_task :: "database \<Rightarrow> uuid \<Rightarrow> task_attempt list" where
  "attempts_of_task db i = filter (\<lambda>a. ta_task_id a = i) (task_attempts db)"

definition work_processes_of_task :: "database \<Rightarrow> uuid \<Rightarrow> execution_process list" where
  "work_processes_of_task db i =
     filter (\<lambda>p. (\<exists>a \<in> set (attempts_of_task db i). ep_task_attempt_id p = Some (ta_id a))
                 \<and> ep_run_reason p \<in> {SetupScript, CleanupScript, CodingAgent}) (execution_processes db)"

definition with_attempt_status :: "database \<Rightarrow> task \<Rightarrow> task_with_attempt_status" where
  "with_attempt_status db t =
     \<lparr> ws_task = t,
       ws_has_in_progress_attempt = (\<exists>p \<in> set (work_processes_of_task db (tk_id t)). ep_status p = Running),
       ws_has_merged_attempt = False,
       ws_last_attempt_failed =
         (case latest ep_created_at (work_processes_of_task db (tk_id t)) of
            None \<Rightarrow> False | Some p \<Rightarrow> ep_status p \<in> {Failed, Killed}),
       ws_executor = map_option ta_executor (latest ta_created_at (attempts_of_task db (tk_id t))),
       ws_attempt_count = length (attempts_of_task db (tk_id t)) \<rparr>"

definition find_by_project_id_with_attempt_status :: "database \<Rightarrow> uuid \<Rightarrow> task_with_attempt_status list" where
  "find_by_project_id_with_attempt_status db project_id =
     map (with_attempt_status db) (order_by_desc tk_created_at (filter (\<lambda>t. tk_project_id t = project_id) (tasks db)))"

definition find_by_id_with_attempt_status :: "database \<Rightarrow> uuid \<Rightarrow> task_with_attempt_status option" where
  "find_by_id_with_attempt_status db i = map_option (with_attempt_status db) (task_find_by_id db i)"


section \<open>Task attempts\<close>

datatype task_attempt_error =
    TA_Database sqlx_error
  | TA_TaskNotFound
  | TA_ProjectNotFound

record create_task_attempt =
  ca_executor :: base_coding_agent
  ca_base_branch :: string
  ca_branch :: string

record task_attempt_context =
  tc_task_attempt :: task_attempt
  tc_task :: task
  tc_project :: project

record task_relationships =
  rel_parent_task :: "task option"
  rel_current_attempt :: task_attempt
  rel_children :: "task list"

definition attempt_find_by_id :: "database \<Rightarrow> uuid \<Rightarrow> task_attempt option" where
  "attempt_find_by_id db i = lookup ta_id i (task_attempts db)"

definition attempt_parent_task :: "database \<Rightarrow> task_attempt \<Rightarrow> task option" where
  "attempt_parent_task db a = task_find_by_id db (ta_task_id a)"

definition attempt_fetch_all :: "database \<Rightarrow> uuid option \<Rightarrow> task_attempt list" where
  "attempt_fetch_all db task_id =
     (case task_id of
        Some tid \<Rightarrow> order_by_desc ta_created_at (attempts_of_task db tid)
      | None \<Rightarrow> order_by_desc ta_created_at (task_attempts db))"

text \<open>\<^verbatim>\<open>load_context\<close>: the join validates that the attempt is of the task and the task of the project.\<close>

definition attempt_load_context ::
  "database \<Rightarrow> uuid \<Rightarrow> uuid \<Rightarrow> uuid \<Rightarrow> task_attempt_error + task_attempt_context" where
  "attempt_load_context db attempt_id task_id project_id =
     (let joined =
            find (\<lambda>a. ta_id a = attempt_id \<and> ta_task_id a = task_id
                      \<and> (\<exists>t \<in> set (tasks db). tk_id t = task_id \<and> tk_project_id t = project_id)
                      \<and> exists_row pj_id project_id (projects db)) (task_attempts db)
      in bind_result (ok_or TA_TaskNotFound joined) (\<lambda>a.
         bind_result (ok_or TA_TaskNotFound (task_find_by_id db task_id)) (\<lambda>t.
         bind_result (ok_or TA_ProjectNotFound (project_find_by_id db project_id)) (\<lambda>p.
           Inr \<lparr> tc_task_attempt = a, tc_task = t, tc_project = p \<rparr>))))"

definition set_container_ref :: "string \<Rightarrow> datetime \<Rightarrow> task_attempt \<Rightarrow> task_attempt" where
  "set_container_ref container_ref now a = a\<lparr>ta_container_ref := Some container_ref, ta_updated_at := now\<rparr>"

definition attempt_update_container_ref :: "database \<Rightarrow> uuid \<Rightarrow> string \<Rightarrow> datetime \<Rightarrow> database" where
  "attempt_update_container_ref db i container_ref now =
     db\<lparr>task_attempts := update_where (\<lambda>a. ta_id a = i) (set_container_ref container_ref now) (task_attempts db)\<rparr>"

definition set_token_usage ::
  "int option \<Rightarrow> int option \<Rightarrow> int option \<Rightarrow> int option \<Rightarrow> datetime \<Rightarrow> task_attempt \<Rightarrow> task_attempt" where
  "set_token_usage input output cache_creation cache_read now a =
     a\<lparr>ta_input_tokens := input, ta_output_tokens := output, ta_cache_creation_tokens := cache_creation,
       ta_cache_read_tokens := cache_read, ta_updated_at := now\<rparr>"

definition attempt_update_token_usage ::
  "database \<Rightarrow> uuid \<Rightarrow> int option \<Rightarrow> int option \<Rightarrow> int option \<Rightarrow> int option \<Rightarrow> datetime \<Rightarrow> database" where
  "attempt_update_token_usage db i input output cache_creation cache_read now =
     db\<lparr>task_attempts := update_where (\<lambda>a. ta_id a = i)
          (set_token_usage input output cache_creation cache_read now) (task_attempts db)\<rparr>"

definition set_worktree_deleted :: "datetime \<Rightarrow> task_attempt \<Rightarrow> task_attempt" where
  "set_worktree_deleted now a = a\<lparr>ta_worktree_deleted := True, ta_updated_at := now\<rparr>"

definition attempt_mark_worktree_deleted :: "database \<Rightarrow> uuid \<Rightarrow> datetime \<Rightarrow> database" where
  "attempt_mark_worktree_deleted db i now =
     db\<lparr>task_attempts := update_where (\<lambda>a. ta_id a = i) (set_worktree_deleted now) (task_attempts db)\<rparr>"

definition set_target_branch :: "string \<Rightarrow> datetime \<Rightarrow> task_attempt \<Rightarrow> task_attempt" where
  "set_target_branch branch now a = a\<lparr>ta_target_branch := branch, ta_updated_at := now\<rparr>"

definition attempt_update_target_branch :: "database \<Rightarrow> uuid \<Rightarrow> string \<Rightarrow> datetime \<Rightarrow> database" where
  "attempt_update_target_branch db i branch now =
     db\<lparr>task_attempts := update_where (\<lambda>a. ta_id a = i) (set_target_branch branch now) (task_attempts db)\<rparr>"

text \<open>The join with the attempt's task and project; \<open>None\<close> when either row is missing.\<close>

definition project_of_attempt :: "database \<Rightarrow> task_attempt \<Rightarrow> project option" where
  "project_of_attempt db a = Option.bind (attempt_parent_task db a) (task_parent_project db)"

definition find_by_task_id_with_project :: "database \<Rightarrow> uuid \<Rightarrow> (uuid \<times> string option \<times> string) list" where
  "find_by_task_id_with_project db task_id =
     List.map_filter
       (\<lambda>a. map_option (\<lambda>p. (ta_id a, ta_container_ref a, pj_git_repo_path p)) (project_of_attempt db a))
       (attempts_of_task db task_id)"

definition find_by_worktree_deleted :: "database \<Rightarrow> (uuid \<times> string) list" where
  "find_by_worktree_deleted db =
     List.map_filter (\<lambda>a. map_option (\<lambda>path. (ta_id a, path)) (ta_container_ref a))
       (filter (\<lambda>a. \<not> ta_worktree_deleted a) (task_attempts db))"

definition attempt_container_ref_exists :: "database \<Rightarrow> string \<Rightarrow> bool" where
  "attempt_container_ref_exists db container_ref \<longleftrightarrow>
     (\<exists>a \<in> set (task_attempts db). ta_container_ref a = Some container_ref)"

definition attempt_resolve_container_ref :: "database \<Rightarrow> string \<Rightarrow> sqlx_error + uuid \<times> uuid \<times> uuid" where
  "attempt_resolve_container_ref db container_ref =
     ok_or RowNotFound
       (find_map
          (\<lambda>a. if ta_container_ref a = Some container_ref
               then map_option (\<lambda>t. (ta_id a, tk_id t, tk_project_id t)) (attempt_parent_task db a) else None)
          (task_attempts db))"

text \<open>
  \<^verbatim>\<open>find_expired_for_cleanup\<close>.  \<open>sql_not_in\<close> is SQL's \<^verbatim>\<open>x NOT IN (...)\<close> as a condition: it does not
  hold when the list has a \<^verbatim>\<open>NULL\<close>.  A timestamp counts seconds.
\<close>

definition sql_not_in :: "'a \<Rightarrow> 'a option list \<Rightarrow> bool" where
  "sql_not_in x xs \<longleftrightarrow> Some x \<notin> set xs \<and> None \<notin> set xs"

definition completions_of_attempt :: "database \<Rightarrow> uuid \<Rightarrow> datetime list" where
  "completions_of_attempt db i =
     List.map_filter ep_completed_at (filter (\<lambda>p. ep_task_attempt_id p = Some i) (execution_processes db))"

definition last_activity :: "database \<Rightarrow> task_attempt \<Rightarrow> datetime" where
  "last_activity db a =
     (case completions_of_attempt db (ta_id a) of [] \<Rightarrow> ta_updated_at a | c # cs \<Rightarrow> fold max cs c)"

definition unfinished_attempt_ids :: "database \<Rightarrow> uuid option list" where
  "unfinished_attempt_ids db =
     map ep_task_attempt_id (filter (\<lambda>p. ep_completed_at p = None) (execution_processes db))"

definition expired :: "database \<Rightarrow> datetime \<Rightarrow> task_attempt \<Rightarrow> bool" where
  "expired db now a \<longleftrightarrow>
     \<not> ta_worktree_deleted a \<and> sql_not_in (ta_id a) (unfinished_attempt_ids db)
     \<and> now - 72 * 3600 > last_activity db a"

definition find_expired_for_cleanup :: "database \<Rightarrow> datetime \<Rightarrow> (uuid \<times> string \<times> string) list" where
  "find_expired_for_cleanup db now =
     List.map_filter
       (\<lambda>a. case (ta_container_ref a, project_of_attempt db a) of
              (Some path, Some p) \<Rightarrow> Some (ta_id a, path, pj_git_repo_path p)
            | _ \<Rightarrow> None)
       (order_by_asc (last_activity db) (filter (expired db now) (task_attempts db)))"

definition attempt_create ::
  "database \<Rightarrow> create_task_attempt \<Rightarrow> uuid \<Rightarrow> uuid \<Rightarrow> datetime \<Rightarrow> task_attempt_error + task_attempt \<times> database" where
  "attempt_create db data i task_id now =
     (let a = \<lparr> ta_id = i, ta_task_id = task_id, ta_container_ref = None, ta_branch = ca_branch data,
                ta_target_branch = ca_base_branch data, ta_executor = agent_name (ca_executor data),
                ta_worktree_deleted = False, ta_setup_completed_at = None, ta_input_tokens = None,
                ta_output_tokens = None, ta_cache_creation_tokens = None, ta_cache_read_tokens = None,
                ta_created_at = now, ta_updated_at = now \<rparr>
      in if exists_row ta_id i (task_attempts db) then Inl (TA_Database UniqueViolation)
         else if \<not> exists_row tk_id task_id (tasks db) then Inl (TA_Database ForeignKeyViolation)
         else Inr (a, db\<lparr>task_attempts := task_attempts db @ [a]\<rparr>))"

text \<open>\<^verbatim>\<open>find_relationships_for_attempt\<close> of \<^verbatim>\<open>task.rs\<close>.\<close>

definition find_relationships_for_attempt :: "database \<Rightarrow> task_attempt \<Rightarrow> sqlx_error + task_relationships" where
  "find_relationships_for_attempt db a =
     bind_result (ok_or RowNotFound (task_find_by_id db (ta_task_id a))) (\<lambda>current_task.
       let parent_task =
             (case tk_parent_task_attempt current_task of
                None \<Rightarrow> None
              | Some parent_attempt_id \<Rightarrow>
                  (case attempt_find_by_id db parent_attempt_id of
                     None \<Rightarrow> None
                   | Some parent_attempt \<Rightarrow> task_find_by_id db (ta_task_id parent_attempt)))
       in Inr \<lparr> rel_parent_task = parent_task, rel_current_attempt = a,
                rel_children = find_children_by_attempt_id db (ta_id a) \<rparr>)"


section \<open>Execution runs\<close>

datatype execution_run_error =
    ER_Database sqlx_error
  | ER_ExecutionRunNotFound
  | ER_ProjectNotFound

record create_execution_run =
  cr_executor :: base_coding_agent
  cr_variant :: "string option"
  cr_base_branch :: string
  cr_prompt :: string

definition run_find_by_id :: "database \<Rightarrow> uuid \<Rightarrow> execution_run option" where
  "run_find_by_id db i = lookup er_id i (execution_runs db)"

definition run_fetch_all :: "database \<Rightarrow> uuid option \<Rightarrow> execution_run list" where
  "run_fetch_all db project_id =
     (case project_id of
        Some pid \<Rightarrow> order_by_desc er_created_at (filter (\<lambda>r. er_project_id r = pid) (execution_runs db))
      | None \<Rightarrow> order_by_desc er_created_at (execution_runs db))"

definition run_load_context :: "database \<Rightarrow> uuid \<Rightarrow> uuid \<Rightarrow> execution_run_error + execution_run \<times> project" where
  "run_load_context db run_id project_id =
     bind_result
       (ok_or ER_ExecutionRunNotFound
          (find (\<lambda>r. er_id r = run_id \<and> er_project_id r = project_id \<and> exists_row pj_id project_id (projects db))
             (execution_runs db)))
       (\<lambda>r. bind_result (ok_or ER_ProjectNotFound (project_find_by_id db project_id)) (\<lambda>p. Inr (r, p)))"

definition run_create ::
  "database \<Rightarrow> create_execution_run \<Rightarrow> uuid \<Rightarrow> uuid \<Rightarrow> string \<Rightarrow> datetime
   \<Rightarrow> execution_run_error + execution_run \<times> database" where
  "run_create db data i project_id branch now =
     (let r = \<lparr> er_id = i, er_project_id = project_id, er_branch = branch, er_target_branch = cr_base_branch data,
                er_executor = agent_name (cr_executor data), er_variant = cr_variant data, er_container_ref = None,
                er_prompt = cr_prompt data, er_worktree_deleted = False, er_created_at = now, er_updated_at = now \<rparr>
      in if exists_row er_id i (execution_runs db) then Inl (ER_Database UniqueViolation)
         else if \<not> exists_row pj_id project_id (projects db) then Inl (ER_Database ForeignKeyViolation)
         else Inr (r, db\<lparr>execution_runs := execution_runs db @ [r]\<rparr>))"

definition set_run_container_ref :: "string \<Rightarrow> datetime \<Rightarrow> execution_run \<Rightarrow> execution_run" where
  "set_run_container_ref container_ref now r = r\<lparr>er_container_ref := Some container_ref, er_updated_at := now\<rparr>"

definition run_update_container_ref :: "database \<Rightarrow> uuid \<Rightarrow> string \<Rightarrow> datetime \<Rightarrow> database" where
  "run_update_container_ref db i container_ref now =
     db\<lparr>execution_runs := update_where (\<lambda>r. er_id r = i) (set_run_container_ref container_ref now) (execution_runs db)\<rparr>"

definition set_run_worktree_deleted :: "datetime \<Rightarrow> execution_run \<Rightarrow> execution_run" where
  "set_run_worktree_deleted now r = r\<lparr>er_worktree_deleted := True, er_updated_at := now\<rparr>"

definition run_mark_worktree_deleted :: "database \<Rightarrow> uuid \<Rightarrow> datetime \<Rightarrow> database" where
  "run_mark_worktree_deleted db i now =
     db\<lparr>execution_runs := update_where (\<lambda>r. er_id r = i) (set_run_worktree_deleted now) (execution_runs db)\<rparr>"

definition run_container_ref_exists :: "database \<Rightarrow> string \<Rightarrow> bool" where
  "run_container_ref_exists db container_ref \<longleftrightarrow>
     (\<exists>r \<in> set (execution_runs db). er_container_ref r = Some container_ref)"

definition run_resolve_container_ref :: "database \<Rightarrow> string \<Rightarrow> sqlx_error + uuid \<times> uuid" where
  "run_resolve_container_ref db container_ref =
     ok_or RowNotFound
       (map_option (\<lambda>r. (er_id r, er_project_id r))
          (find (\<lambda>r. er_container_ref r = Some container_ref) (execution_runs db)))"

end
