(* ===== verification/Process_Models.thy ===== *)
theory Process_Models
  imports Task_Models
begin

text \<open>
  Execution processes with their sessions and logs: \<^verbatim>\<open>crates/db/src/models/execution_process.rs\<close>,
  \<^verbatim>\<open>executor_session.rs\<close> and \<^verbatim>\<open>execution_process_logs.rs\<close>.

  A process belongs to a task attempt or to an execution run.  The log of a process is a text
  of one JSON message per line; \<open>ser\<close> and \<open>de\<close> stand for serde's encoding and decoding of a message.
\<close>

section \<open>Execution processes\<close>

datatype execution_process_error =
    EP_Database sqlx_error
  | EP_ValidationError string

record create_execution_process =
  ce_task_attempt_id :: "uuid option"
  ce_execution_run_id :: "uuid option"
  ce_executor_action :: executor_action
  ce_run_reason :: run_reason

record execution_context =
  ctx_execution_process :: execution_process
  ctx_task_attempt :: task_attempt
  ctx_task :: task

record missing_before_context =
  mb_id :: uuid
  mb_task_attempt_id :: "uuid option"
  mb_prev_after_head_commit :: "string option"
  mb_target_branch :: string
  mb_git_repo_path :: "string option"

definition process_find_by_id :: "database \<Rightarrow> uuid \<Rightarrow> execution_process option" where
  "process_find_by_id db i = lookup ep_id i (execution_processes db)"

definition processes_of_attempt :: "database \<Rightarrow> uuid \<Rightarrow> execution_process list" where
  "processes_of_attempt db i = filter (\<lambda>p. ep_task_attempt_id p = Some i) (execution_processes db)"

definition boundary_time :: "database \<Rightarrow> uuid \<Rightarrow> datetime option" where
  "boundary_time db boundary_process_id = map_option ep_created_at (process_find_by_id db boundary_process_id)"

text \<open>A comparison with the boundary's time holds only when the boundary exists.\<close>

definition later_than :: "database \<Rightarrow> uuid \<Rightarrow> execution_process \<Rightarrow> bool" where
  "later_than db boundary p \<longleftrightarrow> (case boundary_time db boundary of None \<Rightarrow> False | Some t \<Rightarrow> ep_created_at p > t)"

definition at_or_after :: "database \<Rightarrow> uuid \<Rightarrow> execution_process \<Rightarrow> bool" where
  "at_or_after db boundary p \<longleftrightarrow> (case boundary_time db boundary of None \<Rightarrow> False | Some t \<Rightarrow> ep_created_at p \<ge> t)"

definition earlier_than :: "database \<Rightarrow> uuid \<Rightarrow> execution_process \<Rightarrow> bool" where
  "earlier_than db boundary p \<longleftrightarrow> (case boundary_time db boundary of None \<Rightarrow> False | Some t \<Rightarrow> ep_created_at p < t)"

definition count_later_than :: "database \<Rightarrow> uuid \<Rightarrow> uuid \<Rightarrow> nat" where
  "count_later_than db attempt_id boundary =
     rows_affected (later_than db boundary) (processes_of_attempt db attempt_id)"

definition process_find_by_task_attempt_id :: "database \<Rightarrow> uuid \<Rightarrow> bool \<Rightarrow> execution_process list" where
  "process_find_by_task_attempt_id db attempt_id show_soft_deleted =
     order_by_asc ep_created_at (filter (\<lambda>p. show_soft_deleted \<or> \<not> ep_dropped p) (processes_of_attempt db attempt_id))"

definition find_running :: "database \<Rightarrow> execution_process list" where
  "find_running db = order_by_asc ep_created_at (filter (\<lambda>p. ep_status p = Running) (execution_processes db))"

definition project_id_of_process :: "database \<Rightarrow> execution_process \<Rightarrow> uuid option" where
  "project_id_of_process db p =
     Option.bind (ep_task_attempt_id p) (\<lambda>i.
     Option.bind (attempt_find_by_id db i) (\<lambda>a.
     map_option tk_project_id (attempt_parent_task db a)))"

definition find_running_dev_servers_by_project :: "database \<Rightarrow> uuid \<Rightarrow> execution_process list" where
  "find_running_dev_servers_by_project db project_id =
     order_by_asc ep_created_at
       (filter (\<lambda>p. ep_status p = Running \<and> ep_run_reason p = DevServer
                    \<and> project_id_of_process db p = Some project_id) (execution_processes db))"

text \<open>The join of processes with their sessions, newest process first.\<close>

definition latest_session_id :: "database \<Rightarrow> (execution_process \<Rightarrow> bool) \<Rightarrow> string option" where
  "latest_session_id db P =
     Option.bind
       (latest (ep_created_at \<circ> fst)
          (filter (\<lambda>(p, s). es_execution_process_id s = ep_id p \<and> P p \<and> ep_run_reason p = CodingAgent
                            \<and> \<not> ep_dropped p \<and> es_session_id s \<noteq> None)
             (List.product (execution_processes db) (executor_sessions db))))
       (es_session_id \<circ> snd)"

definition find_latest_session_id_by_task_attempt :: "database \<Rightarrow> uuid \<Rightarrow> string option" where
  "find_latest_session_id_by_task_attempt db attempt_id =
     latest_session_id db (\<lambda>p. ep_task_attempt_id p = Some attempt_id)"

definition find_latest_session_id_by_execution_run :: "database \<Rightarrow> uuid \<Rightarrow> string option" where
  "find_latest_session_id_by_execution_run db run_id =
     latest_session_id db (\<lambda>p. ep_execution_run_id p = Some run_id)"

definition find_latest_by_task_attempt_and_run_reason ::
  "database \<Rightarrow> uuid \<Rightarrow> run_reason \<Rightarrow> execution_process option" where
  "find_latest_by_task_attempt_and_run_reason db attempt_id reason =
     latest ep_created_at
       (filter (\<lambda>p. ep_run_reason p = reason \<and> \<not> ep_dropped p) (processes_of_attempt db attempt_id))"

definition find_latest_by_execution_run_and_run_reason ::
  "database \<Rightarrow> uuid \<Rightarrow> run_reason \<Rightarrow> execution_process option" where
  "find_latest_by_execution_run_and_run_reason db run_id reason =
     latest ep_created_at
       (filter (\<lambda>p. ep_execution_run_id p = Some run_id \<and> ep_run_reason p = reason \<and> \<not> ep_dropped p)
          (execution_processes db))"

definition find_by_execution_run_id :: "database \<Rightarrow> uuid \<Rightarrow> bool \<Rightarrow> execution_process list" where
  "find_by_execution_run_id db run_id show_soft_deleted =
     order_by_asc ep_created_at
       (filter (\<lambda>p. ep_execution_run_id p = Some run_id \<and> (show_soft_deleted \<or> \<not> ep_dropped p))
          (execution_processes db))"

definition process_create ::
  "database \<Rightarrow> create_execution_process \<Rightarrow> uuid \<Rightarrow> string option \<Rightarrow> datetime
   \<Rightarrow> sqlx_error + execution_process \<times> database" where
  "process_create db data process_id before_head_commit now =
     (let p = \<lparr> ep_id = process_id, ep_task_attempt_id = ce_task_attempt_id data,
                ep_execution_run_id = ce_execution_run_id data, ep_run_reason = ce_run_reason data,
                ep_executor_action = ActionField (ce_executor_action data),
                ep_before_head_commit = before_head_commit, ep_after_head_commit = None, ep_status = Running,
                ep_exit_code = None, ep_dropped = False, ep_started_at = now, ep_completed_at = None,
                ep_created_at = now, ep_updated_at = now \<rparr>
      in if ce_task_attempt_id data = None \<and> ce_execution_run_id data = None then Inl CheckViolation
         else if exists_row ep_id process_id (execution_processes db) then Inl UniqueViolation
         else if \<not> ref_ok ta_id (ce_task_attempt_id data) (task_attempts db)
              \<or> \<not> ref_ok er_id (ce_execution_run_id data) (execution_runs db) then Inl ForeignKeyViolation
         else Inr (p, db\<lparr>execution_processes := execution_processes db @ [p]\<rparr>))"

definition was_stopped :: "database \<Rightarrow> uuid \<Rightarrow> bool" where
  "was_stopped db i \<longleftrightarrow>
     (case process_find_by_id db i of
        Some p \<Rightarrow> ep_status p = Killed \<or> ep_status p = Completed
      | None \<Rightarrow> False)"

definition update_processes :: "(execution_process \<Rightarrow> bool) \<Rightarrow> (execution_process \<Rightarrow> execution_process) \<Rightarrow> database \<Rightarrow> database" where
  "update_processes P f db = db\<lparr>execution_processes := update_where P f (execution_processes db)\<rparr>"

definition set_completion ::
  "execution_process_status \<Rightarrow> int option \<Rightarrow> datetime option \<Rightarrow> execution_process \<Rightarrow> execution_process" where
  "set_completion status exit_code completed_at p =
     p\<lparr>ep_status := status, ep_exit_code := exit_code, ep_completed_at := completed_at\<rparr>"

definition update_completion ::
  "database \<Rightarrow> uuid \<Rightarrow> execution_process_status \<Rightarrow> int option \<Rightarrow> datetime \<Rightarrow> database" where
  "update_completion db i status exit_code now =
     update_processes (\<lambda>p. ep_id p = i)
       (set_completion status exit_code (if status = Running then None else Some now)) db"

definition set_after_head_commit :: "string \<Rightarrow> execution_process \<Rightarrow> execution_process" where
  "set_after_head_commit commit p = p\<lparr>ep_after_head_commit := Some commit\<rparr>"

definition update_after_head_commit :: "database \<Rightarrow> uuid \<Rightarrow> string \<Rightarrow> database" where
  "update_after_head_commit db i commit = update_processes (\<lambda>p. ep_id p = i) (set_after_head_commit commit) db"

definition set_before_head_commit :: "string \<Rightarrow> execution_process \<Rightarrow> execution_process" where
  "set_before_head_commit commit p = p\<lparr>ep_before_head_commit := Some commit\<rparr>"

definition update_before_head_commit :: "database \<Rightarrow> uuid \<Rightarrow> string \<Rightarrow> database" where
  "update_before_head_commit db i commit = update_processes (\<lambda>p. ep_id p = i) (set_before_head_commit commit) db"

definition process_delete_by_task_attempt_id :: "database \<Rightarrow> uuid \<Rightarrow> database" where
  "process_delete_by_task_attempt_id db attempt_id = delete_processes (\<lambda>p. ep_task_attempt_id p = Some attempt_id) db"

definition process_executor_action :: "execution_process \<Rightarrow> string + executor_action" where
  "process_executor_action p =
     (case ep_executor_action p of
        ActionField action \<Rightarrow> Inr action
      | OtherField _ \<Rightarrow> Inl ''Executor action is not a valid ExecutorAction JSON object'')"

definition set_dropped :: "execution_process \<Rightarrow> execution_process" where
  "set_dropped p = p\<lparr>ep_dropped := True\<rparr>"

definition set_restore_boundary :: "database \<Rightarrow> uuid \<Rightarrow> uuid \<Rightarrow> database" where
  "set_restore_boundary db attempt_id boundary =
     update_processes
       (\<lambda>p. ep_task_attempt_id p = Some attempt_id \<and> later_than db boundary p \<and> \<not> ep_dropped p) set_dropped db"

definition drop_at_and_after :: "database \<Rightarrow> uuid \<Rightarrow> uuid \<Rightarrow> nat \<times> database" where
  "drop_at_and_after db attempt_id boundary =
     (let P = (\<lambda>p. ep_task_attempt_id p = Some attempt_id \<and> at_or_after db boundary p \<and> \<not> ep_dropped p)
      in (rows_affected P (execution_processes db), update_processes P set_dropped db))"

text \<open>The outer option is the absence of a row, the inner one a \<^verbatim>\<open>NULL\<close> in the column.\<close>

definition find_prev_after_head_commit :: "database \<Rightarrow> uuid \<Rightarrow> uuid \<Rightarrow> string option option" where
  "find_prev_after_head_commit db attempt_id boundary =
     map_option ep_after_head_commit
       (latest ep_created_at (filter (earlier_than db boundary) (processes_of_attempt db attempt_id)))"

definition process_parent_task_attempt :: "database \<Rightarrow> execution_process \<Rightarrow> task_attempt option" where
  "process_parent_task_attempt db p =
     (case ep_task_attempt_id p of Some i \<Rightarrow> attempt_find_by_id db i | None \<Rightarrow> None)"

definition process_load_context :: "database \<Rightarrow> uuid \<Rightarrow> sqlx_error + execution_context" where
  "process_load_context db exec_id =
     bind_result (ok_or RowNotFound (process_find_by_id db exec_id)) (\<lambda>p.
     bind_result (ok_or RowNotFound (ep_task_attempt_id p)) (\<lambda>attempt_id.
     bind_result (ok_or RowNotFound (attempt_find_by_id db attempt_id)) (\<lambda>a.
     bind_result (ok_or RowNotFound (task_find_by_id db (ta_task_id a))) (\<lambda>t.
       Inr \<lparr> ctx_execution_process = p, ctx_task_attempt = a, ctx_task = t \<rparr>))))"

text \<open>The shared tail of the two \<^verbatim>\<open>latest_executor_profile_for_*\<close> functions.\<close>

definition profile_of_process :: "execution_process option \<Rightarrow> execution_process_error + executor_profile_id" where
  "profile_of_process found =
     (case found of
        None \<Rightarrow> Inl (EP_ValidationError ''Couldn't find initial coding agent process, has it run yet?'')
      | Some p \<Rightarrow>
          (case process_executor_action p of
             Inl e \<Rightarrow> Inl (EP_ValidationError e)
           | Inr action \<Rightarrow>
               (case action_profile (action_typ action) of
                  Some profile \<Rightarrow> Inr profile
                | None \<Rightarrow> Inl (EP_ValidationError ''Couldn't find profile from initial request''))))"

definition latest_executor_profile_for_attempt ::
  "database \<Rightarrow> uuid \<Rightarrow> execution_process_error + executor_profile_id" where
  "latest_executor_profile_for_attempt db attempt_id =
     profile_of_process (find_latest_by_task_attempt_and_run_reason db attempt_id CodingAgent)"

definition latest_executor_profile_for_run ::
  "database \<Rightarrow> uuid \<Rightarrow> execution_process_error + executor_profile_id" where
  "latest_executor_profile_for_run db run_id =
     profile_of_process (find_latest_by_execution_run_and_run_reason db run_id CodingAgent)"

text \<open>\<^verbatim>\<open>list_missing_before_context\<close>: each such process joined with its predecessors of the same attempt.\<close>

definition previous_processes :: "database \<Rightarrow> execution_process \<Rightarrow> execution_process list" where
  "previous_processes db p =
     (let earlier = filter (\<lambda>q. ep_task_attempt_id q = ep_task_attempt_id p \<and> ep_task_attempt_id q \<noteq> None
                                \<and> ep_created_at q < ep_created_at p) (execution_processes db)
      in filter (\<lambda>q. \<forall>q' \<in> set earlier. ep_created_at q' \<le> ep_created_at q) earlier)"

definition missing_before_rows :: "database \<Rightarrow> execution_process \<Rightarrow> missing_before_context list" where
  "missing_before_rows db p =
     (case process_parent_task_attempt db p of
        None \<Rightarrow> []
      | Some a \<Rightarrow>
          (case project_of_attempt db a of
             None \<Rightarrow> []
           | Some pj \<Rightarrow>
               map (\<lambda>prev. \<lparr> mb_id = ep_id p, mb_task_attempt_id = ep_task_attempt_id p,
                             mb_prev_after_head_commit = prev, mb_target_branch = ta_target_branch a,
                             mb_git_repo_path = Some (pj_git_repo_path pj) \<rparr>)
                 (case map ep_after_head_commit (previous_processes db p) of [] \<Rightarrow> [None] | xs \<Rightarrow> xs)))"

definition list_missing_before_context :: "database \<Rightarrow> missing_before_context list" where
  "list_missing_before_context db =
     concat (map (missing_before_rows db)
       (filter (\<lambda>p. ep_before_head_commit p = None \<and> ep_after_head_commit p \<noteq> None) (execution_processes db)))"


section \<open>Executor sessions\<close>

record create_executor_session =
  cs_task_attempt_id :: "uuid option"
  cs_execution_process_id :: uuid
  cs_prompt :: "string option"

definition session_find_by_id :: "database \<Rightarrow> uuid \<Rightarrow> executor_session option" where
  "session_find_by_id db i = lookup es_id i (executor_sessions db)"

definition session_find_by_execution_process_id :: "database \<Rightarrow> uuid \<Rightarrow> executor_session option" where
  "session_find_by_execution_process_id db i = find (\<lambda>s. es_execution_process_id s = i) (executor_sessions db)"

definition session_find_by_task_attempt_id :: "database \<Rightarrow> uuid \<Rightarrow> executor_session list" where
  "session_find_by_task_attempt_id db i =
     order_by_asc es_created_at (filter (\<lambda>s. es_task_attempt_id s = Some i) (executor_sessions db))"

definition session_find_by_session_id :: "database \<Rightarrow> string \<Rightarrow> executor_session option" where
  "session_find_by_session_id db sid =
     latest es_updated_at (filter (\<lambda>s. es_session_id s = Some sid) (executor_sessions db))"

definition session_create ::
  "database \<Rightarrow> create_executor_session \<Rightarrow> uuid \<Rightarrow> datetime \<Rightarrow> sqlx_error + executor_session \<times> database" where
  "session_create db data i now =
     (let s = \<lparr> es_id = i, es_task_attempt_id = cs_task_attempt_id data,
                es_execution_process_id = cs_execution_process_id data, es_session_id = None,
                es_prompt = cs_prompt data, es_summary = None, es_commit_message = None,
                es_created_at = now, es_updated_at = now \<rparr>
      in if exists_row es_id i (executor_sessions db) then Inl UniqueViolation
         else if \<not> ref_ok ta_id (cs_task_attempt_id data) (task_attempts db)
              \<or> \<not> exists_row ep_id (cs_execution_process_id data) (execution_processes db) then Inl ForeignKeyViolation
         else Inr (s, db\<lparr>executor_sessions := executor_sessions db @ [s]\<rparr>))"

definition update_sessions :: "(executor_session \<Rightarrow> bool) \<Rightarrow> (executor_session \<Rightarrow> executor_session) \<Rightarrow> database \<Rightarrow> database" where
  "update_sessions P f db = db\<lparr>executor_sessions := update_where P f (executor_sessions db)\<rparr>"

definition update_session_id :: "database \<Rightarrow> uuid \<Rightarrow> string \<Rightarrow> datetime \<Rightarrow> database" where
  "update_session_id db process_id external_session_id now =
     update_sessions (\<lambda>s. es_execution_process_id s = process_id)
       (\<lambda>s. s\<lparr>es_session_id := Some external_session_id, es_updated_at := now\<rparr>) db"

definition update_prompt :: "database \<Rightarrow> uuid \<Rightarrow> string \<Rightarrow> datetime \<Rightarrow> database" where
  "update_prompt db i prompt now =
     update_sessions (\<lambda>s. es_id s = i) (\<lambda>s. s\<lparr>es_prompt := Some prompt, es_updated_at := now\<rparr>) db"

definition update_summary :: "database \<Rightarrow> uuid \<Rightarrow> string \<Rightarrow> datetime \<Rightarrow> database" where
  "update_summary db process_id summary now =
     update_sessions (\<lambda>s. es_execution_process_id s = process_id)
       (\<lambda>s. s\<lparr>es_summary := Some summary, es_updated_at := now\<rparr>) db"

definition update_commit_message :: "database \<Rightarrow> uuid \<Rightarrow> string \<Rightarrow> datetime \<Rightarrow> database" where
  "update_commit_message db process_id message now =
     update_sessions (\<lambda>s. es_execution_process_id s = process_id)
       (\<lambda>s. s\<lparr>es_commit_message := Some message, es_updated_at := now\<rparr>) db"

definition session_delete_by_task_attempt_id :: "database \<Rightarrow> uuid \<Rightarrow> database" where
  "session_delete_by_task_attempt_id db i =
     db\<lparr>executor_sessions := delete_where (\<lambda>s. es_task_attempt_id s = Some i) (executor_sessions db)\<rparr>"


section \<open>Process logs\<close>

definition logs_find_by_execution_id :: "database \<Rightarrow> uuid \<Rightarrow> execution_process_logs option" where
  "logs_find_by_execution_id db i = lookup lg_execution_id i (execution_process_logs db)"

definition set_logs :: "string \<Rightarrow> int \<Rightarrow> datetime \<Rightarrow> execution_process_logs \<Rightarrow> execution_process_logs" where
  "set_logs ls bsize now l = l\<lparr>lg_logs := ls, lg_byte_size := bsize, lg_inserted_at := now\<rparr>"

definition append_logs :: "string \<Rightarrow> int \<Rightarrow> datetime \<Rightarrow> execution_process_logs \<Rightarrow> execution_process_logs" where
  "append_logs line bsize now l =
     l\<lparr>lg_logs := lg_logs l @ line, lg_byte_size := lg_byte_size l + bsize, lg_inserted_at := now\<rparr>"

text \<open>\<^verbatim>\<open>INSERT ... ON CONFLICT (execution_id) DO UPDATE\<close> with the update \<open>f\<close>.\<close>

definition upsert_logs ::
  "database \<Rightarrow> execution_process_logs \<Rightarrow> (execution_process_logs \<Rightarrow> execution_process_logs) \<Rightarrow> sqlx_error + database" where
  "upsert_logs db row f =
     (if \<not> exists_row ep_id (lg_execution_id row) (execution_processes db) then Inl ForeignKeyViolation
      else if exists_row lg_execution_id (lg_execution_id row) (execution_process_logs db)
      then Inr (db\<lparr>execution_process_logs :=
                 update_where (\<lambda>l. lg_execution_id l = lg_execution_id row) f (execution_process_logs db)\<rparr>)
      else Inr (db\<lparr>execution_process_logs := execution_process_logs db @ [row]\<rparr>))"

definition logs_upsert :: "database \<Rightarrow> uuid \<Rightarrow> string \<Rightarrow> int \<Rightarrow> datetime \<Rightarrow> sqlx_error + database" where
  "logs_upsert db execution_id ls bsize now =
     upsert_logs db \<lparr> lg_execution_id = execution_id, lg_logs = ls, lg_byte_size = bsize, lg_inserted_at = now \<rparr>
       (set_logs ls bsize now)"

definition append_log_line :: "database \<Rightarrow> uuid \<Rightarrow> string \<Rightarrow> datetime \<Rightarrow> sqlx_error + database" where
  "append_log_line db execution_id jsonl_line now =
     upsert_logs db \<lparr> lg_execution_id = execution_id, lg_logs = jsonl_line,
                      lg_byte_size = int (length jsonl_line), lg_inserted_at = now \<rparr>
       (append_logs jsonl_line (int (length jsonl_line)) now)"

text \<open>\<open>None\<close> is a serde error; the first one ends the loop.\<close>

fun parse_log_lines :: "(string \<Rightarrow> log_msg option) \<Rightarrow> string list \<Rightarrow> log_msg list option" where
  "parse_log_lines de [] = Some []"
| "parse_log_lines de (line # rest) =
     (if trim line = [] then parse_log_lines de rest
      else case de line of
             None \<Rightarrow> None
           | Some m \<Rightarrow> map_option (Cons m) (parse_log_lines de rest))"

definition parse_logs :: "(string \<Rightarrow> log_msg option) \<Rightarrow> execution_process_logs \<Rightarrow> log_msg list option" where
  "parse_logs de l = parse_log_lines de (str_lines (lg_logs l))"

fun serialize_logs :: "(log_msg \<Rightarrow> string option) \<Rightarrow> log_msg list \<Rightarrow> string option" where
  "serialize_logs ser [] = Some []"
| "serialize_logs ser (m # ms) =
     (case ser m of
        None \<Rightarrow> None
      | Some line \<Rightarrow> map_option (\<lambda>rest. line @ [newline] @ rest) (serialize_logs ser ms))"


subsection \<open>Reading back what was written\<close>

text \<open>What the code relies on of serde's JSON text of a message: one non-blank line that decodes to it.\<close>

definition line_codec_ok :: "(log_msg \<Rightarrow> string option) \<Rightarrow> (string \<Rightarrow> log_msg option) \<Rightarrow> log_msg \<Rightarrow> bool" where
  "line_codec_ok ser de m \<longleftrightarrow>
     (case ser m of
        None \<Rightarrow> False
      | Some line \<Rightarrow> de line = Some m \<and> newline \<notin> set line \<and> trim line \<noteq> [] \<and> \<not> ends_with [CHR 0x0D] line)"

lemma serialize_parse:
  "list_all (line_codec_ok ser de) ms \<Longrightarrow>
   \<exists>t. serialize_logs ser ms = Some t \<and> parse_log_lines de (str_lines t) = Some ms"
proof (induction ms)
  case Nil
  then show ?case by (simp add: str_lines_def)
next
  case (Cons m ms)
  from Cons.prems obtain line where l: "ser m = Some line" "de line = Some m" "newline \<notin> set line" "trim line \<noteq> []"
    "\<not> ends_with [CHR 0x0D] line" by (auto simp: line_codec_ok_def split: option.splits)
  from Cons obtain t where "serialize_logs ser ms = Some t" "parse_log_lines de (str_lines t) = Some ms" by auto
  with l show ?case by (simp add: str_lines_line)
qed

text \<open>The writer of a process log: each message is serialised and appended as one line.\<close>

fun append_messages ::
  "(log_msg \<Rightarrow> string option) \<Rightarrow> database \<Rightarrow> uuid \<Rightarrow> log_msg list \<Rightarrow> datetime \<Rightarrow> sqlx_error + database" where
  "append_messages ser db i [] now = Inr db"
| "append_messages ser db i (m # ms) now =
     (case ser m of
        None \<Rightarrow> append_messages ser db i ms now
      | Some line \<Rightarrow> bind_result (append_log_line db i (line @ [newline]) now) (\<lambda>db'. append_messages ser db' i ms now))"

definition log_text :: "database \<Rightarrow> uuid \<Rightarrow> string" where
  "log_text db i = (case logs_find_by_execution_id db i of None \<Rightarrow> [] | Some l \<Rightarrow> lg_logs l)"

definition log_size_ok :: "database \<Rightarrow> uuid \<Rightarrow> bool" where
  "log_size_ok db i \<longleftrightarrow>
     (case logs_find_by_execution_id db i of None \<Rightarrow> True | Some l \<Rightarrow> lg_byte_size l = int (length (lg_logs l)))"

definition log_writes :: "(execution_process_logs \<Rightarrow> execution_process_logs) set" where
  "log_writes = {set_logs ls bsize now |ls bsize now. True} \<union> {append_logs ls bsize now |ls bsize now. True}"

interpretation lt: keyed_table lg_execution_id log_writes
  by unfold_locales (auto simp: log_writes_def set_logs_def append_logs_def)

lemma append_log_line_spec:
  assumes "exists_row ep_id i (execution_processes db)" and "log_size_ok db i"
  shows "\<exists>db'. append_log_line db i line now = Inr db' \<and> log_text db' i = log_text db i @ line
     \<and> log_size_ok db' i \<and> logs_find_by_execution_id db' i \<noteq> None \<and> execution_processes db' = execution_processes db"
proof (cases "logs_find_by_execution_id db i")
  case None
  let ?row = "\<lparr> lg_execution_id = i, lg_logs = line, lg_byte_size = int (length line), lg_inserted_at = now \<rparr>"
  have "lookup lg_execution_id i (execution_process_logs db @ [?row]) = Some ?row"
    using lt.lookup_insert [of ?row] None by (simp add: logs_find_by_execution_id_def)
  with None assms show ?thesis
    by (simp add: append_log_line_def upsert_logs_def exists_row_def logs_find_by_execution_id_def log_text_def log_size_ok_def)
next
  case (Some l)
  let ?f = "append_logs line (int (length line)) now"
  have "?f \<in> log_writes" unfolding log_writes_def by blast
  then have "lookup lg_execution_id i (update_where (\<lambda>l. lg_execution_id l = i) ?f (execution_process_logs db)) = Some (?f l)"
    using lt.lookup_update Some lookup_Some [of lg_execution_id i] by (fastforce simp: logs_find_by_execution_id_def)
  with Some assms show ?thesis
    by (simp add: append_log_line_def upsert_logs_def exists_row_def logs_find_by_execution_id_def log_text_def
        log_size_ok_def append_logs_def)
qed

lemma append_messages_spec:
  assumes "exists_row ep_id i (execution_processes db)" and "log_size_ok db i" and "serialize_logs ser ms = Some t"
  shows "\<exists>db'. append_messages ser db i ms now = Inr db' \<and> log_text db' i = log_text db i @ t \<and> log_size_ok db' i
     \<and> (ms \<noteq> [] \<longrightarrow> logs_find_by_execution_id db' i \<noteq> None)"
  using assms
proof (induction ms arbitrary: db t)
  case (Cons m ms)
  from Cons.prems(3) obtain line u where l: "ser m = Some line" "serialize_logs ser ms = Some u" "t = line @ [newline] @ u"
    by (auto split: option.splits)
  from append_log_line_spec [OF Cons.prems(1,2), of "line @ [newline]" now] obtain db1 where
    1: "append_log_line db i (line @ [newline]) now = Inr db1" "log_text db1 i = log_text db i @ line @ [newline]"
      "log_size_ok db1 i" "logs_find_by_execution_id db1 i \<noteq> None" "execution_processes db1 = execution_processes db"
    by auto
  with Cons.IH [of db1 u] Cons.prems(1) l obtain db2 where
    "append_messages ser db1 i ms now = Inr db2" "log_text db2 i = log_text db1 i @ u" "log_size_ok db2 i"
    "ms \<noteq> [] \<longrightarrow> logs_find_by_execution_id db2 i \<noteq> None" by auto
  with 1 l show ?case by (cases ms) auto
qed simp


section \<open>Sample rows\<close>

text \<open>One project with one task, one attempt and one process, used by concrete instances below.\<close>

definition sample_project :: project where
  "sample_project =
     \<lparr> pj_id = 1, pj_name = ''p'', pj_git_repo_path = ''/r'', pj_setup_script = None, pj_dev_script = None,
       pj_cleanup_script = None, pj_copy_files = None, pj_commit_prompt = None, pj_created_at = 0, pj_updated_at = 0 \<rparr>"

definition sample_task :: task where
  "sample_task =
     \<lparr> tk_id = 2, tk_project_id = 1, tk_title = ''t'', tk_description = None, tk_status = Todo,
       tk_parent_task_attempt = None, tk_dev_server_id = None, tk_created_at = 0, tk_updated_at = 0 \<rparr>"

definition sample_attempt :: task_attempt where
  "sample_attempt =
     \<lparr> ta_id = 3, ta_task_id = 2, ta_container_ref = Some ''/w'', ta_branch = ''b'', ta_target_branch = ''main'',
       ta_executor = ''AMP'', ta_worktree_deleted = False, ta_setup_completed_at = None, ta_input_tokens = None,
       ta_output_tokens = None, ta_cache_creation_tokens = None, ta_cache_read_tokens = None,
       ta_created_at = 0, ta_updated_at = 0 \<rparr>"

definition sample_process :: execution_process where
  "sample_process =
     \<lparr> ep_id = 7, ep_task_attempt_id = Some 3, ep_execution_run_id = None, ep_run_reason = CodingAgent,
       ep_executor_action = OtherField JNull, ep_before_head_commit = None, ep_after_head_commit = None,
       ep_status = Running, ep_exit_code = None, ep_dropped = False, ep_started_at = 0, ep_completed_at = None,
       ep_created_at = 0, ep_updated_at = 0 \<rparr>"

definition sample_database :: database where
  "sample_database =
     empty_database\<lparr>projects := [sample_project], tasks := [sample_task], task_attempts := [sample_attempt]\<rparr>"

lemmas sample_defs = sample_project_def sample_task_def sample_attempt_def sample_process_def sample_database_def
  empty_database_def


section \<open>Properties\<close>

text \<open>
  C7: A process log is read back as it was written: when every message encodes to one line that
  decodes to it, appending the messages one by one to an empty log succeeds, the stored byte
  size is the length of the text, and parsing the text gives the messages in order.
\<close>

theorem process_log_roundtrip:
  assumes "list_all (line_codec_ok ser de) ms" and "ms \<noteq> []"
    and "exists_row ep_id i (execution_processes db)" and "logs_find_by_execution_id db i = None"
  shows "\<exists>db' l. append_messages ser db i ms now = Inr db' \<and> logs_find_by_execution_id db' i = Some l
     \<and> parse_logs de l = Some ms \<and> lg_byte_size l = int (length (lg_logs l))"
proof -
  from serialize_parse [OF assms(1)] obtain t where
    t: "serialize_logs ser ms = Some t" "parse_log_lines de (str_lines t) = Some ms" by blast
  have "log_size_ok db i" "log_text db i = []" using assms(4) by (simp_all add: log_size_ok_def log_text_def)
  with append_messages_spec [OF assms(3) _ t(1)] assms(2) obtain db' l where
    "append_messages ser db i ms now = Inr db'" "log_text db' i = t" "log_size_ok db' i"
    "logs_find_by_execution_id db' i = Some l" by fastforce
  with t(2) show ?thesis by (auto simp: log_text_def log_size_ok_def parse_logs_def)
qed

theorem process_log_roundtrip_witness:
  "\<exists>db' l. append_messages (\<lambda>_. Some ''f'') (empty_database\<lparr>execution_processes := [sample_process]\<rparr>) 7 [Finished] 0 = Inr db'
     \<and> logs_find_by_execution_id db' 7 = Some l \<and> parse_logs (\<lambda>_. Some Finished) l = Some [Finished]
     \<and> lg_byte_size l = int (length (lg_logs l))"
proof (rule process_log_roundtrip)
  have "trim ''f'' \<noteq> []" by code_simp
  then show "list_all (line_codec_ok (\<lambda>_. Some ''f'') (\<lambda>_. Some Finished)) [Finished]"
    by (simp add: line_codec_ok_def ends_with_single)
qed (simp_all add: exists_row_def sample_process_def logs_find_by_execution_id_def empty_database_def)

text \<open>
  Moving the restore boundary of an attempt only hides processes: afterwards exactly those
  processes of the attempt are dropped that were dropped before or are later than the boundary
  process, and nothing else of any process changes.
\<close>

theorem set_restore_boundary_spec:
  "execution_processes (set_restore_boundary db attempt boundary) =
     map (\<lambda>p. p\<lparr>ep_dropped := ep_dropped p \<or> (ep_task_attempt_id p = Some attempt \<and> later_than db boundary p)\<rparr>)
       (execution_processes db)"
  by (auto simp: set_restore_boundary_def update_processes_def update_where_def set_dropped_def)

text \<open>
  A follow-up resumes the newest live agent session: the session id found for an attempt is
  that of a coding-agent process of the attempt that has not been dropped, and no other such
  process with a recorded session is newer.
\<close>

theorem latest_session_is_newest:
  assumes "find_latest_session_id_by_task_attempt db attempt = Some sid"
  shows "\<exists>p \<in> set (execution_processes db). \<exists>s \<in> set (executor_sessions db).
       es_execution_process_id s = ep_id p \<and> es_session_id s = Some sid
     \<and> ep_task_attempt_id p = Some attempt \<and> ep_run_reason p = CodingAgent \<and> \<not> ep_dropped p
     \<and> (\<forall>q \<in> set (execution_processes db). \<forall>r \<in> set (executor_sessions db).
          es_execution_process_id r = ep_id q \<and> es_session_id r \<noteq> None \<and> ep_task_attempt_id q = Some attempt
          \<and> ep_run_reason q = CodingAgent \<and> \<not> ep_dropped q \<longrightarrow> ep_created_at q \<le> ep_created_at p)"
proof -
  let ?rows = "filter (\<lambda>(p, s). es_execution_process_id s = ep_id p \<and> ep_task_attempt_id p = Some attempt
      \<and> ep_run_reason p = CodingAgent \<and> \<not> ep_dropped p \<and> es_session_id s \<noteq> None)
      (List.product (execution_processes db) (executor_sessions db))"
  from assms obtain p s where "latest (ep_created_at \<circ> fst) ?rows = Some (p, s)" and sid: "es_session_id s = Some sid"
    by (auto simp: find_latest_session_id_by_task_attempt_def latest_session_id_def bind_eq_Some_conv)
  from latest_Some [OF this(1)] have
    in_rows: "(p, s) \<in> set ?rows" and newest: "\<forall>x \<in> set ?rows. ep_created_at (fst x) \<le> ep_created_at p" by auto
  from newest have "\<forall>q r. (q, r) \<in> set ?rows \<longrightarrow> ep_created_at q \<le> ep_created_at p" by fastforce
  with in_rows sid show ?thesis by (intro bexI [of _ p] bexI [of _ s]) auto
qed

theorem latest_session_is_newest_witness:
  "\<exists>p \<in> set [sample_process]. \<exists>s \<in> set [\<lparr> es_id = 1, es_task_attempt_id = Some 3, es_execution_process_id = 7,
        es_session_id = Some ''s'', es_prompt = None, es_summary = None, es_commit_message = None,
        es_created_at = 0, es_updated_at = 0 \<rparr>].
     es_execution_process_id s = ep_id p \<and> es_session_id s = Some ''s'' \<and> ep_task_attempt_id p = Some 3"
proof -
  let ?s = "\<lparr> es_id = 1, es_task_attempt_id = Some 3, es_execution_process_id = 7,
        es_session_id = Some ''s'', es_prompt = None, es_summary = None, es_commit_message = None,
        es_created_at = 0, es_updated_at = 0 \<rparr>"
  let ?db = "empty_database\<lparr>execution_processes := [sample_process], executor_sessions := [?s]\<rparr>"
  have "find_latest_session_id_by_task_attempt ?db 3 = Some ''s''"
    by (simp add: find_latest_session_id_by_task_attempt_def latest_session_id_def latest_def limit_1_def
        order_by_desc_def sample_process_def)
  from latest_session_is_newest [OF this] show ?thesis by simp
qed

text \<open>
  C36: The clean-up never picks an attempt in use: every attempt it lists has a worktree that is
  not marked deleted, and each of its processes has a completion time more than 72 hours ago; an
  attempt without processes was last updated more than 72 hours ago.
\<close>

theorem expired_attempts_are_idle:
  assumes "(i, path, repo) \<in> set (find_expired_for_cleanup db now)"
  shows "\<exists>a \<in> set (task_attempts db). ta_id a = i \<and> ta_container_ref a = Some path \<and> \<not> ta_worktree_deleted a
     \<and> (\<forall>p \<in> set (execution_processes db). ep_task_attempt_id p = Some i \<longrightarrow>
           (\<exists>c. ep_completed_at p = Some c \<and> c < now - 72 * 3600))
     \<and> ((\<forall>p \<in> set (execution_processes db). ep_task_attempt_id p \<noteq> Some i) \<longrightarrow> ta_updated_at a < now - 72 * 3600)"
proof -
  from assms obtain a where a: "a \<in> set (task_attempts db)" "expired db now a" "ta_id a = i" "ta_container_ref a = Some path"
    by (auto simp: find_expired_for_cleanup_def List.map_filter_def split: option.splits)
  have "\<exists>c. ep_completed_at p = Some c \<and> c < now - 72 * 3600"
    if p: "p \<in> set (execution_processes db)" "ep_task_attempt_id p = Some i" for p
  proof -
    from a(2,3) p have "ep_completed_at p \<noteq> None"
      by (force simp: expired_def sql_not_in_def unfinished_attempt_ids_def)
    then obtain c where c: "ep_completed_at p = Some c" by blast
    with p have "c \<in> set (completions_of_attempt db i)"
      by (force simp: completions_of_attempt_def List.map_filter_def)
    then obtain d ds where ds: "completions_of_attempt db i = d # ds" "c \<in> set (d # ds)"
      by (cases "completions_of_attempt db i") auto
    then have "c \<le> last_activity db a" using a(3) by (auto simp: last_activity_def fold_max_ge)
    with a(2) c show ?thesis by (simp add: expired_def)
  qed
  moreover have "ta_updated_at a < now - 72 * 3600"
    if "\<forall>p \<in> set (execution_processes db). ep_task_attempt_id p \<noteq> Some i"
  proof -
    have "completions_of_attempt db i = []"
      using that by (auto simp: completions_of_attempt_def List.map_filter_def)
    with a(2,3) show ?thesis by (simp add: expired_def last_activity_def)
  qed
  ultimately show ?thesis using a by (auto simp: expired_def)
qed

lemma sample_expired: "find_expired_for_cleanup sample_database 300000 = [(3, ''/w'', ''/r'')]"
  by (simp add: find_expired_for_cleanup_def order_by_asc_def expired_def sql_not_in_def unfinished_attempt_ids_def
      last_activity_def completions_of_attempt_def project_of_attempt_def attempt_parent_task_def task_find_by_id_def
      task_parent_project_def project_find_by_id_def sample_defs List.map_filter_def)

theorem expired_attempts_are_idle_witness:
  "\<exists>a \<in> set (task_attempts sample_database). ta_id a = 3 \<and> ta_container_ref a = Some ''/w'' \<and> \<not> ta_worktree_deleted a
     \<and> (\<forall>p \<in> set (execution_processes sample_database). ep_task_attempt_id p = Some 3 \<longrightarrow>
           (\<exists>c. ep_completed_at p = Some c \<and> c < 300000 - 72 * 3600))
     \<and> ((\<forall>p \<in> set (execution_processes sample_database). ep_task_attempt_id p \<noteq> Some 3) \<longrightarrow> ta_updated_at a < 300000 - 72 * 3600)"
  by (rule expired_attempts_are_idle [of 3 "''/w''" "''/r''"]) (simp add: sample_expired)

text \<open>
  C40: While one process of an execution run is unfinished, the clean-up finds nothing: such a
  process has no attempt, so the list of attempts in use contains a null and the \<^verbatim>\<open>NOT IN\<close> of the
  query holds for no attempt, however long ago it was used.
\<close>

theorem running_run_blocks_cleanup:
  assumes "p \<in> set (execution_processes db)" and "ep_task_attempt_id p = None" and "ep_completed_at p = None"
  shows "find_expired_for_cleanup db now = []"
proof -
  from assms have "None \<in> set (unfinished_attempt_ids db)" by (force simp: unfinished_attempt_ids_def)
  then have "\<not> expired db now a" for a by (simp add: expired_def sql_not_in_def)
  then show ?thesis by (simp add: find_expired_for_cleanup_def order_by_asc_def List.map_filter_def)
qed

theorem running_run_blocks_cleanup_witness:
  "find_expired_for_cleanup sample_database 300000 \<noteq> []
   \<and> find_expired_for_cleanup
       (sample_database\<lparr>execution_processes := [sample_process\<lparr>ep_task_attempt_id := None, ep_execution_run_id := Some 9\<rparr>]\<rparr>)
       300000 = []"
proof
  show "find_expired_for_cleanup sample_database 300000 \<noteq> []" by (simp add: sample_expired)
  show "find_expired_for_cleanup
       (sample_database\<lparr>execution_processes := [sample_process\<lparr>ep_task_attempt_id := None, ep_execution_run_id := Some 9\<rparr>]\<rparr>)
       300000 = []"
    by (rule running_run_blocks_cleanup [of "sample_process\<lparr>ep_task_attempt_id := None, ep_execution_run_id := Some 9\<rparr>"])
       (simp_all add: sample_process_def)
qed

end
