(* ===== verification/Draft_Models.thy ===== *)
theory Draft_Models
  imports Process_Models
begin

text \<open>
  Drafts, \<^verbatim>\<open>crates/db/src/models/draft.rs\<close>.

  A draft is identified by its attempt and its type.  Every update of a draft also fires the
  trigger \<^verbatim>\<open>trg_drafts_updated_at\<close>, after which the row has the current time.  The send lock of a
  draft is its column \<^verbatim>\<open>sending\<close>, which \<open>try_mark_sending\<close> takes in one statement.
\<close>

section \<open>Drafts\<close>

fun draft_type_as_str :: "draft_type \<Rightarrow> string" where
  "draft_type_as_str FollowUp = ''follow_up''"
| "draft_type_as_str Retry = ''retry''"

definition draft_type_from_str :: "string \<Rightarrow> draft_type option" where
  "draft_type_from_str s =
     (if s = ''follow_up'' then Some FollowUp else if s = ''retry'' then Some Retry else None)"

record upsert_draft =
  ud_task_attempt_id :: uuid
  ud_draft_type :: draft_type
  ud_retry_process_id :: "uuid option"
  ud_prompt :: string
  ud_queued :: bool
  ud_variant :: "string option"
  ud_image_ids :: "uuid list option"

type_synonym draft_key = "uuid \<times> draft_type"

definition draft_key :: "draft \<Rightarrow> draft_key" where
  "draft_key d = (dr_task_attempt_id d, dr_draft_type d)"

definition draft_find :: "database \<Rightarrow> uuid \<Rightarrow> draft_type \<Rightarrow> draft option" where
  "draft_find db attempt_id ty = lookup draft_key (attempt_id, ty) (drafts db)"

definition update_drafts :: "(draft \<Rightarrow> bool) \<Rightarrow> (draft \<Rightarrow> draft) \<Rightarrow> database \<Rightarrow> database" where
  "update_drafts P f db = db\<lparr>drafts := update_where P f (drafts db)\<rparr>"

definition excluded_draft :: "upsert_draft \<Rightarrow> draft \<Rightarrow> draft" where
  "excluded_draft data d =
     d\<lparr>dr_retry_process_id := ud_retry_process_id data, dr_prompt := ud_prompt data, dr_queued := ud_queued data,
       dr_variant := ud_variant data, dr_image_ids := ud_image_ids data, dr_version := dr_version d + 1\<rparr>"

text \<open>
  \<^verbatim>\<open>upsert\<close>.  The row that \<^verbatim>\<open>RETURNING\<close> gives is the one before the trigger ran.  SQLite looks for the conflict that
  the clause names first, so the identifier is only compared when a row is inserted.
\<close>

definition draft_upsert ::
  "database \<Rightarrow> upsert_draft \<Rightarrow> uuid \<Rightarrow> datetime \<Rightarrow> sqlx_error + draft \<times> database" where
  "draft_upsert db data i now =
     (let key = (ud_task_attempt_id data, ud_draft_type data);
          row = \<lparr> dr_id = i, dr_task_attempt_id = ud_task_attempt_id data, dr_draft_type = ud_draft_type data,
                  dr_retry_process_id = ud_retry_process_id data, dr_prompt = ud_prompt data,
                  dr_queued = ud_queued data, dr_sending = False, dr_variant = ud_variant data,
                  dr_image_ids = ud_image_ids data, dr_created_at = now, dr_updated_at = now, dr_version = 0 \<rparr>
      in if ud_draft_type data = Retry \<and> ud_retry_process_id data = None
         then Inl (Protocol ''retry_process_id is required for retry drafts'')
         else if \<not> exists_row ta_id (ud_task_attempt_id data) (task_attempts db)
              \<or> \<not> ref_ok ep_id (ud_retry_process_id data) (execution_processes db) then Inl ForeignKeyViolation
         else case lookup draft_key key (drafts db) of
                Some d \<Rightarrow>
                  Inr (excluded_draft data d,
                       update_drafts (\<lambda>d. draft_key d = key)
                         (\<lambda>d. (excluded_draft data d)\<lparr>dr_updated_at := now\<rparr>) db)
              | None \<Rightarrow>
                  if exists_row dr_id i (drafts db) then Inl UniqueViolation else Inr (row, db\<lparr>drafts := drafts db @ [row]\<rparr>))"

definition draft_delete :: "database \<Rightarrow> uuid \<Rightarrow> draft_type \<Rightarrow> database" where
  "draft_delete db attempt_id ty =
     db\<lparr>drafts := delete_where (\<lambda>d. draft_key d = (attempt_id, ty)) (drafts db)\<rparr>"

definition cleared_draft :: "datetime \<Rightarrow> draft \<Rightarrow> draft" where
  "cleared_draft now d =
     d\<lparr>dr_prompt := [], dr_queued := False, dr_sending := False, dr_image_ids := None, dr_updated_at := now,
       dr_version := dr_version d + 1\<rparr>"

definition clear_after_send :: "database \<Rightarrow> uuid \<Rightarrow> draft_type \<Rightarrow> datetime \<Rightarrow> database" where
  "clear_after_send db attempt_id ty now =
     (case ty of
        FollowUp \<Rightarrow> update_drafts (\<lambda>d. draft_key d = (attempt_id, ty)) (cleared_draft now) db
      | Retry \<Rightarrow> draft_delete db attempt_id ty)"

definition ready_to_send :: "draft \<Rightarrow> bool" where
  "ready_to_send d \<longleftrightarrow> dr_queued d \<and> \<not> dr_sending d \<and> sql_trim (dr_prompt d) \<noteq> []"

definition sending_draft :: "datetime \<Rightarrow> draft \<Rightarrow> draft" where
  "sending_draft now d = d\<lparr>dr_sending := True, dr_updated_at := now, dr_version := dr_version d + 1\<rparr>"

definition try_mark_sending :: "database \<Rightarrow> uuid \<Rightarrow> draft_type \<Rightarrow> datetime \<Rightarrow> bool \<times> database" where
  "try_mark_sending db attempt_id ty now =
     (let P = (\<lambda>d. draft_key d = (attempt_id, ty) \<and> ready_to_send d)
      in (0 < rows_affected P (drafts db), update_drafts P (sending_draft now) db))"

definition set_partial ::
  "string option \<Rightarrow> string option option \<Rightarrow> uuid list option \<Rightarrow> uuid option \<Rightarrow> datetime \<Rightarrow> draft \<Rightarrow> draft" where
  "set_partial prompt vart image_ids retry_process_id now d =
     d\<lparr>dr_retry_process_id := (case retry_process_id of Some r \<Rightarrow> Some r | None \<Rightarrow> dr_retry_process_id d),
       dr_prompt := (case prompt of Some p \<Rightarrow> p | None \<Rightarrow> dr_prompt d),
       dr_variant := (case vart of Some v \<Rightarrow> v | None \<Rightarrow> dr_variant d),
       dr_image_ids := (case image_ids of Some ids \<Rightarrow> Some ids | None \<Rightarrow> dr_image_ids d),
       dr_updated_at := now, dr_version := dr_version d + 1\<rparr>"

definition update_partial ::
  "database \<Rightarrow> uuid \<Rightarrow> draft_type \<Rightarrow> string option \<Rightarrow> string option option \<Rightarrow> uuid list option \<Rightarrow> uuid option
   \<Rightarrow> datetime \<Rightarrow> sqlx_error + database" where
  "update_partial db attempt_id ty prompt vart image_ids retry_process_id now =
     (if retry_process_id = None \<and> prompt = None \<and> vart = None \<and> image_ids = None then Inr db
      else if exists_row draft_key (attempt_id, ty) (drafts db)
              \<and> \<not> ref_ok ep_id retry_process_id (execution_processes db) then Inl ForeignKeyViolation
      else Inr (update_drafts (\<lambda>d. draft_key d = (attempt_id, ty))
                  (set_partial prompt vart image_ids retry_process_id now) db))"

definition queued_draft :: "bool \<Rightarrow> datetime \<Rightarrow> draft \<Rightarrow> draft" where
  "queued_draft queued now d =
     d\<lparr>dr_queued := (queued \<and> sql_trim (dr_prompt d) \<noteq> []), dr_updated_at := now, dr_version := dr_version d + 1\<rparr>"

definition set_queued ::
  "database \<Rightarrow> uuid \<Rightarrow> draft_type \<Rightarrow> bool \<Rightarrow> bool option \<Rightarrow> int option \<Rightarrow> datetime \<Rightarrow> nat \<times> database" where
  "set_queued db attempt_id ty queued expected_queued expected_version now =
     (let P = (\<lambda>d. draft_key d = (attempt_id, ty)
                   \<and> (case expected_queued of None \<Rightarrow> True | Some q \<Rightarrow> dr_queued d = q)
                   \<and> (case expected_version of None \<Rightarrow> True | Some v \<Rightarrow> dr_version d = v))
      in (rows_affected P (drafts db), update_drafts P (queued_draft queued now) db))"


subsection \<open>The drafts table\<close>

definition draft_writes :: "(draft \<Rightarrow> draft) set" where
  "draft_writes =
     range cleared_draft \<union> range sending_draft \<union> {queued_draft q now |q now. True}
     \<union> {set_partial p v i r now |p v i r now. True}
     \<union> {(\<lambda>d. (excluded_draft data d)\<lparr>dr_updated_at := now\<rparr>) |data now. True}"

interpretation dt: keyed_table draft_key draft_writes
  by unfold_locales
     (auto simp: draft_writes_def draft_key_def cleared_draft_def sending_draft_def queued_draft_def
       set_partial_def excluded_draft_def)

lemma draft_writes_intros [simp]:
  "cleared_draft now \<in> draft_writes"
  "sending_draft now \<in> draft_writes"
  "queued_draft q now \<in> draft_writes"
  "set_partial p v i r now \<in> draft_writes"
  "(\<lambda>d. (excluded_draft data d)\<lparr>dr_updated_at := now\<rparr>) \<in> draft_writes"
  unfolding draft_writes_def by blast+

definition drafts_unique :: "database \<Rightarrow> bool" where
  "drafts_unique db = unique_by draft_key (drafts db)"

lemma draft_find_update:
  "f \<in> draft_writes \<Longrightarrow>
   draft_find (update_drafts P f db) i ty = map_option (\<lambda>d. if P d then f d else d) (draft_find db i ty)"
  by (simp add: draft_find_def update_drafts_def dt.lookup_update)

lemma draft_find_key: "draft_find db i ty = Some d \<Longrightarrow> draft_key d = (i, ty) \<and> d \<in> set (drafts db)"
  unfolding draft_find_def using lookup_Some by fastforce

lemma drafts_unique_update: "f \<in> draft_writes \<Longrightarrow> drafts_unique db \<Longrightarrow> drafts_unique (update_drafts P f db)"
  by (simp add: drafts_unique_def update_drafts_def dt.unique_update)

text \<open>A statement on one key affects at most the one row with that key.\<close>

lemma rows_affected_key:
  assumes "drafts_unique db"
  shows "0 < rows_affected (\<lambda>d. draft_key d = (i, ty) \<and> Q d) (drafts db)
     \<longleftrightarrow> (\<exists>d. draft_find db i ty = Some d \<and> Q d)"
proof -
  have "d \<in> set (drafts db) \<Longrightarrow> draft_key d = (i, ty) \<Longrightarrow> draft_find db i ty = Some d" for d
    using lookup_unique [of draft_key "drafts db" d] assms by (simp add: drafts_unique_def draft_find_def)
  then show ?thesis using draft_find_key by (fastforce simp: rows_affected_pos)
qed

lemma drafts_unique_upsert:
  assumes "drafts_unique db" and "draft_upsert db data i now = Inr (d, db')"
  shows "drafts_unique db'"
proof (cases "lookup draft_key (ud_task_attempt_id data, ud_draft_type data) (drafts db)")
  case None
  with assms have "\<exists>r. db' = db\<lparr>drafts := drafts db @ [r]\<rparr> \<and> draft_key r = (ud_task_attempt_id data, ud_draft_type data)"
    by (auto simp: draft_upsert_def Let_def draft_key_def split: if_splits)
  with assms(1) None show ?thesis using dt.unique_insert by (fastforce simp: drafts_unique_def)
next
  case (Some r)
  with assms show ?thesis by (auto simp: draft_upsert_def Let_def drafts_unique_update split: if_splits)
qed

lemma drafts_unique_delete: "drafts_unique db \<Longrightarrow> drafts_unique (draft_delete db i ty)"
  by (simp add: drafts_unique_def draft_delete_def dt.unique_delete)

lemma drafts_unique_ops:
  assumes "drafts_unique db"
  shows "drafts_unique (clear_after_send db i ty now)"
    and "drafts_unique (snd (try_mark_sending db i ty now))"
    and "drafts_unique (snd (set_queued db i ty q eq ev now))"
    and "update_partial db i ty p v ids r now = Inr db' \<Longrightarrow> drafts_unique db'"
  using assms
  by (auto simp: clear_after_send_def try_mark_sending_def set_queued_def update_partial_def Let_def
      drafts_unique_update drafts_unique_delete split: draft_type.split if_splits)

lemma try_mark_sending_result:
  assumes "drafts_unique db"
  shows "fst (try_mark_sending db i ty now) \<longleftrightarrow> (\<exists>d. draft_find db i ty = Some d \<and> ready_to_send d)"
    and "draft_find (snd (try_mark_sending db i ty now)) i ty
       = map_option (\<lambda>d. if ready_to_send d then sending_draft now d else d) (draft_find db i ty)"
proof -
  show "fst (try_mark_sending db i ty now) \<longleftrightarrow> (\<exists>d. draft_find db i ty = Some d \<and> ready_to_send d)"
    using rows_affected_key [OF assms] by (simp add: try_mark_sending_def)
  show "draft_find (snd (try_mark_sending db i ty now)) i ty
       = map_option (\<lambda>d. if ready_to_send d then sending_draft now d else d) (draft_find db i ty)"
    by (cases "draft_find db i ty") (auto simp: try_mark_sending_def Let_def draft_find_update draft_find_key)
qed


section \<open>The send lock\<close>

text \<open>
  The statements on drafts that other requests can interleave, in any order.  \<open>run_draft_op\<close>
  returns whether the statement took a send lock; a failing statement changes nothing.
\<close>

datatype draft_op =
    UpsertOp upsert_draft uuid datetime
  | ClearOp uuid draft_type datetime
  | DeleteOp uuid draft_type
  | MarkOp uuid draft_type datetime
  | PartialOp uuid draft_type "string option" "string option option" "uuid list option" "uuid option" datetime
  | QueueOp uuid draft_type bool "bool option" "int option" datetime

fun run_draft_op :: "draft_op \<Rightarrow> database \<Rightarrow> bool \<times> database" where
  "run_draft_op (UpsertOp data i now) db =
     (False, case draft_upsert db data i now of Inl _ \<Rightarrow> db | Inr (_, db') \<Rightarrow> db')"
| "run_draft_op (ClearOp i ty now) db = (False, clear_after_send db i ty now)"
| "run_draft_op (DeleteOp i ty) db = (False, draft_delete db i ty)"
| "run_draft_op (MarkOp i ty now) db = try_mark_sending db i ty now"
| "run_draft_op (PartialOp i ty p v ids r now) db =
     (False, case update_partial db i ty p v ids r now of Inl _ \<Rightarrow> db | Inr db' \<Rightarrow> db')"
| "run_draft_op (QueueOp i ty q eq ev now) db = (False, snd (set_queued db i ty q eq ev now))"

text \<open>The statements that end the sending of a draft.\<close>

fun releases :: "draft_key \<Rightarrow> draft_op \<Rightarrow> bool" where
  "releases k (ClearOp i ty now) = (k = (i, ty))"
| "releases k (DeleteOp i ty) = (k = (i, ty))"
| "releases k _ = False"

fun marks :: "draft_key \<Rightarrow> draft_op \<Rightarrow> bool" where
  "marks k (MarkOp i ty now) = (k = (i, ty))"
| "marks k _ = False"

fun grants :: "draft_key \<Rightarrow> draft_op list \<Rightarrow> database \<Rightarrow> nat" where
  "grants k [] db = 0"
| "grants k (op # ops) db =
     (case run_draft_op op db of (b, db') \<Rightarrow> (if b \<and> marks k op then 1 else 0) + grants k ops db')"

definition locked :: "draft_key \<Rightarrow> database \<Rightarrow> bool" where
  "locked k db \<longleftrightarrow> (case draft_find db (fst k) (snd k) of Some d \<Rightarrow> dr_sending d | None \<Rightarrow> False)"

lemma drafts_unique_run: "drafts_unique db \<Longrightarrow> drafts_unique (snd (run_draft_op op db))"
  by (cases op)
     (auto simp: drafts_unique_delete intro: drafts_unique_ops drafts_unique_upsert split: sum.split)

lemma locked_update:
  assumes "locked k db" and "f \<in> draft_writes" and "\<And>d. P d \<Longrightarrow> draft_key d = k \<Longrightarrow> dr_sending d \<Longrightarrow> dr_sending (f d)"
  shows "locked k (update_drafts P f db)"
  using assms by (auto simp: locked_def draft_find_update draft_find_key split: option.splits)

lemma draft_write_sending:
  "dr_sending (excluded_draft data d) = dr_sending d"
  "dr_sending (set_partial p v i r now d) = dr_sending d"
  "dr_sending (queued_draft q now d) = dr_sending d"
  "dr_sending (sending_draft now d)"
  by (simp_all add: excluded_draft_def set_partial_def queued_draft_def sending_draft_def)

lemma locked_upsert:
  assumes "locked k db" and "draft_upsert db data i now = Inr (d, db')"
  shows "locked k db'"
proof (cases "lookup draft_key (ud_task_attempt_id data, ud_draft_type data) (drafts db)")
  case None
  with assms(2) obtain r where "db' = db\<lparr>drafts := drafts db @ [r]\<rparr>"
    "draft_key r = (ud_task_attempt_id data, ud_draft_type data)"
    by (auto simp: draft_upsert_def Let_def draft_key_def split: if_splits)
  moreover with None assms(1) have "draft_key r \<noteq> k"
    by (auto simp: locked_def draft_find_def split: option.splits)
  ultimately show ?thesis
    using assms(1) dt.lookup_insert_other [of r k] by (simp add: locked_def draft_find_def)
next
  case (Some r)
  with assms show ?thesis
    by (auto simp: draft_upsert_def Let_def draft_write_sending intro!: locked_update split: if_splits)
qed

lemma locked_delete:
  assumes "locked k db" and "drafts_unique db" and "k \<noteq> (i, ty)"
  shows "locked k (draft_delete db i ty)"
  using assms
  by (auto simp: locked_def draft_find_def draft_delete_def drafts_unique_def dt.lookup_delete
      dest: lookup_Some split: option.splits)

text \<open>Once a draft is being sent, only a release ends it.\<close>

lemma locked_run:
  assumes "locked k db" and "drafts_unique db" and "\<not> releases k op"
  shows "locked k (snd (run_draft_op op db))"
  using assms
proof (cases op)
  case (UpsertOp data i now)
  with assms show ?thesis by (auto split: sum.split intro: locked_upsert)
next
  case (ClearOp i ty now)
  with assms show ?thesis
    by (cases ty) (auto simp: clear_after_send_def locked_delete intro!: locked_update)
next
  case (PartialOp i ty p v ids r now)
  with assms show ?thesis
    by (auto simp: update_partial_def draft_write_sending intro!: locked_update split: sum.split if_splits)
qed (auto simp: locked_delete try_mark_sending_def set_queued_def Let_def draft_write_sending
       intro!: locked_update)

lemma mark_when_locked:
  "drafts_unique db \<Longrightarrow> locked (i, ty) db \<Longrightarrow> \<not> fst (try_mark_sending db i ty now)"
  by (auto simp: try_mark_sending_result(1) locked_def ready_to_send_def)

lemma locked_after_mark:
  "drafts_unique db \<Longrightarrow> fst (try_mark_sending db i ty now) \<Longrightarrow> locked (i, ty) (snd (try_mark_sending db i ty now))"
  by (auto simp: try_mark_sending_result locked_def sending_draft_def)

lemma grants_locked:
  "locked k db \<Longrightarrow> drafts_unique db \<Longrightarrow> list_all (\<lambda>op. \<not> releases k op) ops \<Longrightarrow> grants k ops db = 0"
proof (induction ops arbitrary: db)
  case (Cons op ops)
  have "\<not> (fst (run_draft_op op db) \<and> marks k op)"
    using Cons.prems mark_when_locked by (cases op) auto
  with Cons show ?case
    using locked_run [of k db op] drafts_unique_run [of db op] by (auto simp: case_prod_beta)
qed simp

lemma grants_le_1:
  "drafts_unique db \<Longrightarrow> list_all (\<lambda>op. \<not> releases k op) ops \<Longrightarrow> grants k ops db \<le> 1"
proof (induction ops arbitrary: db)
  case (Cons op ops)
  show ?case
  proof (cases "fst (run_draft_op op db) \<and> marks k op")
    case True
    then have "locked k (snd (run_draft_op op db))"
      using Cons.prems(1) locked_after_mark by (cases op) auto
    then have "grants k ops (snd (run_draft_op op db)) = 0"
      using Cons.prems drafts_unique_run by (intro grants_locked) auto
    with True show ?thesis by (simp add: case_prod_beta)
  next
    case False
    with Cons drafts_unique_run [of db op] show ?thesis by (auto simp: case_prod_beta)
  qed
qed simp


section \<open>Properties\<close>

text \<open>
  C3: A queued draft is sent at most once: in any sequence of statements on drafts, whoever
  issues them, at most one attempt to mark a given draft as being sent succeeds until the draft
  is cleared after the send or deleted.
\<close>

theorem send_lock_exclusive:
  assumes "drafts_unique db" and "list_all (\<lambda>op. \<not> releases k op) ops"
  shows "grants k ops db \<le> 1"
  using assms by (rule grants_le_1)

definition sample_draft :: draft where
  "sample_draft =
     \<lparr> dr_id = 5, dr_task_attempt_id = 3, dr_draft_type = FollowUp, dr_retry_process_id = None, dr_prompt = ''go'',
       dr_queued = True, dr_sending = False, dr_variant = None, dr_image_ids = None, dr_created_at = 0,
       dr_updated_at = 0, dr_version = 0 \<rparr>"

theorem send_lock_exclusive_witness:
  "fst (run_draft_op (MarkOp 3 FollowUp 1) (sample_database\<lparr>drafts := [sample_draft]\<rparr>))
   \<and> grants (3, FollowUp) [MarkOp 3 FollowUp 1, QueueOp 3 FollowUp True None None 2, MarkOp 3 FollowUp 3]
       (sample_database\<lparr>drafts := [sample_draft]\<rparr>) \<le> 1"
proof
  have trimmed: "sql_trim ''go'' \<noteq> []" by code_simp
  then show "fst (run_draft_op (MarkOp 3 FollowUp 1) (sample_database\<lparr>drafts := [sample_draft]\<rparr>))"
    by (simp add: try_mark_sending_def rows_affected_def sample_draft_def draft_key_def ready_to_send_def)
  show "grants (3, FollowUp) [MarkOp 3 FollowUp 1, QueueOp 3 FollowUp True None None 2, MarkOp 3 FollowUp 3]
       (sample_database\<lparr>drafts := [sample_draft]\<rparr>) \<le> 1"
    by (rule send_lock_exclusive) (simp_all add: drafts_unique_def unique_by_def)
qed

end
