(* ===== verification/Misc_Models.thy ===== *)
theory Misc_Models
  imports Draft_Models "HOL-Library.List_Lexorder"
begin

text \<open>
  Merges, images and tags: \<^verbatim>\<open>crates/db/src/models/merge.rs\<close>, \<^verbatim>\<open>image.rs\<close> and \<^verbatim>\<open>tag.rs\<close>.

  A row of the table \<^verbatim>\<open>merges\<close> is a direct merge or a pull request; the conversions from rows
  panic when a column is \<^verbatim>\<open>NULL\<close> that the kind requires, here the result \<open>None\<close>.
\<close>

section \<open>Merges\<close>

record direct_merge =
  dm_id :: uuid
  dm_task_attempt_id :: uuid
  dm_merge_commit :: string
  dm_target_branch_name :: string
  dm_created_at :: datetime

record pull_request_info =
  pr_number :: int
  pr_url :: string
  pr_status :: merge_status
  pr_merged_at :: "datetime option"
  pr_merge_commit_sha :: "string option"

record pr_merge =
  pm_id :: uuid
  pm_task_attempt_id :: uuid
  pm_created_at :: datetime
  pm_target_branch_name :: string
  pm_pr_info :: pull_request_info

datatype merge = Direct direct_merge | Pr pr_merge

fun merge_commit :: "merge \<Rightarrow> string option" where
  "merge_commit (Direct d) = Some (dm_merge_commit d)"
| "merge_commit (Pr p) = pr_merge_commit_sha (pm_pr_info p)"

fun merge_created_at :: "merge \<Rightarrow> datetime" where
  "merge_created_at (Direct d) = dm_created_at d"
| "merge_created_at (Pr p) = pm_created_at p"

definition direct_of_row :: "merge_row \<Rightarrow> direct_merge option" where
  "direct_of_row r =
     (case mg_merge_commit r of
        None \<Rightarrow> None
      | Some c \<Rightarrow> Some \<lparr> dm_id = mg_id r, dm_task_attempt_id = mg_task_attempt_id r, dm_merge_commit = c,
                        dm_target_branch_name = mg_target_branch_name r, dm_created_at = mg_created_at r \<rparr>)"

definition pr_of_row :: "merge_row \<Rightarrow> pr_merge option" where
  "pr_of_row r =
     (case (mg_pr_number r, mg_pr_url r, mg_pr_status r) of
        (Some n, Some u, Some st) \<Rightarrow>
          Some \<lparr> pm_id = mg_id r, pm_task_attempt_id = mg_task_attempt_id r, pm_created_at = mg_created_at r,
                 pm_target_branch_name = mg_target_branch_name r,
                 pm_pr_info = \<lparr> pr_number = n, pr_url = u, pr_status = st, pr_merged_at = mg_pr_merged_at r,
                                pr_merge_commit_sha = mg_pr_merge_commit_sha r \<rparr> \<rparr>
      | _ \<Rightarrow> None)"

definition merge_of_row :: "merge_row \<Rightarrow> merge option" where
  "merge_of_row r =
     (case mg_merge_type r of
        MT_Direct \<Rightarrow> map_option Direct (direct_of_row r)
      | MT_Pr \<Rightarrow> map_option Pr (pr_of_row r))"

text \<open>The \<^verbatim>\<open>CHECK\<close>s of the table: the columns of each kind, and the values of \<^verbatim>\<open>pr_status\<close>.\<close>

definition merge_row_check :: "merge_row \<Rightarrow> bool" where
  "merge_row_check r \<longleftrightarrow>
     mg_pr_status r \<noteq> Some MS_Unknown
     \<and> (mg_merge_type r = MT_Direct \<and> mg_merge_commit r \<noteq> None \<and> mg_pr_number r = None \<and> mg_pr_url r = None
        \<or> mg_merge_type r = MT_Pr \<and> mg_pr_number r \<noteq> None \<and> mg_pr_url r \<noteq> None \<and> mg_pr_status r \<noteq> None
          \<and> mg_merge_commit r = None)"

definition insert_merge :: "database \<Rightarrow> merge_row \<Rightarrow> sqlx_error + database" where
  "insert_merge db r =
     (if \<not> merge_row_check r then Inl CheckViolation
      else if exists_row mg_id (mg_id r) (merges db) then Inl UniqueViolation
      else if \<not> exists_row ta_id (mg_task_attempt_id r) (task_attempts db) then Inl ForeignKeyViolation
      else Inr (db\<lparr>merges := merges db @ [r]\<rparr>))"

definition create_direct ::
  "database \<Rightarrow> uuid \<Rightarrow> string \<Rightarrow> string \<Rightarrow> uuid \<Rightarrow> datetime \<Rightarrow> sqlx_error + merge_row \<times> database" where
  "create_direct db attempt_id target_branch_name commit i now =
     (let r = \<lparr> mg_id = i, mg_task_attempt_id = attempt_id, mg_merge_type = MT_Direct, mg_merge_commit = Some commit,
                mg_target_branch_name = target_branch_name, mg_pr_number = None, mg_pr_url = None, mg_pr_status = None,
                mg_pr_merged_at = None, mg_pr_merge_commit_sha = None, mg_created_at = now \<rparr>
      in bind_result (insert_merge db r) (\<lambda>db'. Inr (r, db')))"

definition create_pr ::
  "database \<Rightarrow> uuid \<Rightarrow> string \<Rightarrow> int \<Rightarrow> string \<Rightarrow> uuid \<Rightarrow> datetime \<Rightarrow> sqlx_error + merge_row \<times> database" where
  "create_pr db attempt_id target_branch_name number url i now =
     (let r = \<lparr> mg_id = i, mg_task_attempt_id = attempt_id, mg_merge_type = MT_Pr, mg_merge_commit = None,
                mg_target_branch_name = target_branch_name, mg_pr_number = Some number, mg_pr_url = Some url,
                mg_pr_status = Some MS_Open, mg_pr_merged_at = None, mg_pr_merge_commit_sha = None, mg_created_at = now \<rparr>
      in bind_result (insert_merge db r) (\<lambda>db'. Inr (r, db')))"

definition get_open_prs :: "database \<Rightarrow> pr_merge option list" where
  "get_open_prs db =
     map pr_of_row
       (order_by_desc mg_created_at
          (filter (\<lambda>r. mg_merge_type r = MT_Pr \<and> mg_pr_status r = Some MS_Open) (merges db)))"

definition set_pr_status :: "merge_status \<Rightarrow> string option \<Rightarrow> datetime option \<Rightarrow> merge_row \<Rightarrow> merge_row" where
  "set_pr_status status sha merged_at r =
     r\<lparr>mg_pr_status := Some status, mg_pr_merge_commit_sha := sha, mg_pr_merged_at := merged_at\<rparr>"

definition merge_update_status ::
  "database \<Rightarrow> uuid \<Rightarrow> merge_status \<Rightarrow> string option \<Rightarrow> datetime \<Rightarrow> sqlx_error + database" where
  "merge_update_status db merge_id status sha now =
     (let t = update_where (\<lambda>r. mg_id r = merge_id)
                (set_pr_status status sha (if status = MS_Merged then Some now else None)) (merges db)
      in if list_all (\<lambda>r. mg_id r = merge_id \<longrightarrow> merge_row_check r) t
         then Inr (db\<lparr>merges := t\<rparr>) else Inl CheckViolation)"

definition merge_rows_of_attempt :: "database \<Rightarrow> uuid \<Rightarrow> merge_row list" where
  "merge_rows_of_attempt db attempt_id =
     order_by_desc mg_created_at (filter (\<lambda>r. mg_task_attempt_id r = attempt_id) (merges db))"

definition merge_find_by_task_attempt_id :: "database \<Rightarrow> uuid \<Rightarrow> merge option list" where
  "merge_find_by_task_attempt_id db attempt_id = map merge_of_row (merge_rows_of_attempt db attempt_id)"

text \<open>\<^verbatim>\<open>find_latest_by_task_attempt_id\<close> takes \<^verbatim>\<open>merges.pop()\<close>, the last element of that list.\<close>

definition merge_find_latest :: "database \<Rightarrow> uuid \<Rightarrow> merge option option" where
  "merge_find_latest db attempt_id =
     (case merge_find_by_task_attempt_id db attempt_id of [] \<Rightarrow> None | ms \<Rightarrow> Some (last ms))"

lemma merge_row_check_of_row: "merge_row_check r \<Longrightarrow> \<exists>m. merge_of_row r = Some m \<and> merge_created_at m = mg_created_at r"
  by (auto simp: merge_row_check_def merge_of_row_def direct_of_row_def pr_of_row_def)

definition merge_writes :: "(merge_row \<Rightarrow> merge_row) set" where
  "merge_writes = {set_pr_status st sha at |st sha at. True}"

interpretation mt: keyed_table mg_id merge_writes
  by unfold_locales (auto simp: merge_writes_def set_pr_status_def)


section \<open>Images\<close>

record create_image =
  ci_file_path :: string
  ci_original_name :: string
  ci_mime_type :: "string option"
  ci_size_bytes :: int
  ci_hash :: string

definition image_create :: "database \<Rightarrow> create_image \<Rightarrow> uuid \<Rightarrow> datetime \<Rightarrow> sqlx_error + image \<times> database" where
  "image_create db data i now =
     (let r = \<lparr> im_id = i, im_file_path = ci_file_path data, im_original_name = ci_original_name data,
                im_mime_type = ci_mime_type data, im_size_bytes = ci_size_bytes data, im_hash = ci_hash data,
                im_created_at = now, im_updated_at = now \<rparr>
      in if exists_row im_id i (images db) \<or> exists_row im_hash (ci_hash data) (images db) then Inl UniqueViolation
         else Inr (r, db\<lparr>images := images db @ [r]\<rparr>))"

definition image_find_by_hash :: "database \<Rightarrow> string \<Rightarrow> image option" where
  "image_find_by_hash db h = lookup im_hash h (images db)"

definition image_find_by_id :: "database \<Rightarrow> uuid \<Rightarrow> image option" where
  "image_find_by_id db i = lookup im_id i (images db)"

definition image_find_by_task_id :: "database \<Rightarrow> uuid \<Rightarrow> image list" where
  "image_find_by_task_id db task_id =
     List.map_filter (\<lambda>ti. image_find_by_id db (ti_image_id ti))
       (order_by_asc ti_created_at (filter (\<lambda>ti. ti_task_id ti = task_id) (task_images db)))"

definition image_delete :: "database \<Rightarrow> uuid \<Rightarrow> database" where
  "image_delete db i =
     db\<lparr>images := delete_where (\<lambda>r. im_id r = i) (images db),
        task_images := delete_where (\<lambda>ti. ti_image_id ti = i \<and> exists_row im_id i (images db)) (task_images db)\<rparr>"

definition find_orphaned_images :: "database \<Rightarrow> image list" where
  "find_orphaned_images db = filter (\<lambda>r. \<forall>ti \<in> set (task_images db). ti_image_id ti \<noteq> im_id r) (images db)"

definition insert_task_image :: "database \<Rightarrow> uuid \<Rightarrow> uuid \<Rightarrow> uuid \<Rightarrow> datetime \<Rightarrow> sqlx_error + database" where
  "insert_task_image db i task_id image_id now =
     (if exists_row ti_id i (task_images db)
         \<or> exists_row (\<lambda>ti. (ti_task_id ti, ti_image_id ti)) (task_id, image_id) (task_images db) then Inl UniqueViolation
      else if \<not> exists_row tk_id task_id (tasks db) \<or> \<not> exists_row im_id image_id (images db) then Inl ForeignKeyViolation
      else Inr (db\<lparr>task_images := task_images db
                  @ [\<lparr> ti_id = i, ti_task_id = task_id, ti_image_id = image_id, ti_created_at = now \<rparr>]\<rparr>))"

text \<open>
  The loops of \<^verbatim>\<open>associate_many\<close> and \<^verbatim>\<open>associate_many_dedup\<close>; each image comes with the identifier
  that its iteration makes.  An error leaves what the earlier iterations wrote, hence the pair.
\<close>

fun associate_many ::
  "database \<Rightarrow> uuid \<Rightarrow> (uuid \<times> uuid) list \<Rightarrow> datetime \<Rightarrow> sqlx_error option \<times> database" where
  "associate_many db task_id [] now = (None, db)"
| "associate_many db task_id ((fresh, image_id) # rest) now =
     (case insert_task_image db fresh task_id image_id now of
        Inl e \<Rightarrow> (Some e, db)
      | Inr db' \<Rightarrow> associate_many db' task_id rest now)"

fun associate_many_dedup ::
  "database \<Rightarrow> uuid \<Rightarrow> (uuid \<times> uuid) list \<Rightarrow> datetime \<Rightarrow> sqlx_error option \<times> database" where
  "associate_many_dedup db task_id [] now = (None, db)"
| "associate_many_dedup db task_id ((fresh, image_id) # rest) now =
     (if \<exists>ti \<in> set (task_images db). ti_task_id ti = task_id \<and> ti_image_id ti = image_id
      then associate_many_dedup db task_id rest now
      else case insert_task_image db fresh task_id image_id now of
             Inl e \<Rightarrow> (Some e, db)
           | Inr db' \<Rightarrow> associate_many_dedup db' task_id rest now)"

definition task_image_delete_by_task_id :: "database \<Rightarrow> uuid \<Rightarrow> database" where
  "task_image_delete_by_task_id db task_id =
     db\<lparr>task_images := delete_where (\<lambda>ti. ti_task_id ti = task_id) (task_images db)\<rparr>"

definition images_of_task :: "database \<Rightarrow> uuid \<Rightarrow> uuid set" where
  "images_of_task db task_id = ti_image_id ` {ti \<in> set (task_images db). ti_task_id ti = task_id}"

text \<open>A task exists, the images exist, the fresh identifiers are unused: the association succeeds.\<close>

lemma associate_many_dedup_ok:
  assumes "exists_row tk_id task_id (tasks db)" and "\<forall>i \<in> snd ` set ids. exists_row im_id i (images db)"
    and "distinct (map fst ids)" and "fst ` set ids \<inter> ti_id ` set (task_images db) = {}"
  shows "\<exists>db'. associate_many_dedup db task_id ids now = (None, db')
     \<and> images_of_task db' task_id = images_of_task db task_id \<union> snd ` set ids"
  using assms
proof (induction ids arbitrary: db)
  case (Cons x ids)
  obtain fresh i where x: "x = (fresh, i)" by fastforce
  show ?case
  proof (cases "\<exists>ti \<in> set (task_images db). ti_task_id ti = task_id \<and> ti_image_id ti = i")
    case True
    then have "i \<in> images_of_task db task_id" by (auto simp: images_of_task_def)
    with True Cons.IH [of db] Cons.prems x show ?thesis by (auto simp: insert_absorb)
  next
    case False
    let ?row = "\<lparr> ti_id = fresh, ti_task_id = task_id, ti_image_id = i, ti_created_at = now \<rparr>"
    let ?db = "db\<lparr>task_images := task_images db @ [?row]\<rparr>"
    have "insert_task_image db fresh task_id i now = Inr ?db"
      using Cons.prems False x by (auto simp: insert_task_image_def exists_row_iff)
    moreover have "{ti \<in> set (task_images ?db). ti_task_id ti = task_id}
        = insert ?row {ti \<in> set (task_images db). ti_task_id ti = task_id}" by auto
    then have "images_of_task ?db task_id = insert i (images_of_task db task_id)"
      unfolding images_of_task_def by simp
    moreover have "fst ` set ids \<inter> ti_id ` set (task_images ?db) = {}"
      using Cons.prems(3,4) x by auto
    ultimately show ?thesis
      using Cons.IH [of ?db] Cons.prems False x by auto
  qed
qed simp


section \<open>Tags\<close>

definition tag_check :: "tag \<Rightarrow> bool" where
  "tag_check g \<longleftrightarrow> CHR '' '' \<notin> set (tg_tag_name g) \<and> tg_content g \<noteq> []"

text \<open>SQLite compares text by bytes.\<close>

definition string_bytes :: "string \<Rightarrow> nat list" where
  "string_bytes s = map of_char s"

definition tag_find_all :: "database \<Rightarrow> tag list" where
  "tag_find_all db = order_by_asc (string_bytes \<circ> tg_tag_name) (tags db)"

definition tag_find_by_id :: "database \<Rightarrow> uuid \<Rightarrow> tag option" where
  "tag_find_by_id db i = lookup tg_id i (tags db)"

definition tag_create :: "database \<Rightarrow> string \<Rightarrow> string \<Rightarrow> uuid \<Rightarrow> datetime \<Rightarrow> sqlx_error + tag \<times> database" where
  "tag_create db tag_name content i now =
     (let g = \<lparr> tg_id = i, tg_tag_name = tag_name, tg_content = content, tg_created_at = now, tg_updated_at = now \<rparr>
      in if \<not> tag_check g then Inl CheckViolation
         else if exists_row tg_id i (tags db) then Inl UniqueViolation
         else Inr (g, db\<lparr>tags := tags db @ [g]\<rparr>))"

definition set_tag :: "string \<Rightarrow> string \<Rightarrow> datetime \<Rightarrow> tag \<Rightarrow> tag" where
  "set_tag tag_name content now g = g\<lparr>tg_tag_name := tag_name, tg_content := content, tg_updated_at := now\<rparr>"

definition tag_update ::
  "database \<Rightarrow> uuid \<Rightarrow> string option \<Rightarrow> string option \<Rightarrow> datetime \<Rightarrow> sqlx_error + tag \<times> database" where
  "tag_update db i tag_name content now =
     bind_result (ok_or RowNotFound (tag_find_by_id db i)) (\<lambda>existing.
       let name = (case tag_name of Some n \<Rightarrow> n | None \<Rightarrow> tg_tag_name existing);
           cont = (case content of Some c \<Rightarrow> c | None \<Rightarrow> tg_content existing);
           g = set_tag name cont now existing
       in if \<not> tag_check g then Inl CheckViolation
          else Inr (g, db\<lparr>tags := update_where (\<lambda>g. tg_id g = i) (set_tag name cont now) (tags db)\<rparr>))"

definition tag_delete :: "database \<Rightarrow> uuid \<Rightarrow> nat \<times> database" where
  "tag_delete db i =
     (rows_affected (\<lambda>g. tg_id g = i) (tags db), db\<lparr>tags := delete_where (\<lambda>g. tg_id g = i) (tags db)\<rparr>)"


section \<open>Properties\<close>

lemma sort_key_hd_least: "t \<noteq> [] \<Longrightarrow> \<forall>x \<in> set t. key (hd (sort_key key t)) \<le> key x"
proof
  fix x assume "t \<noteq> []" and "x \<in> set t"
  have "sorted (map key (sort_key key t))" by simp
  moreover obtain r rs where "sort_key key t = r # rs" using \<open>t \<noteq> []\<close> by (metis list.exhaust set_empty set_sort)
  moreover have "x \<in> set (sort_key key t)" using \<open>x \<in> set t\<close> by simp
  ultimately show "key (hd (sort_key key t)) \<le> key x" by auto
qed

text \<open>
  The lookup of the most recent merge of an attempt returns the oldest one: the rows come
  newest first and the code takes the last of them.
\<close>

theorem merge_find_latest_is_oldest:
  assumes "merge_find_latest db attempt = Some m"
  shows "\<exists>r \<in> set (merges db). mg_task_attempt_id r = attempt \<and> merge_of_row r = m
     \<and> (\<forall>r' \<in> set (merges db). mg_task_attempt_id r' = attempt \<longrightarrow> mg_created_at r \<le> mg_created_at r')"
proof -
  let ?t = "filter (\<lambda>r. mg_task_attempt_id r = attempt) (merges db)"
  let ?r = "hd (sort_key mg_created_at ?t)"
  have rows: "merge_rows_of_attempt db attempt = rev (sort_key mg_created_at ?t)"
    by (simp add: merge_rows_of_attempt_def order_by_desc_def)
  from assms have ne: "?t \<noteq> []" and m: "m = last (map merge_of_row (rev (sort_key mg_created_at ?t)))"
    by (auto simp: merge_find_latest_def merge_find_by_task_attempt_id_def rows split: list.splits)
  have "sort_key mg_created_at ?t \<noteq> []" using ne by (metis set_empty set_sort)
  then have "m = merge_of_row ?r" and "?r \<in> set (sort_key mg_created_at ?t)"
    using m by (simp_all add: last_map last_rev del: set_sort)
  moreover note this(2)
  then have "?r \<in> set ?t" by simp
  ultimately show ?thesis using sort_key_hd_least [OF ne, of mg_created_at] by (intro bexI [of _ ?r]) auto
qed

definition sample_merge :: "uuid \<Rightarrow> datetime \<Rightarrow> merge_row" where
  "sample_merge i now =
     \<lparr> mg_id = i, mg_task_attempt_id = 3, mg_merge_type = MT_Direct, mg_merge_commit = Some ''c'',
       mg_target_branch_name = ''main'', mg_pr_number = None, mg_pr_url = None, mg_pr_status = None,
       mg_pr_merged_at = None, mg_pr_merge_commit_sha = None, mg_created_at = now \<rparr>"

theorem merge_find_latest_is_oldest_witness:
  "\<exists>r \<in> set [sample_merge 1 10, sample_merge 2 20]. mg_task_attempt_id r = 3
     \<and> Some (merge_of_row r) = merge_find_latest (sample_database\<lparr>merges := [sample_merge 1 10, sample_merge 2 20]\<rparr>) 3
     \<and> mg_created_at r \<le> 10"
proof -
  let ?db = "sample_database\<lparr>merges := [sample_merge 1 10, sample_merge 2 20]\<rparr>"
  have l: "merge_find_latest ?db 3 = Some (merge_of_row (sample_merge 1 10))"
    by (simp add: merge_find_latest_def merge_find_by_task_attempt_id_def merge_rows_of_attempt_def order_by_desc_def
        sample_merge_def)
  from merge_find_latest_is_oldest [OF l] obtain r where
    "r \<in> set (merges ?db)" "mg_task_attempt_id r = 3" "merge_of_row r = merge_of_row (sample_merge 1 10)"
    "\<forall>r' \<in> set (merges ?db). mg_task_attempt_id r' = 3 \<longrightarrow> mg_created_at r \<le> mg_created_at r'" by blast
  with l show ?thesis by (intro bexI [of _ r]) (auto simp: sample_merge_def)
qed

text \<open>
  Associating images with a task, duplicates included, succeeds when the task and the images
  exist, and afterwards the task has exactly its old images and the given ones.
\<close>

theorem associate_many_dedup_spec:
  assumes "exists_row tk_id task_id (tasks db)" and "\<forall>i \<in> snd ` set ids. exists_row im_id i (images db)"
    and "distinct (map fst ids)" and "fst ` set ids \<inter> ti_id ` set (task_images db) = {}"
  shows "\<exists>db'. associate_many_dedup db task_id ids now = (None, db')
     \<and> images_of_task db' task_id = images_of_task db task_id \<union> snd ` set ids"
  using assms by (rule associate_many_dedup_ok)

definition sample_image :: image where
  "sample_image =
     \<lparr> im_id = 30, im_file_path = ''f'', im_original_name = ''n'', im_mime_type = None, im_size_bytes = 1, im_hash = ''h'',
       im_created_at = 0, im_updated_at = 0 \<rparr>"

theorem associate_many_dedup_spec_witness:
  "\<exists>db'. associate_many_dedup (sample_database\<lparr>images := [sample_image]\<rparr>) 2 [(40, 30), (41, 30)] 0 = (None, db')
     \<and> images_of_task db' 2 = images_of_task (sample_database\<lparr>images := [sample_image]\<rparr>) 2 \<union> snd ` set [(40 :: uuid, 30), (41, 30)]"
  by (rule associate_many_dedup_spec) (simp_all add: sample_defs sample_image_def exists_row_def)

end
