(* ===== verification/Db_Integrity.thy ===== *)
theory Db_Integrity
  imports Misc_Models
begin

text \<open>
  Referential integrity of the database across all models: every primary key is unique, every
  foreign key points to a row, the \<^verbatim>\<open>CHECK\<close>s of the migrations hold.  \<open>db_step\<close> has one rule for
  each function of the models that writes; the invariant is kept by all of them, and so holds in
  every database that the code can reach.
\<close>

section \<open>The invariant\<close>

text \<open>Every non-null reference of the first column is a value of the second.\<close>

definition fk :: "'k option list \<Rightarrow> 'k list \<Rightarrow> bool" where
  "fk refs keys \<longleftrightarrow> (\<forall>k. Some k \<in> set refs \<longrightarrow> k \<in> set keys)"

definition keys_ok :: "database \<Rightarrow> bool" where
  "keys_ok db \<longleftrightarrow>
     distinct (map pj_id (projects db)) \<and> distinct (map tk_id (tasks db)) \<and> distinct (map ta_id (task_attempts db))
     \<and> distinct (map ep_id (execution_processes db)) \<and> distinct (map es_id (executor_sessions db))
     \<and> distinct (map lg_execution_id (execution_process_logs db)) \<and> distinct (map er_id (execution_runs db))
     \<and> distinct (map dr_id (drafts db)) \<and> distinct (map draft_key (drafts db)) \<and> distinct (map mg_id (merges db)) \<and> distinct (map im_id (images db))
     \<and> distinct (map im_hash (images db)) \<and> distinct (map ti_id (task_images db))
     \<and> distinct (map (\<lambda>i. (ti_task_id i, ti_image_id i)) (task_images db)) \<and> distinct (map tg_id (tags db))
     \<and> distinct (map pj_git_repo_path (projects db))"

definition refs_ok :: "database \<Rightarrow> bool" where
  "refs_ok db \<longleftrightarrow>
     fk (map (\<lambda>t. Some (tk_project_id t)) (tasks db)) (map pj_id (projects db))
     \<and> fk (map tk_parent_task_attempt (tasks db)) (map ta_id (task_attempts db))
     \<and> fk (map (\<lambda>a. Some (ta_task_id a)) (task_attempts db)) (map tk_id (tasks db))
     \<and> fk (map ep_task_attempt_id (execution_processes db)) (map ta_id (task_attempts db))
     \<and> fk (map ep_execution_run_id (execution_processes db)) (map er_id (execution_runs db))
     \<and> fk (map (\<lambda>s. Some (es_execution_process_id s)) (executor_sessions db)) (map ep_id (execution_processes db))
     \<and> fk (map es_task_attempt_id (executor_sessions db)) (map ta_id (task_attempts db))
     \<and> fk (map (\<lambda>l. Some (lg_execution_id l)) (execution_process_logs db)) (map ep_id (execution_processes db))
     \<and> fk (map (\<lambda>r. Some (er_project_id r)) (execution_runs db)) (map pj_id (projects db))
     \<and> fk (map (\<lambda>d. Some (dr_task_attempt_id d)) (drafts db)) (map ta_id (task_attempts db))
     \<and> fk (map dr_retry_process_id (drafts db)) (map ep_id (execution_processes db))
     \<and> fk (map (\<lambda>m. Some (mg_task_attempt_id m)) (merges db)) (map ta_id (task_attempts db))
     \<and> fk (map (\<lambda>i. Some (ti_task_id i)) (task_images db)) (map tk_id (tasks db))
     \<and> fk (map (\<lambda>i. Some (ti_image_id i)) (task_images db)) (map im_id (images db))"

definition checks_ok :: "database \<Rightarrow> bool" where
  "checks_ok db \<longleftrightarrow>
     list_all (\<lambda>p. ep_task_attempt_id p \<noteq> None \<or> ep_execution_run_id p \<noteq> None) (execution_processes db)
     \<and> list_all merge_row_check (merges db) \<and> list_all tag_check (tags db)
     \<and> list_all (\<lambda>d. dr_draft_type d = Retry \<longrightarrow> dr_retry_process_id d \<noteq> None) (drafts db)"

definition db_ok :: "database \<Rightarrow> bool" where
  "db_ok db \<longleftrightarrow> keys_ok db \<and> refs_ok db \<and> checks_ok db"

lemmas db_ok_defs = db_ok_def keys_ok_def refs_ok_def checks_ok_def

lemma db_ok_empty: "db_ok empty_database"
  by (simp add: db_ok_defs empty_database_def fk_def)


section \<open>Statements and the invariant\<close>

lemma map_update_where: "(\<And>r. g (f r) = g r) \<Longrightarrow> map g (update_where P f t) = map g t"
  by (induction t) simp_all

lemma list_all_update_where: "(\<And>r. Q r \<Longrightarrow> Q (f r)) \<Longrightarrow> list_all Q t \<Longrightarrow> list_all Q (update_where P f t)"
  by (induction t) simp_all

lemma fk_mono: "fk refs keys \<Longrightarrow> set refs' \<subseteq> insert None (set refs) \<Longrightarrow> set keys \<subseteq> set keys' \<Longrightarrow> fk refs' keys'"
  by (auto simp: fk_def)

lemma fk_append_key [intro]: "fk refs keys \<Longrightarrow> fk refs (keys @ ks)"
  by (auto simp: fk_def)

lemma fk_append_ref [simp]: "fk (refs @ [r]) keys \<longleftrightarrow> fk refs keys \<and> (\<forall>k. r = Some k \<longrightarrow> k \<in> set keys)"
  by (auto simp: fk_def)

lemma fk_delete_ref [intro]: "fk (map f t) keys \<Longrightarrow> fk (map f (delete_where P t)) keys"
  by (auto simp: fk_def)

text \<open>Rows that refer to deleted rows are deleted with them.\<close>

lemma fk_cascade:
  assumes "fk (map f t) (map g u)" and "\<And>r k. r \<in> set t \<Longrightarrow> f r = Some k \<Longrightarrow> k \<in> G \<Longrightarrow> Q r"
  shows "fk (map f (delete_where Q t)) (map g (delete_where (\<lambda>x. g x \<in> G) u))"
  using assms by (fastforce simp: fk_def)

lemma fk_unreferenced:
  assumes "fk (map f t) (map g u)" and "\<And>r k. r \<in> set t \<Longrightarrow> f r = Some k \<Longrightarrow> k \<notin> G"
  shows "fk (map f t) (map g (delete_where (\<lambda>x. g x \<in> G) u))"
  using assms by (fastforce simp: fk_def)

lemma distinct_map_delete_where: "distinct (map g t) \<Longrightarrow> distinct (map g (delete_where P t))"
  by (simp add: delete_where_def distinct_map_filter)

lemma list_all_delete_where: "list_all Q t \<Longrightarrow> list_all Q (delete_where P t)"
  by (auto simp: list_all_iff)

lemma map_key_delete_where: "map g (delete_where (\<lambda>x. g x \<in> K) t) = filter (\<lambda>k. k \<notin> K) (map g t)"
  by (simp add: delete_where_def filter_map comp_def)

lemma delete_where_by_key:
  "distinct (map g t) \<Longrightarrow> delete_where P t = delete_where (\<lambda>x. g x \<in> set (map g (filter P t))) t"
  unfolding delete_where_def
  by (rule filter_cong [OF refl]) (auto simp: distinct_map dest: inj_onD)

lemmas delete_rules = distinct_map_delete_where list_all_delete_where fk_delete_ref

lemma db_ok_delete_processes:
  assumes "db_ok db" shows "db_ok (delete_processes P db)"
proof -
  let ?G = "set (map ep_id (filter P (execution_processes db)))"
  have eq: "delete_where P (execution_processes db) = delete_where (\<lambda>p. ep_id p \<in> ?G) (execution_processes db)"
    using assms by (intro delete_where_by_key) (simp add: db_ok_defs)
  have "fk (map (\<lambda>s. Some (es_execution_process_id s)) (delete_where (\<lambda>s. es_execution_process_id s \<in> ?G) (executor_sessions db)))
          (map ep_id (delete_where (\<lambda>p. ep_id p \<in> ?G) (execution_processes db)))"
    "fk (map (\<lambda>l. Some (lg_execution_id l)) (delete_where (\<lambda>l. lg_execution_id l \<in> ?G) (execution_process_logs db)))
          (map ep_id (delete_where (\<lambda>p. ep_id p \<in> ?G) (execution_processes db)))"
    "fk (map dr_retry_process_id (delete_where (\<lambda>d. dr_retry_process_id d \<in> Some ` ?G) (drafts db)))
          (map ep_id (delete_where (\<lambda>p. ep_id p \<in> ?G) (execution_processes db)))"
    using assms by (intro fk_cascade; simp add: db_ok_defs)+
  with assms show ?thesis
    unfolding delete_processes_def Let_def eq
    by (simp add: db_ok_defs delete_rules del: set_map)
qed

lemma delete_processes_frame [simp]:
  "projects (delete_processes P db) = projects db"
  "tasks (delete_processes P db) = tasks db"
  "task_attempts (delete_processes P db) = task_attempts db"
  "execution_runs (delete_processes P db) = execution_runs db"
  "execution_processes (delete_processes P db) = delete_where P (execution_processes db)"
  by (simp_all add: delete_processes_def)

lemma fk_clear_parent:
  assumes "fk (map tk_parent_task_attempt t) (map g u)"
  shows "fk (map tk_parent_task_attempt
              (update_where (\<lambda>t. tk_parent_task_attempt t \<in> Some ` G) (\<lambda>t. t\<lparr>tk_parent_task_attempt := None\<rparr>) t))
            (map g (delete_where (\<lambda>x. g x \<in> G) u))"
  unfolding fk_def
proof (intro allI impI)
  fix k
  assume "Some k \<in> set (map tk_parent_task_attempt
              (update_where (\<lambda>t. tk_parent_task_attempt t \<in> Some ` G) (\<lambda>t. t\<lparr>tk_parent_task_attempt := None\<rparr>) t))"
  then obtain r where r: "r \<in> set t" and
    eq: "Some k = tk_parent_task_attempt (if tk_parent_task_attempt r \<in> Some ` G
            then r\<lparr>tk_parent_task_attempt := None\<rparr> else r)"
    by (auto simp: set_update_where)
  from eq have kr: "tk_parent_task_attempt r = Some k" and "Some k \<notin> Some ` G" by (auto split: if_splits)
  then have kG: "k \<notin> G" by blast
  from r kr have "Some k \<in> set (map tk_parent_task_attempt t)" by (metis imageI list.set_map)
  with assms have "k \<in> set (map g u)" by (simp add: fk_def)
  with kG show "k \<in> set (map g (delete_where (\<lambda>x. g x \<in> G) u))" by auto
qed

lemma db_ok_delete_attempts:
  assumes "db_ok db" shows "db_ok (delete_attempts P db)"
proof -
  let ?G = "set (map ta_id (filter P (task_attempts db)))"
  let ?db = "delete_processes (\<lambda>p. ep_task_attempt_id p \<in> Some ` ?G) db"
  have ok: "db_ok ?db" using assms by (rule db_ok_delete_processes)
  have "fk (map ep_task_attempt_id (execution_processes ?db)) (map ta_id (delete_where (\<lambda>a. ta_id a \<in> ?G) (task_attempts ?db)))"
    using ok by (intro fk_unreferenced) (auto simp: db_ok_defs)
  moreover have
    "fk (map es_task_attempt_id (delete_where (\<lambda>s. es_task_attempt_id s \<in> Some ` ?G) (executor_sessions ?db)))
          (map ta_id (delete_where (\<lambda>a. ta_id a \<in> ?G) (task_attempts ?db)))"
    "fk (map (\<lambda>d. Some (dr_task_attempt_id d)) (delete_where (\<lambda>d. dr_task_attempt_id d \<in> ?G) (drafts ?db)))
          (map ta_id (delete_where (\<lambda>a. ta_id a \<in> ?G) (task_attempts ?db)))"
    "fk (map (\<lambda>m. Some (mg_task_attempt_id m)) (delete_where (\<lambda>m. mg_task_attempt_id m \<in> ?G) (merges ?db)))
          (map ta_id (delete_where (\<lambda>a. ta_id a \<in> ?G) (task_attempts ?db)))"
    using ok by (intro fk_cascade; simp add: db_ok_defs)+
  moreover have "fk (map tk_parent_task_attempt (update_where (\<lambda>t. tk_parent_task_attempt t \<in> Some ` ?G)
      (\<lambda>t. t\<lparr>tk_parent_task_attempt := None\<rparr>) (tasks ?db)))
      (map ta_id (delete_where (\<lambda>a. ta_id a \<in> ?G) (task_attempts ?db)))"
    using ok by (intro fk_clear_parent) (simp add: db_ok_defs)
  ultimately show ?thesis
    using ok unfolding delete_attempts_def Let_def
    by (simp add: db_ok_defs delete_rules map_update_where del: set_map delete_processes_frame)
qed

lemma delete_attempts_frame [simp]:
  "projects (delete_attempts P db) = projects db"
  "execution_runs (delete_attempts P db) = execution_runs db"
  "map tk_id (tasks (delete_attempts P db)) = map tk_id (tasks db)"
  "map tk_project_id (tasks (delete_attempts P db)) = map tk_project_id (tasks db)"
  "task_attempts (delete_attempts P db) = delete_where (\<lambda>a. ta_id a \<in> set (map ta_id (filter P (task_attempts db)))) (task_attempts db)"
  by (simp_all add: delete_attempts_def Let_def map_update_where)

lemma db_ok_delete_tasks:
  assumes "db_ok db" shows "db_ok (delete_tasks P db)"
proof -
  let ?G = "set (map tk_id (filter P (tasks db)))"
  let ?db = "delete_attempts (\<lambda>a. ta_task_id a \<in> ?G) db"
  have ok: "db_ok ?db" using assms by (rule db_ok_delete_attempts)
  have "fk (map (\<lambda>a. Some (ta_task_id a)) (task_attempts ?db)) (map tk_id (delete_where (\<lambda>t. tk_id t \<in> ?G) (tasks ?db)))"
    using ok by (intro fk_unreferenced) (auto simp: db_ok_defs)
  moreover have "fk (map (\<lambda>i. Some (ti_task_id i)) (delete_where (\<lambda>i. ti_task_id i \<in> ?G) (task_images ?db)))
      (map tk_id (delete_where (\<lambda>t. tk_id t \<in> ?G) (tasks ?db)))"
    using ok by (intro fk_cascade) (simp_all add: db_ok_defs)
  ultimately show ?thesis
    using ok unfolding delete_tasks_def Let_def
    by (simp add: db_ok_defs delete_rules del: set_map delete_attempts_frame)
qed

lemma db_ok_delete_runs:
  assumes "db_ok db" shows "db_ok (delete_runs P db)"
proof -
  let ?G = "set (map er_id (filter P (execution_runs db)))"
  let ?db = "delete_processes (\<lambda>p. ep_execution_run_id p \<in> Some ` ?G) db"
  have ok: "db_ok ?db" using assms by (rule db_ok_delete_processes)
  have "fk (map ep_execution_run_id (execution_processes ?db)) (map er_id (delete_where (\<lambda>r. er_id r \<in> ?G) (execution_runs ?db)))"
    using ok by (intro fk_unreferenced) (auto simp: db_ok_defs)
  with ok show ?thesis
    unfolding delete_runs_def Let_def
    by (simp add: db_ok_defs delete_rules del: set_map delete_processes_frame)
qed

lemma delete_tasks_frame:
  "projects (delete_tasks P db) = projects db"
  "execution_runs (delete_tasks P db) = execution_runs db"
  by (simp_all add: delete_tasks_def Let_def)

lemma delete_tasks_project:
  assumes "t \<in> set (tasks (delete_tasks (\<lambda>t. tk_project_id t \<in> G) db))"
  shows "tk_project_id t \<notin> G"
proof
  assume g: "tk_project_id t \<in> G"
  let ?H = "set (map tk_id (filter (\<lambda>t. tk_project_id t \<in> G) (tasks db)))"
  let ?db = "delete_attempts (\<lambda>a. ta_task_id a \<in> ?H) db"
  from assms have t: "t \<in> set (tasks ?db)" "tk_id t \<notin> ?H" by (simp_all add: delete_tasks_def Let_def)
  have "map (\<lambda>t. (tk_id t, tk_project_id t)) (tasks ?db) = map (\<lambda>t. (tk_id t, tk_project_id t)) (tasks db)"
    by (simp add: delete_attempts_def Let_def map_update_where)
  then have "(tk_id t, tk_project_id t) \<in> (\<lambda>t. (tk_id t, tk_project_id t)) ` set (tasks db)"
    using t(1) by (metis (mono_tags, lifting) imageI list.set_map)
  then obtain t' where "t' \<in> set (tasks db)" "tk_id t' = tk_id t" "tk_project_id t' = tk_project_id t" by auto
  with g have "t' \<in> set (filter (\<lambda>t. tk_project_id t \<in> G) (tasks db))" "tk_id t = tk_id t'" by simp_all
  then have "tk_id t \<in> ?H" by (metis imageI list.set_map)
  with t(2) show False by contradiction
qed

lemma db_ok_delete_projects:
  assumes "db_ok db" shows "db_ok (delete_projects P db)"
proof -
  let ?G = "set (map pj_id (filter P (projects db)))"
  let ?db0 = "delete_tasks (\<lambda>t. tk_project_id t \<in> ?G) db"
  let ?db = "delete_runs (\<lambda>r. er_project_id r \<in> ?G) ?db0"
  have ok: "db_ok ?db" using assms by (intro db_ok_delete_runs db_ok_delete_tasks)
  have td: "tasks (delete_runs Q d) = tasks d" for Q d by (simp add: delete_runs_def Let_def)
  have "t \<in> set (tasks ?db) \<Longrightarrow> tk_project_id t \<notin> ?G" for t
    unfolding td by (rule delete_tasks_project)
  moreover have "fk (map (\<lambda>t. Some (tk_project_id t)) (tasks ?db)) (map pj_id (projects ?db))"
    using ok by (simp add: db_ok_defs)
  ultimately have
    "fk (map (\<lambda>t. Some (tk_project_id t)) (tasks ?db)) (map pj_id (delete_where (\<lambda>p. pj_id p \<in> ?G) (projects ?db)))"
    by (intro fk_unreferenced) blast+
  moreover have "fk (map (\<lambda>r. Some (er_project_id r)) (execution_runs ?db))
      (map pj_id (delete_where (\<lambda>p. pj_id p \<in> ?G) (projects ?db)))"
    using ok by (intro fk_unreferenced) (auto simp: db_ok_defs delete_runs_def Let_def)
  ultimately show ?thesis
    using ok unfolding delete_projects_def Let_def
    by (simp add: db_ok_defs delete_rules del: set_map)
qed


section \<open>Every writer keeps the invariant\<close>

inductive db_step :: "database \<Rightarrow> database \<Rightarrow> bool" where
  project_create: "project_create db cp i now = Inr (p, db') \<Longrightarrow> db_step db db'"
| project_update: "project_update db i n path s d c f m = Inr (p, db') \<Longrightarrow> db_step db db'"
| project_delete: "db_step db (snd (project_delete db i))"
| task_create: "task_create_with_status db ct i st now = Inr (t, db') \<Longrightarrow> db_step db db'"
| task_update: "task_update db i pid title descr st parent = Inr (t, db') \<Longrightarrow> db_step db db'"
| task_update_status: "db_step db (task_update_status db i st now)"
| nullify_children: "db_step db (snd (nullify_children_by_attempt_id db i))"
| task_delete: "db_step db (snd (task_delete db i))"
| attempt_create: "attempt_create db ca i tid now = Inr (a, db') \<Longrightarrow> db_step db db'"
| attempt_container_ref: "db_step db (attempt_update_container_ref db i path now)"
| attempt_token_usage: "db_step db (attempt_update_token_usage db i a b c d now)"
| attempt_worktree_deleted: "db_step db (attempt_mark_worktree_deleted db i now)"
| attempt_target_branch: "db_step db (attempt_update_target_branch db i b now)"
| run_create: "run_create db cr i pid b now = Inr (r, db') \<Longrightarrow> db_step db db'"
| run_container_ref: "db_step db (run_update_container_ref db i path now)"
| run_worktree_deleted: "db_step db (run_mark_worktree_deleted db i now)"
| process_create: "process_create db ce i commit now = Inr (p, db') \<Longrightarrow> db_step db db'"
| process_completion: "db_step db (update_completion db i status code now)"
| process_after_head: "db_step db (update_after_head_commit db i commit)"
| process_before_head: "db_step db (update_before_head_commit db i commit)"
| process_delete: "db_step db (process_delete_by_task_attempt_id db i)"
| process_restore: "db_step db (set_restore_boundary db i j)"
| process_drop: "db_step db (snd (drop_at_and_after db i j))"
| session_create: "session_create db cs i now = Inr (s, db') \<Longrightarrow> db_step db db'"
| session_session_id: "db_step db (update_session_id db i sid now)"
| session_prompt: "db_step db (update_prompt db i prompt now)"
| session_summary: "db_step db (update_summary db i summary now)"
| session_commit_message: "db_step db (update_commit_message db i message now)"
| session_delete: "db_step db (session_delete_by_task_attempt_id db i)"
| logs_upsert: "logs_upsert db i ls bsize now = Inr db' \<Longrightarrow> db_step db db'"
| logs_append: "append_log_line db i line now = Inr db' \<Longrightarrow> db_step db db'"
| draft_upsert: "draft_upsert db ud i now = Inr (d, db') \<Longrightarrow> db_step db db'"
| draft_clear: "db_step db (clear_after_send db i ty now)"
| draft_delete: "db_step db (draft_delete db i ty)"
| draft_mark: "db_step db (snd (try_mark_sending db i ty now))"
| draft_partial: "update_partial db i ty p v ids r now = Inr db' \<Longrightarrow> db_step db db'"
| draft_queue: "db_step db (snd (set_queued db i ty q eq ev now))"
| merge_direct: "create_direct db a branch commit i now = Inr (r, db') \<Longrightarrow> db_step db db'"
| merge_pr: "create_pr db a branch number url i now = Inr (r, db') \<Longrightarrow> db_step db db'"
| merge_status: "merge_update_status db i ms sha now = Inr db' \<Longrightarrow> db_step db db'"
| image_create: "image_create db ci i now = Inr (im, db') \<Longrightarrow> db_step db db'"
| image_delete: "db_step db (image_delete db i)"
| image_associate: "insert_task_image db i tid iid now = Inr db' \<Longrightarrow> db_step db db'"
| image_dissociate: "db_step db (task_image_delete_by_task_id db i)"
| tag_create: "tag_create db name content i now = Inr (g, db') \<Longrightarrow> db_step db db'"
| tag_update: "tag_update db i name' content' now = Inr (g, db') \<Longrightarrow> db_step db db'"
| tag_delete: "db_step db (snd (tag_delete db i))"

inductive db_reachable :: "database \<Rightarrow> bool" where
  start: "db_reachable empty_database"
| step: "db_reachable db \<Longrightarrow> db_step db db' \<Longrightarrow> db_reachable db'"

lemmas key_lookup = exists_row_iff ref_ok_def

text \<open>Rows added.\<close>

lemma db_ok_project_create: "db_ok db \<Longrightarrow> project_create db cp i now = Inr (p, db') \<Longrightarrow> db_ok db'"
  by (auto simp: project_create_def Let_def key_lookup db_ok_defs split: if_splits)

lemma db_ok_task_create: "db_ok db \<Longrightarrow> task_create_with_status db ct i st now = Inr (t, db') \<Longrightarrow> db_ok db'"
  by (auto simp: task_create_with_status_def Let_def key_lookup db_ok_defs split: if_splits option.splits)

lemma db_ok_attempt_create: "db_ok db \<Longrightarrow> attempt_create db ca i tid now = Inr (a, db') \<Longrightarrow> db_ok db'"
  by (auto simp: attempt_create_def Let_def key_lookup db_ok_defs split: if_splits option.splits)

lemma db_ok_run_create: "db_ok db \<Longrightarrow> run_create db cr i pid b now = Inr (r, db') \<Longrightarrow> db_ok db'"
  by (auto simp: run_create_def Let_def key_lookup db_ok_defs split: if_splits option.splits)

lemma db_ok_process_create: "db_ok db \<Longrightarrow> process_create db ce i commit now = Inr (p, db') \<Longrightarrow> db_ok db'"
  by (auto simp: process_create_def Let_def key_lookup db_ok_defs split: if_splits option.splits)

lemma db_ok_session_create: "db_ok db \<Longrightarrow> session_create db cs i now = Inr (s, db') \<Longrightarrow> db_ok db'"
  by (auto simp: session_create_def Let_def key_lookup db_ok_defs split: if_splits option.splits)

lemma db_ok_upsert_logs:
  assumes "db_ok db" and "upsert_logs db row f = Inr db'" and "\<And>l. lg_execution_id (f l) = lg_execution_id l"
  shows "db_ok db'"
  using assms
  by (auto simp: upsert_logs_def key_lookup db_ok_defs map_update_where split: if_splits)

lemma db_ok_insert_merge: "db_ok db \<Longrightarrow> insert_merge db r = Inr db' \<Longrightarrow> db_ok db'"
  by (auto simp: insert_merge_def key_lookup db_ok_defs split: if_splits)

lemma db_ok_image_create: "db_ok db \<Longrightarrow> image_create db ci i now = Inr (im, db') \<Longrightarrow> db_ok db'"
  by (auto simp: image_create_def Let_def key_lookup db_ok_defs split: if_splits)

lemma db_ok_insert_task_image: "db_ok db \<Longrightarrow> insert_task_image db i tid iid now = Inr db' \<Longrightarrow> db_ok db'"
  by (auto simp: insert_task_image_def Let_def key_lookup db_ok_defs split: if_splits)

lemma db_ok_tag_create: "db_ok db \<Longrightarrow> tag_create db name content i now = Inr (g, db') \<Longrightarrow> db_ok db'"
  by (auto simp: tag_create_def Let_def key_lookup db_ok_defs split: if_splits)

text \<open>Rows changed: no update touches a key or a reference except the ones it checks.\<close>

lemma db_ok_update_processes:
  assumes "db_ok db" and "\<And>p. ep_id (f p) = ep_id p" "\<And>p. ep_task_attempt_id (f p) = ep_task_attempt_id p"
    "\<And>p. ep_execution_run_id (f p) = ep_execution_run_id p"
  shows "db_ok (update_processes P f db)"
  using assms
  by (simp add: update_processes_def db_ok_defs map_update_where list_all_update_where)

lemma db_ok_update_sessions:
  assumes "db_ok db" and "\<And>s. es_id (f s) = es_id s" "\<And>s. es_task_attempt_id (f s) = es_task_attempt_id s"
    "\<And>s. es_execution_process_id (f s) = es_execution_process_id s"
  shows "db_ok (update_sessions P f db)"
  using assms by (simp add: update_sessions_def db_ok_defs map_update_where)

lemma db_ok_update_attempts:
  assumes "db_ok db" and "\<And>a. ta_id (f a) = ta_id a" "\<And>a. ta_task_id (f a) = ta_task_id a"
  shows "db_ok (db\<lparr>task_attempts := update_where P f (task_attempts db)\<rparr>)"
  using assms by (simp add: db_ok_defs map_update_where)

lemma db_ok_update_runs:
  assumes "db_ok db" and "\<And>r. er_id (f r) = er_id r" "\<And>r. er_project_id (f r) = er_project_id r"
  shows "db_ok (db\<lparr>execution_runs := update_where P f (execution_runs db)\<rparr>)"
  using assms by (simp add: db_ok_defs map_update_where)

lemma db_ok_update_drafts:
  assumes "db_ok db" and "\<And>d. draft_key (f d) = draft_key d" and "\<And>d. dr_id (f d) = dr_id d"
    and "\<And>d. dr_retry_process_id (f d) = dr_retry_process_id d"
  shows "db_ok (update_drafts P f db)"
proof -
  from assms(2) have "\<And>d. dr_task_attempt_id (f d) = dr_task_attempt_id d" "\<And>d. dr_draft_type (f d) = dr_draft_type d"
    by (auto simp: draft_key_def)
  with assms show ?thesis
    by (simp add: update_drafts_def db_ok_defs map_update_where list_all_update_where)
qed

text \<open>The two updates of drafts that may set a reference.\<close>

lemma db_ok_retarget_drafts:
  assumes "db_ok db" and "\<And>d. draft_key (f d) = draft_key d" and "\<And>d. dr_id (f d) = dr_id d"
    and "\<And>d. P d \<Longrightarrow> dr_retry_process_id (f d) = dr_retry_process_id d
            \<or> (case dr_retry_process_id (f d) of None \<Rightarrow> dr_draft_type d \<noteq> Retry | Some k \<Rightarrow> exists_row ep_id k (execution_processes db))"
  shows "db_ok (update_drafts P f db)"
proof -
  from assms(2) have keep: "\<And>d. dr_task_attempt_id (f d) = dr_task_attempt_id d" "\<And>d. dr_draft_type (f d) = dr_draft_type d"
    by (auto simp: draft_key_def)
  have "fk (map dr_retry_process_id (update_where P f (drafts db))) (map ep_id (execution_processes db))"
    unfolding fk_def
  proof (intro allI impI)
    fix k assume "Some k \<in> set (map dr_retry_process_id (update_where P f (drafts db)))"
    then obtain d where d: "d \<in> set (drafts db)" "dr_retry_process_id (if P d then f d else d) = Some k"
      by (auto simp: set_update_where)
    then have "dr_retry_process_id d = Some k \<or> exists_row ep_id k (execution_processes db)"
      using assms(4) [of d] by (auto split: if_splits)
    moreover have "fk (map dr_retry_process_id (drafts db)) (map ep_id (execution_processes db))"
      using assms(1) by (simp add: db_ok_defs)
    ultimately show "k \<in> set (map ep_id (execution_processes db))"
      using d(1) by (auto simp: exists_row_iff fk_def) (metis imageI)
  qed
  moreover have "list_all (\<lambda>d. dr_draft_type d = Retry \<longrightarrow> dr_retry_process_id d \<noteq> None) (update_where P f (drafts db))"
    unfolding list_all_iff
  proof
    fix d' assume "d' \<in> set (update_where P f (drafts db))"
    then obtain d where d: "d \<in> set (drafts db)" "d' = (if P d then f d else d)" by (auto simp: set_update_where)
    with assms(1) have "dr_draft_type d = Retry \<longrightarrow> dr_retry_process_id d \<noteq> None"
      by (simp add: db_ok_defs list_all_iff)
    with d(2) assms(4) [of d] keep show "dr_draft_type d' = Retry \<longrightarrow> dr_retry_process_id d' \<noteq> None"
      by (auto split: if_splits option.splits)
  qed
  ultimately show ?thesis
    using assms keep by (simp add: update_drafts_def db_ok_defs map_update_where)
qed

lemma db_ok_draft_upsert:
  assumes "db_ok db" and "draft_upsert db ud i now = Inr (d, db')"
  shows "db_ok db'"
proof (cases "lookup draft_key (ud_task_attempt_id ud, ud_draft_type ud) (drafts db)")
  case None
  from None assms(2) obtain r where
    db': "db' = db\<lparr>drafts := drafts db @ [r]\<rparr>"
    and r: "draft_key r = (ud_task_attempt_id ud, ud_draft_type ud)" "dr_task_attempt_id r = ud_task_attempt_id ud"
      "dr_draft_type r = ud_draft_type ud" "dr_retry_process_id r = ud_retry_process_id ud"
    and new: "dr_id r \<notin> set (map dr_id (drafts db))"
    and retry: "ud_draft_type ud = Retry \<longrightarrow> ud_retry_process_id ud \<noteq> None"
    and refs: "exists_row ta_id (ud_task_attempt_id ud) (task_attempts db)"
      "ref_ok ep_id (ud_retry_process_id ud) (execution_processes db)"
    by (auto simp: draft_upsert_def Let_def draft_key_def exists_row_iff split: if_splits)
  from refs have "\<forall>k. ud_retry_process_id ud = Some k \<longrightarrow> k \<in> set (map ep_id (execution_processes db))"
    and "ud_task_attempt_id ud \<in> set (map ta_id (task_attempts db))"
    by (simp_all add: key_lookup split: option.splits)
  with assms(1) None r new retry show ?thesis
    unfolding db' by (simp add: db_ok_defs lookup_None)
next
  case (Some r)
  let ?P = "\<lambda>d. draft_key d = (ud_task_attempt_id ud, ud_draft_type ud)"
  let ?f = "\<lambda>d. (excluded_draft ud d)\<lparr>dr_updated_at := now\<rparr>"
  from Some assms(2) have "db' = update_drafts ?P ?f db" and
    "\<not> (ud_draft_type ud = Retry \<and> ud_retry_process_id ud = None)" and
    "ref_ok ep_id (ud_retry_process_id ud) (execution_processes db)"
    by (auto simp: draft_upsert_def Let_def split: if_splits)
  with assms(1) show ?thesis
    by (auto intro!: db_ok_retarget_drafts
        simp: dt.key_write [of ?f] excluded_draft_def draft_key_def ref_ok_def split: option.splits)
qed

lemma db_ok_update_partial:
  assumes "db_ok db" and "update_partial db i ty p v ids r now = Inr db'"
  shows "db_ok db'"
proof (cases "db' = db")
  case False
  with assms(2) have db': "db' = update_drafts (\<lambda>d. draft_key d = (i, ty)) (set_partial p v ids r now) db"
    and ref: "exists_row draft_key (i, ty) (drafts db) \<longrightarrow> ref_ok ep_id r (execution_processes db)"
    by (auto simp: update_partial_def split: if_splits)
  show ?thesis
  proof (cases "exists_row draft_key (i, ty) (drafts db)")
    case True
    with ref have "ref_ok ep_id r (execution_processes db)" by simp
    with assms(1) show ?thesis unfolding db'
      by (auto intro!: db_ok_retarget_drafts
          simp: dt.key_write [of "set_partial p v ids r now"] set_partial_def draft_key_def ref_ok_def split: option.splits)
  next
    case False
    then have "\<forall>d \<in> set (drafts db). draft_key d \<noteq> (i, ty)" by (metis exists_row_iff imageI)
    then have "update_drafts (\<lambda>d. draft_key d = (i, ty)) (set_partial p v ids r now) db = db"
      by (simp add: update_drafts_def update_where_none)
    with assms(1) db' show ?thesis by simp
  qed
qed (use assms in simp)

lemma db_ok_task_update:
  assumes "db_ok db" and "task_update db i pid title descr st parent = Inr (t, db')"
  shows "db_ok db'"
proof -
  let ?P = "\<lambda>t. tk_id t = i \<and> tk_project_id t = pid" and ?f = "set_task title descr st parent"
  from assms(2) have db': "db' = db\<lparr>tasks := update_where ?P ?f (tasks db)\<rparr>"
    and ref: "(\<exists>t \<in> set (tasks db). ?P t) \<longrightarrow> ref_ok ta_id parent (task_attempts db)"
    by (auto simp: task_update_def Let_def bind_result_def split: if_splits sum.splits)
  have "fk (map tk_parent_task_attempt (update_where ?P ?f (tasks db))) (map ta_id (task_attempts db))"
    unfolding fk_def
  proof (intro allI impI)
    fix k assume "Some k \<in> set (map tk_parent_task_attempt (update_where ?P ?f (tasks db)))"
    then obtain u where u: "u \<in> set (tasks db)" "tk_parent_task_attempt (if ?P u then ?f u else u) = Some k"
      by (auto simp: set_update_where)
    have old: "fk (map tk_parent_task_attempt (tasks db)) (map ta_id (task_attempts db))"
      using assms(1) by (simp add: db_ok_defs)
    show "k \<in> set (map ta_id (task_attempts db))"
    proof (cases "?P u")
      case True
      with u ref show ?thesis by (auto simp: set_task_def key_lookup)
    next
      case False
      then have "tk_parent_task_attempt u = Some k" using u(2) by (simp split: if_splits)
      with u(1) old show ?thesis unfolding fk_def by (metis imageI list.set_map)
    qed
  qed
  with assms(1) show ?thesis
    unfolding db' by (simp add: db_ok_defs map_update_where set_task_def)
qed

lemma fk_null_parent:
  "fk (map tk_parent_task_attempt t) keys \<Longrightarrow> fk (map tk_parent_task_attempt (update_where P clear_parent t)) keys"
  by (rule fk_mono) (auto simp: set_update_where clear_parent_def)

lemma db_ok_nullify_children: "db_ok db \<Longrightarrow> db_ok (snd (nullify_children_by_attempt_id db i))"
proof -
  assume ok: "db_ok db"
  have keep: "tk_id (clear_parent t) = tk_id t" "tk_project_id (clear_parent t) = tk_project_id t" for t
    by (simp_all add: clear_parent_def)
  from ok show ?thesis
    by (simp add: nullify_children_by_attempt_id_def db_ok_defs map_update_where keep fk_null_parent)
qed

lemma db_ok_task_status: "db_ok db \<Longrightarrow> db_ok (task_update_status db i st now)"
  by (simp add: task_update_status_def db_ok_defs map_update_where set_task_status_def)

lemma set_project_path: "pj_git_repo_path (set_project n path s d c f m p) = path"
  by (simp add: set_project_def)

lemma distinct_paths_update:
  assumes "distinct (map pj_git_repo_path t)" and "distinct (map pj_id t)"
    and "\<forall>p \<in> set t. pj_id p \<noteq> i \<longrightarrow> pj_git_repo_path p \<noteq> path"
  shows "distinct (map pj_git_repo_path (update_where (\<lambda>p. pj_id p = i) (set_project n path s d c f m) t))"
  using assms
proof (induction t)
  case (Cons p t)
  let ?u = "update_where (\<lambda>p. pj_id p = i) (set_project n path s d c f m)"
  have IH: "distinct (map pj_git_repo_path (?u t))" using Cons by simp
  show ?case
  proof (cases "pj_id p = i")
    case True
    then have "\<forall>q \<in> set t. pj_id q \<noteq> i" using Cons.prems(2) by (metis distinct.simps(2) imageI list.set_map list.simps(9))
    with True IH Cons.prems show ?thesis by (auto simp: update_where_none set_project_path)
  next
    case False
    with Cons.prems have "pj_git_repo_path p \<noteq> path" "pj_git_repo_path p \<notin> pj_git_repo_path ` set t" by auto
    with False IH show ?thesis by (auto simp: set_update_where set_project_path split: if_splits)
  qed
qed simp

lemma db_ok_project_update:
  assumes "db_ok db" and "project_update db i n path s d c f m = Inr (p, db')"
  shows "db_ok db'"
proof -
  let ?t = "update_where (\<lambda>p. pj_id p = i) (set_project n path s d c f m) (projects db)"
  from assms(2) have db': "db' = db\<lparr>projects := ?t\<rparr>" and row: "exists_row pj_id i ?t"
    and other: "exists_row pj_id i (projects db) \<longrightarrow> project_find_by_git_repo_path_excluding_id db path i = None"
    by (auto simp: project_update_def Let_def bind_result_def exists_row_def split: if_splits sum.splits)
  have ids: "map pj_id ?t = map pj_id (projects db)" by (simp add: map_update_where set_project_def)
  have "i \<in> set (map pj_id ?t)" using row unfolding exists_row_iff by simp
  then have "exists_row pj_id i (projects db)" unfolding ids exists_row_iff by simp
  with other have "\<forall>p \<in> set (projects db). pj_id p \<noteq> i \<longrightarrow> pj_git_repo_path p \<noteq> path"
    by (auto simp: project_find_by_git_repo_path_excluding_id_def find_None_iff)
  with assms(1) have "distinct (map pj_git_repo_path ?t)"
    by (intro distinct_paths_update) (simp_all add: db_ok_defs)
  with assms(1) ids show ?thesis unfolding db' by (simp add: db_ok_defs)
qed

lemma db_ok_merge_status:
  assumes "db_ok db" and "merge_update_status db i ms sha now = Inr db'"
  shows "db_ok db'"
proof -
  let ?f = "set_pr_status ms sha (if ms = MS_Merged then Some now else None)"
  let ?t = "update_where (\<lambda>r. mg_id r = i) ?f (merges db)"
  from assms(2) have db': "db' = db\<lparr>merges := ?t\<rparr>" and chk: "list_all (\<lambda>r. mg_id r = i \<longrightarrow> merge_row_check r) ?t"
    by (auto simp: merge_update_status_def Let_def split: if_splits)
  have "list_all merge_row_check ?t"
    unfolding list_all_iff
  proof
    fix r assume r: "r \<in> set ?t"
    show "merge_row_check r"
    proof (cases "mg_id r = i")
      case True
      with r chk show ?thesis by (simp add: list_all_iff)
    next
      case False
      with r have "r \<in> set (merges db)" by (auto simp: set_update_where set_pr_status_def split: if_splits)
      with assms(1) show ?thesis by (simp add: db_ok_defs list_all_iff)
    qed
  qed
  with assms(1) show ?thesis unfolding db' by (simp add: db_ok_defs map_update_where set_pr_status_def)
qed

lemma db_ok_tag_update:
  assumes "db_ok db" and "tag_update db i name content now = Inr (g, db')"
  shows "db_ok db'"
proof -
  from assms(2) obtain n c g0 where db': "db' = db\<lparr>tags := update_where (\<lambda>g. tg_id g = i) (set_tag n c now) (tags db)\<rparr>"
    and "tag_check (set_tag n c now g0)"
    by (auto simp: tag_update_def Let_def bind_result_def split: sum.splits if_splits)
  then have "tag_check (set_tag n c now r)" for r by (simp add: tag_check_def set_tag_def)
  with assms(1) show ?thesis
    unfolding db' by (simp add: db_ok_defs map_update_where list_all_update_where set_tag_def)
qed

lemma db_ok_image_delete:
  assumes "db_ok db" shows "db_ok (image_delete db i)"
proof -
  have "fk (map (\<lambda>ti. Some (ti_image_id ti)) (delete_where (\<lambda>ti. ti_image_id ti = i \<and> exists_row im_id i (images db)) (task_images db)))
      (map im_id (delete_where (\<lambda>r. im_id r \<in> {i}) (images db)))"
  proof (rule fk_cascade)
    show refs: "fk (map (\<lambda>ti. Some (ti_image_id ti)) (task_images db)) (map im_id (images db))"
      using assms by (simp add: db_ok_defs)
    show "ti_image_id r = i \<and> exists_row im_id i (images db)"
      if "r \<in> set (task_images db)" "Some (ti_image_id r) = Some k" "k \<in> {i}" for r k
      using that refs by (force simp: fk_def exists_row_iff)
  qed
  with assms show ?thesis by (simp add: image_delete_def db_ok_defs delete_rules)
qed

lemma db_ok_drafts_ops:
  assumes "db_ok db"
  shows "db_ok (draft_delete db i ty)" and "db_ok (clear_after_send db i ty now)"
    and "db_ok (snd (try_mark_sending db i ty now))" and "db_ok (snd (set_queued db i ty q eq ev now))"
proof -
  show del: "db_ok (draft_delete db i ty)"
    using assms by (simp add: draft_delete_def db_ok_defs delete_rules)
  show "db_ok (clear_after_send db i ty now)"
    using assms del
    by (auto simp: clear_after_send_def cleared_draft_def draft_key_def intro!: db_ok_update_drafts split: draft_type.split)
  show "db_ok (snd (try_mark_sending db i ty now))"
    using assms by (auto simp: try_mark_sending_def Let_def sending_draft_def draft_key_def intro!: db_ok_update_drafts)
  show "db_ok (snd (set_queued db i ty q eq ev now))"
    using assms by (auto simp: set_queued_def Let_def queued_draft_def draft_key_def intro!: db_ok_update_drafts)
qed

lemma db_ok_process_ops:
  assumes "db_ok db"
  shows "db_ok (update_completion db i status code now)" and "db_ok (update_after_head_commit db i commit)"
    and "db_ok (update_before_head_commit db i commit)" and "db_ok (set_restore_boundary db i j)"
    and "db_ok (snd (drop_at_and_after db i j))"
  using assms
  by (auto simp: update_completion_def update_after_head_commit_def update_before_head_commit_def
      set_restore_boundary_def drop_at_and_after_def Let_def set_completion_def set_after_head_commit_def
      set_before_head_commit_def set_dropped_def intro!: db_ok_update_processes)

lemma db_ok_session_ops:
  assumes "db_ok db"
  shows "db_ok (update_session_id db i sid now)" and "db_ok (update_prompt db i prompt now)"
    and "db_ok (update_summary db i summary now)" and "db_ok (update_commit_message db i message now)"
    and "db_ok (session_delete_by_task_attempt_id db i)"
proof -
  show "db_ok (session_delete_by_task_attempt_id db i)"
    using assms by (simp add: session_delete_by_task_attempt_id_def db_ok_defs delete_rules)
qed (use assms in \<open>auto simp: update_session_id_def update_prompt_def update_summary_def update_commit_message_def
      intro!: db_ok_update_sessions\<close>)

lemma db_ok_attempt_ops:
  assumes "db_ok db"
  shows "db_ok (attempt_update_container_ref db i path now)" and "db_ok (attempt_update_token_usage db i a b c d now)"
    and "db_ok (attempt_mark_worktree_deleted db i now)" and "db_ok (attempt_update_target_branch db i br now)"
    and "db_ok (run_update_container_ref db i path now)" and "db_ok (run_mark_worktree_deleted db i now)"
  using assms
  by (auto simp: attempt_update_container_ref_def attempt_update_token_usage_def attempt_mark_worktree_deleted_def
      attempt_update_target_branch_def run_update_container_ref_def run_mark_worktree_deleted_def set_container_ref_def
      set_token_usage_def set_worktree_deleted_def set_target_branch_def set_run_container_ref_def
      set_run_worktree_deleted_def intro!: db_ok_update_attempts db_ok_update_runs)

lemma db_ok_logs_ops:
  assumes "db_ok db"
  shows "logs_upsert db i ls bs now = Inr db' \<Longrightarrow> db_ok db'" and "append_log_line db i line now = Inr db' \<Longrightarrow> db_ok db'"
proof -
  show "logs_upsert db i ls bs now = Inr db' \<Longrightarrow> db_ok db'"
    unfolding logs_upsert_def by (erule db_ok_upsert_logs [OF assms]) (simp add: set_logs_def)
  show "append_log_line db i line now = Inr db' \<Longrightarrow> db_ok db'"
    unfolding append_log_line_def by (erule db_ok_upsert_logs [OF assms]) (simp add: append_logs_def)
qed

lemma db_ok_merge_ops:
  assumes "db_ok db"
  shows "create_direct db a branch commit i now = Inr (r, db') \<Longrightarrow> db_ok db'"
    and "create_pr db a branch number url i now = Inr (r, db') \<Longrightarrow> db_ok db'"
  using assms db_ok_insert_merge
  by (auto simp: create_direct_def create_pr_def Let_def bind_result_def split: sum.splits)

lemma db_ok_row_deletes:
  assumes "db_ok db"
  shows "db_ok (task_image_delete_by_task_id db i)" and "db_ok (snd (tag_delete db i))"
  using assms by (simp_all add: task_image_delete_by_task_id_def tag_delete_def db_ok_defs delete_rules)

lemma db_ok_cascades:
  assumes "db_ok db"
  shows "db_ok (snd (project_delete db i))" and "db_ok (snd (task_delete db i))"
    and "db_ok (process_delete_by_task_attempt_id db i)"
  using assms
  by (simp_all add: project_delete_def db_ok_delete_projects task_delete_def db_ok_delete_tasks
      process_delete_by_task_attempt_id_def db_ok_delete_processes)

lemmas db_ok_updates =
  db_ok_task_status db_ok_nullify_children db_ok_attempt_ops db_ok_process_ops db_ok_session_ops db_ok_drafts_ops
  db_ok_image_delete db_ok_row_deletes db_ok_cascades

lemma db_ok_step: "db_step db db' \<Longrightarrow> db_ok db \<Longrightarrow> db_ok db'"
  by (erule db_step.cases; hypsubst)
     (rule db_ok_updates, assumption
      | erule (1) db_ok_project_create [rotated] | erule (1) db_ok_project_update [rotated]
      | erule (1) db_ok_task_create [rotated] | erule (1) db_ok_task_update [rotated]
      | erule (1) db_ok_attempt_create [rotated] | erule (1) db_ok_run_create [rotated]
      | erule (1) db_ok_process_create [rotated] | erule (1) db_ok_session_create [rotated]
      | erule (1) db_ok_logs_ops [rotated] | erule (1) db_ok_draft_upsert [rotated]
      | erule (1) db_ok_update_partial [rotated] | erule (1) db_ok_merge_ops [rotated]
      | erule (1) db_ok_merge_status [rotated] | erule (1) db_ok_image_create [rotated]
      | erule (1) db_ok_insert_task_image [rotated] | erule (1) db_ok_tag_create [rotated]
      | erule (1) db_ok_tag_update [rotated])+

lemma db_reachable_ok: "db_reachable db \<Longrightarrow> db_ok db"
  by (induction rule: db_reachable.induct) (auto intro: db_ok_empty db_ok_step)


section \<open>Properties\<close>

text \<open>
  C1: Every database the models can produce from the empty one is consistent: keys are unique,
  every reference points to a row (also after deletions, whose cascades are complete), a process
  belongs to an attempt or a run, a retry draft names a process, and every stored merge and tag
  satisfies its table's checks.
\<close>

theorem database_stays_consistent:
  assumes "db_reachable db"
  shows "db_ok db"
  using assms by (rule db_reachable_ok)

theorem database_stays_consistent_witness:
  "\<exists>p t db1 db2. project_create empty_database
       \<lparr> cp_name = ''p'', cp_git_repo_path = ''/r'', cp_use_existing_repo = True, cp_setup_script = None, cp_dev_script = None,
         cp_cleanup_script = None, cp_copy_files = None, cp_commit_prompt = None \<rparr> 1 0 = Inr (p, db1)
     \<and> task_create db1 (from_title_description 1 ''t'' None) 2 0 = Inr (t, db2) \<and> tasks db2 = [t] \<and> db_ok db2"
proof -
  let ?cp = "\<lparr> cp_name = ''p'', cp_git_repo_path = ''/r'', cp_use_existing_repo = True, cp_setup_script = None, cp_dev_script = None,
         cp_cleanup_script = None, cp_copy_files = None, cp_commit_prompt = None \<rparr>"
  obtain p db1 where 1: "project_create empty_database ?cp 1 0 = Inr (p, db1)"
    and p: "db1 = empty_database\<lparr>projects := [p]\<rparr>" "pj_id p = 1"
    by (simp add: project_create_def exists_row_def empty_database_def Let_def)
  obtain t db2 where 2: "task_create_with_status db1 (from_title_description 1 ''t'' None) 2 Todo 0 = Inr (t, db2)"
    and t: "tasks db2 = [t]"
    using p by (simp add: task_create_with_status_def exists_row_def ref_ok_def from_title_description_def empty_database_def Let_def)
  have "db_reachable db2"
    using db_step.project_create [OF 1] db_step.task_create [OF 2] by (meson db_reachable.intros)
  with 1 2 t database_stays_consistent show ?thesis unfolding task_create_def by blast
qed

text \<open>
  Deleting a task removes the task, its attempts and everything that belongs to them, and
  nothing of other tasks: their attempts, and the processes of those attempts and of execution
  runs, are as before.
\<close>

theorem task_delete_cascade:
  assumes "db_ok db" and "snd (task_delete db i) = db'"
  shows "task_find_by_id db' i = None
     \<and> task_attempts db' = filter (\<lambda>a. ta_task_id a \<noteq> i) (task_attempts db)
     \<and> execution_processes db' =
         filter (\<lambda>p. \<forall>a \<in> set (task_attempts db). ta_task_id a = i \<longrightarrow> ep_task_attempt_id p \<noteq> Some (ta_id a))
           (execution_processes db)
     \<and> map tk_id (tasks db') = filter (\<lambda>j. j \<noteq> i) (map tk_id (tasks db))"
proof -
  let ?G = "set (map tk_id (filter (\<lambda>t. tk_id t = i) (tasks db)))"
  let ?db1 = "delete_attempts (\<lambda>a. ta_task_id a \<in> ?G) db"
  have G: "j \<in> ?G \<longleftrightarrow> j = i \<and> i \<in> tk_id ` set (tasks db)" for j by auto
  have owner: "ta_task_id a \<in> tk_id ` set (tasks db)" if "a \<in> set (task_attempts db)" for a
    using assms(1) that by (fastforce simp: db_ok_defs fk_def)
  have db': "db' = ?db1\<lparr>tasks := delete_where (\<lambda>t. tk_id t \<in> ?G) (tasks ?db1),
      task_images := delete_where (\<lambda>im. ti_task_id im \<in> ?G) (task_images ?db1)\<rparr>"
    using assms(2) by (simp add: task_delete_def delete_tasks_def Let_def del: set_map)
  have own: "ta_task_id a \<in> ?G \<longleftrightarrow> ta_task_id a = i" if "a \<in> set (task_attempts db)" for a
    using owner [OF that] unfolding G by auto
  have "delete_where (\<lambda>a. ta_task_id a \<in> ?G) (task_attempts db)
      = delete_where (\<lambda>a. ta_id a \<in> set (map ta_id (filter (\<lambda>a. ta_task_id a \<in> ?G) (task_attempts db)))) (task_attempts db)"
    using assms(1) by (intro delete_where_by_key) (simp add: db_ok_defs)
  then have "task_attempts ?db1 = delete_where (\<lambda>a. ta_task_id a \<in> ?G) (task_attempts db)" by simp
  also have "\<dots> = filter (\<lambda>a. ta_task_id a \<noteq> i) (task_attempts db)"
    unfolding delete_where_def by (rule filter_cong) (simp_all add: own del: set_map)
  finally have atts: "task_attempts db' = filter (\<lambda>a. ta_task_id a \<noteq> i) (task_attempts db)" unfolding db' by simp
  have "filter (\<lambda>a. ta_task_id a \<in> ?G) (task_attempts db) = filter (\<lambda>a. ta_task_id a = i) (task_attempts db)"
    by (rule filter_cong) (simp_all add: own del: set_map)
  then have gone: "set (map ta_id (filter (\<lambda>a. ta_task_id a \<in> ?G) (task_attempts db)))
      = ta_id ` {a \<in> set (task_attempts db). ta_task_id a = i}" by simp
  have procs: "execution_processes db' =
      filter (\<lambda>p. \<forall>a \<in> set (task_attempts db). ta_task_id a = i \<longrightarrow> ep_task_attempt_id p \<noteq> Some (ta_id a)) (execution_processes db)"
    unfolding db' delete_attempts_def Let_def
    by (simp add: delete_where_def gone del: set_map cong: filter_cong) (rule filter_cong, auto)
  have ids: "map tk_id (tasks db') = filter (\<lambda>j. j \<noteq> i) (map tk_id (tasks db))"
  proof -
    have "tasks db' = delete_where (\<lambda>t. tk_id t \<in> ?G) (tasks ?db1)" unfolding db' by simp
    then have "map tk_id (tasks db') = filter (\<lambda>j. j \<notin> ?G) (map tk_id (tasks ?db1))"
      by (simp only: map_key_delete_where)
    also have "\<dots> = filter (\<lambda>j. j \<notin> ?G) (map tk_id (tasks db))" by (simp only: delete_attempts_frame)
    also have "\<dots> = filter (\<lambda>j. j \<noteq> i) (map tk_id (tasks db))"
      by (rule filter_cong) (auto simp: G)
    finally show ?thesis .
  qed
  have "i \<notin> set (map tk_id (tasks db'))" unfolding ids by simp
  then have "task_find_by_id db' i = None" unfolding task_find_by_id_def lookup_None by simp
  with atts procs ids show ?thesis by blast
qed

theorem task_delete_cascade_witness:
  "task_find_by_id (snd (task_delete sample_database 2)) 2 = None
   \<and> task_attempts (snd (task_delete sample_database 2)) = []"
proof -
  have "db_ok sample_database" by (simp add: db_ok_defs sample_defs fk_def)
  from task_delete_cascade [OF this refl, of 2] show ?thesis by (simp add: sample_defs)
qed

end
