(* ===== verification/Approvals.thy ===== *)
theory Approvals
  imports Msg_Store Process_Models
begin

text \<open>
  The tool approval service, \<^verbatim>\<open>crates/services/src/services/approvals.rs\<close> with its bridge to the
  executors, \<^verbatim>\<open>approvals/executor_approvals.rs\<close>.

  An executor asks for approval of a tool call and waits on a one-shot channel; a user's answer
  or the timeout watcher resolves it.  \<open>ap_channels\<close> holds the channel of every request made:
  \<open>Some None\<close> is open, \<open>Some (Some s)\<close> yields \<open>s\<close> (also \<^verbatim>\<open>TimedOut\<close> when the sender was dropped,
  as the waiter maps that).  The watcher of a request is a task that runs beside everything else;
  its three parts, between which other calls can run, are \<open>watch_decide\<close>, \<open>watch_record\<close> and
  \<open>watch_timeout\<close>.  The other calls are single steps.
\<close>

section \<open>The service\<close>

record pending_approval =
  pa_entry_index :: nat
  pa_entry :: normalized_entry
  pa_execution_process_id :: uuid
  pa_tool_name :: string

record tool_context =
  tc_tool_name :: string
  tc_execution_process_id :: uuid

datatype approval_error =
    AE_NotFound
  | AE_AlreadyCompleted
  | AE_NoToolUseEntry
  | AE_Custom string

text \<open>What the watcher of a request is about to do.\<close>

datatype watcher = Waiting datetime | Decided approval_status | RecordedTimeout | WatcherDone

record approvals =
  ap_pending :: "string \<rightharpoonup> pending_approval"
  ap_completed :: "string \<rightharpoonup> approval_status"
  ap_msg_stores :: "uuid \<rightharpoonup> msg_store"
  ap_channels :: "string \<rightharpoonup> approval_status option"
  ap_watchers :: "string \<rightharpoonup> watcher"

definition new_approvals :: "(uuid \<rightharpoonup> msg_store) \<Rightarrow> approvals" where
  "new_approvals stores =
     \<lparr> ap_pending = Map.empty, ap_completed = Map.empty, ap_msg_stores = stores, ap_channels = Map.empty,
       ap_watchers = Map.empty \<rparr>"

text \<open>One turn of the loop of \<^verbatim>\<open>find_matching_tool_use\<close>.\<close>

definition match_tool_use :: "string \<Rightarrow> log_msg \<Rightarrow> (nat \<times> normalized_entry) option" where
  "match_tool_use tool_call_id m =
     (case m of
        JsonPatch p \<Rightarrow>
          (case extract_normalized_entry_from_patch p of
             None \<Rightarrow> None
           | Some (idx, entry) \<Rightarrow>
               (case entry_type entry of
                  ToolUse _ _ status \<Rightarrow>
                    if status \<noteq> TS_Created then None
                    else if Option.bind (ne_metadata entry) tool_call_metadata = Some tool_call_id
                    then Some (idx, entry) else None
                | _ \<Rightarrow> None))
      | _ \<Rightarrow> None)"

definition find_matching_tool_use :: "msg_store \<Rightarrow> string \<Rightarrow> (nat \<times> normalized_entry) option" where
  "find_matching_tool_use store tool_call_id = find_map (match_tool_use tool_call_id) (rev (get_history store))"

definition push_entry ::
  "(patch \<Rightarrow> string option) \<Rightarrow> uuid \<Rightarrow> nat \<Rightarrow> normalized_entry \<Rightarrow> (uuid \<rightharpoonup> msg_store) \<Rightarrow> (uuid \<rightharpoonup> msg_store)" where
  "push_entry ser i idx entry stores =
     (case stores i of
        None \<Rightarrow> stores
      | Some store \<Rightarrow> stores(i \<mapsto> push_patch ser (replace_entry idx entry) store))"

text \<open>The watcher sleeps until \<^verbatim>\<open>timeout_at\<close>, or not at all when that is in the past.\<close>

definition spawn_timeout_watcher :: "string \<Rightarrow> datetime \<Rightarrow> datetime \<Rightarrow> approvals \<Rightarrow> approvals" where
  "spawn_timeout_watcher i timeout_at now st =
     st\<lparr>ap_watchers := (ap_watchers st)(i \<mapsto> Waiting (max timeout_at now))\<rparr>"

definition create_with_waiter ::
  "(patch \<Rightarrow> string option) \<Rightarrow> approval_request \<Rightarrow> datetime \<Rightarrow> approvals \<Rightarrow> approval_error + approvals" where
  "create_with_waiter ser request now st =
     (let req_id = ar_id request;
          proc = ar_execution_process_id request;
          dropped = spawn_timeout_watcher req_id (ar_timeout_at request) now
                      (st\<lparr>ap_channels := (ap_channels st)(req_id \<mapsto> Some AS_TimedOut)\<rparr>)
      in case ap_msg_stores st proc of
           None \<Rightarrow> Inr dropped
         | Some store \<Rightarrow>
             (case find_matching_tool_use store (ar_tool_call_id request) of
                None \<Rightarrow> Inr dropped
              | Some (idx, matching_tool) \<Rightarrow>
                  (case with_tool_status matching_tool
                          (TS_PendingApproval req_id (ar_created_at request) (ar_timeout_at request)) of
                     None \<Rightarrow> Inl AE_NoToolUseEntry
                   | Some approval_entry \<Rightarrow>
                       Inr (spawn_timeout_watcher req_id (ar_timeout_at request) now
                         (st\<lparr>ap_msg_stores := push_entry ser proc idx approval_entry (ap_msg_stores st),
                             ap_pending := (ap_pending st)(req_id \<mapsto>
                               \<lparr> pa_entry_index = idx, pa_entry = matching_tool, pa_execution_process_id = proc,
                                 pa_tool_name = ar_tool_name request \<rparr>),
                             ap_channels := (ap_channels st)(req_id \<mapsto> None)\<rparr>)))))"

text \<open>Sending on a channel resolves it; the sender is used up by it.\<close>

definition send_status :: "string \<Rightarrow> approval_status \<Rightarrow> approvals \<Rightarrow> approvals" where
  "send_status i status st = st\<lparr>ap_channels := (ap_channels st)(i \<mapsto> Some status)\<rparr>"

text \<open>The last part of \<^verbatim>\<open>respond\<close>: an approved or denied call moves its task back to work.\<close>

definition resume_task :: "database \<Rightarrow> approval_status \<Rightarrow> uuid \<Rightarrow> datetime \<Rightarrow> database" where
  "resume_task db status proc now =
     (case process_load_context db proc of
        Inr ctx \<Rightarrow>
          if (case status of AS_Approved \<Rightarrow> True | AS_Denied _ \<Rightarrow> True | _ \<Rightarrow> False) \<and> tk_status (ctx_task ctx) = InReview
          then task_update_status db (tk_id (ctx_task ctx)) InProgress now else db
      | Inl _ \<Rightarrow> db)"

definition respond ::
  "(patch \<Rightarrow> string option) \<Rightarrow> database \<Rightarrow> string \<Rightarrow> approval_response \<Rightarrow> datetime \<Rightarrow> approvals
   \<Rightarrow> (approval_error + approval_status \<times> tool_context) \<times> approvals \<times> database" where
  "respond ser db i req now st =
     (case ap_pending st i of
        Some p \<Rightarrow>
          (let status = resp_status req;
               proc = pa_execution_process_id p;
               ctx = \<lparr> tc_tool_name = pa_tool_name p, tc_execution_process_id = proc \<rparr>;
               st1 = send_status i status
                       (st\<lparr>ap_pending := (ap_pending st)(i := None), ap_completed := (ap_completed st)(i \<mapsto> status)\<rparr>);
               finish = (\<lambda>st2. (Inr (status, ctx), st2, resume_task db status proc now))
           in case ap_msg_stores st1 proc of
                None \<Rightarrow> finish st1
              | Some store \<Rightarrow>
                  (case from_approval_status status of
                     None \<Rightarrow> (Inl (AE_Custom ''Invalid approval status''), st1, db)
                   | Some tool_status \<Rightarrow>
                       (case with_tool_status (pa_entry p) tool_status of
                          None \<Rightarrow> (Inl AE_NoToolUseEntry, st1, db)
                        | Some entry \<Rightarrow>
                            finish (st1\<lparr>ap_msg_stores := push_entry ser proc (pa_entry_index p) entry (ap_msg_stores st1)\<rparr>))))
      | None \<Rightarrow>
          (Inl (if ap_completed st i \<noteq> None then AE_AlreadyCompleted else AE_NotFound), st, db))"

definition watch_decide :: "string \<Rightarrow> datetime \<Rightarrow> approvals \<Rightarrow> approvals" where
  "watch_decide i now st =
     (case ap_watchers st i of
        Some (Waiting deadline) \<Rightarrow>
          (case ap_channels st i of
             Some (Some status) \<Rightarrow> st\<lparr>ap_watchers := (ap_watchers st)(i \<mapsto> Decided status)\<rparr>
           | _ \<Rightarrow>
               if now \<ge> deadline then st\<lparr>ap_watchers := (ap_watchers st)(i \<mapsto> Decided AS_TimedOut)\<rparr> else st)
      | _ \<Rightarrow> st)"

definition watch_record :: "string \<Rightarrow> approvals \<Rightarrow> approvals" where
  "watch_record i st =
     (case ap_watchers st i of
        Some (Decided status) \<Rightarrow>
          st\<lparr>ap_completed := (ap_completed st)(i \<mapsto> status),
             ap_watchers := (ap_watchers st)(i \<mapsto> (if status = AS_TimedOut then RecordedTimeout else WatcherDone))\<rparr>
      | _ \<Rightarrow> st)"

definition watch_timeout :: "(patch \<Rightarrow> string option) \<Rightarrow> string \<Rightarrow> approvals \<Rightarrow> approvals" where
  "watch_timeout ser i st =
     (case ap_watchers st i of
        Some RecordedTimeout \<Rightarrow>
          (let st1 = st\<lparr>ap_watchers := (ap_watchers st)(i \<mapsto> WatcherDone)\<rparr>
           in case ap_pending st i of
                None \<Rightarrow> st1
              | Some p \<Rightarrow>
                  (let st2 = send_status i AS_TimedOut (st1\<lparr>ap_pending := (ap_pending st)(i := None)\<rparr>)
                   in case with_tool_status (pa_entry p) TS_TimedOut of
                        None \<Rightarrow> st2
                      | Some entry \<Rightarrow>
                          st2\<lparr>ap_msg_stores :=
                            push_entry ser (pa_execution_process_id p) (pa_entry_index p) entry (ap_msg_stores st2)\<rparr>))
      | _ \<Rightarrow> st)"

definition ensure_task_in_review :: "database \<Rightarrow> uuid \<Rightarrow> datetime \<Rightarrow> database" where
  "ensure_task_in_review db proc now =
     (case process_load_context db proc of
        Inr ctx \<Rightarrow>
          if tk_status (ctx_task ctx) = InProgress
          then task_update_status db (tk_id (ctx_task ctx)) InReview now else db
      | Inl _ \<Rightarrow> db)"

text \<open>
  The bridge's \<^verbatim>\<open>request_tool_approval\<close> up to the point where it waits, and the value it returns for
  what the waiter yields.
\<close>

definition request_tool_approval ::
  "(patch \<Rightarrow> string option) \<Rightarrow> database \<Rightarrow> uuid \<Rightarrow> create_approval_request \<Rightarrow> string \<Rightarrow> datetime \<Rightarrow> approvals
   \<Rightarrow> (approval_error + approvals) \<times> database" where
  "request_tool_approval ser db proc request new_id now st =
     (create_with_waiter ser (from_create new_id now request proc) now st, ensure_task_in_review db proc now)"

definition approval_outcome :: "approval_status \<Rightarrow> string + approval_status" where
  "approval_outcome status = (if status = AS_Pending then Inl ''approval finished in pending state'' else Inr status)"


section \<open>Interleaving\<close>

text \<open>
  A run of the service: requests with fresh identifiers, answers, the parts of the watchers, and
  arbitrary changes of the message stores by the rest of the program.
\<close>

inductive approvals_step :: "(patch \<Rightarrow> string option) \<Rightarrow> approvals \<Rightarrow> approvals \<Rightarrow> bool" for ser where
  create: "ap_channels st (ar_id request) = None \<Longrightarrow> create_with_waiter ser request now st = Inr st' \<Longrightarrow>
     approvals_step ser st st'"
| respond: "approvals_step ser st (fst (snd (respond ser db i req now st)))"
| decide: "approvals_step ser st (watch_decide i now st)"
| record_status: "approvals_step ser st (watch_record i st)"
| timeout: "approvals_step ser st (watch_timeout ser i st)"
| stores: "approvals_step ser st (st\<lparr>ap_msg_stores := stores\<rparr>)"

inductive approvals_reachable :: "(patch \<Rightarrow> string option) \<Rightarrow> approvals \<Rightarrow> bool" for ser where
  start: "approvals_reachable ser (new_approvals stores)"
| step: "approvals_reachable ser st \<Longrightarrow> approvals_step ser st st' \<Longrightarrow> approvals_reachable ser st'"

inductive approvals_run :: "(patch \<Rightarrow> string option) \<Rightarrow> approvals \<Rightarrow> approvals \<Rightarrow> bool" for ser where
  refl: "approvals_run ser st st"
| trans: "approvals_run ser st st' \<Longrightarrow> approvals_step ser st' st'' \<Longrightarrow> approvals_run ser st st''"

definition watcher_ok :: "approval_status option option \<Rightarrow> watcher option \<Rightarrow> bool" where
  "watcher_ok ch w \<longleftrightarrow>
     (case w of
        None \<Rightarrow> ch = None
      | Some (Waiting _) \<Rightarrow> ch \<noteq> None
      | Some (Decided s) \<Rightarrow> ch \<noteq> None \<and> (s \<noteq> AS_TimedOut \<longrightarrow> ch = Some (Some s))
      | Some RecordedTimeout \<Rightarrow> ch \<noteq> None
      | Some WatcherDone \<Rightarrow> (\<exists>s. ch = Some (Some s)))"

text \<open>
  A request is pending exactly while its channel is open, only requests have a completion entry,
  and a watcher that is done leaves a resolved channel.
\<close>

definition inv_at :: "string \<Rightarrow> approvals \<Rightarrow> bool" where
  "inv_at i st \<longleftrightarrow>
     (ap_pending st i \<noteq> None \<longleftrightarrow> ap_channels st i = Some None)
     \<and> (ap_completed st i \<noteq> None \<longrightarrow> ap_channels st i \<noteq> None)
     \<and> watcher_ok (ap_channels st i) (ap_watchers st i)"

definition approvals_inv :: "approvals \<Rightarrow> bool" where
  "approvals_inv st \<longleftrightarrow> (\<forall>i. inv_at i st)"

text \<open>A step that concerns one request needs a look at that request only.\<close>

lemma approvals_inv_local:
  assumes "approvals_inv st" and "inv_at i st \<Longrightarrow> inv_at i st'"
    and "\<And>j. j \<noteq> i \<Longrightarrow> ap_pending st' j = ap_pending st j \<and> ap_completed st' j = ap_completed st j
          \<and> ap_channels st' j = ap_channels st j \<and> ap_watchers st' j = ap_watchers st j"
  shows "approvals_inv st'"
  unfolding approvals_inv_def
proof
  fix j
  show "inv_at j st'"
  proof (cases "j = i")
    case False
    with assms(1,3) show ?thesis unfolding approvals_inv_def inv_at_def by metis
  qed (use assms(1,2) in \<open>auto simp: approvals_inv_def\<close>)
qed

lemmas approvals_simps = send_status_def spawn_timeout_watcher_def Let_def

lemma match_tool_use_Some:
  assumes "match_tool_use c m = Some (idx, e)"
  shows "\<exists>p. m = JsonPatch p \<and> extract_normalized_entry_from_patch p = Some (idx, e)
     \<and> tool_status_of e = Some TS_Created \<and> Option.bind (ne_metadata e) tool_call_metadata = Some c"
proof -
  from assms obtain p where m: "m = JsonPatch p" by (cases m) (simp_all add: match_tool_use_def)
  with assms obtain idx' e' where x: "extract_normalized_entry_from_patch p = Some (idx', e')"
    by (cases "extract_normalized_entry_from_patch p") (auto simp: match_tool_use_def)
  have "\<exists>t a s. entry_type e' = ToolUse t a s"
    using assms m x by (cases "entry_type e'") (simp_all add: match_tool_use_def)
  then obtain t a s where "entry_type e' = ToolUse t a s" by blast
  with assms m x show ?thesis by (auto simp: match_tool_use_def tool_status_of_def split: if_splits)
qed

lemma with_tool_status_matched:
  assumes "find_matching_tool_use store c = Some (idx, e)"
  shows "is_tool_use e"
proof -
  from find_map_Some [OF assms [unfolded find_matching_tool_use_def]] obtain m where
    "match_tool_use c m = Some (idx, e)" by blast
  from match_tool_use_Some [OF this] show ?thesis by (auto simp: is_tool_use_iff_status)
qed

text \<open>A request is always accepted: the entry it matches is a tool use.\<close>

lemma create_with_waiter_Inr: "\<exists>st'. create_with_waiter ser request now st = Inr st'"
proof (cases "\<exists>store e. ap_msg_stores st (ar_execution_process_id request) = Some store
    \<and> find_matching_tool_use store (ar_tool_call_id request) = Some e")
  case True
  then obtain store idx e where
    "ap_msg_stores st (ar_execution_process_id request) = Some store"
    "find_matching_tool_use store (ar_tool_call_id request) = Some (idx, e)" by auto
  then show ?thesis
    using with_tool_status_matched with_tool_status_None_iff
    by (fastforce simp: create_with_waiter_def Let_def split: option.split)
qed (auto simp: create_with_waiter_def Let_def split: option.split)

lemma approvals_inv_create:
  assumes "approvals_inv st" and "ap_channels st (ar_id request) = None"
    and "create_with_waiter ser request now st = Inr st'"
  shows "approvals_inv st'"
  using assms(1)
proof (rule approvals_inv_local [where i = "ar_id request"])
  show "inv_at (ar_id request) st \<Longrightarrow> inv_at (ar_id request) st'"
    using assms(2,3)
    by (auto simp: create_with_waiter_def approvals_simps inv_at_def watcher_ok_def split: option.splits)
qed (use assms(3) in \<open>auto simp: create_with_waiter_def approvals_simps split: option.splits\<close>)

lemma respond_pending:
  assumes "ap_pending st i = Some p"
  shows "ap_pending (fst (snd (respond ser db i req now st))) = (ap_pending st)(i := None)"
    and "ap_completed (fst (snd (respond ser db i req now st))) = (ap_completed st)(i \<mapsto> resp_status req)"
    and "ap_channels (fst (snd (respond ser db i req now st))) = (ap_channels st)(i \<mapsto> Some (resp_status req))"
    and "ap_watchers (fst (snd (respond ser db i req now st))) = ap_watchers st"
  using assms by (auto simp: respond_def approvals_simps split: option.split)

lemma respond_channel:
  "fst (snd (respond ser db i req now st)) = st \<or>
   (ap_pending st i \<noteq> None
    \<and> ap_pending (fst (snd (respond ser db i req now st))) = (ap_pending st)(i := None)
    \<and> ap_completed (fst (snd (respond ser db i req now st))) = (ap_completed st)(i \<mapsto> resp_status req)
    \<and> ap_channels (fst (snd (respond ser db i req now st))) = (ap_channels st)(i \<mapsto> Some (resp_status req))
    \<and> ap_watchers (fst (snd (respond ser db i req now st))) = ap_watchers st)"
proof (cases "ap_pending st i")
  case None
  then show ?thesis by (simp add: respond_def)
next
  case (Some p)
  from respond_pending [OF this, of ser db req now] Some show ?thesis by blast
qed

lemma approvals_inv_respond:
  assumes "approvals_inv st"
  shows "approvals_inv (fst (snd (respond ser db i req now st)))"
  using assms
proof (rule approvals_inv_local [where i = i])
  show "inv_at i st \<Longrightarrow> inv_at i (fst (snd (respond ser db i req now st)))"
    using respond_channel [of ser db i req now st]
    by (auto simp: inv_at_def watcher_ok_def split: option.splits watcher.splits)
qed (use respond_channel [of ser db i req now st] in auto)

lemma approvals_inv_watch:
  assumes "approvals_inv st"
  shows "approvals_inv (watch_decide i now st)" and "approvals_inv (watch_record i st)"
    and "approvals_inv (watch_timeout ser i st)"
proof -
  show "approvals_inv (watch_decide i now st)"
    using assms
    by (rule approvals_inv_local [where i = i])
       (auto simp: watch_decide_def inv_at_def watcher_ok_def split: option.splits watcher.splits)
  show "approvals_inv (watch_record i st)"
    using assms
    by (rule approvals_inv_local [where i = i])
       (auto simp: watch_record_def inv_at_def watcher_ok_def split: option.splits watcher.splits)
  show "approvals_inv (watch_timeout ser i st)"
    using assms
    by (rule approvals_inv_local [where i = i])
       (auto simp: watch_timeout_def approvals_simps inv_at_def watcher_ok_def split: option.splits watcher.splits)
qed

lemma approvals_inv_step: "approvals_step ser st st' \<Longrightarrow> approvals_inv st \<Longrightarrow> approvals_inv st'"
  by (induction rule: approvals_step.induct)
     (simp_all add: approvals_inv_create approvals_inv_respond approvals_inv_watch, simp add: approvals_inv_def inv_at_def)

lemma approvals_inv_reachable: "approvals_reachable ser st \<Longrightarrow> approvals_inv st"
proof (induction rule: approvals_reachable.induct)
  case (start stores)
  show ?case by (simp add: approvals_inv_def inv_at_def new_approvals_def watcher_ok_def)
next
  case (step st st')
  then show ?case by (blast intro: approvals_inv_step)
qed

lemma resolved_not_pending: "approvals_inv st \<Longrightarrow> ap_channels st i = Some (Some s) \<Longrightarrow> ap_pending st i = None"
  unfolding approvals_inv_def inv_at_def by (metis option.distinct(1) option.inject)

text \<open>A resolved channel keeps its value.\<close>

lemma resolved_step:
  assumes "approvals_step ser st st'" and "approvals_inv st" and "ap_channels st i = Some (Some s)"
  shows "ap_channels st' i = Some (Some s)"
  using assms
proof (induction rule: approvals_step.induct)
  case (create st request now st')
  then show ?case by (auto simp: create_with_waiter_def approvals_simps split: option.splits)
next
  case (respond st db j req now)
  moreover from this have "ap_pending st i = None" by (blast intro: resolved_not_pending)
  ultimately show ?case using respond_channel [of ser db j req now st] by auto
next
  case (timeout st j)
  then have "ap_pending st i = None" by (blast intro: resolved_not_pending)
  with timeout show ?case
    by (auto simp: watch_timeout_def approvals_simps split: option.split watcher.split)
qed (auto simp: watch_decide_def watch_record_def split: option.split watcher.split)

lemma resolved_run:
  assumes "approvals_run ser st st'" and "approvals_inv st" and "ap_channels st i = Some (Some s)"
  shows "approvals_inv st' \<and> ap_channels st' i = Some (Some s)"
  using assms
  by (induction rule: approvals_run.induct) (auto intro: approvals_inv_step resolved_step)


section \<open>Properties\<close>

text \<open>
  C6: The executor gets one answer: whatever the interleaving of requests, answers and timeout
  watchers, once the waiter of a request yields a status it yields that status forever.
\<close>

theorem approval_resolved_once:
  assumes "approvals_reachable ser st" and "ap_channels st i = Some (Some s)" and "approvals_run ser st st'"
  shows "ap_channels st' i = Some (Some s)"
  using resolved_run [OF assms(3) approvals_inv_reachable [OF assms(1)] assms(2)] by blast

text \<open>How far the watcher of a request is; no step of any request takes it back.\<close>

fun watcher_stage :: "watcher option \<Rightarrow> nat" where
  "watcher_stage None = 0"
| "watcher_stage (Some (Waiting _)) = 1"
| "watcher_stage (Some (Decided _)) = 2"
| "watcher_stage (Some RecordedTimeout) = 3"
| "watcher_stage (Some WatcherDone) = 4"

lemma watcher_stage_done: "4 \<le> watcher_stage w \<longleftrightarrow> w = Some WatcherDone"
  by (cases w rule: watcher_stage.cases) simp_all

lemma create_stage:
  assumes "approvals_inv st" and "ap_channels st (ar_id request) = None" and "create_with_waiter ser request now st = Inr st'"
  shows "watcher_stage (ap_watchers st i) \<le> watcher_stage (ap_watchers st' i)"
proof (cases "i = ar_id request")
  case True
  have "watcher_ok (ap_channels st i) (ap_watchers st i)" using assms(1) by (simp add: approvals_inv_def inv_at_def)
  then have "ap_watchers st i = None"
    using assms(2) True by (simp add: watcher_ok_def split: option.splits watcher.splits)
  then show ?thesis by simp
next
  case False
  then have "ap_watchers st' i = ap_watchers st i"
    using assms(3) by (auto simp: create_with_waiter_def approvals_simps split: option.splits)
  then show ?thesis by simp
qed

lemma step_stage:
  assumes "approvals_step ser st st'" and "approvals_inv st"
  shows "watcher_stage (ap_watchers st i) \<le> watcher_stage (ap_watchers st' i)"
  using assms
proof (induction rule: approvals_step.induct)
  case (create st request now st')
  then show ?case using create_stage by blast
next
  case (respond st db j req now)
  have "ap_watchers (fst (snd (respond ser db j req now st))) = ap_watchers st"
    by (auto simp: respond_def approvals_simps Let_def split: option.splits)
  then show ?case by simp
next
  case (decide st j now)
  then show ?case by (auto simp: watch_decide_def split: option.splits watcher.splits)
next
  case (record_status st j)
  then show ?case by (auto simp: watch_record_def split: option.splits watcher.splits)
next
  case (timeout st j)
  then show ?case by (auto simp: watch_timeout_def approvals_simps Let_def split: option.splits watcher.splits)
qed simp

lemma run_stage:
  assumes "approvals_run ser st st'" and "approvals_reachable ser st"
  shows "approvals_reachable ser st' \<and> watcher_stage (ap_watchers st i) \<le> watcher_stage (ap_watchers st' i)"
  using assms
proof (induction rule: approvals_run.induct)
  case (trans st st' st'')
  then show ?case
    using step_stage [of ser st' st'' i] approvals_inv_reachable [of ser st'] approvals_reachable.step
    by (meson order_trans)
qed simp

lemma watch_stages:
  "ap_watchers st i = Some (Waiting deadline) \<Longrightarrow> deadline \<le> now \<Longrightarrow> 2 \<le> watcher_stage (ap_watchers (watch_decide i now st) i)"
  "2 \<le> watcher_stage (ap_watchers st i) \<Longrightarrow> 3 \<le> watcher_stage (ap_watchers (watch_record i st) i)"
  "3 \<le> watcher_stage (ap_watchers st i) \<Longrightarrow> 4 \<le> watcher_stage (ap_watchers (watch_timeout ser i st) i)"
proof -
  show "2 \<le> watcher_stage (ap_watchers (watch_decide i now st) i)" if "ap_watchers st i = Some (Waiting deadline)" "deadline \<le> now"
    using that by (auto simp: watch_decide_def split: option.split)
  show "3 \<le> watcher_stage (ap_watchers (watch_record i st) i)" if "2 \<le> watcher_stage (ap_watchers st i)"
    using that by (cases "ap_watchers st i" rule: watcher_stage.cases) (simp_all add: watch_record_def)
  show "4 \<le> watcher_stage (ap_watchers (watch_timeout ser i st) i)" if "3 \<le> watcher_stage (ap_watchers st i)"
    using that by (cases "ap_watchers st i" rule: watcher_stage.cases)
      (simp_all add: watch_timeout_def approvals_simps Let_def split: option.split)
qed

lemma done_is_answered:
  assumes "approvals_reachable ser st" and "ap_watchers st i = Some WatcherDone"
  shows "(\<exists>s. ap_channels st i = Some (Some s)) \<and> ap_pending st i = None"
proof -
  have "inv_at i st" using approvals_inv_reachable [OF assms(1)] by (simp add: approvals_inv_def)
  with assms(2) show ?thesis by (auto simp: inv_at_def watcher_ok_def)
qed

text \<open>
  C34: Every request is answered: in every reachable state, however requests, answers and watchers were
  interleaved, a request whose watcher has finished is no longer pending and its waiter has a value; and a
  watcher whose deadline has passed has finished after its three steps, whatever runs before, between and
  after them.
\<close>

theorem approval_answered_after_timeout:
  assumes "approvals_reachable ser st"
  shows "(ap_watchers st i = Some WatcherDone \<longrightarrow> (\<exists>s. ap_channels st i = Some (Some s)) \<and> ap_pending st i = None)
     \<and> (\<forall>deadline now st1 st2 st3.
          ap_watchers st i = Some (Waiting deadline) \<and> deadline \<le> now \<and> approvals_run ser (watch_decide i now st) st1
          \<and> approvals_run ser (watch_record i st1) st2 \<and> approvals_run ser (watch_timeout ser i st2) st3
          \<longrightarrow> ap_watchers st3 i = Some WatcherDone \<and> (\<exists>s. ap_channels st3 i = Some (Some s)) \<and> ap_pending st3 i = None)"
proof (intro conjI allI impI; (elim conjE)?)
  show "\<exists>s. ap_channels st i = Some (Some s)" "ap_pending st i = None" if "ap_watchers st i = Some WatcherDone"
    using done_is_answered [OF assms that] by blast+
next
  fix deadline now st1 st2 st3
  assume w: "ap_watchers st i = Some (Waiting deadline)" "deadline \<le> now"
    and runs: "approvals_run ser (watch_decide i now st) st1" "approvals_run ser (watch_record i st1) st2"
      "approvals_run ser (watch_timeout ser i st2) st3"
  have 1: "approvals_reachable ser st1" "2 \<le> watcher_stage (ap_watchers st1 i)"
    using run_stage [OF runs(1) approvals_reachable.step [OF assms approvals_step.decide], of i] watch_stages(1) [OF w] by auto
  have 2: "approvals_reachable ser st2" "3 \<le> watcher_stage (ap_watchers st2 i)"
    using run_stage [OF runs(2) approvals_reachable.step [OF 1(1) approvals_step.record_status], of i] watch_stages(2) [OF 1(2)] by auto
  have 3: "approvals_reachable ser st3" "4 \<le> watcher_stage (ap_watchers st3 i)"
    using run_stage [OF runs(3) approvals_reachable.step [OF 2(1) approvals_step.timeout], of i] watch_stages(3) [OF 2(2), of ser] by auto
  then show d: "ap_watchers st3 i = Some WatcherDone" by (simp add: watcher_stage_done)
  show "\<exists>s. ap_channels st3 i = Some (Some s)" "ap_pending st3 i = None" using done_is_answered [OF 3(1) d] by blast+
qed

text \<open>
  An answer to a pending request is final: the waiter yields the given status, the request
  moves from pending to completed, its tool entry is shown with the status, a second answer is
  refused as already completed and an unknown request as not found.
\<close>

theorem respond_spec:
  assumes "ap_pending st i = Some p" and "is_tool_use (pa_entry p)"
    and "ap_msg_stores st (pa_execution_process_id p) = Some store"
    and "from_approval_status (resp_status req) = Some ts"
    and "respond ser db i req now st = (r, st', db')"
  shows "r = Inr (resp_status req, \<lparr> tc_tool_name = pa_tool_name p, tc_execution_process_id = pa_execution_process_id p \<rparr>)
     \<and> ap_pending st' i = None \<and> ap_completed st' i = Some (resp_status req)
     \<and> ap_channels st' i = Some (Some (resp_status req))
     \<and> (\<exists>entry. tool_status_of entry = Some ts
          \<and> ap_msg_stores st' (pa_execution_process_id p) = Some (push_patch ser (replace_entry (pa_entry_index p) entry) store))
     \<and> fst (respond ser db' i req' now' st') = Inl AE_AlreadyCompleted
     \<and> (ap_pending st j = None \<and> ap_completed st j = None \<longrightarrow> fst (respond ser db j req' now' st) = Inl AE_NotFound)"
proof -
  from with_tool_status_Some [OF assms(2), of ts] obtain entry where
    e: "with_tool_status (pa_entry p) ts = Some entry" "tool_status_of entry = Some ts" by blast
  with assms have r: "r = Inr (resp_status req, \<lparr> tc_tool_name = pa_tool_name p, tc_execution_process_id = pa_execution_process_id p \<rparr>)"
    and st': "ap_pending st' i = None" "ap_completed st' i = Some (resp_status req)"
      "ap_channels st' i = Some (Some (resp_status req))"
      "ap_msg_stores st' (pa_execution_process_id p) = Some (push_patch ser (replace_entry (pa_entry_index p) entry) store)"
    by (auto simp: respond_def approvals_simps push_entry_def)
  then have "fst (respond ser db' i req' now' st') = Inl AE_AlreadyCompleted" by (simp add: respond_def)
  with r st' e(2) show ?thesis by (auto simp: respond_def)
qed


subsection \<open>A sample run\<close>

text \<open>One process with one tool call, and a request for its approval.\<close>

definition sample_tool :: normalized_entry where
  "sample_tool =
     \<lparr> ne_timestamp = None, entry_type = ToolUse ''Read'' (FileRead ''f'') TS_Created, ne_content = ''r'',
       ne_metadata = Some (JObject [(''tool_call_id'', JString ''c1'')]) \<rparr>"

definition sample_store :: msg_store where
  "sample_store = push (\<lambda>_. None) (JsonPatch (add_normalized_entry 0 sample_tool)) new_msg_store"

definition sample_request :: approval_request where
  "sample_request = from_create ''a1'' 0 \<lparr> car_tool_name = ''Read'', car_tool_input = JNull, car_tool_call_id = ''c1'' \<rparr> 7"

definition sample_stores :: "uuid \<rightharpoonup> msg_store" where
  "sample_stores = [7 \<mapsto> sample_store]"

definition sample_pending :: approvals where
  "sample_pending =
     (case create_with_waiter (\<lambda>_. None) sample_request 0 (new_approvals sample_stores) of Inr st \<Rightarrow> st
      | Inl _ \<Rightarrow> new_approvals sample_stores)"

lemma sample_store_history: "get_history sample_store = [JsonPatch (add_normalized_entry 0 sample_tool)]"
  by (simp add: sample_store_def push_def new_msg_store_def get_history_def)

lemma sample_match: "find_matching_tool_use sample_store ''c1'' = Some (0, sample_tool)"
  by (simp add: find_matching_tool_use_def sample_store_history match_tool_use_def sample_tool_def
      tool_call_metadata_def json_as_str_def)

lemma sample_create:
  "create_with_waiter (\<lambda>_. None) sample_request 0 (new_approvals sample_stores) = Inr sample_pending"
  using create_with_waiter_Inr [of "\<lambda>_. None" sample_request 0 "new_approvals sample_stores"]
  by (auto simp: sample_pending_def)

lemma sample_pending_reachable: "approvals_reachable (\<lambda>_. None) sample_pending"
  by (rule approvals_reachable.step [OF approvals_reachable.start approvals_step.create [OF _ sample_create]])
     (simp add: new_approvals_def)

lemma sample_pending_fields:
  "ap_pending sample_pending ''a1'' =
     Some \<lparr> pa_entry_index = 0, pa_entry = sample_tool, pa_execution_process_id = 7, pa_tool_name = ''Read'' \<rparr>"
  "ap_watchers sample_pending ''a1'' = Some (Waiting 3600)"
  "ap_channels sample_pending ''a1'' = Some None"
  "ap_completed sample_pending = Map.empty"
  "\<exists>s. ap_msg_stores sample_pending 7 = Some s"
proof -
  let ?e = "sample_tool\<lparr>entry_type := ToolUse ''Read'' (FileRead ''f'') (TS_PendingApproval ''a1'' 0 3600)\<rparr>"
  have e: "with_tool_status sample_tool (TS_PendingApproval ''a1'' 0 3600) = Some ?e"
    by (simp add: with_tool_status_def sample_tool_def)
  have sp: "sample_pending = spawn_timeout_watcher ''a1'' 3600 0
      ((new_approvals sample_stores)
        \<lparr>ap_msg_stores := push_entry (\<lambda>_. None) 7 0 ?e sample_stores,
         ap_pending := Map.empty(''a1'' \<mapsto>
           \<lparr> pa_entry_index = 0, pa_entry = sample_tool, pa_execution_process_id = 7, pa_tool_name = ''Read'' \<rparr>),
         ap_channels := Map.empty(''a1'' \<mapsto> None)\<rparr>)"
    using sample_create
    by (simp add: create_with_waiter_def sample_request_def from_create_def APPROVAL_TIMEOUT_SECONDS_def
        new_approvals_def sample_stores_def sample_match e Let_def)
  show "ap_pending sample_pending ''a1'' =
     Some \<lparr> pa_entry_index = 0, pa_entry = sample_tool, pa_execution_process_id = 7, pa_tool_name = ''Read'' \<rparr>"
    "ap_watchers sample_pending ''a1'' = Some (Waiting 3600)" "ap_channels sample_pending ''a1'' = Some None"
    "ap_completed sample_pending = Map.empty" "\<exists>s. ap_msg_stores sample_pending 7 = Some s"
    unfolding sp by (simp_all add: spawn_timeout_watcher_def new_approvals_def push_entry_def sample_stores_def)
qed

theorem approval_answered_after_timeout_witness:
  "\<exists>s. ap_channels (watch_timeout (\<lambda>_. None) ''a1'' (watch_record ''a1'' (watch_decide ''a1'' 3600 sample_pending))) ''a1''
       = Some (Some s)"
  using approval_answered_after_timeout [OF sample_pending_reachable, of "''a1''"] sample_pending_fields(2)
  by (metis approvals_run.refl order_refl)

definition sample_approval :: approval_response where
  "sample_approval = \<lparr> resp_execution_process_id = 7, resp_status = AS_Approved \<rparr>"

lemma sample_respond:
  "\<exists>r st' db'. respond (\<lambda>_. None) empty_database ''a1'' sample_approval 10 st = (r, st', db')"
  by (metis prod_cases3)

theorem respond_spec_witness:
  "\<exists>r st' db'. respond (\<lambda>_. None) empty_database ''a1'' sample_approval 10 sample_pending = (r, st', db')
     \<and> ap_channels st' ''a1'' = Some (Some AS_Approved) \<and> ap_pending st' ''a1'' = None
     \<and> fst (respond (\<lambda>_. None) db' ''a1'' sample_approval 11 st') = Inl AE_AlreadyCompleted"
proof -
  obtain r st' db' where r: "respond (\<lambda>_. None) empty_database ''a1'' sample_approval 10 sample_pending = (r, st', db')"
    using sample_respond by blast
  obtain s where s: "ap_msg_stores sample_pending 7 = Some s" using sample_pending_fields(5) by blast
  show ?thesis
    using respond_spec [OF sample_pending_fields(1) _ _ _ r, of s TS_Created sample_approval 11] r s
    by (simp add: is_tool_use_def sample_tool_def sample_approval_def)
qed

theorem approval_resolved_once_witness:
  "ap_channels (fst (snd (respond (\<lambda>_. None) empty_database ''a1'' sample_approval 9
      (fst (snd (respond (\<lambda>_. None) empty_database ''a1'' (sample_approval\<lparr>resp_status := AS_TimedOut\<rparr>) 8 sample_pending))))))
    ''a1'' = Some (Some AS_TimedOut)"
proof -
  let ?st = "fst (snd (respond (\<lambda>_. None) empty_database ''a1'' (sample_approval\<lparr>resp_status := AS_TimedOut\<rparr>) 8 sample_pending))"
  have reach: "approvals_reachable (\<lambda>_. None) ?st"
    by (rule approvals_reachable.step [OF sample_pending_reachable approvals_step.respond])
  have "ap_channels ?st ''a1'' = Some (Some AS_TimedOut)"
    by (simp add: respond_pending [OF sample_pending_fields(1)])
  then show ?thesis
    by (rule approval_resolved_once [OF reach _ approvals_run.trans [OF approvals_run.refl approvals_step.respond]])
qed

text \<open>
  C39: The record of a completed request can contradict the answer the executor got: there is a
  run in which the user approves after the watcher has seen the deadline pass, the waiter yields
  the approval, and the request is then recorded as timed out.
\<close>

theorem approval_record_can_contradict_answer:
  "\<exists>st. approvals_reachable (\<lambda>_. None) st \<and> ap_channels st ''a1'' = Some (Some AS_Approved)
     \<and> ap_completed st ''a1'' = Some AS_TimedOut"
proof -
  let ?st1 = "watch_decide ''a1'' 3600 sample_pending"
  let ?st2 = "fst (snd (respond (\<lambda>_. None) empty_database ''a1'' sample_approval 3600 ?st1))"
  let ?st3 = "watch_record ''a1'' ?st2"
  have reach: "approvals_reachable (\<lambda>_. None) ?st3"
    by (rule approvals_reachable.step [OF approvals_reachable.step [OF approvals_reachable.step
          [OF sample_pending_reachable approvals_step.decide] approvals_step.respond] approvals_step.record_status])
  have st1: "?st1 = sample_pending\<lparr>ap_watchers := (ap_watchers sample_pending)(''a1'' \<mapsto> Decided AS_TimedOut)\<rparr>"
    by (simp add: watch_decide_def sample_pending_fields)
  then have "ap_pending ?st1 ''a1'' \<noteq> None" by (simp add: sample_pending_fields)
  then obtain p where "ap_pending ?st1 ''a1'' = Some p" by blast
  note respond_pending [OF this, of "\<lambda>_. None" empty_database sample_approval 3600]
  then have "ap_channels ?st3 ''a1'' = Some (Some AS_Approved)" "ap_completed ?st3 ''a1'' = Some AS_TimedOut"
    by (simp_all add: watch_record_def st1 sample_approval_def)
  with reach show ?thesis by blast
qed

text \<open>
  A tool call that already waits for approval is matched again: as long as nothing is evicted,
  after a request the search for the same call still returns the same entry, because the patch
  that marks it pending is skipped and the older one that created it is still in the history.
\<close>

theorem pending_tool_is_matched_again:
  assumes "create_with_waiter ser request now st = Inr st'"
    and "ap_msg_stores st (ar_execution_process_id request) = Some store"
    and "find_matching_tool_use store (ar_tool_call_id request) = Some (idx, tool)" and "idx \<le> usize_max"
    and "\<And>e. get_history (push_patch ser (replace_entry idx e) store)
           = get_history store @ [JsonPatch (replace_entry idx e)]"
  shows "\<exists>store'. ap_msg_stores st' (ar_execution_process_id request) = Some store'
     \<and> find_matching_tool_use store' (ar_tool_call_id request) = Some (idx, tool)"
proof -
  let ?ps = "TS_PendingApproval (ar_id request) (ar_created_at request) (ar_timeout_at request)"
  from with_tool_status_Some [OF with_tool_status_matched [OF assms(3)], of ?ps] obtain e where
    e: "with_tool_status tool ?ps = Some e" "tool_status_of e = Some ?ps" by blast
  let ?store = "push_patch ser (replace_entry idx e) store"
  have "match_tool_use c (JsonPatch (replace_entry idx e)) = None" for c
    using match_tool_use_Some [of c "JsonPatch (replace_entry idx e)"] e(2) assms(4)
    by (cases "match_tool_use c (JsonPatch (replace_entry idx e))") fastforce+
  then have "find_matching_tool_use ?store (ar_tool_call_id request) = Some (idx, tool)"
    using assms(3,5) by (simp add: find_matching_tool_use_def)
  moreover have "ap_msg_stores st' (ar_execution_process_id request) = Some ?store"
    using assms(1-3) e(1) by (auto simp: create_with_waiter_def approvals_simps push_entry_def)
  ultimately show ?thesis by blast
qed

theorem pending_tool_is_matched_again_witness:
  "\<exists>store'. ap_msg_stores sample_pending 7 = Some store' \<and> find_matching_tool_use store' ''c1'' = Some (0, sample_tool)"
proof -
  have req: "ar_execution_process_id sample_request = 7" "ar_tool_call_id sample_request = ''c1''"
    by (simp_all add: sample_request_def from_create_def)
  have "ap_msg_stores (new_approvals sample_stores) 7 = Some sample_store"
    by (simp add: new_approvals_def sample_stores_def)
  moreover have "get_history (push_patch (\<lambda>_. None) (replace_entry 0 e) sample_store)
      = get_history sample_store @ [JsonPatch (replace_entry 0 e)]" for e
    by (simp add: sample_store_def new_msg_store_def push_patch_def push_def get_history_def HISTORY_BYTES_def
        saturating_add_def)
  ultimately show ?thesis
    using pending_tool_is_matched_again [OF sample_create] sample_match by (simp add: req)
qed

end
