(* ===== verification/Service_Actions.thy ===== *)
theory Service_Actions
  imports Prelude
begin

text \<open>
  The shape of an asynchronous service method: a function of the service's state that returns
  \<^verbatim>\<open>Result\<close> and the new state.  \<open>and_then\<close> is the \<^verbatim>\<open>?\<close> operator, \<open>outcome\<close> a call whose
  result is matched on or only logged, \<open>for_each\<close> a loop whose body returns early on an error.

  The locale \<open>step_relation\<close> collects how a method is shown to respect a reflexive and transitive
  relation between the states before and after it: each service interprets it once per relation,
  so that an argument about a method is one rule application per statement of its body.
\<close>

type_synonym ('s, 'e, 'a) act = "'s \<Rightarrow> ('e + 'a) \<times> 's"

definition ret :: "'a \<Rightarrow> ('s, 'e, 'a) act" where
  "ret a s = (Inr a, s)"

definition fail :: "'e \<Rightarrow> ('s, 'e, 'a) act" where
  "fail e s = (Inl e, s)"

definition and_then :: "('s, 'e, 'a) act \<Rightarrow> ('a \<Rightarrow> ('s, 'e, 'b) act) \<Rightarrow> ('s, 'e, 'b) act" where
  "and_then m k s = (case m s of (Inl e, s') \<Rightarrow> (Inl e, s') | (Inr a, s') \<Rightarrow> k a s')"

definition outcome :: "('s, 'e, 'a) act \<Rightarrow> ('s, 'd, 'e + 'a) act" where
  "outcome m s = (case m s of (r, s') \<Rightarrow> (Inr r, s'))"

definition gets :: "('s \<Rightarrow> 'a) \<Rightarrow> ('s, 'e, 'a) act" where
  "gets f s = (Inr (f s), s)"

definition modify :: "('s \<Rightarrow> 's) \<Rightarrow> ('s, 'e, unit) act" where
  "modify f s = (Inr (), f s)"

definition of_result :: "('e \<Rightarrow> 'd) \<Rightarrow> 'e + 'a \<Rightarrow> ('s, 'd, 'a) act" where
  "of_result conv r s = (map_sum conv id r, s)"

definition map_err :: "('e \<Rightarrow> 'd) \<Rightarrow> ('s, 'e, 'a) act \<Rightarrow> ('s, 'd, 'a) act" where
  "map_err conv m s = (case m s of (r, s') \<Rightarrow> (map_sum conv id r, s'))"

fun for_each :: "('x \<Rightarrow> ('s, 'e, unit) act) \<Rightarrow> 'x list \<Rightarrow> ('s, 'e, unit) act" where
  "for_each f [] = ret ()"
| "for_each f (x # xs) = and_then (f x) (\<lambda>_. for_each f xs)"

lemma act_simps [simp]:
  "and_then (ret a) k = k a"
  "and_then (fail e) k = fail e"
  "and_then (gets f) k s = k (f s) s"
  "and_then (modify g) k1 s = k1 () (g s)"
  "and_then (of_result conv (Inr b)) k2 = k2 b"
  "and_then (of_result conv (Inl d)) k2 = fail (conv d)"
  "and_then (outcome m) k3 s = k3 (fst (m s)) (snd (m s))"
  by (auto simp: and_then_def ret_def fail_def gets_def modify_def of_result_def outcome_def fun_eq_iff
      split: prod.split)

lemma act_run [simp]:
  "ret a s = (Inr a, s)"
  "fail e s = (Inl e, s)"
  "gets f s = (Inr (f s), s)"
  "modify g s = (Inr (), g s)"
  "of_result conv (Inr b) s = (Inr b, s)"
  "of_result conv (Inl d) s = (Inl (conv d), s)"
  "outcome m s = (Inr (fst (m s)), snd (m s))"
  by (auto simp: ret_def fail_def gets_def modify_def of_result_def outcome_def split: prod.split)

lemma and_then_Inr: "m s = (Inr a, s') \<Longrightarrow> and_then m k s = k a s'"
  and and_then_Inl: "m s = (Inl e, s') \<Longrightarrow> and_then m k s = (Inl e, s')"
  by (simp_all add: and_then_def)

lemma and_then_InrE:
  assumes "and_then m k s = (Inr b, s'')"
  obtains a s' where "m s = (Inr a, s')" and "k a s' = (Inr b, s'')"
  using assms by (auto simp: and_then_def split: prod.splits sum.splits)


lemma and_then_InlE:
  assumes "and_then m k s = (Inl e, s'')"
  obtains "m s = (Inl e, s'')" | a s' where "m s = (Inr a, s')" and "k a s' = (Inl e, s'')"
  using assms by (auto simp: and_then_def split: prod.splits sum.splits)


section \<open>Relations a method keeps\<close>

definition keeps :: "('s \<Rightarrow> 's \<Rightarrow> bool) \<Rightarrow> ('s, 'e, 'a) act \<Rightarrow> bool" where
  "keeps R m \<longleftrightarrow> (\<forall>s. R s (snd (m s)))"

lemma keepsD: "keeps R m \<Longrightarrow> m s = (r, s') \<Longrightarrow> R s s'"
  unfolding keeps_def by (metis snd_conv)

locale step_relation =
  fixes R :: "'s \<Rightarrow> 's \<Rightarrow> bool"
  assumes step_refl: "R s s"
    and step_trans: "R s s' \<Longrightarrow> R s' s'' \<Longrightarrow> R s s''"
begin

lemma keeps_pure:
  "keeps R (ret a)" "keeps R (fail e)" "keeps R (gets f)" "keeps R (of_result conv r)"
  by (simp_all add: keeps_def of_result_def step_refl)

lemma keeps_modify: "(\<And>s. R s (g s)) \<Longrightarrow> keeps R (modify g)"
  by (simp add: keeps_def)

lemma keeps_and_then:
  assumes "keeps R m" and "\<And>a. keeps R (k a)"
  shows "keeps R (and_then m k)"
  unfolding keeps_def
proof
  fix s
  obtain r s' where m: "m s = (r, s')" by force
  then have "R s s'" using assms(1) keepsD by metis
  moreover have "R s' (snd (k a s'))" for a using assms(2) by (simp add: keeps_def)
  ultimately show "R s (snd (and_then m k s))"
    using m step_trans by (auto simp: and_then_def split: sum.split)
qed

lemma keeps_outcome: "keeps R m \<Longrightarrow> keeps R (outcome m)"
  unfolding keeps_def by simp

lemma keeps_map_err: "keeps R m \<Longrightarrow> keeps R (map_err conv m)"
  unfolding keeps_def map_err_def by (auto split: prod.split) (metis snd_conv)

lemma keeps_for_each: "(\<And>x. keeps R (f x)) \<Longrightarrow> keeps R (for_each f xs)"
  by (induction xs) (auto intro: keeps_pure keeps_and_then)

lemma keeps_if: "keeps R m \<Longrightarrow> keeps R m' \<Longrightarrow> keeps R (if b then m else m')"
  by simp

lemma keeps_option:
  "keeps R m \<Longrightarrow> (\<And>x. keeps R (f x)) \<Longrightarrow> keeps R (case r of None \<Rightarrow> m | Some x \<Rightarrow> f x)"
  by (cases r) auto

lemma keeps_sum:
  "(\<And>e. keeps R (g e)) \<Longrightarrow> (\<And>x. keeps R (f x)) \<Longrightarrow> keeps R (case r of Inl e \<Rightarrow> g e | Inr x \<Rightarrow> f x)"
  by (cases r) auto

lemma keeps_prod: "(\<And>x y. keeps R (f x y)) \<Longrightarrow> keeps R (case p of (x, y) \<Rightarrow> f x y)"
  by (cases p) auto

lemma keeps_let: "(\<And>x. keeps R (f x)) \<Longrightarrow> keeps R (let x = a in f x)"
  by simp

lemmas keeps_rules =
  keeps_pure keeps_and_then keeps_outcome keeps_map_err keeps_for_each keeps_if
  keeps_option keeps_sum keeps_prod keeps_let

end

end
