(* ===== verification/Text_Utils.thy ===== *)
theory Text_Utils
  imports Prelude
begin

text \<open>
  \<^verbatim>\<open>crates/utils/src/text.rs\<close> and the names built from it: branch slugs, short identifiers, the
  directory of a worktree; and \<^verbatim>\<open>truncate_to_char_boundary\<close> of the local container.

  \<^verbatim>\<open>str::to_lowercase\<close> needs the Unicode tables, so it is the parameter \<open>lower\<close>.  The regular
  expression \<^verbatim>\<open>[^a-z0-9]+\<close> can be read bytewise: every byte of a character outside ASCII is
  outside the class.
\<close>

section \<open>Slugs\<close>

definition slug_char :: "char \<Rightarrow> bool" where
  "slug_char c \<longleftrightarrow> (97 \<le> (of_char c :: nat) \<and> (of_char c :: nat) \<le> 122) \<or> (48 \<le> (of_char c :: nat) \<and> (of_char c :: nat) \<le> 57)"

definition hyphen :: char where
  "hyphen = CHR ''-''"

text \<open>\<^verbatim>\<open>replace_all\<close> of the maximal runs; the flag says whether the last byte was in a run.\<close>

fun slug :: "bool \<Rightarrow> string \<Rightarrow> string" where
  "slug in_run [] = []"
| "slug in_run (c # s) =
     (if slug_char c then c # slug False s
      else if in_run then slug True s else hyphen # slug True s)"

definition trim_hyphens_end :: "string \<Rightarrow> string" where
  "trim_hyphens_end s = rev (dropWhile (\<lambda>c. c = hyphen) (rev s))"

definition trim_hyphens :: "string \<Rightarrow> string" where
  "trim_hyphens s = trim_hyphens_end (dropWhile (\<lambda>c. c = hyphen) s)"

definition git_branch_id :: "(string \<Rightarrow> string) \<Rightarrow> string \<Rightarrow> string" where
  "git_branch_id lower input = trim_hyphens_end (take 16 (trim_hyphens (slug False (lower input))))"

definition hex_digit :: "nat \<Rightarrow> char" where
  "hex_digit n = (if n < 10 then char_of (48 + n) else char_of (87 + n))"

text \<open>The 32 hexadecimal digits of \<^verbatim>\<open>Uuid::simple\<close>, the most significant first.\<close>

definition uuid_simple :: "uuid \<Rightarrow> string" where
  "uuid_simple u = map (\<lambda>i. hex_digit (unat u div 16 ^ (31 - i) mod 16)) [0..<32]"

definition short_uuid :: "uuid \<Rightarrow> string" where
  "short_uuid u = take 4 (uuid_simple u)"

definition git_branch_from_task_attempt :: "(string \<Rightarrow> string) \<Rightarrow> string \<Rightarrow> uuid \<Rightarrow> string \<Rightarrow> string" where
  "git_branch_from_task_attempt lower prefix attempt_id task_title =
     (let task_title_id = git_branch_id lower task_title
      in if prefix = [] then short_uuid attempt_id @ ''-'' @ task_title_id
         else prefix @ ''/'' @ short_uuid attempt_id @ ''-'' @ task_title_id)"

definition dir_name_from_task_attempt :: "(string \<Rightarrow> string) \<Rightarrow> uuid \<Rightarrow> string \<Rightarrow> string" where
  "dir_name_from_task_attempt lower attempt_id task_title =
     short_uuid attempt_id @ ''-'' @ git_branch_id lower task_title"

definition dir_name_from_execution_run :: "uuid \<Rightarrow> string" where
  "dir_name_from_execution_run run_id = ''run-'' @ short_uuid run_id"


text \<open>\<^verbatim>\<open>str::split\<close> at a one-byte character.\<close>

fun split_on :: "char \<Rightarrow> string \<Rightarrow> string list" where
  "split_on d [] = [[]]"
| "split_on d (c # s) =
     (if c = d then [] # split_on d s
      else (case split_on d s of [] \<Rightarrow> [[c]] | w # ws \<Rightarrow> (c # w) # ws))"

text \<open>\<^verbatim>\<open>Path::join\<close> on Unix.\<close>

definition join_path :: "string \<Rightarrow> string \<Rightarrow> string" where
  "join_path p q =
     (if starts_with ''/'' q then q else if p \<noteq> [] \<and> last p \<noteq> CHR ''/'' then p @ ''/'' @ q else p @ q)"


text \<open>\<^verbatim>\<open>Path::extension\<close>: what follows the last dot of the file name, unless that dot is its first character.\<close>

definition file_name :: "string \<Rightarrow> string option" where
  "file_name path =
     (let comps = filter (\<lambda>c. c \<noteq> [] \<and> c \<noteq> ''.'') (split_on (CHR ''/'') path)
      in if comps = [] \<or> last comps = ''..'' then None else Some (last comps))"

definition extension :: "string \<Rightarrow> string option" where
  "extension path =
     Option.bind (file_name path) (\<lambda>name.
       let ext = rev (takeWhile (\<lambda>c. c \<noteq> CHR ''.'') (rev name))
       in if length name \<le> Suc (length ext) then None else Some ext)"


section \<open>Truncation at a character boundary\<close>

text \<open>
  In UTF-8 the bytes 0x80 to 0xBF continue a character; \<open>char_indices\<close> are the positions of the
  other bytes.
\<close>

definition continuation :: "char \<Rightarrow> bool" where
  "continuation c \<longleftrightarrow> 128 \<le> (of_char c :: nat) \<and> (of_char c :: nat) < 192"

definition char_indices :: "string \<Rightarrow> nat list" where
  "char_indices s = filter (\<lambda>i. \<not> continuation (s ! i)) [0..<length s]"

definition truncate_to_char_boundary :: "string \<Rightarrow> nat \<Rightarrow> string" where
  "truncate_to_char_boundary content max_len =
     (if length content \<le> max_len then content
      else let idxs = takeWhile (\<lambda>idx. idx \<le> max_len) (char_indices content @ [length content])
           in take (if idxs = [] then 0 else last idxs) content)"

definition is_char_boundary :: "string \<Rightarrow> nat \<Rightarrow> bool" where
  "is_char_boundary s i \<longleftrightarrow> i = 0 \<or> i = length s \<or> (i < length s \<and> \<not> continuation (s ! i))"


section \<open>Properties of slugs\<close>

definition single_hyphens :: "string \<Rightarrow> bool" where
  "single_hyphens s = successively (\<lambda>a b. \<not> (a = hyphen \<and> b = hyphen)) s"

lemma hyphen_not_slug: "\<not> slug_char hyphen"
  by (simp add: slug_char_def hyphen_def)

lemma slug_head: "slug True s \<noteq> [] \<Longrightarrow> hd (slug True s) \<noteq> hyphen"
  using hyphen_not_slug by (induction s) auto

lemma slug_chars: "set (slug b s) \<subseteq> {c. slug_char c} \<union> {hyphen}"
  by (induction b s rule: slug.induct) auto

lemma slug_single: "single_hyphens (slug b s)"
  unfolding single_hyphens_def
  using hyphen_not_slug slug_head
  by (induction b s rule: slug.induct) (auto simp: successively_Cons)

lemma single_hyphens_append: "single_hyphens (xs @ ys) \<Longrightarrow> single_hyphens xs \<and> single_hyphens ys"
  unfolding single_hyphens_def successively_append_iff by simp

lemma trim_hyphens_end_prefix: "\<exists>ys. s = trim_hyphens_end s @ ys"
proof
  have "s = rev (takeWhile (\<lambda>c. c = hyphen) (rev s) @ dropWhile (\<lambda>c. c = hyphen) (rev s))" by simp
  then show "s = trim_hyphens_end s @ rev (takeWhile (\<lambda>c. c = hyphen) (rev s))"
    unfolding trim_hyphens_end_def rev_append .
qed

lemma trim_hyphens_end_last: "trim_hyphens_end s \<noteq> [] \<Longrightarrow> last (trim_hyphens_end s) \<noteq> hyphen"
  using hd_dropWhile [of "\<lambda>c. c = hyphen" "rev s"] by (auto simp: trim_hyphens_end_def last_rev)

lemma trim_hyphens_end_head: "trim_hyphens_end s \<noteq> [] \<Longrightarrow> hd (trim_hyphens_end s) = hd s"
  using trim_hyphens_end_prefix [of s] by (metis hd_append)

text \<open>
  C29: The slug of a task title is a usable branch name: at most 16 letters, digits and hyphens, with
  no two hyphens in a row and none at either end, whatever the title.
\<close>

theorem git_branch_id_wellformed:
  "length (git_branch_id lower title) \<le> 16
   \<and> set (git_branch_id lower title) \<subseteq> {c. slug_char c} \<union> {hyphen}
   \<and> single_hyphens (git_branch_id lower title)
   \<and> (git_branch_id lower title = []
       \<or> hd (git_branch_id lower title) \<noteq> hyphen \<and> last (git_branch_id lower title) \<noteq> hyphen)"
proof -
  let ?s = "slug False (lower title)"
  let ?d = "dropWhile (\<lambda>c. c = hyphen) ?s"
  obtain zs where zs: "?s = zs @ ?d" by (metis takeWhile_dropWhile_id)
  obtain ys where ys: "?d = trim_hyphens ?s @ ys"
    using trim_hyphens_end_prefix unfolding trim_hyphens_def by blast
  obtain xs where xs: "take 16 (trim_hyphens ?s) = git_branch_id lower title @ xs"
    using trim_hyphens_end_prefix unfolding git_branch_id_def by blast
  define b where "b = git_branch_id lower title"
  obtain rest where split: "?s = zs @ b @ rest" and d: "?d = b @ rest"
    using zs ys xs append_take_drop_id [of 16 "trim_hyphens ?s"] unfolding b_def by (metis append_assoc)
  have "length (git_branch_id lower title) \<le> 16"
    using arg_cong [OF xs, of length] by simp
  moreover have "set (git_branch_id lower title) \<subseteq> {c. slug_char c} \<union> {hyphen}"
    using slug_chars [of False "lower title"] arg_cong [OF split, of set] by (auto simp: b_def)
  moreover have "single_hyphens (git_branch_id lower title)"
    using slug_single [of False "lower title"] single_hyphens_append split unfolding b_def by metis
  moreover have "hd (git_branch_id lower title) \<noteq> hyphen" if ne: "git_branch_id lower title \<noteq> []"
  proof -
    have "hd (git_branch_id lower title) = hd ?d" "?d \<noteq> []" using ne d by (simp_all add: b_def)
    then show ?thesis using hd_dropWhile [of "\<lambda>c. c = hyphen" ?s] by simp
  qed
  moreover have "git_branch_id lower title \<noteq> [] \<Longrightarrow> last (git_branch_id lower title) \<noteq> hyphen"
    unfolding git_branch_id_def by (rule trim_hyphens_end_last)
  ultimately show ?thesis by blast
qed

theorem git_branch_id_wellformed_witness:
  "git_branch_id (\<lambda>s. s) ''--fix: the parser (again)'' = ''fix-the-parser-a''
   \<and> length (git_branch_id (\<lambda>s. s) ''--fix: the parser (again)'') \<le> 16
   \<and> hd (git_branch_id (\<lambda>s. s) ''--fix: the parser (again)'') \<noteq> hyphen"
proof -
  have eq: "git_branch_id (\<lambda>s. s) ''--fix: the parser (again)'' = ''fix-the-parser-a''" by code_simp
  then show ?thesis using git_branch_id_wellformed [of "\<lambda>s. s" "''--fix: the parser (again)''"] by simp
qed

lemma sorted_le_last: "sorted xs \<Longrightarrow> x \<in> set xs \<Longrightarrow> x \<le> last (xs :: nat list)"
  by (induction xs) auto

lemma takeWhile_sorted: "sorted xs \<Longrightarrow> takeWhile (\<lambda>i. i \<le> m) xs = filter (\<lambda>i. i \<le> (m :: nat)) xs"
  by (induction xs) (auto intro!: filter_False [symmetric])

lemma boundaries_up_to:
  assumes "m < length s"
  shows "takeWhile (\<lambda>i. i \<le> m) (char_indices s @ [length s]) = filter (\<lambda>i. i \<le> m) (char_indices s)"
proof -
  have "sorted (char_indices s @ [length s])"
    by (auto simp: sorted_append char_indices_def sorted_wrt_filter)
  then have "takeWhile (\<lambda>i. i \<le> m) (char_indices s @ [length s]) = filter (\<lambda>i. i \<le> m) (char_indices s @ [length s])"
    by (rule takeWhile_sorted)
  then show ?thesis using assms by simp
qed

text \<open>
  C30: Truncation keeps the longest prefix of whole characters that fits: the result is a prefix of
  at most the given length that ends at a character boundary, and no boundary within the limit
  lies beyond it.
\<close>

theorem truncate_longest_prefix:
  "\<exists>n. truncate_to_char_boundary s m = take n s \<and> n \<le> length s \<and> n \<le> m \<and> is_char_boundary s n
       \<and> (\<forall>i. is_char_boundary s i \<and> i \<le> m \<longrightarrow> i \<le> n)"
proof (cases "length s \<le> m")
  case True
  then show ?thesis
    by (intro exI [of _ "length s"]) (auto simp: truncate_to_char_boundary_def is_char_boundary_def)
next
  case False
  define idxs where "idxs = filter (\<lambda>i. i \<le> m) (char_indices s)"
  define n where "n = (if idxs = [] then 0 else last idxs)"
  have "truncate_to_char_boundary s m = take n s"
    using False boundaries_up_to [of m s] by (simp add: truncate_to_char_boundary_def idxs_def n_def)
  moreover have "n \<in> set idxs \<or> n = 0" using last_in_set by (auto simp: n_def)
  then have "n \<le> length s \<and> n \<le> m \<and> is_char_boundary s n"
    by (auto simp: idxs_def char_indices_def is_char_boundary_def)
  moreover have "i \<le> n" if "is_char_boundary s i" "i \<le> m" for i
  proof (cases "i = 0")
    case i: False
    with that False have "i \<in> set idxs" by (auto simp: idxs_def char_indices_def is_char_boundary_def)
    moreover have "sorted idxs" by (simp add: idxs_def char_indices_def sorted_wrt_filter)
    ultimately show ?thesis using sorted_le_last by (auto simp: n_def)
  qed simp
  ultimately show ?thesis by blast
qed

text \<open>Two characters of four bytes, cut at five bytes: the second one goes.\<close>

theorem truncate_longest_prefix_witness:
  "\<exists>n. truncate_to_char_boundary (map char_of [240, 159, 148, 165, 240, 159, 148, 165 :: nat]) 5
        = take n (map char_of [240, 159, 148, 165, 240, 159, 148, 165 :: nat]) \<and> n \<le> 5 \<and> 4 \<le> n"
proof -
  let ?s = "map char_of [240, 159, 148, 165, 240, 159, 148, 165 :: nat]"
  have "is_char_boundary ?s 4" by code_simp
  then show ?thesis using truncate_longest_prefix [of ?s 5] by fastforce
qed

end
