(* ===== verification/Service_State.thy ===== *)
theory Service_State
  imports Service_Actions Text_Utils Msg_Store Db_Integrity
begin

text \<open>
  The state the services share and the environment they run in.

  The state is the database, the message stores and child handles in memory, the background
  tasks that were spawned and have not run yet, and the outside world \<open>'w\<close> (files, git,
  processes).  The record \<open>container_env\<close> holds what lies outside: identifiers and the clock (one
  value per tick), serde, files, git, worktrees, process groups.  An operation of the world may
  fail, and changes the world and nothing else.
\<close>

section \<open>State and environment\<close>

datatype executor_error =
    FollowUpNotSupported string
  | SpawnError string
  | UnknownExecutorType string
  | ExecutorIo string
  | ExecutorJson string
  | TomlSerialize string
  | TomlDeserialize string
  | ExecutorApprovalError string
  | CommandBuild string
  | ExecutableNotFound string
  | SetupHelperNotSupported

datatype container_error =
    GitServiceError string
  | Sqlx sqlx_error
  | ExecutorError executor_error
  | Worktree string
  | Io string
  | KillFailed string
  | TaskAttemptError task_attempt_error
  | Other string

datatype background =
    NormalizeLogs uuid executor_profile_id string
  | StreamRawLogs uuid
  | ExitMonitor uuid
  | RunExitMonitor uuid uuid

record 'w container =
  c_db :: database
  c_msg_stores :: "uuid \<rightharpoonup> msg_store"
  c_children :: "uuid set"
  c_tasks :: "background list"
  c_world :: 'w
  c_tick :: nat

record ('a, 'w) container_env =
  new_v4 :: "nat \<Rightarrow> uuid"
  clock :: "nat \<Rightarrow> datetime"
  patch_json :: "patch \<Rightarrow> string option"
  msg_json :: "log_msg \<Rightarrow> string option"
  show_error :: "container_error \<Rightarrow> string"
  show_uuid :: "uuid \<Rightarrow> string"
  to_lowercase :: "string \<Rightarrow> string"
  profiles :: "'a executor_configs"
  use_worktree :: "uuid \<Rightarrow> 'w \<Rightarrow> bool"
  worktree_base_dir :: string
  env_vars :: "string \<Rightarrow> string option"
  read_dir :: "string \<Rightarrow> 'w \<Rightarrow> string list option"
  is_dir :: "string \<Rightarrow> 'w \<Rightarrow> bool"
  path_exists :: "string \<Rightarrow> 'w \<Rightarrow> bool"
  head_oid :: "string \<Rightarrow> 'w \<Rightarrow> string option"
  git_commit :: "string \<Rightarrow> string \<Rightarrow> 'w \<Rightarrow> (string + bool) \<times> 'w"
  create_worktree :: "string \<Rightarrow> string \<Rightarrow> string \<Rightarrow> string \<Rightarrow> 'w \<Rightarrow> (string + unit) \<times> 'w"
  ensure_worktree_exists :: "string \<Rightarrow> string \<Rightarrow> string \<Rightarrow> 'w \<Rightarrow> (string + unit) \<times> 'w"
  cleanup_worktree :: "string \<Rightarrow> string option \<Rightarrow> 'w \<Rightarrow> (string + unit) \<times> 'w"
  create_dir_all :: "string \<Rightarrow> 'w \<Rightarrow> (string + unit) \<times> 'w"
  copy_file :: "string \<Rightarrow> string \<Rightarrow> 'w \<Rightarrow> (string + unit) \<times> 'w"
  write_file :: "string \<Rightarrow> string \<Rightarrow> 'w \<Rightarrow> (string + unit) \<times> 'w"
  remove_file :: "string \<Rightarrow> 'w \<Rightarrow> (string + unit) \<times> 'w"
  image_cache_dir :: string
  sha256_hex :: "string \<Rightarrow> string"
  spawn_child :: "executor_action \<Rightarrow> string \<Rightarrow> bool \<Rightarrow> 'w \<Rightarrow> (executor_error + unit) \<times> 'w"
  kill_process_group :: "uuid \<Rightarrow> 'w \<Rightarrow> (container_error + unit) \<times> 'w"

type_synonym ('w, 'a) cact = "('w container, container_error, 'a) act"

text \<open>A statement that always succeeds, one that may fail, and one that returns a value as well.\<close>

definition tick :: "('w container, 'e, nat) act" where
  "tick s = (Inr (c_tick s), s\<lparr>c_tick := Suc (c_tick s)\<rparr>)"

definition uuid_v4 :: "('a, 'w) container_env \<Rightarrow> ('w container, 'e, uuid) act" where
  "uuid_v4 env = and_then tick (\<lambda>n. ret (new_v4 env n))"

definition utc_now :: "('a, 'w) container_env \<Rightarrow> ('w container, 'e, datetime) act" where
  "utc_now env = and_then tick (\<lambda>n. ret (clock env n))"

definition execute :: "(database \<Rightarrow> database) \<Rightarrow> ('w container, 'e, unit) act" where
  "execute f = modify (\<lambda>s. s\<lparr>c_db := f (c_db s)\<rparr>)"

definition execute_result :: "(database \<Rightarrow> sqlx_error + 'r \<times> database) \<Rightarrow> ('w container, sqlx_error, 'r) act" where
  "execute_result f s = (case f (c_db s) of Inl e \<Rightarrow> (Inl e, s) | Inr (r, db') \<Rightarrow> (Inr r, s\<lparr>c_db := db'\<rparr>))"

definition in_world :: "('w \<Rightarrow> ('e + 'r) \<times> 'w) \<Rightarrow> ('w container, 'e, 'r) act" where
  "in_world f s = (case f (c_world s) of (r, w') \<Rightarrow> (r, s\<lparr>c_world := w'\<rparr>))"

definition spawn_task :: "background \<Rightarrow> ('w container, 'e, unit) act" where
  "spawn_task t = modify (\<lambda>s. s\<lparr>c_tasks := c_tasks s @ [t]\<rparr>)"

definition found :: "('w container \<Rightarrow> 'r option) \<Rightarrow> ('w, 'r) cact" where
  "found f = and_then (gets f) (\<lambda>r. of_result Sqlx (ok_or RowNotFound r))"


section \<open>Runs of the primitive statements\<close>

lemma uuid_v4_run: "uuid_v4 env s = (Inr (new_v4 env (c_tick s)), s\<lparr>c_tick := Suc (c_tick s)\<rparr>)"
  by (simp add: uuid_v4_def and_then_def tick_def)

lemma utc_now_run: "utc_now env s = (Inr (clock env (c_tick s)), s\<lparr>c_tick := Suc (c_tick s)\<rparr>)"
  by (simp add: utc_now_def and_then_def tick_def)

lemma in_world_db: "in_world f s = (r, s') \<Longrightarrow> c_db s' = c_db s"
  by (auto simp: in_world_def split: prod.splits)

lemma map_err_run: "map_err conv m s = (map_sum conv id (fst (m s)), snd (m s))"
  by (simp add: map_err_def split: prod.split)

lemma map_err_Inr: "map_err conv m s = (Inr a, s') \<longleftrightarrow> m s = (Inr a, s')"
  by (cases "m s"; cases "fst (m s)") (auto simp: map_err_run)

lemma execute_result_Inr: "execute_result f s = (Inr r, s') \<longleftrightarrow> (\<exists>db'. f (c_db s) = Inr (r, db') \<and> s' = s\<lparr>c_db := db'\<rparr>)"
  by (auto simp: execute_result_def split: sum.splits)

lemma execute_run [simp]: "execute f s = (Inr (), s\<lparr>c_db := f (c_db s)\<rparr>)"
  by (simp add: execute_def)

lemma spawn_task_run [simp]: "spawn_task t s = (Inr (), s\<lparr>c_tasks := c_tasks s @ [t]\<rparr>)"
  by (simp add: spawn_task_def)

lemma found_run: "found f s = (map_sum Sqlx id (ok_or RowNotFound (f s)), s)"
  by (simp add: found_def and_then_def of_result_def)

lemma found_Inr: "found f s = (Inr r, s') \<longleftrightarrow> f s = Some r \<and> s' = s"
  by (cases "f s") (auto simp: found_run)

lemma found_Inl: "found f s = (Inl e, s') \<longleftrightarrow> f s = None \<and> e = Sqlx RowNotFound \<and> s' = s"
  by (cases "f s") (auto simp: found_run)


section \<open>A concrete environment\<close>

text \<open>Files are a list of paths, every operation succeeds, identifiers and times are the ticks.\<close>

definition sample_env :: "(unit, string list) container_env" where
  "sample_env =
     \<lparr> new_v4 = of_nat, clock = int, patch_json = (\<lambda>_. None), msg_json = (\<lambda>_. Some ''{}''), show_error = (\<lambda>_. ''error''),
       show_uuid = (\<lambda>_. ''u''), to_lowercase = (\<lambda>s. s), profiles = [], use_worktree = (\<lambda>_ _. True),
       worktree_base_dir = ''/wt'', env_vars = (\<lambda>_. None), read_dir = (\<lambda>_ w. Some w), is_dir = (\<lambda>_ _. True),
       path_exists = (\<lambda>p w. p \<in> set w), head_oid = (\<lambda>_ _. Some ''abc''), git_commit = (\<lambda>_ _ w. (Inr True, w)),
       create_worktree = (\<lambda>_ _ p _ w. (Inr (), p # w)), ensure_worktree_exists = (\<lambda>_ _ p w. (Inr (), p # w)),
       cleanup_worktree = (\<lambda>p _ w. (Inr (), removeAll p w)), create_dir_all = (\<lambda>p w. (Inr (), p # w)),
       copy_file = (\<lambda>_ q w. (Inr (), q # w)), write_file = (\<lambda>p _ w. (Inr (), p # w)),
       remove_file = (\<lambda>p w. (Inr (), removeAll p w)), image_cache_dir = ''/cache'', sha256_hex = (\<lambda>d. d),
       spawn_child = (\<lambda>_ _ _ w. (Inr (), w)), kill_process_group = (\<lambda>_ w. (Inr (), w)) \<rparr>"

definition sample_container :: "string list container" where
  "sample_container =
     \<lparr> c_db = empty_database, c_msg_stores = Map.empty, c_children = {}, c_tasks = [], c_world = [], c_tick = 0 \<rparr>"

lemma sample_env_simps [simp]:
  "new_v4 sample_env = of_nat"
  "clock sample_env = int"
  "patch_json sample_env = (\<lambda>_. None)"
  "msg_json sample_env = (\<lambda>_. Some ''{}'')"
  "show_error sample_env = (\<lambda>_. ''error'')"
  "show_uuid sample_env = (\<lambda>_. ''u'')"
  "to_lowercase sample_env = (\<lambda>s. s)"
  "profiles sample_env = []"
  "use_worktree sample_env = (\<lambda>_ _. True)"
  "worktree_base_dir sample_env = ''/wt''"
  "env_vars sample_env = (\<lambda>_. None)"
  "read_dir sample_env = (\<lambda>_ w. Some w)"
  "is_dir sample_env = (\<lambda>_ _. True)"
  "path_exists sample_env = (\<lambda>p w. p \<in> set w)"
  "head_oid sample_env = (\<lambda>_ _. Some ''abc'')"
  "git_commit sample_env = (\<lambda>_ _ w. (Inr True, w))"
  "create_worktree sample_env = (\<lambda>_ _ p _ w. (Inr (), p # w))"
  "ensure_worktree_exists sample_env = (\<lambda>_ _ p w. (Inr (), p # w))"
  "cleanup_worktree sample_env = (\<lambda>p _ w. (Inr (), removeAll p w))"
  "create_dir_all sample_env = (\<lambda>p w. (Inr (), p # w))"
  "copy_file sample_env = (\<lambda>_ q w. (Inr (), q # w))"
  "write_file sample_env = (\<lambda>p _ w. (Inr (), p # w))"
  "remove_file sample_env = (\<lambda>p w. (Inr (), removeAll p w))"
  "image_cache_dir sample_env = ''/cache''"
  "sha256_hex sample_env = (\<lambda>d. d)"
  "spawn_child sample_env = (\<lambda>_ _ _ w. (Inr (), w))"
  "kill_process_group sample_env = (\<lambda>_ w. (Inr (), w))"
  by (simp_all add: sample_env_def)

lemma sample_container_simps [simp]:
  "c_db sample_container = empty_database" "c_msg_stores sample_container = Map.empty" "c_children sample_container = {}"
  "c_tasks sample_container = []" "c_world sample_container = []" "c_tick sample_container = 0"
  by (simp_all add: sample_container_def)

end
