(* ===== verification/Image_Service.thy ===== *)
theory Image_Service
  imports Service_State
begin

text \<open>
  The image service, \<^verbatim>\<open>crates/services/src/services/image.rs\<close>: storing uploads once per content,
  deleting them, copying them into a worktree, and rewriting image references of a prompt to
  absolute paths.  SHA-256, the files and the generated names are the environment's.
\<close>

section \<open>Image references in prompts\<close>

definition FORGE_IMAGES_DIR :: string where
  "FORGE_IMAGES_DIR = ''.forge-images''"

text \<open>
  One match of \<^verbatim>\<open>!\[([^\]]*)\]\((DIR/[^)\s]+)\)\<close> at the start of the text: the alternative
  text, the relative path and the rest.  \<open>until_stop\<close> takes bytes up to a closing parenthesis or a
  white-space character.
\<close>

fun until_stop :: "string \<Rightarrow> string \<times> string" where
  "until_stop [] = ([], [])"
| "until_stop (c # s) =
     (if c = CHR '')'' \<or> (\<exists>w \<in> set white_space. starts_with w (c # s)) then ([], c # s)
      else (case until_stop s of (path, rest) \<Rightarrow> (c # path, rest)))"

definition image_ref :: "string \<Rightarrow> (string \<times> string \<times> string) option" where
  "image_ref s =
     (case strip_prefix ''!['' s of
        None \<Rightarrow> None
      | Some s1 \<Rightarrow>
          (let alt = takeWhile (\<lambda>c. c \<noteq> CHR '']'') s1
           in case strip_prefix ('']('' @ FORGE_IMAGES_DIR @ ''/'') (dropWhile (\<lambda>c. c \<noteq> CHR '']'') s1) of
                None \<Rightarrow> None
              | Some s2 \<Rightarrow>
                  (case until_stop s2 of
                     (path, rest) \<Rightarrow>
                       (case strip_prefix '')'' rest of
                          None \<Rightarrow> None
                        | Some s3 \<Rightarrow>
                            if path = [] then None else Some (alt, FORGE_IMAGES_DIR @ ''/'' @ path, s3)))))"

definition absolute_ref :: "string \<Rightarrow> string \<Rightarrow> string \<Rightarrow> string" where
  "absolute_ref worktree_path alt rel =
     ''!['' @ alt @ '']('' @ map (\<lambda>c. if c = CHR 0x5C then CHR ''/'' else c) (join_path worktree_path rel) @ '')''"

lemma until_stop_split: "until_stop s = (path, rest) \<Longrightarrow> s = path @ rest"
  by (induction s arbitrary: path) (auto split: if_splits prod.splits)

lemma image_ref_split:
  assumes "image_ref s = Some (alt, rel, rest)"
  shows "s = ''!['' @ alt @ '']('' @ rel @ '')'' @ rest"
proof -
  from assms obtain s1 s2 path r where s1: "s = ''!['' @ s1"
    and alt: "alt = takeWhile (\<lambda>c. c \<noteq> CHR '']'') s1"
    and s2: "dropWhile (\<lambda>c. c \<noteq> CHR '']'') s1 = '']('' @ FORGE_IMAGES_DIR @ ''/'' @ s2"
    and path: "until_stop s2 = (path, r)" and r: "r = '')'' @ rest" and rel: "rel = FORGE_IMAGES_DIR @ ''/'' @ path"
    unfolding image_ref_def Let_def
    by (auto simp: strip_prefix_Some_iff split: option.splits prod.splits if_splits)
  have "s1 = alt @ '']('' @ FORGE_IMAGES_DIR @ ''/'' @ s2"
    using takeWhile_dropWhile_id [of "\<lambda>c. c \<noteq> CHR '']''" s1] unfolding alt s2 by simp
  then show ?thesis using s1 until_stop_split [OF path] r rel by simp
qed

lemma image_ref_shorter: "image_ref s = Some (alt, rel, rest) \<Longrightarrow> length rest < length s"
  using arg_cong [OF image_ref_split, of s alt rel rest length] by simp

function canonicalise_image_paths :: "string \<Rightarrow> string \<Rightarrow> string" where
  "canonicalise_image_paths [] worktree_path = []"
| "canonicalise_image_paths (c # s) worktree_path =
     (case image_ref (c # s) of
        Some (alt, rel, rest) \<Rightarrow> absolute_ref worktree_path alt rel @ canonicalise_image_paths rest worktree_path
      | None \<Rightarrow> c # canonicalise_image_paths s worktree_path)"
  by pat_completeness auto

termination
  by (relation "measure (\<lambda>(s, _). length s)") (auto dest: image_ref_shorter)


section \<open>Stored images\<close>

datatype image_error =
    ImageIo string
  | ImageDatabase sqlx_error
  | InvalidFormat
  | TooLarge nat nat
  | ImageNotFound
  | ResponseBuildError string

definition max_size_bytes :: nat where
  "max_size_bytes = 20 * 1024 * 1024"

definition mime_type :: "string \<Rightarrow> string option" where
  "mime_type ext =
     (if ext = ''png'' then Some ''image/png''
      else if ext = ''jpg'' \<or> ext = ''jpeg'' then Some ''image/jpeg''
      else if ext = ''gif'' then Some ''image/gif''
      else if ext = ''webp'' then Some ''image/webp''
      else if ext = ''bmp'' then Some ''image/bmp''
      else if ext = ''svg'' then Some ''image/svg+xml'' else None)"

definition store_image ::
  "('a, 'w) container_env \<Rightarrow> string \<Rightarrow> string \<Rightarrow> ('w container, image_error, image) act" where
  "store_image env data original_filename =
     (let file_size = length data;
          hash = sha256_hex env data;
          ext = (case extension original_filename of Some e \<Rightarrow> e | None \<Rightarrow> ''png'');
          mime = mime_type (to_lowercase env ext)
      in if max_size_bytes < file_size then fail (TooLarge file_size max_size_bytes)
         else if mime = None then fail InvalidFormat
         else and_then (gets (\<lambda>s. image_find_by_hash (c_db s) hash)) (\<lambda>existing.
           case existing of
             Some im \<Rightarrow> ret im
           | None \<Rightarrow>
               and_then (uuid_v4 env) (\<lambda>name.
               let new_filename = show_uuid env name @ ''.'' @ ext
               in and_then (map_err ImageIo (in_world (write_file env (join_path (image_cache_dir env) new_filename) data))) (\<lambda>_.
                  and_then (uuid_v4 env) (\<lambda>i.
                  and_then (utc_now env) (\<lambda>now.
                    map_err ImageDatabase (execute_result (\<lambda>db. image_create db
                      \<lparr> ci_file_path = new_filename, ci_original_name = original_filename, ci_mime_type = mime,
                        ci_size_bytes = int file_size, ci_hash = hash \<rparr> i now)))))))) "

definition get_image :: "uuid \<Rightarrow> ('w container, image_error, image option) act" where
  "get_image i = gets (\<lambda>s. image_find_by_id (c_db s) i)"

definition delete_stored_image :: "('a, 'w) container_env \<Rightarrow> uuid \<Rightarrow> ('w container, image_error, unit) act" where
  "delete_stored_image env i =
     and_then (gets (\<lambda>s. image_find_by_id (c_db s) i)) (\<lambda>found_image.
       case found_image of
         None \<Rightarrow> ret ()
       | Some im \<Rightarrow>
           let path = join_path (image_cache_dir env) (im_file_path im)
           in and_then (gets (\<lambda>s. path_exists env path (c_world s))) (\<lambda>present.
              and_then (if present then map_err ImageIo (in_world (remove_file env path)) else ret ()) (\<lambda>_.
                execute (\<lambda>db. image_delete db i))))"

definition delete_orphaned_images :: "('a, 'w) container_env \<Rightarrow> ('w container, image_error, unit) act" where
  "delete_orphaned_images env =
     and_then (gets (\<lambda>s. find_orphaned_images (c_db s))) (\<lambda>orphaned.
       for_each (\<lambda>im. and_then (outcome (delete_stored_image env (im_id im))) (\<lambda>_. ret ())) orphaned)"

text \<open>\<^verbatim>\<open>copy_images\<close>: an image whose cached file is missing or cannot be copied is skipped with a log line.\<close>

definition copy_images :: "('a, 'w) container_env \<Rightarrow> string \<Rightarrow> image list \<Rightarrow> ('w container, image_error, unit) act" where
  "copy_images env worktree_path imgs =
     (if imgs = [] then ret ()
      else let images_dir = join_path worktree_path FORGE_IMAGES_DIR;
               gitignore = join_path images_dir ''.gitignore''
           in and_then (map_err ImageIo (in_world (create_dir_all env images_dir))) (\<lambda>_.
              and_then (gets (\<lambda>s. path_exists env gitignore (c_world s))) (\<lambda>present.
              and_then (if present then ret ()
                        else map_err ImageIo (in_world (write_file env gitignore (''*'' @ [newline])))) (\<lambda>_.
              for_each (\<lambda>im.
                let src = join_path (image_cache_dir env) (im_file_path im)
                in and_then (gets (\<lambda>s. path_exists env src (c_world s))) (\<lambda>cached.
                   if cached
                   then and_then (outcome (in_world (copy_file env src (join_path images_dir (im_file_path im))))) (\<lambda>_. ret ())
                   else ret ())) imgs))))"

definition copy_images_by_task_to_worktree ::
  "('a, 'w) container_env \<Rightarrow> string \<Rightarrow> uuid \<Rightarrow> ('w container, image_error, unit) act" where
  "copy_images_by_task_to_worktree env worktree_path task_id =
     and_then (gets (\<lambda>s. image_find_by_task_id (c_db s) task_id)) (copy_images env worktree_path)"

definition copy_images_by_ids_to_worktree ::
  "('a, 'w) container_env \<Rightarrow> string \<Rightarrow> uuid list \<Rightarrow> ('w container, image_error, unit) act" where
  "copy_images_by_ids_to_worktree env worktree_path ids =
     and_then (gets (\<lambda>s. List.map_filter (image_find_by_id (c_db s)) ids)) (copy_images env worktree_path)"


section \<open>Uploads are stored once\<close>

text \<open>The ways \<open>store_image\<close> succeeds: the content is known, or a row for it is added.\<close>

definition image_mime :: "('a, 'w) container_env \<Rightarrow> string \<Rightarrow> string option" where
  "image_mime env name = mime_type (to_lowercase env (case extension name of Some e \<Rightarrow> e | None \<Rightarrow> ''png''))"

lemma store_new_image:
  assumes "store_image env data name s = (Inr im, s')" and "image_find_by_hash (c_db s) (sha256_hex env data) = None"
  shows "im_hash im = sha256_hex env data \<and> c_db s' = (c_db s)\<lparr>images := images (c_db s) @ [im]\<rparr>"
  using assms
  by (auto simp: store_image_def Let_def image_create_def map_err_Inr execute_result_Inr uuid_v4_run utc_now_run
      elim!: and_then_InrE dest!: in_world_db split: if_splits)

lemma store_image_guards:
  "store_image env data name s = (Inr im, s') \<Longrightarrow> length data \<le> max_size_bytes \<and> image_mime env name \<noteq> None"
  by (auto simp: store_image_def Let_def image_mime_def split: if_splits)

lemma store_known_image:
  assumes "image_find_by_hash (c_db s) (sha256_hex env data) = Some im" and "length data \<le> max_size_bytes"
    and "image_mime env name \<noteq> None"
  shows "store_image env data name s = (Inr im, s)"
  using assms by (auto simp: store_image_def Let_def image_mime_def)

lemma image_found_after_store:
  assumes "store_image env data name s = (Inr im, s')"
  shows "image_find_by_hash (c_db s') (sha256_hex env data) = Some im"
proof (cases "image_find_by_hash (c_db s) (sha256_hex env data)")
  case None
  with store_new_image [OF assms] show ?thesis by (simp add: image_find_by_hash_def lookup_append)
next
  case (Some im')
  with assms store_known_image [OF Some] store_image_guards [OF assms] show ?thesis by auto
qed

text \<open>
  An image is stored once per content: after a successful upload, uploading the same bytes
  again under any name with a known extension returns the same image and changes nothing.
\<close>

theorem store_image_once:
  assumes "store_image env data name s = (Inr im, s')"
    and "image_mime env name' \<noteq> None"
  shows "store_image env data name' s' = (Inr im, s')"
  using store_known_image [OF image_found_after_store [OF assms(1)]] store_image_guards [OF assms(1)] assms(2)
  by blast

theorem store_image_once_witness:
  "\<exists>im s'. store_image sample_env ''data'' ''a.png'' sample_container = (Inr im, s')
     \<and> store_image sample_env ''data'' ''b.jpeg'' s' = (Inr im, s')"
proof -
  have mime: "image_mime sample_env ''b.jpeg'' \<noteq> None" by code_simp
  have ext: "extension ''a.png'' = Some ''png''" by code_simp
  have "isl (fst (store_image sample_env ''data'' ''a.png'' sample_container)) = False"
    by (simp add: store_image_def Let_def ext mime_type_def max_size_bytes_def image_find_by_hash_def
        empty_database_def and_then_def uuid_v4_run utc_now_run map_err_run in_world_def
        execute_result_def image_create_def exists_row_def)
  then obtain im s' where st: "store_image sample_env ''data'' ''a.png'' sample_container = (Inr im, s')"
    by (metis prod.exhaust_sel sum.collapse(2))
  with store_image_once [OF st mime] show ?thesis by blast
qed

end
