(* ===== verification/Container_Service.thy ===== *)
theory Container_Service
  imports Image_Service
begin

text \<open>
  The container service: the provided methods of the trait in
  \<^verbatim>\<open>crates/services/src/services/container.rs\<close> and its implementation \<^verbatim>\<open>LocalContainerService\<close> in
  \<^verbatim>\<open>crates/local-deployment/src/container.rs\<close>.

  A spawned task is a value of \<open>background\<close>: spawning adds it to the state, and the definition of
  its body (\<open>exit_monitor\<close>, \<open>stream_raw_logs_to_db\<close>) runs later, between any other methods.  A
  method runs without interruption.  Notifications and analytics events are not modelled.
\<close>

section \<open>Child handles and message stores\<close>

definition add_child_to_store :: "uuid \<Rightarrow> ('w container, 'e, unit) act" where
  "add_child_to_store i = modify (\<lambda>s. s\<lparr>c_children := insert i (c_children s)\<rparr>)"

definition remove_child_from_store :: "uuid \<Rightarrow> ('w container, 'e, unit) act" where
  "remove_child_from_store i = modify (\<lambda>s. s\<lparr>c_children := c_children s - {i}\<rparr>)"

definition get_msg_store_by_id :: "uuid \<Rightarrow> ('w container, 'e, msg_store option) act" where
  "get_msg_store_by_id i = gets (\<lambda>s. c_msg_stores s i)"

text \<open>
  \<^verbatim>\<open>track_child_msgs_in_store\<close>: a new store; the forwarder feeds it from the pipes of the child.
  \<open>remove_msg_store\<close> takes a store out of the map; the \<^verbatim>\<open>Finished\<close> it then gets is only seen by
  those who still hold the store.
\<close>

definition track_child_msgs_in_store :: "uuid \<Rightarrow> ('w container, 'e, unit) act" where
  "track_child_msgs_in_store i = modify (\<lambda>s. s\<lparr>c_msg_stores := (c_msg_stores s)(i \<mapsto> new_msg_store)\<rparr>)"

definition remove_msg_store :: "uuid \<Rightarrow> ('w container, 'e, unit) act" where
  "remove_msg_store i = modify (\<lambda>s. s\<lparr>c_msg_stores := (c_msg_stores s)(i := None)\<rparr>)"

definition task_attempt_to_current_dir :: "task_attempt \<Rightarrow> string" where
  "task_attempt_to_current_dir a = (case ta_container_ref a of Some r \<Rightarrow> r | None \<Rightarrow> [])"

definition execution_run_to_current_dir :: "execution_run \<Rightarrow> string" where
  "execution_run_to_current_dir r = (case er_container_ref r of Some c \<Rightarrow> c | None \<Rightarrow> [])"


section \<open>Actions\<close>

definition cleanup_action :: "string option \<Rightarrow> executor_action option" where
  "cleanup_action cleanup_script =
     map_option (\<lambda>scr. ExecutorAction
       (ScriptRequest \<lparr> script = scr, sr_language = Bash, sr_context = CleanupScriptContext \<rparr>) None) cleanup_script"

definition request_prompt :: "executor_action_type \<Rightarrow> string option" where
  "request_prompt t =
     (case t of CodingAgentInitialRequest r \<Rightarrow> Some (ir_prompt r)
      | CodingAgentFollowUpRequest r \<Rightarrow> Some (fr_prompt r) | ScriptRequest _ \<Rightarrow> None)"

definition request_profile :: "executor_action_type \<Rightarrow> executor_profile_id option" where
  "request_profile t =
     (case t of CodingAgentInitialRequest r \<Rightarrow> Some (ir_executor_profile_id r)
      | CodingAgentFollowUpRequest r \<Rightarrow> Some (fr_executor_profile_id r) | ScriptRequest _ \<Rightarrow> None)"

text \<open>The run reason that \<^verbatim>\<open>try_start_next_action\<close> gives to the next action.\<close>

definition next_run_reason :: "executor_action_type \<Rightarrow> executor_action_type \<Rightarrow> run_reason" where
  "next_run_reason t next_t =
     (case (t, next_t) of
        (ScriptRequest _, ScriptRequest _) \<Rightarrow> SetupScript
      | (_, ScriptRequest _) \<Rightarrow> CleanupScript
      | (_, _) \<Rightarrow> CodingAgent)"

definition has_approvals :: "executor_action \<Rightarrow> bool" where
  "has_approvals a \<longleftrightarrow> base_executor a = Some Codex \<or> base_executor a = Some ClaudeCode"


section \<open>Starting a process\<close>

text \<open>The common part of \<^verbatim>\<open>start_execution_inner\<close> and \<^verbatim>\<open>start_execution_inner_for_run\<close>.\<close>

definition spawn_tracked ::
  "('a, 'w) container_env \<Rightarrow> string option \<Rightarrow> string \<Rightarrow> uuid \<Rightarrow> executor_action \<Rightarrow> background \<Rightarrow> ('w, unit) cact" where
  "spawn_tracked env container_ref missing i action monitor =
     (case container_ref of
        None \<Rightarrow> fail (Other missing)
      | Some dir \<Rightarrow>
          and_then (map_err ExecutorError (in_world (spawn_child env action dir (has_approvals action)))) (\<lambda>_.
          and_then (track_child_msgs_in_store i) (\<lambda>_.
          and_then (add_child_to_store i) (\<lambda>_.
            spawn_task monitor))))"

definition start_execution_inner ::
  "('a, 'w) container_env \<Rightarrow> task_attempt \<Rightarrow> execution_process \<Rightarrow> executor_action \<Rightarrow> ('w, unit) cact" where
  "start_execution_inner env a p action =
     spawn_tracked env (ta_container_ref a) ''Container ref not found for task attempt'' (ep_id p) action
       (ExitMonitor (ep_id p))"

definition start_execution_inner_for_run ::
  "('a, 'w) container_env \<Rightarrow> execution_run \<Rightarrow> execution_process \<Rightarrow> executor_action \<Rightarrow> ('w, unit) cact" where
  "start_execution_inner_for_run env r p action =
     spawn_tracked env (er_container_ref r) ''Container ref not found for execution run'' (ep_id p) action
       (RunExitMonitor (ep_id p) (er_id r))"

definition head_of_container :: "('a, 'w) container_env \<Rightarrow> string option \<Rightarrow> ('w, string option) cact" where
  "head_of_container env container_ref =
     gets (\<lambda>s. Option.bind container_ref (\<lambda>dir. head_oid env dir (c_world s)))"

definition insert_process ::
  "('a, 'w) container_env \<Rightarrow> create_execution_process \<Rightarrow> string option \<Rightarrow> ('w, execution_process) cact" where
  "insert_process env data before_head_commit =
     and_then (uuid_v4 env) (\<lambda>i.
     and_then (utc_now env) (\<lambda>now.
       map_err Sqlx (execute_result (\<lambda>db. process_create db data i before_head_commit now))))"

definition insert_session ::
  "('a, 'w) container_env \<Rightarrow> uuid option \<Rightarrow> uuid \<Rightarrow> executor_action \<Rightarrow> ('w, unit) cact" where
  "insert_session env attempt_id process_id action =
     (case request_prompt (action_typ action) of
        None \<Rightarrow> ret ()
      | Some prompt \<Rightarrow>
          and_then (uuid_v4 env) (\<lambda>i.
          and_then (utc_now env) (\<lambda>now.
          and_then (map_err Sqlx (execute_result (\<lambda>db. session_create db
              \<lparr> cs_task_attempt_id = attempt_id, cs_execution_process_id = process_id, cs_prompt = Some prompt \<rparr> i now)))
            (\<lambda>_. ret ()))))"

text \<open>A log line is appended best-effort: nothing happens when it cannot be encoded or written.\<close>

definition append_msg :: "('a, 'w) container_env \<Rightarrow> uuid \<Rightarrow> log_msg \<Rightarrow> ('w container, 'e, unit) act" where
  "append_msg env i m =
     (case msg_json env m of
        None \<Rightarrow> ret ()
      | Some line \<Rightarrow>
          and_then (utc_now env) (\<lambda>now.
          and_then (outcome (execute_result (\<lambda>db. map_sum id (Pair ()) (append_log_line db i (line @ [newline]) now))))
            (\<lambda>_. ret ())))"

definition complete_process ::
  "('a, 'w) container_env \<Rightarrow> uuid \<Rightarrow> execution_process_status \<Rightarrow> int option \<Rightarrow> ('w container, 'e, unit) act" where
  "complete_process env i status exit_code =
     and_then (utc_now env) (\<lambda>now. execute (\<lambda>db. update_completion db i status exit_code now))"

definition set_status :: "('a, 'w) container_env \<Rightarrow> uuid \<Rightarrow> task_status \<Rightarrow> ('w container, 'e, unit) act" where
  "set_status env task_id status =
     and_then (utc_now env) (\<lambda>now. execute (\<lambda>db. task_update_status db task_id status now))"

definition start_failure_entry :: "string \<Rightarrow> normalized_entry" where
  "start_failure_entry program =
     \<lparr> ne_timestamp = None, entry_type = ErrorMessage SetupRequired,
       ne_content = ''The required executable `'' @ program @ ''` is not installed.'', ne_metadata = None \<rparr>"

text \<open>The log normaliser and the writer of raw logs that a started process gets.\<close>

definition follow_process ::
  "('a, 'w) container_env \<Rightarrow> uuid \<Rightarrow> executor_action \<Rightarrow> string \<Rightarrow> ('w container, 'e, unit) act" where
  "follow_process env i action dir =
     and_then (get_msg_store_by_id i) (\<lambda>ms.
     and_then
       (case (ms, request_profile (action_typ action)) of
          (Some _, Some profile) \<Rightarrow>
            if get_coding_agent (profiles env) profile \<noteq> None then spawn_task (NormalizeLogs i profile dir) else ret ()
        | _ \<Rightarrow> ret ()) (\<lambda>_.
       spawn_task (StreamRawLogs i)))"

definition report_start_failure ::
  "('a, 'w) container_env \<Rightarrow> task \<Rightarrow> execution_process \<Rightarrow> container_error \<Rightarrow> ('w, 'r) cact" where
  "report_start_failure env t p start_error =
     and_then (set_status env (tk_id t) InReview) (\<lambda>_.
     and_then (append_msg env (ep_id p) (Stderr (''Failed to start execution: '' @ show_error env start_error))) (\<lambda>_.
     and_then
       (case start_error of
          ExecutorError (ExecutableNotFound program) \<Rightarrow>
            append_msg env (ep_id p) (JsonPatch (add_normalized_entry 2 (start_failure_entry program)))
        | _ \<Rightarrow> ret ()) (\<lambda>_.
       fail start_error)))"

definition start_execution ::
  "('a, 'w) container_env \<Rightarrow> task_attempt \<Rightarrow> executor_action \<Rightarrow> run_reason \<Rightarrow> ('w, execution_process) cact" where
  "start_execution env a action reason =
     and_then (found (\<lambda>s. attempt_parent_task (c_db s) a)) (\<lambda>t.
     and_then (if tk_status t \<noteq> InProgress \<and> reason \<noteq> DevServer then set_status env (tk_id t) InProgress else ret ()) (\<lambda>_.
     and_then (head_of_container env (ta_container_ref a)) (\<lambda>before_head_commit.
     and_then (insert_process env
       \<lparr> ce_task_attempt_id = Some (ta_id a), ce_execution_run_id = None, ce_executor_action = action, ce_run_reason = reason \<rparr>
       before_head_commit) (\<lambda>p.
     and_then (insert_session env (Some (ta_id a)) (ep_id p) action) (\<lambda>_.
     and_then (outcome (start_execution_inner env a p action)) (\<lambda>started.
       case started of
         Inl start_error \<Rightarrow>
           and_then (complete_process env (ep_id p) Failed None) (\<lambda>_.
             report_start_failure env t p start_error)
       | Inr _ \<Rightarrow>
           and_then (follow_process env (ep_id p) action (task_attempt_to_current_dir a)) (\<lambda>_. ret p)))))))"

definition start_execution_for_run ::
  "('a, 'w) container_env \<Rightarrow> execution_run \<Rightarrow> executor_action \<Rightarrow> run_reason \<Rightarrow> ('w, execution_process) cact" where
  "start_execution_for_run env r action reason =
     and_then (head_of_container env (er_container_ref r)) (\<lambda>before_head_commit.
     and_then (insert_process env
       \<lparr> ce_task_attempt_id = None, ce_execution_run_id = Some (er_id r), ce_executor_action = action, ce_run_reason = reason \<rparr>
       before_head_commit) (\<lambda>p.
     and_then (insert_session env None (ep_id p) action) (\<lambda>_.
     and_then (outcome (start_execution_inner_for_run env r p action)) (\<lambda>started.
       case started of
         Inl start_error \<Rightarrow>
           and_then (complete_process env (ep_id p) Failed None) (\<lambda>_.
           and_then (append_msg env (ep_id p) (Stderr (''Failed to start execution: '' @ show_error env start_error))) (\<lambda>_.
             fail start_error))
       | Inr _ \<Rightarrow>
           and_then (follow_process env (ep_id p) action (execution_run_to_current_dir r)) (\<lambda>_. ret p)))))"



section \<open>Containers\<close>

text \<open>
  \<^verbatim>\<open>copy_project_files\<close>: the comma-separated list of the project.  The parent directory is made
  before the source is looked for.
\<close>

definition parent_dir :: "string \<Rightarrow> string" where
  "parent_dir path = rev (drop 1 (dropWhile (\<lambda>c. c \<noteq> CHR ''/'') (rev path)))"

definition copy_project_files :: "('a, 'w) container_env \<Rightarrow> string \<Rightarrow> string \<Rightarrow> string \<Rightarrow> ('w, unit) cact" where
  "copy_project_files env source_dir target_dir files =
     for_each (\<lambda>file.
       let source = join_path source_dir file; target = join_path target_dir file; parent = parent_dir target
       in and_then (gets (\<lambda>s. path_exists env parent (c_world s))) (\<lambda>has_parent.
          and_then (if has_parent then ret ()
                    else map_err (\<lambda>e. Other (''Failed to create directory '' @ parent @ '': '' @ e)) (in_world (create_dir_all env parent))) (\<lambda>_.
          and_then (gets (\<lambda>s. path_exists env source (c_world s))) (\<lambda>has_source.
            if has_source
            then map_err (\<lambda>e. Other (''Failed to copy file '' @ source @ '' to '' @ target @ '': '' @ e)) (in_world (copy_file env source target))
            else fail (Other (''File '' @ source @ '' does not exist in the project directory''))))))
       (filter (\<lambda>f. f \<noteq> []) (map trim (split_on (CHR '','') files)))"

definition copy_files_of :: "('a, 'w) container_env \<Rightarrow> project \<Rightarrow> string \<Rightarrow> ('w, unit) cact" where
  "copy_files_of env pj path =
     (case pj_copy_files pj of
        Some files \<Rightarrow>
          if trim files \<noteq> []
          then and_then (outcome (copy_project_files env (pj_git_repo_path pj) path files)) (\<lambda>_. ret ()) else ret ()
      | None \<Rightarrow> ret ())"

definition create_container :: "('a, 'w) container_env \<Rightarrow> task_attempt \<Rightarrow> ('w, string) cact" where
  "create_container env a =
     and_then (found (\<lambda>s. attempt_parent_task (c_db s) a)) (\<lambda>t.
     let path = join_path (worktree_base_dir env) (dir_name_from_task_attempt (to_lowercase env) (ta_id a) (tk_title t))
     in and_then (found (\<lambda>s. task_parent_project (c_db s) t)) (\<lambda>pj.
        and_then (gets (\<lambda>s. use_worktree env (ta_id a) (c_world s))) (\<lambda>isolated.
        and_then
          (if isolated
           then and_then (map_err Worktree (in_world (create_worktree env (pj_git_repo_path pj) (ta_branch a) path (ta_target_branch a)))) (\<lambda>_.
                and_then (copy_files_of env pj path) (\<lambda>_.
                and_then (outcome (copy_images_by_task_to_worktree env path (tk_id t))) (\<lambda>_.
                  ret path)))
           else ret (pj_git_repo_path pj)) (\<lambda>container_ref.
        and_then (utc_now env) (\<lambda>now.
        and_then (execute (\<lambda>db. attempt_update_container_ref db (ta_id a) container_ref now)) (\<lambda>_.
          ret container_ref))))))"

definition create_for_run :: "('a, 'w) container_env \<Rightarrow> execution_run \<Rightarrow> ('w, string) cact" where
  "create_for_run env r =
     and_then (found (\<lambda>s. project_find_by_id (c_db s) (er_project_id r))) (\<lambda>pj.
     let path = join_path (worktree_base_dir env) (dir_name_from_execution_run (er_id r))
     in and_then (map_err Worktree (in_world (create_worktree env (pj_git_repo_path pj) (er_branch r) path (er_target_branch r)))) (\<lambda>_.
        and_then (copy_files_of env pj path) (\<lambda>_.
        and_then (utc_now env) (\<lambda>now.
        and_then (execute (\<lambda>db. run_update_container_ref db (er_id r) path now)) (\<lambda>_.
          ret path)))))"

definition ensure_container_exists :: "('a, 'w) container_env \<Rightarrow> task_attempt \<Rightarrow> ('w, string) cact" where
  "ensure_container_exists env a =
     and_then (found (\<lambda>s. attempt_parent_task (c_db s) a)) (\<lambda>t.
     and_then (found (\<lambda>s. task_parent_project (c_db s) t)) (\<lambda>pj.
       case ta_container_ref a of
         None \<Rightarrow> fail (Other ''Container ref not found for task attempt'')
       | Some container_ref \<Rightarrow>
           and_then (gets (\<lambda>s. use_worktree env (ta_id a) (c_world s))) (\<lambda>isolated.
           and_then
             (if isolated
              then map_err Worktree (in_world (ensure_worktree_exists env (pj_git_repo_path pj) (ta_branch a) container_ref))
              else ret ()) (\<lambda>_.
             ret container_ref))))"

definition delete_inner :: "('a, 'w) container_env \<Rightarrow> task_attempt \<Rightarrow> ('w, unit) cact" where
  "delete_inner env a =
     and_then (found (\<lambda>s. attempt_parent_task (c_db s) a)) (\<lambda>t.
     and_then (gets (\<lambda>s. map_option pj_git_repo_path (project_find_by_id (c_db s) (tk_project_id t)))) (\<lambda>repo.
     and_then (outcome (in_world (cleanup_worktree env (task_attempt_to_current_dir a) repo))) (\<lambda>_. ret ())))"


section \<open>Starting attempts and runs\<close>

definition start_attempt ::
  "('a, 'w) container_env \<Rightarrow> task_attempt \<Rightarrow> executor_profile_id \<Rightarrow> ('w, execution_process) cact" where
  "start_attempt env a0 profile =
     and_then (create_container env a0) (\<lambda>_.
     and_then (found (\<lambda>s. attempt_parent_task (c_db s) a0)) (\<lambda>t.
     and_then (found (\<lambda>s. task_parent_project (c_db s) t)) (\<lambda>pj.
     and_then (found (\<lambda>s. attempt_find_by_id (c_db s) (ta_id a0))) (\<lambda>a.
       case ta_container_ref a of
         None \<Rightarrow> fail (Other ''Container ref not found'')
       | Some path \<Rightarrow>
           (let prompt = canonicalise_image_paths (to_prompt t) path;
                agent = ExecutorAction (CodingAgentInitialRequest \<lparr> ir_prompt = prompt, ir_executor_profile_id = profile \<rparr>)
                          (cleanup_action (pj_cleanup_script pj))
            in case pj_setup_script pj of
                 Some setup \<Rightarrow>
                   start_execution env a
                     (ExecutorAction (ScriptRequest \<lparr> script = setup, sr_language = Bash, sr_context = SetupScriptContext \<rparr>) (Some agent))
                     SetupScript
               | None \<Rightarrow> start_execution env a agent CodingAgent)))))"

definition start_run ::
  "('a, 'w) container_env \<Rightarrow> execution_run \<Rightarrow> executor_profile_id \<Rightarrow> ('w, execution_process) cact" where
  "start_run env r0 profile =
     and_then (create_for_run env r0) (\<lambda>_.
     and_then (found (\<lambda>s. run_find_by_id (c_db s) (er_id r0))) (\<lambda>r.
       case er_container_ref r of
         None \<Rightarrow> fail (Other ''Container ref not found'')
       | Some path \<Rightarrow>
           start_execution_for_run env r
             (ExecutorAction (CodingAgentInitialRequest
                \<lparr> ir_prompt = canonicalise_image_paths (er_prompt r) path, ir_executor_profile_id = profile \<rparr>) None)
             CodingAgent))"

definition try_start_next_action :: "('a, 'w) container_env \<Rightarrow> execution_context \<Rightarrow> ('w, unit) cact" where
  "try_start_next_action env ctx =
     and_then (of_result Other (process_executor_action (ctx_execution_process ctx))) (\<lambda>action.
       case next_action action of
         None \<Rightarrow> ret ()
       | Some next \<Rightarrow>
           and_then (start_execution env (ctx_task_attempt ctx) next (next_run_reason (action_typ action) (action_typ next)))
             (\<lambda>_. ret ()))"


section \<open>Stopping a process\<close>

text \<open>The commit that \<^verbatim>\<open>HEAD\<close> points to afterwards, recorded when it can be read.\<close>

definition record_after_head :: "('a, 'w) container_env \<Rightarrow> uuid \<Rightarrow> string \<Rightarrow> ('w container, 'e, unit) act" where
  "record_after_head env i dir =
     and_then (gets (\<lambda>s. head_oid env dir (c_world s))) (\<lambda>head.
       case head of Some oid \<Rightarrow> execute (\<lambda>db. update_after_head_commit db i oid) | None \<Rightarrow> ret ())"

definition stop_execution ::
  "('a, 'w) container_env \<Rightarrow> execution_process \<Rightarrow> execution_process_status \<Rightarrow> ('w, unit) cact" where
  "stop_execution env p status =
     and_then (gets (\<lambda>s. ep_id p \<in> c_children s)) (\<lambda>known.
     if \<not> known then fail (Other ''Child process not found for execution'')
     else
     and_then (complete_process env (ep_id p) status (if status = Completed then Some 0 else None)) (\<lambda>_.
     and_then (in_world (kill_process_group env (ep_id p))) (\<lambda>_.
     and_then (remove_child_from_store (ep_id p)) (\<lambda>_.
     and_then (remove_msg_store (ep_id p)) (\<lambda>_.
     and_then (gets (\<lambda>s. process_load_context (c_db s) (ep_id p))) (\<lambda>loaded.
     and_then
       (case loaded of
          Inr ctx \<Rightarrow> if ep_run_reason (ctx_execution_process ctx) \<noteq> DevServer then set_status env (tk_id (ctx_task ctx)) InReview else ret ()
        | Inl _ \<Rightarrow> ret ()) (\<lambda>_.
     and_then (gets (\<lambda>s. process_load_context (c_db s) (ep_id p))) (\<lambda>reloaded.
       case reloaded of
         Inr ctx \<Rightarrow> record_after_head env (ep_id p) (task_attempt_to_current_dir (ctx_task_attempt ctx))
       | Inl _ \<Rightarrow> ret ()))))))))"

definition try_stop :: "('a, 'w) container_env \<Rightarrow> task_attempt \<Rightarrow> ('w, unit) cact" where
  "try_stop env a =
     and_then (gets (\<lambda>s. process_find_by_task_attempt_id (c_db s) (ta_id a) False)) (\<lambda>ps.
       for_each (\<lambda>p. if ep_status p = Running then and_then (outcome (stop_execution env p Killed)) (\<lambda>_. ret ()) else ret ()) ps)"

definition stop_task_processes :: "('a, 'w) container_env \<Rightarrow> task_attempt list \<Rightarrow> ('w, unit) cact" where
  "stop_task_processes env attempts = for_each (try_stop env) attempts"

definition delete_container :: "('a, 'w) container_env \<Rightarrow> task_attempt \<Rightarrow> ('w, unit) cact" where
  "delete_container env a = and_then (try_stop env a) (\<lambda>_. delete_inner env a)"

definition has_running_processes :: "database \<Rightarrow> uuid \<Rightarrow> bool" where
  "has_running_processes db task_id \<longleftrightarrow>
     (\<exists>a \<in> set (attempt_fetch_all db (Some task_id)).
        \<exists>p \<in> set (process_find_by_task_attempt_id db (ta_id a) False). ep_status p = Running)"

definition exit_plan_mode_tool :: "('a, 'w) container_env \<Rightarrow> execution_context \<Rightarrow> ('w, unit) cact" where
  "exit_plan_mode_tool env ctx =
     (let p = ctx_execution_process ctx
      in and_then (stop_execution env p Completed) (\<lambda>_.
         and_then (of_result Other (process_executor_action p)) (\<lambda>action.
           case request_profile (action_typ action) of
             None \<Rightarrow> fail (Other ''exit plan mode tool called on non-coding agent action'')
           | Some profile \<Rightarrow>
               and_then (gets (\<lambda>s. Option.bind (session_find_by_execution_process_id (c_db s) (ep_id p)) es_session_id)) (\<lambda>session.
                 case session of
                   None \<Rightarrow> fail (Other ''No executor session found'')
                 | Some session_id \<Rightarrow>
                     and_then (start_execution env (ctx_task_attempt ctx)
                       (ExecutorAction (CodingAgentFollowUpRequest
                          \<lparr> fr_prompt = ''The plan has been approved, please execute it.'', fr_session_id = session_id,
                            fr_executor_profile_id = to_default_variant profile \<rparr>) (next_action action))
                       CodingAgent) (\<lambda>_. ret ())))))"



section \<open>When a process ends\<close>

text \<open>
  How the monitor learns that a process is over: the executor signals it, the process exits (with
  a code, or killed by a signal), or waiting for it fails.
\<close>

datatype process_end = Signalled | Exited "int option" | WaitFailed

definition exit_result :: "process_end \<Rightarrow> int option \<times> execution_process_status" where
  "exit_result e =
     (case e of
        Signalled \<Rightarrow> (Some 0, Completed)
      | Exited code \<Rightarrow> (Some (case code of Some c \<Rightarrow> c | None \<Rightarrow> -1), if code = Some 0 then Completed else Failed)
      | WaitFailed \<Rightarrow> (None, Failed))"

definition MAX_SUMMARY_LENGTH :: nat where
  "MAX_SUMMARY_LENGTH = 4096"

definition assistant_summary :: "log_msg \<Rightarrow> string option" where
  "assistant_summary m =
     (case m of
        JsonPatch p \<Rightarrow>
          (case extract_normalized_entry_from_patch p of
             Some (_, entry) \<Rightarrow>
               (let content = trim (ne_content entry)
                in if entry_type entry = AssistantMessage \<and> content \<noteq> []
                   then Some (if MAX_SUMMARY_LENGTH < length content
                              then truncate_to_char_boundary content MAX_SUMMARY_LENGTH @ ''...'' else content)
                   else None)
           | None \<Rightarrow> None)
      | _ \<Rightarrow> None)"

definition extract_last_assistant_message :: "uuid \<Rightarrow> 'w container \<Rightarrow> string option" where
  "extract_last_assistant_message i s =
     Option.bind (c_msg_stores s i) (\<lambda>store. find_map assistant_summary (rev (get_history store)))"

definition update_executor_session_summary :: "('a, 'w) container_env \<Rightarrow> uuid \<Rightarrow> ('w container, 'e, unit) act" where
  "update_executor_session_summary env i =
     and_then (gets (\<lambda>s. session_find_by_execution_process_id (c_db s) i)) (\<lambda>session.
       case session of
         Some es \<Rightarrow>
           if es_summary es = None
           then and_then (gets (extract_last_assistant_message i)) (\<lambda>msg.
                  case msg of
                    Some summary \<Rightarrow> and_then (utc_now env) (\<lambda>now. execute (\<lambda>db. update_summary db i summary now))
                  | None \<Rightarrow> ret ())
           else ret ()
       | None \<Rightarrow> ret ())"

definition commit_text :: "('a, 'w) container_env \<Rightarrow> execution_context \<Rightarrow> database \<Rightarrow> string" where
  "commit_text env ctx db =
     (if ep_run_reason (ctx_execution_process ctx) = CodingAgent
      then (case Option.bind (session_find_by_execution_process_id db (ep_id (ctx_execution_process ctx))) es_summary of
              Some summary \<Rightarrow> summary
            | None \<Rightarrow> ''Commit changes from coding agent for task attempt '' @ show_uuid env (ta_id (ctx_task_attempt ctx)))
      else ''Cleanup script changes for task attempt '' @ show_uuid env (ta_id (ctx_task_attempt ctx)))"

definition try_commit_changes :: "('a, 'w) container_env \<Rightarrow> execution_context \<Rightarrow> ('w, bool) cact" where
  "try_commit_changes env ctx =
     (if ep_run_reason (ctx_execution_process ctx) \<notin> {CodingAgent, CleanupScript} then ret False
      else and_then (gets (\<lambda>s. commit_text env ctx (c_db s))) (\<lambda>msg_text.
        case ta_container_ref (ctx_task_attempt ctx) of
          None \<Rightarrow> fail (Other ''Container reference not found'')
        | Some dir \<Rightarrow> map_err GitServiceError (in_world (git_commit env dir msg_text))))"

text \<open>\<^verbatim>\<open>should_finalize\<close> unwraps the action of the process: \<open>None\<close> is the panic.\<close>

definition should_finalize :: "execution_context \<Rightarrow> bool option" where
  "should_finalize ctx =
     (case process_executor_action (ctx_execution_process ctx) of
        Inl _ \<Rightarrow> None
      | Inr action \<Rightarrow> Some (next_action action = None \<and> ep_run_reason (ctx_execution_process ctx) \<noteq> DevServer))"

definition finalize_task :: "('a, 'w) container_env \<Rightarrow> execution_context \<Rightarrow> ('w container, 'e, unit) act" where
  "finalize_task env ctx = set_status env (tk_id (ctx_task ctx)) InReview"

text \<open>
  The images of a queued draft: associating them is best-effort; when copying them fails the prompt
  is used as it is.
\<close>

definition associate_images ::
  "('a, 'w) container_env \<Rightarrow> uuid \<Rightarrow> uuid list \<Rightarrow> ('w container, sqlx_error, unit) act" where
  "associate_images env task_id ids =
     for_each (\<lambda>image_id.
       and_then (gets (\<lambda>s. \<exists>ti \<in> set (task_images (c_db s)). ti_task_id ti = task_id \<and> ti_image_id ti = image_id)) (\<lambda>present.
         if present then ret ()
         else and_then (uuid_v4 env) (\<lambda>i.
              and_then (utc_now env) (\<lambda>now.
                execute_result (\<lambda>db. map_sum id (Pair ()) (insert_task_image db i task_id image_id now)))))) ids"

definition prompt_with_images ::
  "('a, 'w) container_env \<Rightarrow> uuid \<Rightarrow> string \<Rightarrow> draft \<Rightarrow> ('w, string) cact" where
  "prompt_with_images env task_id dir d =
     (case dr_image_ids d of
        None \<Rightarrow> ret (dr_prompt d)
      | Some ids \<Rightarrow>
          and_then (outcome (associate_images env task_id ids)) (\<lambda>_.
          and_then (outcome (copy_images_by_ids_to_worktree env dir ids)) (\<lambda>copied.
            case copied of
              Inl _ \<Rightarrow> ret (dr_prompt d)
            | Inr _ \<Rightarrow> ret (canonicalise_image_paths (dr_prompt d) dir))))"

definition start_queued_followup ::
  "('a, 'w) container_env \<Rightarrow> execution_context \<Rightarrow> draft \<Rightarrow> ('w, unit) cact" where
  "start_queued_followup env ctx d =
     (let a = ctx_task_attempt ctx
      in and_then (ensure_container_exists env a) (\<lambda>dir.
         and_then (gets (\<lambda>s. find_latest_session_id_by_task_attempt (c_db s) (ta_id a))) (\<lambda>session.
           case session of
             None \<Rightarrow> ret ()
           | Some session_id \<Rightarrow>
               and_then (gets (\<lambda>s. find_latest_by_task_attempt_and_run_reason (c_db s) (ta_id a) CodingAgent)) (\<lambda>latest_process.
                 case latest_process of
                   None \<Rightarrow> ret ()
                 | Some p \<Rightarrow>
                     and_then (of_result Other (process_executor_action p)) (\<lambda>action.
                       case request_profile (action_typ action) of
                         None \<Rightarrow> ret ()
                       | Some profile \<Rightarrow>
                           and_then (gets (\<lambda>s. Option.bind (task_parent_project (c_db s) (ctx_task ctx)) (\<lambda>pj. cleanup_action (pj_cleanup_script pj)))) (\<lambda>cleanup.
                           and_then (prompt_with_images env (tk_id (ctx_task ctx)) dir d) (\<lambda>prompt.
                           and_then (start_execution env a
                             (ExecutorAction (CodingAgentFollowUpRequest
                                \<lparr> fr_prompt = prompt, fr_session_id = session_id,
                                  fr_executor_profile_id = \<lparr> executor = executor profile, variant = dr_variant d \<rparr> \<rparr>) cleanup)
                             CodingAgent) (\<lambda>_.
                           and_then (utc_now env) (\<lambda>now.
                             execute (\<lambda>db. clear_after_send db (ta_id a) FollowUp now))))))))))"

definition try_consume_queued_followup :: "('a, 'w) container_env \<Rightarrow> execution_context \<Rightarrow> ('w, unit) cact" where
  "try_consume_queued_followup env ctx =
     (let a = ctx_task_attempt ctx
      in if ep_run_reason (ctx_execution_process ctx) = DevServer then ret ()
         else and_then (gets (\<lambda>s. \<exists>p \<in> set (process_find_by_task_attempt_id (c_db s) (ta_id a) False). ep_status p = Running)) (\<lambda>busy.
           if busy then ret ()
           else and_then (gets (\<lambda>s. draft_find (c_db s) (ta_id a) FollowUp)) (\<lambda>found_draft.
             case found_draft of
               None \<Rightarrow> ret ()
             | Some d \<Rightarrow>
                 if \<not> dr_queued d \<or> trim (dr_prompt d) = [] then ret ()
                 else and_then (utc_now env) (\<lambda>now.
                      and_then (gets (\<lambda>s. fst (try_mark_sending (c_db s) (ta_id a) FollowUp now))) (\<lambda>marked.
                      and_then (execute (\<lambda>db. snd (try_mark_sending db (ta_id a) FollowUp now))) (\<lambda>_.
                        if marked then start_queued_followup env ctx d else ret ()))))))"

text \<open>What the monitor does with the context it loads after it recorded the completion.\<close>

definition run_succeeded :: "execution_context \<Rightarrow> int option \<Rightarrow> bool" where
  "run_succeeded ctx exit_code \<longleftrightarrow> ep_status (ctx_execution_process ctx) = Completed \<and> exit_code = Some 0"

definition cleanup_done :: "execution_context \<Rightarrow> bool" where
  "cleanup_done ctx \<longleftrightarrow>
     ep_run_reason (ctx_execution_process ctx) = CleanupScript \<and> ep_status (ctx_execution_process ctx) \<noteq> Running"

definition after_run :: "('a, 'w) container_env \<Rightarrow> execution_context \<Rightarrow> int option \<Rightarrow> ('w container, unit, unit) act" where
  "after_run env ctx exit_code =
     and_then (update_executor_session_summary env (ep_id (ctx_execution_process ctx))) (\<lambda>_.
     and_then
       (if run_succeeded ctx exit_code \<or> cleanup_done ctx
        then and_then (outcome (try_commit_changes env ctx)) (\<lambda>committed.
             if ep_run_reason (ctx_execution_process ctx) = CodingAgent \<and> committed = Inr False
             then finalize_task env ctx
             else and_then (outcome (try_start_next_action env ctx)) (\<lambda>_. ret ()))
        else ret ()) (\<lambda>_.
       case should_finalize ctx of
         None \<Rightarrow> fail ()
       | Some False \<Rightarrow> ret ()
       | Some True \<Rightarrow>
           and_then (finalize_task env ctx) (\<lambda>_.
           and_then (outcome (try_consume_queued_followup env ctx)) (\<lambda>_. ret ()))))"

definition record_end :: "('a, 'w) container_env \<Rightarrow> uuid \<Rightarrow> process_end \<Rightarrow> ('w container, 'e, unit) act" where
  "record_end env i e =
     and_then (gets (\<lambda>s. e = Signalled \<and> i \<in> c_children s)) (\<lambda>kill.
     and_then (if kill then and_then (outcome (in_world (kill_process_group env i))) (\<lambda>_. ret ()) else ret ()) (\<lambda>_.
     and_then (gets (\<lambda>s. was_stopped (c_db s) i)) (\<lambda>stopped.
       if stopped then ret () else complete_process env i (snd (exit_result e)) (fst (exit_result e)))))"

definition forget_process :: "uuid \<Rightarrow> ('w container, 'e, unit) act" where
  "forget_process i = and_then (remove_msg_store i) (\<lambda>_. remove_child_from_store i)"

definition exit_monitor :: "('a, 'w) container_env \<Rightarrow> uuid \<Rightarrow> process_end \<Rightarrow> ('w container, unit, unit) act" where
  "exit_monitor env i e =
     and_then (record_end env i e) (\<lambda>_.
     and_then (gets (\<lambda>s. process_load_context (c_db s) i)) (\<lambda>loaded.
     and_then (case loaded of Inl _ \<Rightarrow> ret () | Inr ctx \<Rightarrow> after_run env ctx (fst (exit_result e))) (\<lambda>_.
     and_then (gets (\<lambda>s. process_load_context (c_db s) i)) (\<lambda>reloaded.
     and_then
       (case reloaded of
          Inl _ \<Rightarrow> ret ()
        | Inr ctx \<Rightarrow> record_after_head env i (task_attempt_to_current_dir (ctx_task_attempt ctx))) (\<lambda>_.
       forget_process i)))))"

definition run_exit_monitor ::
  "('a, 'w) container_env \<Rightarrow> uuid \<Rightarrow> uuid \<Rightarrow> process_end \<Rightarrow> ('w container, unit, unit) act" where
  "run_exit_monitor env i run_id e =
     and_then (record_end env i e) (\<lambda>_.
     and_then (update_executor_session_summary env i) (\<lambda>_.
     and_then (gets (\<lambda>s. Option.bind (run_find_by_id (c_db s) run_id) er_container_ref)) (\<lambda>container_ref.
     and_then (case container_ref of None \<Rightarrow> ret () | Some dir \<Rightarrow> record_after_head env i dir) (\<lambda>_.
       forget_process i))))"


section \<open>Raw logs\<close>

text \<open>
  \<^verbatim>\<open>spawn_stream_raw_logs_to_db\<close> on the messages its stream yields: output is appended to the log
  of the process, a session identifier is recorded, \<^verbatim>\<open>Finished\<close> ends the loop.
\<close>

fun stream_raw_logs_to_db :: "('a, 'w) container_env \<Rightarrow> uuid \<Rightarrow> log_msg list \<Rightarrow> ('w container, 'e, unit) act" where
  "stream_raw_logs_to_db env i [] = ret ()"
| "stream_raw_logs_to_db env i (m # ms) =
     (case m of
        Finished \<Rightarrow> ret ()
      | JsonPatch _ \<Rightarrow> stream_raw_logs_to_db env i ms
      | SessionId session_id \<Rightarrow>
          and_then (utc_now env) (\<lambda>now.
          and_then (execute (\<lambda>db. update_session_id db i session_id now)) (\<lambda>_.
            stream_raw_logs_to_db env i ms))
      | _ \<Rightarrow> and_then (append_msg env i m) (\<lambda>_. stream_raw_logs_to_db env i ms))"

text \<open>
  \<^verbatim>\<open>stream_raw_logs\<close> when the store is gone: the log of the database, then \<^verbatim>\<open>Finished\<close>; with the
  store, what the store yields.
\<close>

definition is_output :: "log_msg \<Rightarrow> bool" where
  "is_output m \<longleftrightarrow> (case m of Stdout _ \<Rightarrow> True | Stderr _ \<Rightarrow> True | _ \<Rightarrow> False)"

definition stream_raw_logs ::
  "(string \<Rightarrow> log_msg option) \<Rightarrow> (msg_store \<Rightarrow> log_msg list) \<Rightarrow> uuid \<Rightarrow> 'w container \<Rightarrow> log_msg list option" where
  "stream_raw_logs de history_plus_stream i s =
     (case c_msg_stores s i of
        Some store \<Rightarrow> Some (filter (\<lambda>m. is_output m \<or> m = Finished) (history_plus_stream store))
      | None \<Rightarrow>
          Option.bind (logs_find_by_execution_id (c_db s) i) (\<lambda>rec.
            map_option (\<lambda>ms. filter is_output ms @ [Finished]) (parse_logs de rec)))"

end
