(* ===== verification/Container_Invariants.thy ===== *)
theory Container_Invariants
  imports Container_Service
begin

text \<open>
  What the methods of the container service keep.

  The locale \<open>container_relation\<close> is the interface between the statements of a method and an
  argument about it: it fixes a reflexive and transitive relation between states, assumes that the
  statements other than the creation of a process respect it, and shows once that every method
  does.  \<open>creating_relation\<close> adds the creation of processes and sessions, \<open>starting_relation\<close> the start of a process as
  a whole.  The relations of interest are interpreted below: the database only takes steps of the
  models, an ended process stays ended, and a running process keeps its exit monitor.
\<close>

section \<open>Statements that leave processes and sessions alone\<close>

definition process_status :: "database \<Rightarrow> uuid \<Rightarrow> execution_process_status option" where
  "process_status db i = map_option ep_status (process_find_by_id db i)"

definition session_ids :: "database \<Rightarrow> uuid set" where
  "session_ids db = es_id ` set (executor_sessions db)"

definition quiet :: "database \<Rightarrow> database \<Rightarrow> bool" where
  "quiet db db' \<longleftrightarrow> db_step db db' \<and> process_status db' = process_status db \<and> session_ids db' = session_ids db"

definition process_writes :: "(execution_process \<Rightarrow> execution_process) set" where
  "process_writes =
     {set_completion st code at |st code at. True} \<union> range set_after_head_commit \<union> range set_before_head_commit
     \<union> {set_dropped}"

interpretation pt: keyed_table ep_id process_writes
  by unfold_locales
     (auto simp: process_writes_def set_completion_def set_after_head_commit_def set_before_head_commit_def set_dropped_def)

lemma process_find_update:
  "f \<in> process_writes \<Longrightarrow>
   process_find_by_id (update_processes P f db) i = map_option (\<lambda>p. if P p then f p else p) (process_find_by_id db i)"
  by (simp add: process_find_by_id_def update_processes_def pt.lookup_update)

lemma process_status_complete:
  "process_status (update_completion db i st code now) j
     = (if j = i \<and> process_status db i \<noteq> None then Some st else process_status db j)"
proof -
  have "set_completion st code at \<in> process_writes" for at by (auto simp: process_writes_def)
  moreover have "process_find_by_id db j = Some p \<Longrightarrow> ep_id p = j" for j p
    by (auto simp: process_find_by_id_def dest: lookup_Some)
  ultimately show ?thesis
    by (cases "process_find_by_id db j")
       (auto simp: process_status_def update_completion_def process_find_update set_completion_def)
qed

lemma session_ids_complete: "session_ids (update_completion db i st code now) = session_ids db"
  by (simp add: session_ids_def update_completion_def update_processes_def)

lemma process_status_create:
  assumes "process_create db data i commit now = Inr (p, db')"
  shows "process_status db i = None" "ep_id p = i" "process_status db' = (process_status db)(i \<mapsto> Running)"
    "executor_sessions db' = executor_sessions db"
proof -
  have p: "ep_id p = i" "ep_status p = Running" "db' = db\<lparr>execution_processes := execution_processes db @ [p]\<rparr>"
    "lookup ep_id i (execution_processes db) = None"
    using assms by (auto simp: process_create_def Let_def exists_row_def split: if_splits)
  then show "process_status db i = None" "ep_id p = i" "executor_sessions db' = executor_sessions db"
    by (auto simp: process_status_def process_find_by_id_def)
  show "process_status db' = (process_status db)(i \<mapsto> Running)"
  proof
    fix j
    show "process_status db' j = ((process_status db)(i \<mapsto> Running)) j"
      using p by (cases "lookup ep_id j (execution_processes db)") 
        (auto simp: process_status_def process_find_by_id_def lookup_append)
  qed
qed

lemma quietI:
  assumes "db_step db db'" and "execution_processes db' = execution_processes db"
    and "executor_sessions db' = executor_sessions db"
  shows "quiet db db'"
  using assms by (simp add: quiet_def process_status_def process_find_by_id_def session_ids_def fun_eq_iff)

lemma quiet_task_status: "quiet db (task_update_status db i st now)"
  by (rule quietI [OF db_step.task_update_status]) (simp_all add: task_update_status_def)

lemma quiet_container_ref: "quiet db (attempt_update_container_ref db i r now)"
  by (rule quietI [OF db_step.attempt_container_ref]) (simp_all add: attempt_update_container_ref_def)

lemma quiet_run_container_ref: "quiet db (run_update_container_ref db i r now)"
  by (rule quietI [OF db_step.run_container_ref]) (simp_all add: run_update_container_ref_def)

lemma quiet_worktree_deleted: "quiet db (attempt_mark_worktree_deleted db i now)"
  by (rule quietI [OF db_step.attempt_worktree_deleted]) (simp_all add: attempt_mark_worktree_deleted_def)

lemma quiet_after_head: "quiet db (update_after_head_commit db i commit)"
proof -
  have "set_after_head_commit commit \<in> process_writes" by (auto simp: process_writes_def)
  then have "process_status (update_after_head_commit db i commit) = process_status db"
    by (auto simp: fun_eq_iff process_status_def update_after_head_commit_def process_find_update
        option.map_comp set_after_head_commit_def intro!: option.map_cong0)
  then show ?thesis
    using db_step.process_after_head by (simp add: quiet_def session_ids_def update_after_head_commit_def update_processes_def)
qed

lemma quiet_sessions:
  assumes "db_step db (update_sessions P f db)" and "\<And>es. es_id (f es) = es_id es"
  shows "quiet db (update_sessions P f db)"
proof -
  have "map es_id (update_where P f t) = map es_id t" for t
    by (induction t) (simp_all add: assms(2))
  then have "es_id ` set (update_where P f t) = es_id ` set t" for t
    by (metis (no_types) list.set_map)
  then have "session_ids (update_sessions P f db) = session_ids db"
    by (simp add: session_ids_def update_sessions_def)
  then show ?thesis
    using assms(1) by (simp add: quiet_def process_status_def process_find_by_id_def update_sessions_def fun_eq_iff)
qed

lemma quiet_session_id: "quiet db (update_session_id db i sid now)"
  using db_step.session_session_id [of db i sid now] unfolding update_session_id_def by (rule quiet_sessions) simp

lemma quiet_summary: "quiet db (update_summary db i text' now)"
  using db_step.session_summary [of db i text' now] unfolding update_summary_def by (rule quiet_sessions) simp

lemma quiet_append_log: "append_log_line db i line now = Inr db' \<Longrightarrow> quiet db db'"
  by (rule quietI [OF db_step.logs_append]) (auto simp: append_log_line_def upsert_logs_def split: if_splits)

lemma quiet_task_image: "insert_task_image db i tid iid now = Inr db' \<Longrightarrow> quiet db db'"
  by (rule quietI [OF db_step.image_associate]) (auto simp: insert_task_image_def split: if_splits)

lemma quiet_image_create: "image_create db ci i now = Inr (im, db') \<Longrightarrow> quiet db db'"
  by (rule quietI [OF db_step.image_create]) (auto simp: image_create_def Let_def split: if_splits)

lemma quiet_image_delete: "quiet db (image_delete db i)"
  by (rule quietI [OF db_step.image_delete]) (simp_all add: image_delete_def)

lemma quiet_clear_draft: "quiet db (clear_after_send db i ty now)"
  by (rule quietI [OF db_step.draft_clear])
     (simp_all add: clear_after_send_def update_drafts_def draft_delete_def split: draft_type.split)

lemma quiet_mark_draft: "quiet db (snd (try_mark_sending db i ty now))"
  by (rule quietI [OF db_step.draft_mark]) (simp_all add: try_mark_sending_def Let_def update_drafts_def)

lemmas quiet_statements =
  quiet_task_status quiet_container_ref quiet_run_container_ref quiet_worktree_deleted quiet_after_head
  quiet_session_id quiet_summary quiet_image_delete quiet_clear_draft quiet_mark_draft

lemmas quiet_results = quiet_append_log quiet_task_image quiet_image_create



section \<open>The interface between statements and methods\<close>

locale container_relation = step_relation R
  for R :: "'w container \<Rightarrow> 'w container \<Rightarrow> bool" +
  fixes env :: "('a, 'w) container_env"
  assumes memory: "c_db s' = c_db s \<Longrightarrow> set (c_tasks s) \<subseteq> set (c_tasks s') \<Longrightarrow> c_tick s \<le> c_tick s' \<Longrightarrow> R s s'"
    and statement: "quiet (c_db s) db' \<Longrightarrow> R s (s\<lparr>c_db := db'\<rparr>)"
    and completion: "st \<noteq> Running \<Longrightarrow> R s (s\<lparr>c_db := update_completion (c_db s) i st code now\<rparr>)"
begin

lemma keeps_memory:
  "keeps R tick" "keeps R (uuid_v4 env)" "keeps R (utc_now env)" "keeps R (in_world f)" "keeps R (spawn_task t)"
  "keeps R (add_child_to_store i)" "keeps R (remove_child_from_store i)" "keeps R (get_msg_store_by_id i)"
  "keeps R (track_child_msgs_in_store i)" "keeps R (remove_msg_store i)"
  by (auto simp: keeps_def tick_def uuid_v4_run utc_now_run in_world_def add_child_to_store_def
      remove_child_from_store_def get_msg_store_by_id_def track_child_msgs_in_store_def remove_msg_store_def
      intro!: memory split: prod.split)

lemma keeps_execute: "(\<And>db. quiet db (f db)) \<Longrightarrow> keeps R (execute f)"
  by (simp add: keeps_def statement)

lemma keeps_execute_result: "(\<And>db r db'. f db = Inr (r, db') \<Longrightarrow> quiet db db') \<Longrightarrow> keeps R (execute_result f)"
  by (auto simp: keeps_def execute_result_def statement step_refl split: sum.split)

lemma keeps_execute_unit:
  "(\<And>db db'. f db = Inr db' \<Longrightarrow> quiet db db') \<Longrightarrow> keeps R (execute_result (\<lambda>db. map_sum id (Pair ()) (f db)))"
  by (rule keeps_execute_result) (auto simp: map_sum_def split: sum.splits)

lemma keeps_complete: "st \<noteq> Running \<Longrightarrow> keeps R (complete_process env i st code)"
  unfolding complete_process_def
  by (intro keeps_and_then keeps_memory) (simp add: keeps_def completion)

lemma keeps_set_status: "keeps R (set_status env i st)"
  unfolding set_status_def by (intro keeps_rules keeps_memory keeps_execute quiet_statements)

lemma keeps_found: "keeps R (found f)"
  unfolding found_def by (intro keeps_rules)

lemma keeps_append_msg: "keeps R (append_msg env i m)"
  unfolding append_msg_def by (intro keeps_rules keeps_memory keeps_execute_unit quiet_results)

lemmas keeps_statements =
  keeps_memory keeps_set_status keeps_found keeps_append_msg

lemma keeps_images:
  "keeps R (copy_images env path imgs)"
  "keeps R (copy_images_by_task_to_worktree env path i)"
  "keeps R (copy_images_by_ids_to_worktree env path ids)"
  unfolding copy_images_by_task_to_worktree_def copy_images_by_ids_to_worktree_def copy_images_def
  by (intro keeps_rules keeps_statements)+

lemma keeps_copy_files: "keeps R (copy_project_files env src dst files)" "keeps R (copy_files_of env pj path)"
  unfolding copy_files_of_def copy_project_files_def by (intro keeps_rules keeps_statements)+

lemma keeps_containers:
  "keeps R (create_container env a)" "keeps R (create_for_run env r)" "keeps R (ensure_container_exists env a)"
  "keeps R (delete_inner env a)"
  unfolding create_container_def create_for_run_def ensure_container_exists_def delete_inner_def
  by (intro keeps_rules keeps_statements keeps_copy_files keeps_images keeps_execute quiet_statements)+

lemma keeps_record_after_head: "keeps R (record_after_head env i dir)"
  unfolding record_after_head_def by (intro keeps_rules keeps_execute quiet_statements)

lemma keeps_stop_execution: "st \<noteq> Running \<Longrightarrow> keeps R (stop_execution env p st)"
  unfolding stop_execution_def by (intro keeps_rules keeps_statements keeps_complete keeps_record_after_head)

lemma keeps_stops:
  "keeps R (try_stop env a)" "keeps R (stop_task_processes env as)" "keeps R (delete_container env a)"
  unfolding stop_task_processes_def delete_container_def try_stop_def
  by (intro keeps_rules keeps_stop_execution keeps_containers; simp)+

lemma keeps_summary: "keeps R (update_executor_session_summary env i)"
  unfolding update_executor_session_summary_def
  by (intro keeps_rules keeps_statements keeps_execute quiet_statements)

lemma keeps_commit: "keeps R (try_commit_changes env ctx)"
  unfolding try_commit_changes_def by (intro keeps_rules keeps_statements)

lemma keeps_associate: "keeps R (associate_images env tid ids)"
  unfolding associate_images_def by (intro keeps_rules keeps_statements keeps_execute_unit quiet_results)

lemma keeps_prompt: "keeps R (prompt_with_images env tid dir d)"
  unfolding prompt_with_images_def by (intro keeps_rules keeps_associate keeps_images)

lemma keeps_record_end: "keeps R (record_end env i e)"
proof -
  have "snd (exit_result e) \<noteq> Running" by (simp add: exit_result_def split: process_end.split)
  then show ?thesis unfolding record_end_def by (intro keeps_rules keeps_statements keeps_complete)
qed

lemma keeps_forget: "keeps R (forget_process i)"
  unfolding forget_process_def by (intro keeps_rules keeps_statements)

lemma keeps_spawn: "keeps R (spawn_tracked env cref missing i action monitor)"
  unfolding spawn_tracked_def by (intro keeps_rules keeps_statements)

lemma keeps_follow: "keeps R (follow_process env i action dir)"
  unfolding follow_process_def by (intro keeps_rules keeps_statements)

lemma keeps_start_failure: "keeps R (report_start_failure env t p e)"
  unfolding report_start_failure_def
  by (intro keeps_rules keeps_statements)
     (auto intro!: keeps_rules keeps_statements simp del: act_run split: container_error.split executor_error.split)

lemma keeps_run_monitor: "keeps R (run_exit_monitor env i rid e)"
  unfolding run_exit_monitor_def
  by (intro keeps_rules keeps_statements keeps_record_end keeps_summary keeps_record_after_head keeps_forget)

lemma keeps_stream: "keeps R (stream_raw_logs_to_db env i ms)"
proof (induction ms)
  case Nil
  show ?case unfolding stream_raw_logs_to_db.simps by (rule keeps_pure)
next
  case (Cons m ms)
  then show ?case
    by (cases m; simp only: stream_raw_logs_to_db.simps log_msg.case;
        intro keeps_rules keeps_statements keeps_execute quiet_statements)
qed

end

text \<open>The start of a process, for a relation that also allows creating one and its session.\<close>

locale creating_relation = container_relation R env
  for R :: "'w container \<Rightarrow> 'w container \<Rightarrow> bool" and env :: "('a, 'w) container_env" +
  assumes keeps_insert_process: "keeps R (insert_process env data commit)"
    and keeps_insert_session: "keeps R (insert_session env aid i action)"
begin

lemma keeps_start_execution: "keeps R (start_execution env a action reason)"
  unfolding start_execution_def start_execution_inner_def head_of_container_def
  by (intro keeps_rules keeps_statements keeps_insert_process keeps_insert_session keeps_spawn keeps_follow
      keeps_complete keeps_start_failure execution_process_status.distinct)

lemma keeps_start_for_run: "keeps R (start_execution_for_run env r action reason)"
  unfolding start_execution_for_run_def start_execution_inner_for_run_def head_of_container_def
  by (intro keeps_rules keeps_statements keeps_insert_process keeps_insert_session keeps_spawn keeps_follow
      keeps_complete execution_process_status.distinct)

end

text \<open>Everything that starts processes, for a relation that the start of a process respects as a whole.\<close>

locale starting_relation = container_relation R env
  for R :: "'w container \<Rightarrow> 'w container \<Rightarrow> bool" and env :: "('a, 'w) container_env" +
  assumes keeps_start: "keeps R (start_execution env a action reason)"
    and keeps_start_run: "keeps R (start_execution_for_run env r action reason)"
begin

lemma keeps_attempts: "keeps R (start_attempt env a profile)" "keeps R (start_run env r profile)"
  unfolding start_attempt_def start_run_def
  by (intro keeps_rules keeps_statements keeps_containers keeps_start keeps_start_run)+

lemma keeps_next: "keeps R (try_start_next_action env ctx)"
  unfolding try_start_next_action_def by (intro keeps_rules keeps_start)

lemma keeps_exit_plan: "keeps R (exit_plan_mode_tool env ctx)"
  unfolding exit_plan_mode_tool_def
  by (intro keeps_rules keeps_stop_execution keeps_start execution_process_status.distinct)

lemma keeps_followup: "keeps R (try_consume_queued_followup env ctx)"
  unfolding try_consume_queued_followup_def start_queued_followup_def
  by (intro keeps_rules keeps_statements keeps_containers keeps_prompt keeps_start keeps_execute quiet_statements)

lemma keeps_finalize: "keeps R (finalize_task env ctx)"
  unfolding finalize_task_def by (rule keeps_set_status)

lemma keeps_bool: "keeps R m \<Longrightarrow> keeps R m' \<Longrightarrow> keeps R (case b of True \<Rightarrow> m | False \<Rightarrow> m')"
  by (cases b) auto

lemma keeps_after_run: "keeps R (after_run env ctx code)"
  unfolding after_run_def
  by (intro keeps_rules keeps_bool keeps_summary keeps_commit keeps_next keeps_finalize keeps_followup)

lemma keeps_exit_monitor: "keeps R (exit_monitor env i e)"
  unfolding exit_monitor_def
  by (intro keeps_rules keeps_record_end keeps_after_run keeps_record_after_head keeps_forget)

end

sublocale creating_relation \<subseteq> starting_relation
  by unfold_locales (rule keeps_start_execution keeps_start_for_run)+



section \<open>The three relations\<close>

text \<open>The database takes only steps of the models.\<close>

abbreviation db_steps :: "'w container \<Rightarrow> 'w container \<Rightarrow> bool" where
  "db_steps s s' \<equiv> db_step\<^sup>*\<^sup>* (c_db s) (c_db s')"

lemma insert_process_run:
  "insert_process env data commit s =
     (let s2 = s\<lparr>c_tick := Suc (Suc (c_tick s))\<rparr>
      in case process_create (c_db s) data (new_v4 env (c_tick s)) commit (clock env (Suc (c_tick s))) of
           Inl e \<Rightarrow> (Inl (Sqlx e), s2)
         | Inr (p, db') \<Rightarrow> (Inr p, s2\<lparr>c_db := db'\<rparr>))"
  by (simp add: insert_process_def and_then_def uuid_v4_run utc_now_run map_err_run execute_result_def Let_def
      split: sum.split prod.split)

lemma insert_session_run:
  "insert_session env aid i action s =
     (case request_prompt (action_typ action) of
        None \<Rightarrow> (Inr (), s)
      | Some prompt \<Rightarrow>
          (let s2 = s\<lparr>c_tick := Suc (Suc (c_tick s))\<rparr>
           in case session_create (c_db s) \<lparr> cs_task_attempt_id = aid, cs_execution_process_id = i, cs_prompt = Some prompt \<rparr>
                     (new_v4 env (c_tick s)) (clock env (Suc (c_tick s))) of
                Inl e \<Rightarrow> (Inl (Sqlx e), s2)
              | Inr (es, db') \<Rightarrow> (Inr (), s2\<lparr>c_db := db'\<rparr>)))"
  by (simp add: insert_session_def and_then_def uuid_v4_run utc_now_run map_err_run execute_result_def Let_def
      split: sum.split prod.split option.split)

lemma session_create_effect:
  assumes "session_create db data i now = Inr (es, db')"
  shows "execution_processes db' = execution_processes db" "session_ids db' = insert i (session_ids db)"
  using assms by (auto simp: session_create_def Let_def session_ids_def split: if_splits)

interpretation dbs: creating_relation db_steps env for env :: "('a, 'w) container_env"
proof unfold_locales
  show "keeps db_steps (insert_process env data commit)" for data commit
    by (auto simp: keeps_def insert_process_run Let_def intro: db_step.process_create split: sum.split)
  show "keeps db_steps (insert_session env aid i action)" for aid i action
    by (auto simp: keeps_def insert_session_run Let_def intro: db_step.session_create split: sum.split option.split)
qed (auto simp: quiet_def intro: db_step.process_completion rtranclp_trans)

text \<open>A process that has ended stays ended.\<close>

definition ended :: "database \<Rightarrow> uuid \<Rightarrow> bool" where
  "ended db i \<longleftrightarrow> process_status db i \<noteq> None \<and> process_status db i \<noteq> Some Running"

abbreviation stays_ended :: "'w container \<Rightarrow> 'w container \<Rightarrow> bool" where
  "stays_ended s s' \<equiv> \<forall>i. ended (c_db s) i \<longrightarrow> ended (c_db s') i"

interpretation ends: creating_relation stays_ended env for env :: "('a, 'w) container_env"
proof unfold_locales
  show "keeps stays_ended (insert_process env data commit)" for data commit
    by (auto simp: keeps_def insert_process_run Let_def ended_def process_status_create dest: process_status_create
        split: sum.split)
  show "keeps stays_ended (insert_session env aid i action)" for aid i action
    by (auto simp: keeps_def insert_session_run Let_def ended_def process_status_def process_find_by_id_def
        session_create_effect split: sum.split option.split)
qed (auto simp: quiet_def ended_def process_status_complete)

text \<open>
  A running process keeps its exit monitor.  Creating the session of a new process must not fail for that,
  and it fails only if its identifier is taken; hence the relation also follows the identifiers
  made on the way, the \<open>window\<close> of ticks, and says what holds when these are distinct and new.
\<close>

definition has_monitor :: "background list \<Rightarrow> uuid \<Rightarrow> bool" where
  "has_monitor ts i \<longleftrightarrow> ExitMonitor i \<in> set ts \<or> (\<exists>r. RunExitMonitor i r \<in> set ts)"

definition unmonitored :: "'w container \<Rightarrow> uuid \<Rightarrow> bool" where
  "unmonitored s i \<longleftrightarrow> process_status (c_db s) i = Some Running \<and> \<not> has_monitor (c_tasks s) i"

definition window :: "'w container \<Rightarrow> 'w container \<Rightarrow> nat set" where
  "window s s' = {c_tick s ..< c_tick s'}"

definition new_ids :: "('a, 'w) container_env \<Rightarrow> 'w container \<Rightarrow> 'w container \<Rightarrow> bool" where
  "new_ids env s s' \<longleftrightarrow> inj_on (new_v4 env) (window s s') \<and> new_v4 env ` window s s' \<inter> session_ids (c_db s) = {}"

definition stays_monitored :: "('a, 'w) container_env \<Rightarrow> 'w container \<Rightarrow> 'w container \<Rightarrow> bool" where
  "stays_monitored env s s' \<longleftrightarrow>
     c_tick s \<le> c_tick s' \<and> session_ids (c_db s') \<subseteq> session_ids (c_db s) \<union> new_v4 env ` window s s'
     \<and> (new_ids env s s' \<longrightarrow> (\<forall>i. unmonitored s' i \<longrightarrow> unmonitored s i))"

lemma window_split: "c_tick s \<le> c_tick s' \<Longrightarrow> c_tick s' \<le> c_tick s'' \<Longrightarrow> window s s'' = window s s' \<union> window s' s''"
  by (auto simp: window_def)

lemma new_ids_split:
  assumes "new_ids env s s''" and "c_tick s \<le> c_tick s'" "c_tick s' \<le> c_tick s''"
    and "session_ids (c_db s') \<subseteq> session_ids (c_db s) \<union> new_v4 env ` window s s'"
  shows "new_ids env s s'" "new_ids env s' s''"
proof -
  note w = window_split [OF assms(2,3)]
  show "new_ids env s s'" using assms(1) w by (auto simp: new_ids_def inj_on_Un)
  have "window s s' \<inter> window s' s'' = {}" by (auto simp: window_def)
  with assms(1) w have "new_v4 env ` window s s' \<inter> new_v4 env ` window s' s'' = {}"
    by (auto simp: new_ids_def inj_on_def)
  moreover have "new_v4 env ` window s' s'' \<inter> session_ids (c_db s) = {}" "inj_on (new_v4 env) (window s' s'')"
    using assms(1) w by (auto simp: new_ids_def inj_on_Un)
  ultimately show "new_ids env s' s''" using assms(4) unfolding new_ids_def by blast
qed

lemma stays_monitored_trans:
  assumes "stays_monitored env s s'" and "stays_monitored env s' s''"
  shows "stays_monitored env s s''"
proof -
  have t: "c_tick s \<le> c_tick s'" "c_tick s' \<le> c_tick s''" using assms by (auto simp: stays_monitored_def)
  have ids: "session_ids (c_db s') \<subseteq> session_ids (c_db s) \<union> new_v4 env ` window s s'"
    "session_ids (c_db s'') \<subseteq> session_ids (c_db s') \<union> new_v4 env ` window s' s''"
    using assms by (auto simp: stays_monitored_def)
  have "unmonitored s i" if "new_ids env s s''" "unmonitored s'' i" for i
    using new_ids_split [OF that(1) t ids(1)] that(2) assms by (auto simp: stays_monitored_def)
  with t ids show ?thesis unfolding stays_monitored_def window_split [OF t] by auto
qed

interpretation mon: container_relation "stays_monitored env" env for env :: "('a, 'w) container_env"
proof unfold_locales
  show "stays_monitored env s s'' " if "stays_monitored env s s'" "stays_monitored env s' s''" for s s' s''
    using that by (rule stays_monitored_trans)
qed (auto simp: stays_monitored_def unmonitored_def has_monitor_def quiet_def window_def process_status_complete
      session_ids_complete)

text \<open>The relation in which one process, the one that is being started, may still lack its monitor.\<close>

definition almost_monitored :: "('a, 'w) container_env \<Rightarrow> uuid \<Rightarrow> 'w container \<Rightarrow> 'w container \<Rightarrow> bool" where
  "almost_monitored env i s s' \<longleftrightarrow>
     c_tick s \<le> c_tick s' \<and> session_ids (c_db s') \<subseteq> session_ids (c_db s) \<union> new_v4 env ` window s s'
     \<and> (new_ids env s s' \<longrightarrow> (\<forall>j. unmonitored s' j \<longrightarrow> unmonitored s j \<or> j = i))"

lemma almost_monitored_trans:
  assumes "almost_monitored env i s s'" and "almost_monitored env i s' s''"
  shows "almost_monitored env i s s''"
proof -
  have t: "c_tick s \<le> c_tick s'" "c_tick s' \<le> c_tick s''" using assms by (auto simp: almost_monitored_def)
  have ids: "session_ids (c_db s') \<subseteq> session_ids (c_db s) \<union> new_v4 env ` window s s'"
    "session_ids (c_db s'') \<subseteq> session_ids (c_db s') \<union> new_v4 env ` window s' s''"
    using assms by (auto simp: almost_monitored_def)
  have "unmonitored s j \<or> j = i" if "new_ids env s s''" "unmonitored s'' j" for j
    using new_ids_split [OF that(1) t ids(1)] that(2) assms by (auto simp: almost_monitored_def)
  with t ids show ?thesis unfolding almost_monitored_def window_split [OF t] by auto
qed

lemma almost_monitoredI: "stays_monitored env s s' \<Longrightarrow> almost_monitored env i s s'"
  by (auto simp: stays_monitored_def almost_monitored_def)

lemma almost_monitored_close: "almost_monitored env i s s' \<Longrightarrow> \<not> unmonitored s' i \<Longrightarrow> stays_monitored env s s'"
  by (auto simp: stays_monitored_def almost_monitored_def)

lemma session_create_fails:
  assumes "process_create db data i commit now = Inr (p, db')"
    and "session_create db' \<lparr> cs_task_attempt_id = ce_task_attempt_id data, cs_execution_process_id = ep_id p, cs_prompt = prompt \<rparr>
           j now' = Inl e"
  shows "j \<in> session_ids db"
  using assms
  by (auto simp: process_create_def session_create_def Let_def session_ids_def exists_row_iff ref_ok_def
      split: if_splits option.splits)

lemma almost_insert_process:
  assumes "insert_process env data commit s = (Inr p, s1)"
  shows "almost_monitored env (ep_id p) s s1" "session_ids (c_db s1) = session_ids (c_db s)" "c_tick s < c_tick s1"
    "\<exists>now. process_create (c_db s) data (ep_id p) commit now = Inr (p, c_db s1)"
proof -
  from assms obtain db' where c: "process_create (c_db s) data (new_v4 env (c_tick s)) commit (clock env (Suc (c_tick s))) = Inr (p, db')"
    and s1: "s1 = s\<lparr>c_tick := Suc (Suc (c_tick s)), c_db := db'\<rparr>"
    by (auto simp: insert_process_run Let_def split: sum.splits)
  note st = process_status_create [OF c]
  show ids: "session_ids (c_db s1) = session_ids (c_db s)" using st(4) by (simp add: s1 session_ids_def)
  show "c_tick s < c_tick s1" by (simp add: s1)
  show "\<exists>now. process_create (c_db s) data (ep_id p) commit now = Inr (p, c_db s1)"
    using c st(2) by (auto simp: s1)
  show "almost_monitored env (ep_id p) s s1"
    using ids st(2,3) by (auto simp: almost_monitored_def unmonitored_def s1 fun_upd_apply split: if_splits)
qed

lemma stays_insert_session:
  assumes "process_create db data i commit now = Inr (p, c_db s1)" and "session_ids (c_db s1) = session_ids db"
    and "insert_session env (ce_task_attempt_id data) (ep_id p) action s1 = (r, s2)"
  shows "stays_monitored env s1 s2 \<and> (isl r \<longrightarrow> \<not> new_ids env s1 s2)"
proof (cases "request_prompt (action_typ action)")
  case None
  then show ?thesis using assms(3) mon.step_refl by (auto simp: insert_session_run)
next
  case (Some prompt)
  let ?data = "\<lparr> cs_task_attempt_id = ce_task_attempt_id data, cs_execution_process_id = ep_id p, cs_prompt = Some prompt \<rparr>"
  let ?create = "session_create (c_db s1) ?data (new_v4 env (c_tick s1)) (clock env (Suc (c_tick s1)))"
  show ?thesis
  proof (cases ?create)
    case (Inl e)
    have "new_v4 env (c_tick s1) \<in> session_ids (c_db s1)"
      using session_create_fails [OF assms(1) Inl] assms(2) by simp
    moreover have "s2 = s1\<lparr>c_tick := Suc (Suc (c_tick s1))\<rparr>"
      using assms(3) Inl by (simp add: insert_session_run Some Let_def)
    moreover from this have "new_v4 env (c_tick s1) \<in> new_v4 env ` window s1 s2" by (simp add: window_def)
    ultimately have "\<not> new_ids env s1 s2" unfolding new_ids_def by blast
    then show ?thesis using \<open>s2 = _\<close> by (auto simp: stays_monitored_def)
  next
    case (Inr b)
    then obtain es db' where cr: "?create = Inr (es, db')" by (cases b) auto
    then have s2: "s2 = s1\<lparr>c_tick := Suc (Suc (c_tick s1)), c_db := db'\<rparr>" and r: "r = Inr ()"
      using assms(3) by (simp_all add: insert_session_run Some Let_def)
    show ?thesis
      using session_create_effect [OF cr]
      by (auto simp: stays_monitored_def s2 r window_def unmonitored_def process_status_def process_find_by_id_def)
  qed
qed

lemma spawn_tracked_monitor:
  "spawn_tracked env cref missing i action t s = (Inr u, s') \<Longrightarrow> t \<in> set (c_tasks s')"
  by (auto simp: spawn_tracked_def track_child_msgs_in_store_def add_child_to_store_def elim!: and_then_InrE split: option.splits)

text \<open>
  The body that both ways of starting a process share: create the process and its session, spawn
  it, and either go on or mark it failed.
\<close>

definition create_and_start ::
  "('a, 'w) container_env \<Rightarrow> create_execution_process \<Rightarrow> string option \<Rightarrow> executor_action \<Rightarrow> string option \<Rightarrow> string
   \<Rightarrow> (uuid \<Rightarrow> background) \<Rightarrow> (execution_process \<Rightarrow> container_error \<Rightarrow> ('w, 'r) cact) \<Rightarrow> (execution_process \<Rightarrow> ('w, 'r) cact)
   \<Rightarrow> ('w, 'r) cact" where
  "create_and_start env data commit action cref missing monitor failed started =
     and_then (insert_process env data commit) (\<lambda>p.
     and_then (insert_session env (ce_task_attempt_id data) (ep_id p) action) (\<lambda>_.
     and_then (outcome (spawn_tracked env cref missing (ep_id p) action (monitor (ep_id p)))) (\<lambda>r.
       case r of
         Inl e \<Rightarrow> and_then (complete_process env (ep_id p) Failed None) (\<lambda>_. failed p e)
       | Inr _ \<Rightarrow> started p)))"

lemma complete_process_ends:
  "complete_process env i Failed None s = (r, s') \<Longrightarrow> \<not> unmonitored s' i"
  by (auto simp: complete_process_def and_then_def utc_now_run unmonitored_def process_status_complete split: if_splits)

lemma stays_spawned:
  fixes failed :: "execution_process \<Rightarrow> container_error \<Rightarrow> ('w, 'r) cact"
  assumes pre: "almost_monitored env (ep_id p) s s2" and mon: "has_monitor [monitor (ep_id p)] (ep_id p)"
    and failed: "\<And>e. keeps (stays_monitored env) (failed p e)" and started: "keeps (stays_monitored env) (started p)"
  shows "stays_monitored env s (snd (and_then (outcome (spawn_tracked env cref missing (ep_id p) action (monitor (ep_id p)))) (\<lambda>r.
       case r of
         Inl e \<Rightarrow> and_then (complete_process env (ep_id p) Failed None) (\<lambda>_. failed p e)
       | Inr _ \<Rightarrow> started p) s2))"
proof -
  obtain r s3 where sp: "spawn_tracked env cref missing (ep_id p) action (monitor (ep_id p)) s2 = (r, s3)" by force
  have almost: "almost_monitored env (ep_id p) s s3"
    using pre keepsD [OF mon.keeps_spawn sp] almost_monitored_trans almost_monitoredI by blast
  show ?thesis
  proof (cases r)
    case (Inl e)
    obtain u s4 where c: "complete_process env (ep_id p) Failed None s3 = (Inr u :: container_error + unit, s4)"
      by (simp add: complete_process_def and_then_def utc_now_run)
    have "almost_monitored env (ep_id p) s s4"
      using almost keepsD [OF mon.keeps_complete c] almost_monitored_trans almost_monitoredI by blast
    then have "stays_monitored env s s4" using complete_process_ends [OF c] by (rule almost_monitored_close)
    moreover have "stays_monitored env s4 (snd (failed p e s4))" using failed [of e] by (simp add: keeps_def)
    ultimately show ?thesis using Inl sp c by (simp add: and_then_def stays_monitored_trans)
  next
    case (Inr u)
    have "monitor (ep_id p) \<in> set (c_tasks s3)" using spawn_tracked_monitor sp Inr by blast
    with mon have "has_monitor (c_tasks s3) (ep_id p)" unfolding has_monitor_def by (metis set_ConsD empty_iff set_empty2)
    then have "\<not> unmonitored s3 (ep_id p)" by (simp add: unmonitored_def)
    with almost have "stays_monitored env s s3" by (rule almost_monitored_close)
    moreover have "stays_monitored env s3 (snd (started p s3))" using started by (simp add: keeps_def)
    ultimately show ?thesis using Inr sp by (simp add: stays_monitored_trans)
  qed
qed

lemma keeps_create_and_start:
  assumes mon: "\<And>i. has_monitor [monitor i] i"
    and failed: "\<And>p e. keeps (stays_monitored env) (failed p e)" and started: "\<And>p. keeps (stays_monitored env) (started p)"
  shows "keeps (stays_monitored env) (create_and_start env data commit action cref missing monitor failed started)"
  unfolding keeps_def
proof
  fix s
  obtain r s1 where ins: "insert_process env data commit s = (r, s1)" by force
  show "stays_monitored env s (snd (create_and_start env data commit action cref missing monitor failed started s))"
  proof (cases r)
    case (Inl e)
    with ins have "s1 = s\<lparr>c_tick := Suc (Suc (c_tick s))\<rparr>" by (auto simp: insert_process_run Let_def split: sum.splits)
    then have "stays_monitored env s s1" by (auto intro: mon.memory)
    with ins Inl show ?thesis by (simp add: create_and_start_def and_then_def)
  next
    case (Inr p)
    note c = almost_insert_process [OF ins [unfolded Inr]]
    obtain r2 s2 where ses: "insert_session env (ce_task_attempt_id data) (ep_id p) action s1 = (r2, s2)" by force
    from c(4) obtain now where pc: "process_create (c_db s) data (ep_id p) commit now = Inr (p, c_db s1)" by blast
    note st = stays_insert_session [OF pc c(2) ses]
    then have almost: "almost_monitored env (ep_id p) s s2"
      using c(1) almost_monitored_trans almost_monitoredI by blast
    show ?thesis
    proof (cases r2)
      case (Inl e)
      have "c_tick s1 \<le> c_tick s2" using st by (simp add: stays_monitored_def)
      then have "\<not> new_ids env s s2"
        using st Inl new_ids_split(2) [of env s s2 s1] c(2,3) by auto
      then have "stays_monitored env s s2" using almost by (auto simp: stays_monitored_def almost_monitored_def)
      with ins \<open>r = _\<close> ses Inl show ?thesis by (simp add: create_and_start_def and_then_def)
    next
      case r2: (Inr u)
      have "create_and_start env data commit action cref missing monitor failed started s =
          and_then (outcome (spawn_tracked env cref missing (ep_id p) action (monitor (ep_id p)))) (\<lambda>r.
            case r of
              Inl e \<Rightarrow> and_then (complete_process env (ep_id p) Failed None) (\<lambda>_. failed p e)
            | Inr _ \<Rightarrow> started p) s2"
        using ins Inr ses r2 by (simp add: create_and_start_def and_then_Inr)
      then show ?thesis
        using stays_spawned [where monitor = monitor and failed = failed and started = started, OF almost mon failed started]
        by simp
    qed
  qed
qed

text \<open>Both ways of starting a process have that body.\<close>

lemma start_execution_body:
  "start_execution env a action reason =
     and_then (found (\<lambda>s. attempt_parent_task (c_db s) a)) (\<lambda>t.
     and_then (if tk_status t \<noteq> InProgress \<and> reason \<noteq> DevServer then set_status env (tk_id t) InProgress else ret ()) (\<lambda>_.
     and_then (head_of_container env (ta_container_ref a)) (\<lambda>commit.
       create_and_start env
         \<lparr> ce_task_attempt_id = Some (ta_id a), ce_execution_run_id = None, ce_executor_action = action, ce_run_reason = reason \<rparr>
         commit action (ta_container_ref a) ''Container ref not found for task attempt'' ExitMonitor
         (report_start_failure env t)
         (\<lambda>p. and_then (follow_process env (ep_id p) action (task_attempt_to_current_dir a)) (\<lambda>_. ret p)))))"
  unfolding start_execution_def create_and_start_def start_execution_inner_def by simp

lemma start_execution_for_run_body:
  "start_execution_for_run env r action reason =
     and_then (head_of_container env (er_container_ref r)) (\<lambda>commit.
       create_and_start env
         \<lparr> ce_task_attempt_id = None, ce_execution_run_id = Some (er_id r), ce_executor_action = action, ce_run_reason = reason \<rparr>
         commit action (er_container_ref r) ''Container ref not found for execution run'' (\<lambda>i. RunExitMonitor i (er_id r))
         (\<lambda>p e.
           and_then (append_msg env (ep_id p) (Stderr (''Failed to start execution: '' @ show_error env e))) (\<lambda>_.
             fail e))
         (\<lambda>p. and_then (follow_process env (ep_id p) action (execution_run_to_current_dir r)) (\<lambda>_. ret p)))"
  unfolding start_execution_for_run_def create_and_start_def start_execution_inner_for_run_def by simp

interpretation mon: starting_relation "stays_monitored env" env for env :: "('a, 'w) container_env"
proof unfold_locales
  have monitors: "has_monitor [ExitMonitor i] i" "has_monitor [RunExitMonitor i r] i" for i r
    by (auto simp: has_monitor_def)
  show "keeps (stays_monitored env) (start_execution env a action reason)" for a action reason
    unfolding start_execution_body head_of_container_def
    by (intro mon.keeps_rules mon.keeps_statements mon.keeps_follow mon.keeps_start_failure keeps_create_and_start monitors)
  show "keeps (stays_monitored env) (start_execution_for_run env r action reason)" for r action reason
    unfolding start_execution_for_run_body head_of_container_def
    by (intro mon.keeps_rules mon.keeps_statements mon.keeps_follow keeps_create_and_start monitors)
qed

end
