(* ===== verification/Container_System.thy ===== *)
theory Container_System
  imports Container_Invariants
begin

text \<open>
  The container service as a whole: the steps it takes when requests, background tasks and other
  users of the database interleave, and what holds in every state it reaches.
\<close>

section \<open>Steps of the service\<close>

text \<open>
  A step is one method run by a request, one background task taken from those that were spawned,
  or a statement of another component, which creates no running process and no session.
\<close>

inductive container_step :: "('a, 'w) container_env \<Rightarrow> 'w container \<Rightarrow> 'w container \<Rightarrow> bool" for env where
  attempt: "start_attempt env a profile s = (r, s') \<Longrightarrow> container_step env s s'"
| run: "start_run env er profile s = (r, s') \<Longrightarrow> container_step env s s'"
| execution: "start_execution env a action reason s = (r, s') \<Longrightarrow> container_step env s s'"
| stop: "stop_execution env p Killed s = (r, s') \<Longrightarrow> container_step env s s'"
| delete: "delete_container env a s = (r, s') \<Longrightarrow> container_step env s s'"
| exit_plan: "exit_plan_mode_tool env ctx s = (r, s') \<Longrightarrow> container_step env s s'"
| monitor:
    "c_tasks s = ts @ ExitMonitor i # us \<Longrightarrow> exit_monitor env i e (s\<lparr>c_tasks := ts @ us\<rparr>) = (r, s')
     \<Longrightarrow> container_step env s s'"
| run_monitor:
    "c_tasks s = ts @ RunExitMonitor i rid # us \<Longrightarrow> run_exit_monitor env i rid e (s\<lparr>c_tasks := ts @ us\<rparr>) = (r, s')
     \<Longrightarrow> container_step env s s'"
| logs:
    "c_tasks s = ts @ StreamRawLogs i # us \<Longrightarrow> stream_raw_logs_to_db env i ms (s\<lparr>c_tasks := ts @ us\<rparr>) = (r :: unit + unit, s')
     \<Longrightarrow> container_step env s s'"
| other:
    "db_step (c_db s) db' \<Longrightarrow> session_ids db' \<subseteq> session_ids (c_db s)
     \<Longrightarrow> (\<forall>i. process_status db' i = Some Running \<longrightarrow> process_status (c_db s) i = Some Running)
     \<Longrightarrow> container_step env s (s\<lparr>c_db := db'\<rparr>)"

definition new_container :: "'w \<Rightarrow> 'w container" where
  "new_container w =
     \<lparr> c_db = empty_database, c_msg_stores = Map.empty, c_children = {}, c_tasks = [], c_world = w, c_tick = 0 \<rparr>"

inductive container_reachable :: "('a, 'w) container_env \<Rightarrow> 'w container \<Rightarrow> bool" for env where
  start: "container_reachable env (new_container w)"
| step: "container_reachable env s \<Longrightarrow> container_step env s s' \<Longrightarrow> container_reachable env s'"


section \<open>The database\<close>

lemma container_step_db:
  assumes "container_step env s s'"
  shows "db_step\<^sup>*\<^sup>* (c_db s) (c_db s')"
  using assms
proof cases
  case (monitor ts i us e r)
  then show ?thesis using keepsD [OF dbs.keeps_exit_monitor monitor(2)] by simp
next
  case (run_monitor ts i rid us e r)
  then show ?thesis using keepsD [OF dbs.keeps_run_monitor run_monitor(2)] by simp
next
  case (logs ts i us ms r)
  then show ?thesis using keepsD [OF dbs.keeps_stream logs(2)] by simp
qed (auto dest: keepsD [OF dbs.keeps_attempts(1)] keepsD [OF dbs.keeps_attempts(2)] keepsD [OF dbs.keeps_start]
    keepsD [OF dbs.keeps_stop_execution, rotated] keepsD [OF dbs.keeps_stops(3)] keepsD [OF dbs.keeps_exit_plan])

lemma db_reachable_steps: "db_step\<^sup>*\<^sup>* db db' \<Longrightarrow> db_reachable db \<Longrightarrow> db_reachable db'"
  by (induction rule: rtranclp_induct) (auto intro: db_reachable.step)

lemma container_db_reachable: "container_reachable env s \<Longrightarrow> db_reachable (c_db s)"
  by (induction rule: container_reachable.induct)
     (auto simp: new_container_def intro: db_reachable.start db_reachable_steps container_step_db)


section \<open>Running processes\<close>

lemma record_end_ends:
  assumes "record_end env i e s = (r, s')" and "process_status (c_db s) i \<noteq> None"
  shows "ended (c_db s') i"
proof -
  have "snd (exit_result e) \<noteq> Running" by (simp add: exit_result_def split: process_end.split)
  moreover have "was_stopped db i \<longleftrightarrow> process_status db i \<in> {Some Killed, Some Completed}" for db
    by (auto simp: was_stopped_def process_status_def split: option.split)
  moreover have "c_db (snd (in_world f s)) = c_db s" for f :: "_ \<Rightarrow> (container_error + unit) \<times> _"
    using in_world_db by (metis prod.collapse)
  ultimately show ?thesis
    using assms
    by (auto simp: record_end_def and_then_def complete_process_def utc_now_run ended_def process_status_complete
        split: if_splits)
qed

lemma ended_after_record:
  assumes "and_then (record_end env i e) (\<lambda>_. m) s = (r, s')" and "keeps stays_ended m"
    and "process_status (c_db s) i \<noteq> None"
  shows "ended (c_db s') i"
proof -
  obtain u s1 where re: "record_end env i e s = (u, s1)" and rest: "(case u of Inl d \<Rightarrow> (Inl d, s1) | Inr _ \<Rightarrow> m s1) = (r, s')"
    using assms(1) by (auto simp: and_then_def split: prod.splits sum.splits)
  have "ended (c_db s1) i" by (rule record_end_ends [OF re assms(3)])
  moreover have "stays_ended s1 s'" using rest keepsD [OF assms(2)] by (cases u) auto
  ultimately show ?thesis by blast
qed

lemma exit_monitor_ends:
  "exit_monitor env i e s = (r, s') \<Longrightarrow> process_status (c_db s) i \<noteq> None \<Longrightarrow> ended (c_db s') i"
  unfolding exit_monitor_def
  by (erule ended_after_record)
     (intro ends.keeps_rules ends.keeps_after_run ends.keeps_record_after_head ends.keeps_forget)

lemma run_exit_monitor_ends:
  "run_exit_monitor env i rid e s = (r, s') \<Longrightarrow> process_status (c_db s) i \<noteq> None \<Longrightarrow> ended (c_db s') i"
  unfolding run_exit_monitor_def
  by (erule ended_after_record)
     (intro ends.keeps_rules ends.keeps_summary ends.keeps_record_after_head ends.keeps_forget)

text \<open>A monitor leaves the list of tasks, and then its process may lack one; when it has run, the process has ended.\<close>

lemma monitor_taken:
  assumes tasks: "c_tasks s = ts @ m # us" and m: "\<And>j. has_monitor [m] j \<Longrightarrow> j = i"
    and stays: "stays_monitored env (s\<lparr>c_tasks := ts @ us\<rparr>) s'"
    and ends: "process_status (c_db s) i \<noteq> None \<Longrightarrow> ended (c_db s') i"
  shows "stays_monitored env s s'"
proof -
  let ?s0 = "s\<lparr>c_tasks := ts @ us\<rparr>"
  have same: "window ?s0 s' = window s s'" "new_ids env ?s0 s' = new_ids env s s'"
    by (simp_all add: window_def new_ids_def)
  have taken: "unmonitored ?s0 j \<Longrightarrow> unmonitored s j \<or> j = i" for j
    using m [of j] tasks by (auto simp: unmonitored_def has_monitor_def)
  have "unmonitored s j" if "new_ids env s s'" "unmonitored s' j" for j
  proof -
    have u0: "unmonitored ?s0 j" using stays that same by (auto simp: stays_monitored_def)
    moreover have "j \<noteq> i"
    proof
      assume "j = i"
      with u0 have "process_status (c_db s) i \<noteq> None" by (auto simp: unmonitored_def)
      with ends that(2) \<open>j = i\<close> show False by (auto simp: unmonitored_def ended_def)
    qed
    ultimately show ?thesis using taken by blast
  qed
  then show ?thesis using stays same by (auto simp: stays_monitored_def)
qed

lemma container_step_monitored:
  assumes "container_step env s s'"
  shows "stays_monitored env s s'"
  using assms
proof cases
  case (monitor ts i us e r)
  show ?thesis
  proof (rule monitor_taken [OF monitor(1)])
    show "stays_monitored env (s\<lparr>c_tasks := ts @ us\<rparr>) s'" by (rule keepsD [OF mon.keeps_exit_monitor monitor(2)])
    show "process_status (c_db s) i \<noteq> None \<Longrightarrow> ended (c_db s') i" using exit_monitor_ends [OF monitor(2)] by simp
  qed (auto simp: has_monitor_def)
next
  case (run_monitor ts i rid us e r)
  show ?thesis
  proof (rule monitor_taken [OF run_monitor(1)])
    show "stays_monitored env (s\<lparr>c_tasks := ts @ us\<rparr>) s'" by (rule keepsD [OF mon.keeps_run_monitor run_monitor(2)])
    show "process_status (c_db s) i \<noteq> None \<Longrightarrow> ended (c_db s') i" using run_exit_monitor_ends [OF run_monitor(2)] by simp
  qed (auto simp: has_monitor_def)
next
  case (logs ts i us ms r)
  have "stays_monitored env (s\<lparr>c_tasks := ts @ us\<rparr>) s'" by (rule keepsD [OF mon.keeps_stream logs(2)])
  then show ?thesis using logs(1) by (auto simp: stays_monitored_def unmonitored_def has_monitor_def window_def new_ids_def)
next
  case (other db')
  then show ?thesis by (auto simp: stays_monitored_def unmonitored_def)
qed (auto dest: keepsD [OF mon.keeps_attempts(1)] keepsD [OF mon.keeps_attempts(2)] keepsD [OF mon.keeps_start]
    keepsD [OF mon.keeps_stop_execution, rotated] keepsD [OF mon.keeps_stops(3)] keepsD [OF mon.keeps_exit_plan])

lemma monitored_invariant:
  assumes "container_reachable env s"
  shows "session_ids (c_db s) \<subseteq> new_v4 env ` {..<c_tick s}
     \<and> (inj_on (new_v4 env) {..<c_tick s} \<longrightarrow> (\<forall>i. \<not> unmonitored s i))"
  using assms
proof (induction rule: container_reachable.induct)
  case (start w)
  show ?case
    by (simp add: new_container_def empty_database_def session_ids_def unmonitored_def process_status_def process_find_by_id_def)
next
  case (step s s')
  have st: "stays_monitored env s s'" by (rule container_step_monitored [OF step.hyps(2)])
  then have t: "c_tick s \<le> c_tick s'" by (simp add: stays_monitored_def)
  then have split: "{..<c_tick s'} = {..<c_tick s} \<union> window s s'" by (auto simp: window_def)
  have ids: "session_ids (c_db s') \<subseteq> new_v4 env ` {..<c_tick s'}"
    using st step.IH unfolding split by (auto simp: stays_monitored_def)
  have "\<not> unmonitored s' i" if inj: "inj_on (new_v4 env) {..<c_tick s'}" for i
  proof -
    have "{..<c_tick s} \<inter> window s s' = {}" by (auto simp: window_def)
    with inj have "new_v4 env ` window s s' \<inter> new_v4 env ` {..<c_tick s} = {}"
      unfolding split by (auto simp: inj_on_def)
    moreover have "inj_on (new_v4 env) {..<c_tick s}" "inj_on (new_v4 env) (window s s')"
      using inj unfolding split by (auto simp: inj_on_Un)
    ultimately show ?thesis using st step.IH by (auto simp: stays_monitored_def new_ids_def)
  qed
  with ids show ?case by blast
qed


section \<open>Properties\<close>

text \<open>
  C8: No process is forgotten: as long as the generated identifiers do not repeat, in every state
  that requests, background tasks and other components can reach, each process recorded as
  running still has the exit monitor that will record its end.
\<close>

theorem running_process_is_monitored:
  assumes "container_reachable env s" and "inj_on (new_v4 env) {..<c_tick s}"
    and "process_status (c_db s) i = Some Running"
  shows "ExitMonitor i \<in> set (c_tasks s) \<or> (\<exists>run. RunExitMonitor i run \<in> set (c_tasks s))"
  using monitored_invariant [OF assms(1)] assms(2,3) by (auto simp: unmonitored_def has_monitor_def)

text \<open>
  C9: The monitor does its job: however the process ends, after its monitor has run, even when the
  monitor panics on the way, the process is recorded as completed, failed or killed.
\<close>

theorem exit_monitor_records_end:
  assumes "exit_monitor env i e s = (r, s')" and "process_status (c_db s) i \<noteq> None"
  shows "process_status (c_db s') i \<in> {Some Completed, Some Failed, Some Killed}"
proof -
  have "ended (c_db s') i" using assms by (rule exit_monitor_ends)
  then show ?thesis by (cases "the (process_status (c_db s') i)") (auto simp: ended_def)
qed

section \<open>Starting a process\<close>

lemma spawn_tracked_Inr:
  assumes "spawn_tracked env cref missing i action m s = (Inr u, s')"
  shows "c_db s' = c_db s" "c_msg_stores s' = (c_msg_stores s)(i \<mapsto> new_msg_store)"
    "c_children s' = insert i (c_children s)" "c_tasks s' = c_tasks s @ [m]"
  using assms
  by (auto simp: spawn_tracked_def in_world_def map_err_Inr track_child_msgs_in_store_def add_child_to_store_def
      elim!: and_then_InrE split: option.splits prod.splits)

lemma spawn_tracked_Inl:
  assumes "spawn_tracked env cref missing i action m s = (Inl e, s')"
  shows "c_db s' = c_db s" "c_msg_stores s' = c_msg_stores s" "c_children s' = c_children s" "c_tasks s' = c_tasks s"
  using assms
  by (auto simp: spawn_tracked_def in_world_def map_err_run track_child_msgs_in_store_def add_child_to_store_def
      map_sum_def elim!: and_then_InlE split: option.splits prod.splits sum.splits)

lemma follow_process_run:
  "\<exists>ts. follow_process env i action dir s = (Inr (), s\<lparr>c_tasks := c_tasks s @ ts @ [StreamRawLogs i]\<rparr>)"
proof (cases "(c_msg_stores s i, request_profile (action_typ action))")
  case (Pair ms profile)
  show ?thesis
  proof (cases "\<exists>pr. ms \<noteq> None \<and> profile = Some pr \<and> get_coding_agent (profiles env) pr \<noteq> None")
    case True
    then obtain pr where "profile = Some pr" by blast
    with True Pair show ?thesis
      by (auto simp: follow_process_def and_then_def get_msg_store_by_id_def intro!: exI [of _ "[NormalizeLogs i pr dir]"])
  next
    case False
    with Pair show ?thesis
      by (auto simp: follow_process_def and_then_def get_msg_store_by_id_def intro!: exI [of _ "[]"] split: option.splits)
  qed
qed

lemma follow_process_ok: "follow_process env i action dir s \<noteq> (Inl (e :: 'e), s')"
proof
  assume "follow_process env i action dir s = (Inl e, s')"
  moreover obtain ts where "follow_process env i action dir s = (Inr () :: 'e + unit, s\<lparr>c_tasks := c_tasks s @ ts @ [StreamRawLogs i]\<rparr>)"
    using follow_process_run by blast
  ultimately show False by simp
qed

definition task_status_of :: "database \<Rightarrow> uuid \<Rightarrow> task_status option" where
  "task_status_of db i = map_option tk_status (task_find_by_id db i)"

lemma task_status_of_update:
  "task_status_of (task_update_status db i st now) j
     = (if j = i \<and> task_status_of db i \<noteq> None then Some st else task_status_of db j)"
proof -
  have "lookup tk_id j (update_where (\<lambda>t. tk_id t = i) (set_task_status st now) ts)
      = map_option (\<lambda>t. if tk_id t = i then set_task_status st now t else t) (lookup tk_id j ts)" for ts
    by (induction ts) (auto simp: set_task_status_def)
  moreover have "lookup tk_id j ts = Some t \<Longrightarrow> tk_id t = j" for ts t by (auto dest: lookup_Some)
  ultimately show ?thesis
    by (cases "lookup tk_id j (tasks db)")
       (auto simp: task_status_of_def task_update_status_def task_find_by_id_def set_task_status_def)
qed

lemma insert_session_frame:
  assumes "insert_session env aid i action s = (r, s')"
  shows "execution_processes (c_db s') = execution_processes (c_db s)" "tasks (c_db s') = tasks (c_db s)"
    "c_children s' = c_children s" "c_tasks s' = c_tasks s" "c_msg_stores s' = c_msg_stores s" "isl r \<longrightarrow> (\<exists>q. r = Inl (Sqlx q))"
  using assms
  by (auto simp: insert_session_run Let_def session_create_def split: option.splits sum.splits if_splits)

lemma insert_process_frame:
  assumes "insert_process env data commit s = (Inr p, s')"
  shows "process_find_by_id (c_db s) (ep_id p) = None" "process_find_by_id (c_db s') (ep_id p) = Some p" "tasks (c_db s') = tasks (c_db s)"
    "c_children s' = c_children s" "c_tasks s' = c_tasks s" "c_msg_stores s' = c_msg_stores s"
    "ep_status p = Running" "ep_run_reason p = ce_run_reason data" "ep_task_attempt_id p = ce_task_attempt_id data"
    "ep_executor_action p = ActionField (ce_executor_action data)"
  using assms
  by (auto simp: insert_process_run Let_def process_create_def process_find_by_id_def exists_row_def lookup_append
      split: sum.splits if_splits option.splits)

lemma append_msg_frame:
  assumes "append_msg env i m s = (r, s')"
  shows "isl r = False" "execution_processes (c_db s') = execution_processes (c_db s)" "tasks (c_db s') = tasks (c_db s)"
    "c_children s' = c_children s"
  using assms
  by (auto simp: append_msg_def and_then_def utc_now_run execute_result_def append_log_line_def upsert_logs_def map_sum_def
      split: option.splits sum.splits prod.splits if_splits)

text \<open>The states a start goes through.\<close>

lemma start_execution_InrE:
  assumes "start_execution env a action reason s = (Inr p, s')"
  obtains t s1 commit s2 s3 s4 u ts where
    "attempt_parent_task (c_db s) a = Some t"
    "(if tk_status t \<noteq> InProgress \<and> reason \<noteq> DevServer then set_status env (tk_id t) InProgress else ret ()) s = (Inr () :: container_error + unit, s1)"
    "insert_process env \<lparr> ce_task_attempt_id = Some (ta_id a), ce_execution_run_id = None, ce_executor_action = action,
        ce_run_reason = reason \<rparr> commit s1 = (Inr p, s2)"
    "insert_session env (Some (ta_id a)) (ep_id p) action s2 = (Inr (), s3)"
    "spawn_tracked env (ta_container_ref a) ''Container ref not found for task attempt'' (ep_id p) action
        (ExitMonitor (ep_id p)) s3 = (Inr u, s4)"
    "s' = s4\<lparr>c_tasks := c_tasks s4 @ ts @ [StreamRawLogs (ep_id p)]\<rparr>"
proof -
  have "\<exists>t s1 commit p' s2 s3. attempt_parent_task (c_db s) a = Some t
    \<and> (if tk_status t \<noteq> InProgress \<and> reason \<noteq> DevServer then set_status env (tk_id t) InProgress else ret ()) s = (Inr () :: container_error + unit, s1)
    \<and> insert_process env \<lparr> ce_task_attempt_id = Some (ta_id a), ce_execution_run_id = None, ce_executor_action = action,
        ce_run_reason = reason \<rparr> commit s1 = (Inr p', s2)
    \<and> insert_session env (Some (ta_id a)) (ep_id p') action s2 = (Inr (), s3)
    \<and> (case fst (start_execution_inner env a p' action s3) of
         Inl e \<Rightarrow> and_then (complete_process env (ep_id p') Failed None) (\<lambda>_. report_start_failure env t p' e)
       | Inr _ \<Rightarrow> and_then (follow_process env (ep_id p') action (task_attempt_to_current_dir a)) (\<lambda>_. ret p'))
        (snd (start_execution_inner env a p' action s3)) = (Inr p, s')"
    using assms unfolding start_execution_def head_of_container_def
    by (elim and_then_InrE) (clarsimp simp: found_Inr, intro exI conjI, assumption+)
  then obtain t s1 commit p' s2 s3 where
    1: "attempt_parent_task (c_db s) a = Some t"
    "(if tk_status t \<noteq> InProgress \<and> reason \<noteq> DevServer then set_status env (tk_id t) InProgress else ret ()) s = (Inr () :: container_error + unit, s1)"
    "insert_process env \<lparr> ce_task_attempt_id = Some (ta_id a), ce_execution_run_id = None, ce_executor_action = action,
        ce_run_reason = reason \<rparr> commit s1 = (Inr p', s2)"
    "insert_session env (Some (ta_id a)) (ep_id p') action s2 = (Inr (), s3)"
    and rest: "(case fst (start_execution_inner env a p' action s3) of
         Inl e \<Rightarrow> and_then (complete_process env (ep_id p') Failed None) (\<lambda>_. report_start_failure env t p' e)
       | Inr _ \<Rightarrow> and_then (follow_process env (ep_id p') action (task_attempt_to_current_dir a)) (\<lambda>_. ret p'))
        (snd (start_execution_inner env a p' action s3)) = (Inr p, s')"
    by blast
  obtain r s4 where r: "start_execution_inner env a p' action s3 = (r, s4)" by force
  show thesis
  proof (cases r)
    case (Inl e)
    with rest r have False by (auto simp: report_start_failure_def elim!: and_then_InrE)
    then show thesis ..
  next
    case (Inr u)
    obtain ts where "follow_process env (ep_id p') action (task_attempt_to_current_dir a) s4
        = (Inr () :: container_error + unit, s4\<lparr>c_tasks := c_tasks s4 @ ts @ [StreamRawLogs (ep_id p')]\<rparr>)"
      using follow_process_run by blast
    with rest r Inr have p: "p' = p" and s': "s' = s4\<lparr>c_tasks := c_tasks s4 @ ts @ [StreamRawLogs (ep_id p')]\<rparr>"
      by (auto simp: and_then_def)
    show thesis using that [OF 1 [unfolded p] r [unfolded Inr start_execution_inner_def p] s' [unfolded p]] .
  qed
qed

lemma set_status_frame:
  assumes "set_status env i st s = (r, s')"
  shows "execution_processes (c_db s') = execution_processes (c_db s)" "c_children s' = c_children s"
    "task_status_of (c_db s') j = (if j = i \<and> task_status_of (c_db s) i \<noteq> None then Some st else task_status_of (c_db s) j)"
  using assms
  by (auto simp: set_status_def and_then_def utc_now_run task_status_of_update) (auto simp: task_update_status_def)

lemma parent_task_status:
  "attempt_parent_task db a = Some t \<Longrightarrow> tk_id t = ta_task_id a \<and> task_status_of db (ta_task_id a) = Some (tk_status t)"
  by (auto simp: attempt_parent_task_def task_find_by_id_def task_status_of_def dest: lookup_Some)

lemma mark_in_progress:
  assumes "attempt_parent_task (c_db s) a = Some t"
    and "(if tk_status t \<noteq> InProgress \<and> reason \<noteq> DevServer then set_status env (tk_id t) InProgress else ret ()) s
           = (r :: container_error + unit, s1)"
  shows "execution_processes (c_db s1) = execution_processes (c_db s)" "c_children s1 = c_children s"
    "task_status_of (c_db s1) (ta_task_id a) = Some (if reason \<noteq> DevServer then InProgress else tk_status t)"
  using parent_task_status [OF assms(1)] assms(2) set_status_frame [of env "tk_id t" InProgress s r s1]
  by (auto split: if_splits)

lemma start_execution_effect:
  assumes "start_execution env a action reason s = (Inr p, s')"
  shows "process_status (c_db s) (ep_id p) = None \<and> process_find_by_id (c_db s') (ep_id p) = Some p
     \<and> ep_status p = Running \<and> ep_run_reason p = reason \<and> ep_task_attempt_id p = Some (ta_id a)
     \<and> ep_executor_action p = ActionField action
     \<and> ep_id p \<in> c_children s' \<and> c_msg_stores s' (ep_id p) = Some new_msg_store
     \<and> {ExitMonitor (ep_id p), StreamRawLogs (ep_id p)} \<subseteq> set (c_tasks s')
     \<and> (reason \<noteq> DevServer \<longrightarrow> task_status_of (c_db s') (ta_task_id a) = Some InProgress)"
proof -
  from start_execution_InrE [OF assms] obtain t s1 commit s2 s3 s4 u ts where
    t: "attempt_parent_task (c_db s) a = Some t"
    and s1: "(if tk_status t \<noteq> InProgress \<and> reason \<noteq> DevServer then set_status env (tk_id t) InProgress else ret ()) s = (Inr () :: container_error + unit, s1)"
    and ins: "insert_process env \<lparr> ce_task_attempt_id = Some (ta_id a), ce_execution_run_id = None, ce_executor_action = action,
        ce_run_reason = reason \<rparr> commit s1 = (Inr p, s2)"
    and ses: "insert_session env (Some (ta_id a)) (ep_id p) action s2 = (Inr (), s3)"
    and sp: "spawn_tracked env (ta_container_ref a) ''Container ref not found for task attempt'' (ep_id p) action
        (ExitMonitor (ep_id p)) s3 = (Inr u, s4)"
    and s': "s' = s4\<lparr>c_tasks := c_tasks s4 @ ts @ [StreamRawLogs (ep_id p)]\<rparr>" .
  note f = mark_in_progress [OF t s1] insert_process_frame [OF ins] insert_session_frame [OF ses] spawn_tracked_Inr [OF sp]
  show ?thesis using f by (auto simp: s' process_status_def process_find_by_id_def task_status_of_def task_find_by_id_def)
qed

text \<open>
  C10: A started process is complete: on success a new process row is recorded as running for the
  attempt with its action and reason, its child handle and message store exist, its exit monitor
  and log writer are spawned, and the task is in progress (unless it is a dev server).
\<close>

theorem start_execution_started:
  assumes "start_execution env a action reason s = (Inr p, s')"
  shows "process_status (c_db s) (ep_id p) = None \<and> process_find_by_id (c_db s') (ep_id p) = Some p
     \<and> ep_status p = Running \<and> ep_run_reason p = reason \<and> ep_task_attempt_id p = Some (ta_id a)
     \<and> ep_executor_action p = ActionField action
     \<and> ep_id p \<in> c_children s' \<and> c_msg_stores s' (ep_id p) = Some new_msg_store
     \<and> {ExitMonitor (ep_id p), StreamRawLogs (ep_id p)} \<subseteq> set (c_tasks s')
     \<and> (reason \<noteq> DevServer \<longrightarrow> task_status_of (c_db s') (ta_task_id a) = Some InProgress)"
  using assms by (rule start_execution_effect)

lemma report_start_failure_frame:
  assumes "report_start_failure env t p e s = (r, s')"
  shows "execution_processes (c_db s') = execution_processes (c_db s)" "c_children s' = c_children s"
    "task_status_of (c_db s) (tk_id t) \<noteq> None \<Longrightarrow> task_status_of (c_db s') (tk_id t) = Some InReview"
proof -
  obtain r1 s1 where 1: "set_status env (tk_id t) InReview s = (r1 :: container_error + unit, s1)" by force
  obtain r2 s2 where 2: "append_msg env (ep_id p) (Stderr (''Failed to start execution: '' @ show_error env e)) s1
      = (r2 :: container_error + unit, s2)" by force
  obtain r3 s3 where 3: "(case e of
      ExecutorError (ExecutableNotFound program) \<Rightarrow>
        append_msg env (ep_id p) (JsonPatch (add_normalized_entry 2 (start_failure_entry program)))
    | _ \<Rightarrow> ret ()) s2 = (r3 :: container_error + unit, s3)" by force
  have 4: "isl r3 = False \<and> execution_processes (c_db s3) = execution_processes (c_db s2) \<and> tasks (c_db s3) = tasks (c_db s2)
      \<and> c_children s3 = c_children s2"
    using 3 by (auto dest: append_msg_frame split: container_error.splits executor_error.splits)
  have "isl r1 = False" using 1 by (auto simp: set_status_def and_then_def utc_now_run)
  then have "s' = s3"
    using assms 1 2 3 4 append_msg_frame(1) [OF 2] unfolding report_start_failure_def
    by (cases r1; cases r2; cases r3) (simp_all add: and_then_def)
  with 4 append_msg_frame(2-4) [OF 2] set_status_frame [OF 1]
  show "execution_processes (c_db s') = execution_processes (c_db s)" "c_children s' = c_children s"
    "task_status_of (c_db s) (tk_id t) \<noteq> None \<Longrightarrow> task_status_of (c_db s') (tk_id t) = Some InReview"
    by (auto simp: task_status_of_def task_find_by_id_def)
qed

lemma start_failure_tail:
  assumes "(case fst (start_execution_inner env a p action s) of
         Inl e \<Rightarrow> and_then (complete_process env (ep_id p) Failed None) (\<lambda>_. report_start_failure env t p e)
       | Inr _ \<Rightarrow> and_then (follow_process env (ep_id p) action dir) (\<lambda>_. ret p))
        (snd (start_execution_inner env a p action s)) = (Inl e, s')"
    and "process_status (c_db s) (ep_id p) \<noteq> None" and "task_status_of (c_db s) (tk_id t) \<noteq> None"
  shows "c_children s' = c_children s" "process_status (c_db s') (ep_id p) = Some Failed"
    "task_status_of (c_db s') (tk_id t) = Some InReview"
proof -
  obtain r s1 where r: "start_execution_inner env a p action s = (r, s1)" by force
  show "c_children s' = c_children s" "process_status (c_db s') (ep_id p) = Some Failed"
    "task_status_of (c_db s') (tk_id t) = Some InReview"
  proof (atomize (full), cases r)
    case (Inr u)
    with assms(1) r follow_process_ok
    show "c_children s' = c_children s \<and> process_status (c_db s') (ep_id p) = Some Failed
      \<and> task_status_of (c_db s') (tk_id t) = Some InReview" by (fastforce elim!: and_then_InlE)
  next
    case (Inl e1)
    note f = spawn_tracked_Inl [OF r [unfolded start_execution_inner_def Inl]]
    let ?s2 = "s1\<lparr>c_tick := Suc (c_tick s1), c_db := update_completion (c_db s1) (ep_id p) Failed None (clock env (c_tick s1))\<rparr>"
    have rep: "report_start_failure env t p e1 ?s2 = (Inl e :: container_error + execution_process, s')"
      using assms(1) r Inl by (simp add: complete_process_def and_then_def utc_now_run)
    have "tasks (c_db ?s2) = tasks (c_db s)" "process_status (c_db ?s2) (ep_id p) = Some Failed"
      using f assms(2) by (simp_all add: process_status_complete) (simp add: update_completion_def update_processes_def)
    with report_start_failure_frame [OF rep] f assms(3)
    show "c_children s' = c_children s \<and> process_status (c_db s') (ep_id p) = Some Failed
      \<and> task_status_of (c_db s') (tk_id t) = Some InReview"
      by (simp add: process_status_def process_find_by_id_def task_status_of_def task_find_by_id_def)
  qed
qed

lemma insert_process_refused:
  "insert_process env data commit s = (Inl e, s') \<Longrightarrow> c_children s' = c_children s \<and> (\<exists>q. e = Sqlx q)"
  by (auto simp: insert_process_run Let_def split: sum.splits)

text \<open>
  C11: A failed start leaves no trace of running: when a process cannot be started, either the
  database refused a row, or a new process is recorded as failed and the task is in review; in both cases no
  child handle is added.
\<close>

theorem start_execution_failed:
  assumes "start_execution env a action reason s = (Inl e, s')"
  shows "c_children s' = c_children s \<and>
    ((\<exists>q. e = Sqlx q)
     \<or> (\<exists>i. process_status (c_db s) i = None \<and> process_status (c_db s') i = Some Failed
          \<and> task_status_of (c_db s') (ta_task_id a) = Some InReview))"
  using assms unfolding start_execution_def head_of_container_def
proof (elim and_then_InlE, goal_cases)
  case 1
  then show ?case by (simp add: found_Inl)
next
  case (2 t s0)
  then show ?case by (auto simp: set_status_def and_then_def utc_now_run split: if_splits)
next
  case (4 t s0 u s1 commit s1')
  then have "attempt_parent_task (c_db s) a = Some t" "s0 = s" "s1' = s1" by (simp_all add: found_Inr)
  with 4 mark_in_progress(2) [of s a t reason env "Inr u" s1] insert_process_refused show ?case by fastforce
next
  case (5 t s0 u s1 commit s1' p s2)
  then have "attempt_parent_task (c_db s) a = Some t" "s0 = s" "s1' = s1" by (simp_all add: found_Inr)
  with 5 mark_in_progress(2) [of s a t reason env "Inr u" s1] insert_process_frame(4) [of env _ commit s1 p s2]
    insert_session_frame(3,6) show ?case by fastforce
next
  case (7 t s0 u s1 commit s1' p s2 v s3 r s3')
  then have t: "attempt_parent_task (c_db s) a = Some t" "s0 = s" "s1' = s1" by (simp_all add: found_Inr)
  note f = mark_in_progress [OF t(1), of reason env "Inr u" s1] parent_task_status [OF t(1)]
    insert_process_frame [OF 7(4)] insert_session_frame [OF 7(5)]
  have known: "process_status (c_db s3) (ep_id p) \<noteq> None" "task_status_of (c_db s3) (tk_id t) \<noteq> None"
    "process_status (c_db s) (ep_id p) = None" "c_children s3 = c_children s"
    using f 7(2) t by (auto simp: process_status_def process_find_by_id_def task_status_of_def task_find_by_id_def)
  have "r = fst (start_execution_inner env a p action s3)" "s3' = snd (start_execution_inner env a p action s3)"
    using 7(6) by auto
  with 7(7) start_failure_tail [OF _ known(1,2)] have
    "c_children s' = c_children s3 \<and> process_status (c_db s') (ep_id p) = Some Failed
     \<and> task_status_of (c_db s') (tk_id t) = Some InReview" by blast
  with known(3,4) f show ?case by auto
qed simp_all


section \<open>A run of the service\<close>

text \<open>A project, a task and an attempt are created; then the setup script of the attempt is started.\<close>

definition sample_script :: executor_action where
  "sample_script = ExecutorAction (ScriptRequest \<lparr> script = ''make'', sr_language = Bash, sr_context = SetupScriptContext \<rparr>) None"

definition sample_idle :: "string list container" where
  "sample_idle = (new_container [])\<lparr>c_db := sample_database\<rparr>"

definition sample_running :: "string list container" where
  "sample_running = snd (start_execution sample_env sample_attempt sample_script SetupScript sample_idle)"

lemma idle_step:
  assumes "container_reachable env ((new_container w)\<lparr>c_db := db\<rparr>)" and "db_step db db'"
    and "execution_processes db' = []" "executor_sessions db' = []"
  shows "container_reachable env ((new_container w)\<lparr>c_db := db'\<rparr>)"
  using container_reachable.step [OF assms(1) container_step.other [where db' = db']] assms(2-4)
  by (simp add: session_ids_def process_status_def process_find_by_id_def)

lemma sample_idle_reachable: "container_reachable sample_env sample_idle"
proof -
  let ?db1 = "empty_database\<lparr>projects := [sample_project]\<rparr>"
  let ?db2 = "empty_database\<lparr>projects := [sample_project], tasks := [sample_task]\<rparr>"
  let ?a = "sample_attempt\<lparr>ta_container_ref := None\<rparr>"
  let ?db3 = "empty_database\<lparr>projects := [sample_project], tasks := [sample_task], task_attempts := [?a]\<rparr>"
  have "project_create empty_database
      \<lparr> cp_name = ''p'', cp_git_repo_path = ''/r'', cp_use_existing_repo = True, cp_setup_script = None, cp_dev_script = None,
        cp_cleanup_script = None, cp_copy_files = None, cp_commit_prompt = None \<rparr> 1 0 = Inr (sample_project, ?db1)"
    by (simp add: project_create_def Let_def sample_project_def exists_row_def empty_database_def)
  then have 1: "db_step empty_database ?db1" by (rule db_step.project_create)
  have "task_create_with_status ?db1 (from_title_description 1 ''t'' None) 2 Todo 0 = Inr (sample_task, ?db2)"
    by (simp add: task_create_with_status_def Let_def from_title_description_def sample_task_def sample_project_def
        exists_row_def ref_ok_def empty_database_def)
  then have 2: "db_step ?db1 ?db2" by (rule db_step.task_create)
  have "attempt_create ?db2 \<lparr> ca_executor = Amp, ca_base_branch = ''main'', ca_branch = ''b'' \<rparr> 3 2 0 = Inr (?a, ?db3)"
    by (simp add: attempt_create_def Let_def sample_attempt_def sample_task_def exists_row_def empty_database_def)
  then have 3: "db_step ?db2 ?db3" by (rule db_step.attempt_create)
  have "attempt_update_container_ref ?db3 3 ''/w'' 0 = sample_database"
    by (simp add: attempt_update_container_ref_def set_container_ref_def sample_database_def sample_attempt_def)
  then have 4: "db_step ?db3 sample_database" by (metis db_step.attempt_container_ref)
  have "container_reachable sample_env ((new_container [])\<lparr>c_db := empty_database\<rparr>)"
    using container_reachable.start [of sample_env "[]"] by (simp add: new_container_def)
  from idle_step [OF idle_step [OF idle_step [OF idle_step [OF this 1] 2] 3] 4]
  show ?thesis by (simp add: sample_idle_def sample_database_def empty_database_def)
qed

lemma sample_start:
  "attempt_parent_task sample_database sample_attempt = Some sample_task" "c_db sample_idle = sample_database"
  "c_tick sample_idle = 0" "c_tasks sample_idle = []" "c_children sample_idle = {}"
  by (simp_all add: attempt_parent_task_def task_find_by_id_def sample_defs sample_idle_def new_container_def)

lemma sample_started: "\<exists>p. start_execution sample_env sample_attempt sample_script SetupScript sample_idle = (Inr p, sample_running)
    \<and> ep_id p = 1 \<and> c_tick sample_running = 3"
proof -
  let ?s = "sample_idle\<lparr>c_tick := 1, c_db := task_update_status sample_database 2 InProgress 0\<rparr>"
  have 1: "set_status sample_env 2 InProgress sample_idle = (Inr () :: container_error + unit, ?s)"
    by (simp add: set_status_def and_then_def utc_now_run sample_start)
  let ?data = "\<lparr> ce_task_attempt_id = Some 3, ce_execution_run_id = None, ce_executor_action = sample_script, ce_run_reason = SetupScript \<rparr>"
  have "\<exists>p db'. process_create (task_update_status sample_database 2 InProgress 0) ?data 1 (Some ''abc'') 2 = Inr (p, db') \<and> ep_id p = 1"
    by (simp add: process_create_def Let_def sample_database_def task_update_status_def empty_database_def ref_ok_def
        exists_row_def sample_attempt_def)
  then obtain p db' where 2: "insert_process sample_env ?data (Some ''abc'') ?s = (Inr p, ?s\<lparr>c_tick := 3, c_db := db'\<rparr>)" "ep_id p = 1"
    by (auto simp: insert_process_run Let_def numeral_3_eq_3)
  have p3: "request_prompt (action_typ sample_script) = None" "request_profile (action_typ sample_script) = None"
    by (simp_all add: sample_script_def request_prompt_def request_profile_def)
  have a: "ta_container_ref sample_attempt = Some ''/w''" "ta_id sample_attempt = 3" "tk_status sample_task = Todo" "tk_id sample_task = 2"
    by (simp_all add: sample_attempt_def sample_task_def)
  let ?r = "start_execution sample_env sample_attempt sample_script SetupScript sample_idle"
  have "\<exists>s'. ?r = (Inr p, s') \<and> c_tick s' = 3"
    unfolding start_execution_def
    by (simp add: found_run sample_start a 1 head_of_container_def 2(1) p3
        insert_session_def start_execution_inner_def spawn_tracked_def and_then_def map_err_run in_world_def
        track_child_msgs_in_store_def add_child_to_store_def follow_process_def get_msg_store_by_id_def
        del: One_nat_def)
  with 2(2) show ?thesis unfolding sample_running_def by auto
qed

lemma sample_running_reachable: "container_reachable sample_env sample_running"
  using sample_started by (blast intro: container_reachable.step sample_idle_reachable container_step.execution)

lemma sample_running_status: "process_status (c_db sample_running) 1 = Some Running"
proof -
  obtain p where "start_execution sample_env sample_attempt sample_script SetupScript sample_idle = (Inr p, sample_running)"
    "ep_id p = 1" using sample_started by blast
  with start_execution_effect [OF this(1)] show ?thesis by (simp add: process_status_def)
qed

theorem running_process_is_monitored_witness:
  "process_status (c_db sample_running) 1 = Some Running
   \<and> (ExitMonitor 1 \<in> set (c_tasks sample_running) \<or> (\<exists>run. RunExitMonitor 1 run \<in> set (c_tasks sample_running)))"
proof -
  have "inj_on (new_v4 sample_env) {..<c_tick sample_running}"
    using sample_started by (auto simp: numeral_3_eq_3 lessThan_Suc)
  with running_process_is_monitored [OF sample_running_reachable _ sample_running_status] sample_running_status
  show ?thesis by blast
qed

theorem exit_monitor_records_end_witness:
  "process_status (c_db (snd (exit_monitor sample_env 1 (Exited None) sample_running))) 1 \<in> {Some Completed, Some Failed, Some Killed}"
  by (rule exit_monitor_records_end [of sample_env 1 "Exited None" sample_running "fst (exit_monitor sample_env 1 (Exited None) sample_running)"])
     (simp_all add: sample_running_status)

theorem start_execution_started_witness:
  "\<exists>p. start_execution sample_env sample_attempt sample_script SetupScript sample_idle = (Inr p, sample_running)
     \<and> ep_id p \<in> c_children sample_running \<and> task_status_of (c_db sample_running) 2 = Some InProgress"
proof -
  obtain p where "start_execution sample_env sample_attempt sample_script SetupScript sample_idle = (Inr p, sample_running)"
    using sample_started by blast
  with start_execution_started [OF this] show ?thesis by (auto simp: sample_attempt_def)
qed

text \<open>An attempt without a container cannot be started.\<close>

theorem start_execution_failed_witness:
  "\<exists>e s'. start_execution sample_env (sample_attempt\<lparr>ta_container_ref := None\<rparr>) sample_script SetupScript sample_idle = (Inl e, s')
     \<and> c_children s' = {}"
proof -
  let ?a = "sample_attempt\<lparr>ta_container_ref := None\<rparr>"
  obtain r s' where r: "start_execution sample_env ?a sample_script SetupScript sample_idle = (r, s')" by force
  have "isl r"
  proof (cases r)
    case (Inr p)
    from start_execution_InrE [OF r [unfolded Inr]] show ?thesis by (auto simp: spawn_tracked_def)
  qed simp
  then obtain e where "r = Inl e" by (cases r) auto
  with r start_execution_failed [of sample_env ?a sample_script SetupScript sample_idle e s'] show ?thesis
    by (auto simp: sample_start)
qed

end
