(* ===== verification/Container_Failures.thy ===== *)
theory Container_Failures
  imports Container_System
begin

text \<open>
  What the exit monitor of \<^verbatim>\<open>local-deployment/src/container.rs\<close> does with the task of a process that
  failed although a further action is planned after it.
\<close>

section \<open>A step that fails before the last one\<close>

lemma load_context_complete:
  assumes "process_load_context db i = Inr ctx"
  shows "process_load_context (update_completion db i st code now) i
    = Inr (ctx\<lparr>ctx_execution_process := set_completion st code (if st = Running then None else Some now) (ctx_execution_process ctx)\<rparr>)"
proof -
  let ?db = "update_completion db i st code now"
  obtain p aid a t where p: "process_find_by_id db i = Some p" "ep_task_attempt_id p = Some aid" "attempt_find_by_id db aid = Some a"
    "task_find_by_id db (ta_task_id a) = Some t"
    and ctx: "ctx = \<lparr> ctx_execution_process = p, ctx_task_attempt = a, ctx_task = t \<rparr>"
    using assms by (auto simp: process_load_context_def bind_result_def split: sum.splits)
  have w: "set_completion st code at \<in> process_writes" for at by (auto simp: process_writes_def)
  have i: "ep_id p = i" using p(1) by (auto simp: process_find_by_id_def dest: lookup_Some)
  have "process_find_by_id ?db i = Some (set_completion st code (if st = Running then None else Some now) p)"
    using p(1) i by (simp add: update_completion_def process_find_update [OF w])
  moreover have "attempt_find_by_id ?db = attempt_find_by_id db" "task_find_by_id ?db = task_find_by_id db"
    by (simp_all add: fun_eq_iff update_completion_def update_processes_def attempt_find_by_id_def task_find_by_id_def)
  ultimately show ?thesis using p ctx by (simp add: process_load_context_def set_completion_def)
qed

lemma load_context_id: "process_load_context db i = Inr ctx \<Longrightarrow> ep_id (ctx_execution_process ctx) = i"
  by (auto simp: process_load_context_def bind_result_def process_find_by_id_def dest: lookup_Some split: sum.splits)

lemma summary_frame:
  assumes "update_executor_session_summary env i s = (r, s')"
  shows "tasks (c_db s') = tasks (c_db s)" "c_tasks s' = c_tasks s" "isl r = False"
  using assms
  by (auto simp: update_executor_session_summary_def and_then_def utc_now_run update_summary_def update_sessions_def
      split: option.splits if_splits)

lemma after_head_frame:
  assumes "record_after_head env i dir s = (r, s')"
  shows "tasks (c_db s') = tasks (c_db s)" "c_tasks s' = c_tasks s" "isl r = False"
  using assms
  by (auto simp: record_after_head_def and_then_def update_after_head_commit_def update_processes_def split: option.splits)

definition failing_end :: "process_end \<Rightarrow> bool" where
  "failing_end e \<longleftrightarrow> snd (exit_result e) = Failed"

lemma record_failed_end:
  assumes "failing_end e" and "process_load_context (c_db s) i = Inr ctx" and "ep_status (ctx_execution_process ctx) = Running"
  shows "record_end env i e s = (Inr (), s\<lparr>c_tick := Suc (c_tick s),
      c_db := update_completion (c_db s) i Failed (fst (exit_result e)) (clock env (c_tick s))\<rparr>)"
proof -
  have "\<not> was_stopped (c_db s) i"
    using assms(2,3) by (auto simp: was_stopped_def process_load_context_def bind_result_def split: sum.splits)
  moreover have "e \<noteq> Signalled" using assms(1) by (auto simp: failing_end_def exit_result_def)
  ultimately show ?thesis
    using assms(1) by (simp add: record_end_def and_then_def complete_process_def utc_now_run failing_end_def)
qed

text \<open>
  C12: A task whose setup script or coding agent fails is never finished: when a further action is
  planned after the process that failed, its exit monitor neither starts that action nor moves the task
  out of its state, so the task stays in progress with nothing running.
\<close>

theorem failed_step_is_not_finalized:
  fixes env :: "('a, 'w) container_env" and s :: "'w container"
  assumes "exit_monitor env i e s = (r, s')" and "failing_end e"
    and "process_load_context (c_db s) i = Inr ctx" and "ep_status (ctx_execution_process ctx) = Running"
    and "ep_run_reason (ctx_execution_process ctx) \<noteq> CleanupScript"
    and "ep_executor_action (ctx_execution_process ctx) = ActionField action" and "next_action action \<noteq> None"
  shows "tasks (c_db s') = tasks (c_db s) \<and> c_tasks s' = c_tasks s \<and> ended (c_db s') i"
proof -
  define s1 where "s1 = s\<lparr>c_tick := Suc (c_tick s),
      c_db := update_completion (c_db s) i Failed (fst (exit_result e)) (clock env (c_tick s))\<rparr>"
  define ctx1 where "ctx1 = ctx\<lparr>ctx_execution_process :=
      set_completion Failed (fst (exit_result e)) (Some (clock env (c_tick s))) (ctx_execution_process ctx)\<rparr>"
  have load: "process_load_context (c_db s1) i = Inr ctx1"
    using load_context_complete [OF assms(3)] by (simp add: s1_def ctx1_def)
  obtain r2 s2 where sum: "update_executor_session_summary env i s1 = (r2 :: unit + unit, s2)" by force
  have run: "after_run env ctx1 (fst (exit_result e)) s1 = (Inr (), s2)"
  proof -
    have "\<not> run_succeeded ctx1 (fst (exit_result e))" "\<not> cleanup_done ctx1" "should_finalize ctx1 = Some False"
      "ep_id (ctx_execution_process ctx1) = i"
      using assms(5-7) load_context_id [OF load]
      by (simp_all add: run_succeeded_def cleanup_done_def should_finalize_def process_executor_action_def ctx1_def set_completion_def)
    moreover have "r2 = Inr ()" using summary_frame(3) [OF sum] by (cases r2) auto
    ultimately show ?thesis using sum by (simp add: after_run_def and_then_def)
  qed
  define m :: "('w container, unit, unit) act" where "m = (case process_load_context (c_db s2) i of
      Inl _ \<Rightarrow> ret () | Inr c \<Rightarrow> record_after_head env i (task_attempt_to_current_dir (ctx_task_attempt c)))"
  obtain r3 s3 where m: "m s2 = (r3, s3)" by force
  have f3: "tasks (c_db s3) = tasks (c_db s2)" "c_tasks s3 = c_tasks s2" "isl r3 = False"
    using m unfolding m_def by (auto dest: after_head_frame split: sum.splits)
  have "exit_monitor env i e s = and_then m (\<lambda>_. forget_process i) s2"
    using load run unfolding s1_def
    by (simp add: exit_monitor_def and_then_def m_def record_failed_end [OF assms(2-4)])
  also have "\<dots> = forget_process i s3" using m f3(3) by (cases r3) (auto simp: and_then_def)
  finally have "forget_process i s3 = (r, s')" using assms(1) by simp
  then have "tasks (c_db s') = tasks (c_db s3)" "c_tasks s' = c_tasks s3"
    by (auto simp: forget_process_def remove_msg_store_def remove_child_from_store_def and_then_def)
  moreover have "tasks (c_db s1) = tasks (c_db s)" by (simp add: s1_def update_completion_def update_processes_def)
  moreover have "ended (c_db s') i"
    using exit_monitor_ends [OF assms(1)] assms(3)
    by (auto simp: process_status_def process_load_context_def bind_result_def split: sum.splits)
  ultimately show ?thesis using f3 summary_frame [OF sum] by (simp add: s1_def)
qed

definition sample_build :: executor_action where
  "sample_build = ExecutorAction (ScriptRequest \<lparr> script = ''make'', sr_language = Bash, sr_context = SetupScriptContext \<rparr>) (Some sample_script)"

definition sample_failing :: "string list container" where
  "sample_failing = sample_idle\<lparr>c_db := sample_database\<lparr>execution_processes :=
     [sample_process\<lparr>ep_run_reason := SetupScript, ep_executor_action := ActionField sample_build\<rparr>]\<rparr>\<rparr>"

theorem failed_step_is_not_finalized_witness:
  "tasks (c_db (snd (exit_monitor sample_env 7 (Exited (Some 1)) sample_failing))) = [sample_task]
   \<and> c_tasks (snd (exit_monitor sample_env 7 (Exited (Some 1)) sample_failing)) = []"
proof -
  let ?p = "sample_process\<lparr>ep_run_reason := SetupScript, ep_executor_action := ActionField sample_build\<rparr>"
  have ctx: "process_load_context (c_db sample_failing) 7
    = Inr \<lparr> ctx_execution_process = ?p, ctx_task_attempt = sample_attempt, ctx_task = sample_task \<rparr>"
    by (simp add: sample_failing_def process_load_context_def bind_result_def process_find_by_id_def attempt_find_by_id_def
        task_find_by_id_def sample_defs)
  have "failing_end (Exited (Some 1))" by (simp add: failing_end_def exit_result_def)
  then have "tasks (c_db (snd (exit_monitor sample_env 7 (Exited (Some 1)) sample_failing))) = tasks (c_db sample_failing)
    \<and> c_tasks (snd (exit_monitor sample_env 7 (Exited (Some 1)) sample_failing)) = c_tasks sample_failing
    \<and> ended (c_db (snd (exit_monitor sample_env 7 (Exited (Some 1)) sample_failing))) 7"
    by (rule failed_step_is_not_finalized [where action = sample_build, OF surjective_pairing _ ctx])
       (simp_all add: sample_process_def sample_build_def)
  then show ?thesis by (simp add: sample_failing_def sample_idle_def new_container_def sample_database_def)
qed

end
