(* ===== verification/Drafts_Service.thy ===== *)
theory Drafts_Service
  imports Container_Service
begin

text \<open>
  The drafts service, \<^verbatim>\<open>crates/services/src/services/drafts.rs\<close>: editing the follow-up and retry
  drafts of an attempt, queueing a follow-up and starting it.

  A save first reads the draft and compares the version the editor holds with the stored one, and
  writes in later statements; \<open>check_follow_up_draft\<close> and \<open>write_follow_up_draft\<close> are these two
  halves, so that another request can run between them.
\<close>

section \<open>Requests and responses\<close>

datatype drafts_service_error =
    DS_Database sqlx_error
  | DS_Container container_error
  | DS_Image image_error
  | DS_ExecutionProcess execution_process_error
  | DS_Conflict string

record draft_response =
  rs_task_attempt_id :: uuid
  rs_draft_type :: draft_type
  rs_retry_process_id :: "uuid option"
  rs_prompt :: string
  rs_queued :: bool
  rs_variant :: "string option"
  rs_image_ids :: "uuid list option"
  rs_version :: int

record update_follow_up_draft_request =
  uf_prompt :: "string option"
  uf_variant :: "string option option"
  uf_image_ids :: "uuid list option"
  uf_version :: "int option"

record update_retry_follow_up_draft_request =
  ur_retry_process_id :: uuid
  ur_prompt :: "string option"
  ur_variant :: "string option option"
  ur_image_ids :: "uuid list option"
  ur_version :: "int option"

record set_queue_request =
  sq_queued :: bool
  sq_expected_queued :: "bool option"
  sq_expected_version :: "int option"

type_synonym ('w, 'r) dact = "('w container, drafts_service_error, 'r) act"

definition draft_to_response :: "draft \<Rightarrow> draft_response" where
  "draft_to_response d =
     \<lparr> rs_task_attempt_id = dr_task_attempt_id d, rs_draft_type = dr_draft_type d,
       rs_retry_process_id = dr_retry_process_id d, rs_prompt = dr_prompt d, rs_queued = dr_queued d,
       rs_variant = dr_variant d, rs_image_ids = dr_image_ids d, rs_version = dr_version d \<rparr>"

definition no_draft_response :: "uuid \<Rightarrow> draft_type \<Rightarrow> draft_response" where
  "no_draft_response attempt_id ty =
     \<lparr> rs_task_attempt_id = attempt_id, rs_draft_type = ty, rs_retry_process_id = None, rs_prompt = [],
       rs_queued = False, rs_variant = None, rs_image_ids = None, rs_version = 0 \<rparr>"


section \<open>Reading and creating drafts\<close>

definition upsert_statement :: "('a, 'w) container_env \<Rightarrow> upsert_draft \<Rightarrow> ('w, draft) dact" where
  "upsert_statement env data =
     and_then (uuid_v4 env) (\<lambda>i.
     and_then (utc_now env) (\<lambda>now.
       map_err DS_Database (execute_result (\<lambda>db. draft_upsert db data i now))))"

definition found_draft :: "uuid \<Rightarrow> draft_type \<Rightarrow> ('w, draft) dact" where
  "found_draft attempt_id ty =
     and_then (gets (\<lambda>s. draft_find (c_db s) attempt_id ty)) (\<lambda>d. of_result DS_Database (ok_or RowNotFound d))"

definition ensure_follow_up_draft_row :: "('a, 'w) container_env \<Rightarrow> uuid \<Rightarrow> ('w, draft) dact" where
  "ensure_follow_up_draft_row env attempt_id =
     and_then (gets (\<lambda>s. draft_find (c_db s) attempt_id FollowUp)) (\<lambda>existing.
       case existing of
         Some d \<Rightarrow> ret d
       | None \<Rightarrow>
           and_then (upsert_statement env
             \<lparr> ud_task_attempt_id = attempt_id, ud_draft_type = FollowUp, ud_retry_process_id = None,
               ud_prompt = [], ud_queued = False, ud_variant = None, ud_image_ids = None \<rparr>) (\<lambda>_.
             found_draft attempt_id FollowUp))"

definition associate_images_for_task_if_any ::
  "('a, 'w) container_env \<Rightarrow> uuid \<Rightarrow> uuid list option \<Rightarrow> ('w, unit) dact" where
  "associate_images_for_task_if_any env task_id image_ids =
     (case image_ids of
        Some ids \<Rightarrow> if ids \<noteq> [] then map_err DS_Database (associate_images env task_id ids) else ret ()
      | None \<Rightarrow> ret ())"

definition has_running_processes_for_attempt :: "uuid \<Rightarrow> ('w, bool) dact" where
  "has_running_processes_for_attempt attempt_id =
     gets (\<lambda>s. \<exists>p \<in> set (process_find_by_task_attempt_id (c_db s) attempt_id False).
                  ep_status p = Running \<and> ep_run_reason p \<noteq> DevServer)"

definition fetch_draft_response :: "uuid \<Rightarrow> draft_type \<Rightarrow> ('w, draft_response) dact" where
  "fetch_draft_response attempt_id ty =
     and_then (gets (\<lambda>s. draft_find (c_db s) attempt_id ty)) (\<lambda>d.
       case d of Some d \<Rightarrow> ret (draft_to_response d) | None \<Rightarrow> ret (no_draft_response attempt_id ty))"

definition get_draft :: "uuid \<Rightarrow> draft_type \<Rightarrow> ('w, draft_response) dact" where
  "get_draft attempt_id ty = fetch_draft_response attempt_id ty"


section \<open>Starting a follow-up\<close>

definition handle_images_for_prompt ::
  "('a, 'w) container_env \<Rightarrow> uuid \<Rightarrow> uuid list \<Rightarrow> string \<Rightarrow> string \<Rightarrow> ('w, string) dact" where
  "handle_images_for_prompt env task_id image_ids prompt worktree_path =
     (if image_ids = [] then ret prompt
      else and_then (map_err DS_Database (associate_images env task_id image_ids)) (\<lambda>_.
           and_then (map_err DS_Image (copy_images_by_ids_to_worktree env worktree_path image_ids)) (\<lambda>_.
             ret (canonicalise_image_paths prompt worktree_path))))"

definition follow_up_type ::
  "string \<Rightarrow> string option \<Rightarrow> executor_profile_id \<Rightarrow> executor_action_type" where
  "follow_up_type prompt session profile =
     (case session of
        Some session_id \<Rightarrow>
          CodingAgentFollowUpRequest \<lparr> fr_prompt = prompt, fr_session_id = session_id, fr_executor_profile_id = profile \<rparr>
      | None \<Rightarrow> CodingAgentInitialRequest \<lparr> ir_prompt = prompt, ir_executor_profile_id = profile \<rparr>)"

text \<open>Everything of \<^verbatim>\<open>start_follow_up_from_draft\<close> up to the start of the process.\<close>

definition launch_follow_up ::
  "('a, 'w) container_env \<Rightarrow> task_attempt \<Rightarrow> draft \<Rightarrow> ('w, execution_process) dact" where
  "launch_follow_up env a d =
     and_then (map_err DS_Container (ensure_container_exists env a)) (\<lambda>worktree_path.
     and_then (gets (\<lambda>s. latest_executor_profile_for_attempt (c_db s) (ta_id a))) (\<lambda>latest_profile.
     and_then (of_result DS_ExecutionProcess latest_profile) (\<lambda>base_profile.
     and_then (gets (\<lambda>s. attempt_parent_task (c_db s) a)) (\<lambda>parent.
     and_then (of_result DS_Database (ok_or RowNotFound parent)) (\<lambda>t.
     and_then (gets (\<lambda>s. task_parent_project (c_db s) t)) (\<lambda>parent.
     and_then (of_result DS_Database (ok_or RowNotFound parent)) (\<lambda>pj.
     and_then
       (case dr_image_ids d of
          None \<Rightarrow> ret (dr_prompt d)
        | Some ids \<Rightarrow> handle_images_for_prompt env (ta_task_id a) ids (dr_prompt d) worktree_path) (\<lambda>prompt.
     and_then (gets (\<lambda>s. find_latest_session_id_by_task_attempt (c_db s) (ta_id a))) (\<lambda>session.
       map_err DS_Container (start_execution env a
         (ExecutorAction
            (follow_up_type prompt session \<lparr> executor = executor base_profile, variant = dr_variant d \<rparr>)
            (cleanup_action (pj_cleanup_script pj)))
         CodingAgent))))))))))"

definition start_follow_up_from_draft ::
  "('a, 'w) container_env \<Rightarrow> task_attempt \<Rightarrow> draft \<Rightarrow> ('w, execution_process) dact" where
  "start_follow_up_from_draft env a d =
     and_then (launch_follow_up env a d) (\<lambda>p.
     and_then (utc_now env) (\<lambda>now.
     and_then (execute (\<lambda>db. clear_after_send db (ta_id a) FollowUp now)) (\<lambda>_.
       ret p)))"


section \<open>Saving drafts\<close>

definition partial_statement ::
  "('a, 'w) container_env \<Rightarrow> uuid \<Rightarrow> draft_type \<Rightarrow> string option \<Rightarrow> string option option \<Rightarrow> uuid list option
   \<Rightarrow> uuid option \<Rightarrow> ('w, unit) dact" where
  "partial_statement env attempt_id ty prompt vart image_ids retry_process_id =
     (if prompt = None \<and> vart = None \<and> image_ids = None then ret ()
      else and_then (utc_now env) (\<lambda>now.
        map_err DS_Database (execute_result (\<lambda>db.
          map_sum id (Pair ()) (update_partial db attempt_id ty prompt vart image_ids retry_process_id now)))))"

definition associate_for_attempt :: "('a, 'w) container_env \<Rightarrow> task_attempt \<Rightarrow> uuid list option \<Rightarrow> ('w, unit) dact" where
  "associate_for_attempt env a image_ids =
     and_then (gets (\<lambda>s. attempt_parent_task (c_db s) a)) (\<lambda>parent.
       case parent of Some t \<Rightarrow> associate_images_for_task_if_any env (tk_id t) image_ids | None \<Rightarrow> ret ())"

definition stale :: "draft \<Rightarrow> int option \<Rightarrow> bool" where
  "stale d version = (case version of Some expected \<Rightarrow> dr_version d \<noteq> expected | None \<Rightarrow> False)"

definition check_follow_up_draft ::
  "('a, 'w) container_env \<Rightarrow> task_attempt \<Rightarrow> update_follow_up_draft_request \<Rightarrow> ('w, unit) dact" where
  "check_follow_up_draft env a payload =
     and_then (ensure_follow_up_draft_row env (ta_id a)) (\<lambda>d.
       if dr_queued d then fail (DS_Conflict ''Draft is queued; click Edit to unqueue before editing'')
       else if stale d (uf_version payload) then fail (DS_Conflict ''Draft changed, please retry with latest'')
       else ret ())"

definition write_follow_up_draft ::
  "('a, 'w) container_env \<Rightarrow> task_attempt \<Rightarrow> update_follow_up_draft_request \<Rightarrow> ('w, draft_response) dact" where
  "write_follow_up_draft env a payload =
     and_then (partial_statement env (ta_id a) FollowUp (uf_prompt payload) (uf_variant payload) (uf_image_ids payload) None) (\<lambda>_.
     and_then (associate_for_attempt env a (uf_image_ids payload)) (\<lambda>_.
       fetch_draft_response (ta_id a) FollowUp))"

definition save_follow_up_draft ::
  "('a, 'w) container_env \<Rightarrow> task_attempt \<Rightarrow> update_follow_up_draft_request \<Rightarrow> ('w, draft_response) dact" where
  "save_follow_up_draft env a payload =
     and_then (check_follow_up_draft env a payload) (\<lambda>_. write_follow_up_draft env a payload)"

definition save_retry_follow_up_draft ::
  "('a, 'w) container_env \<Rightarrow> task_attempt \<Rightarrow> update_retry_follow_up_draft_request \<Rightarrow> ('w, draft_response) dact" where
  "save_retry_follow_up_draft env a payload =
     and_then (gets (\<lambda>s. draft_find (c_db s) (ta_id a) Retry)) (\<lambda>existing.
       case existing of
         None \<Rightarrow>
           and_then (upsert_statement env
             \<lparr> ud_task_attempt_id = ta_id a, ud_draft_type = Retry, ud_retry_process_id = Some (ur_retry_process_id payload),
               ud_prompt = (case ur_prompt payload of Some p \<Rightarrow> p | None \<Rightarrow> []), ud_queued = False,
               ud_variant = (case ur_variant payload of Some v \<Rightarrow> v | None \<Rightarrow> None),
               ud_image_ids = ur_image_ids payload \<rparr>) (\<lambda>d. ret (draft_to_response d))
       | Some d \<Rightarrow>
           if dr_queued d then fail (DS_Conflict ''Retry draft is queued; unqueue before editing'')
           else if stale d (ur_version payload) then fail (DS_Conflict ''Retry draft changed, please retry with latest'')
           else and_then (partial_statement env (ta_id a) Retry (ur_prompt payload) (ur_variant payload)
                  (ur_image_ids payload) (Some (ur_retry_process_id payload))) (\<lambda>_.
                and_then (associate_for_attempt env a (ur_image_ids payload)) (\<lambda>_.
                and_then (found_draft (ta_id a) Retry) (\<lambda>d.
                  ret (draft_to_response d)))))"

definition delete_retry_follow_up_draft :: "task_attempt \<Rightarrow> ('w, unit) dact" where
  "delete_retry_follow_up_draft a = execute (\<lambda>db. draft_delete db (ta_id a) Retry)"


section \<open>Queueing a follow-up\<close>

definition mark_sending_statement :: "('a, 'w) container_env \<Rightarrow> uuid \<Rightarrow> draft_type \<Rightarrow> ('w, bool) dact" where
  "mark_sending_statement env attempt_id ty =
     and_then (utc_now env) (\<lambda>now.
     and_then (gets (\<lambda>s. fst (try_mark_sending (c_db s) attempt_id ty now))) (\<lambda>marked.
     and_then (execute (\<lambda>db. snd (try_mark_sending db attempt_id ty now))) (\<lambda>_.
       ret marked)))"

definition queue_statement ::
  "('a, 'w) container_env \<Rightarrow> uuid \<Rightarrow> draft_type \<Rightarrow> set_queue_request \<Rightarrow> ('w, nat) dact" where
  "queue_statement env attempt_id ty payload =
     and_then (utc_now env) (\<lambda>now.
     and_then (gets (\<lambda>s. fst (set_queued (c_db s) attempt_id ty (sq_queued payload) (sq_expected_queued payload)
                                (sq_expected_version payload) now))) (\<lambda>rows_updated.
     and_then (execute (\<lambda>db. snd (set_queued db attempt_id ty (sq_queued payload) (sq_expected_queued payload)
                                (sq_expected_version payload) now))) (\<lambda>_.
       ret rows_updated)))"

text \<open>The start that queueing may trigger: the result of starting the process is dropped.\<close>

definition consider_start :: "('a, 'w) container_env \<Rightarrow> task_attempt \<Rightarrow> draft \<Rightarrow> ('w, unit) dact" where
  "consider_start env a d =
     and_then (has_running_processes_for_attempt (ta_id a)) (\<lambda>running.
       if dr_queued d \<and> \<not> running
       then and_then (mark_sending_statement env (ta_id a) FollowUp) (\<lambda>marked.
              if marked
              then and_then (outcome (start_follow_up_from_draft env a d)) (\<lambda>_. ret ())
              else ret ())
       else ret ())"

definition set_follow_up_queue ::
  "('a, 'w) container_env \<Rightarrow> task_attempt \<Rightarrow> set_queue_request \<Rightarrow> ('w, draft_response) dact" where
  "set_follow_up_queue env a payload =
     and_then (queue_statement env (ta_id a) FollowUp payload) (\<lambda>rows_updated.
     and_then (gets (\<lambda>s. draft_find (c_db s) (ta_id a) FollowUp)) (\<lambda>d.
       if rows_updated = 0
       then (if d = None then fail (DS_Conflict ''No draft to queue'')
             else fail (DS_Conflict ''Draft changed, please refresh and try again''))
       else and_then (case d of Some d \<Rightarrow> consider_start env a d | None \<Rightarrow> ret ()) (\<lambda>_.
            and_then (found_draft (ta_id a) FollowUp) (\<lambda>d.
              ret (draft_to_response d)))))"

end
