(* ===== verification/Drafts_Guarantees.thy ===== *)
theory Drafts_Guarantees
  imports Drafts_Service
begin

text \<open>
  What the drafts service guarantees: the version check against lost updates and its limit, and
  what a failed start does to a queued draft.  The relation \<open>same_drafts\<close> interprets the interface of
  methods, so that everything a start does apart from the drafts is passed over in one rule.
\<close>

section \<open>Methods that leave the drafts alone\<close>

definition same_drafts :: "'w container \<Rightarrow> 'w container \<Rightarrow> bool" where
  "same_drafts s s' \<longleftrightarrow> drafts (c_db s') = drafts (c_db s)"

interpretation sd: step_relation same_drafts
  by unfold_locales (simp_all add: same_drafts_def)

lemma same_drafts_memory:
  "keeps same_drafts (uuid_v4 env)" "keeps same_drafts (utc_now env)" "keeps same_drafts (in_world f)"
  "keeps same_drafts (spawn_task t)" "keeps same_drafts (add_child_to_store i)"
  "keeps same_drafts (get_msg_store_by_id i)" "keeps same_drafts (track_child_msgs_in_store i)"
  by (auto simp: keeps_def same_drafts_def uuid_v4_run utc_now_run in_world_def add_child_to_store_def
      get_msg_store_by_id_def track_child_msgs_in_store_def split: prod.split)

lemma same_drafts_execute: "(\<And>db. drafts (f db) = drafts db) \<Longrightarrow> keeps same_drafts (execute f)"
  by (simp add: keeps_def same_drafts_def)

lemma same_drafts_execute_result:
  "(\<And>db r db'. f db = Inr (r, db') \<Longrightarrow> drafts db' = drafts db) \<Longrightarrow> keeps same_drafts (execute_result f)"
  by (auto simp: keeps_def same_drafts_def execute_result_def split: sum.split)

lemma same_drafts_execute_unit:
  "(\<And>db db'. f db = Inr db' \<Longrightarrow> drafts db' = drafts db)
   \<Longrightarrow> keeps same_drafts (execute_result (\<lambda>db. map_sum id (Pair ()) (f db)))"
  by (rule same_drafts_execute_result) (auto simp: map_sum_def split: sum.splits)

lemma drafts_of_statements:
  "drafts (task_update_status db i st now) = drafts db"
  "drafts (update_completion db i' st' code now) = drafts db"
  "append_log_line db j line now = Inr db1 \<Longrightarrow> drafts db1 = drafts db"
  "insert_task_image db i2 tid iid now = Inr db2 \<Longrightarrow> drafts db2 = drafts db"
  "process_create db data i3 commit now = Inr (p, db3) \<Longrightarrow> drafts db3 = drafts db"
  "session_create db cs i4 now = Inr (es, db4) \<Longrightarrow> drafts db4 = drafts db"
  by (auto simp: task_update_status_def update_completion_def update_processes_def append_log_line_def upsert_logs_def
      insert_task_image_def process_create_def session_create_def Let_def split: if_splits)

lemmas same_drafts_statements = sd.keeps_rules same_drafts_memory same_drafts_execute same_drafts_execute_unit
  same_drafts_execute_result drafts_of_statements

lemma same_drafts_found: "keeps same_drafts (found f)"
  unfolding found_def by (intro sd.keeps_rules)

lemma same_drafts_associate: "keeps same_drafts (associate_images env tid ids)"
  unfolding associate_images_def by (intro same_drafts_statements)

lemma same_drafts_copy: "keeps same_drafts (copy_images_by_ids_to_worktree env path ids)"
  unfolding copy_images_by_ids_to_worktree_def copy_images_def by (intro same_drafts_statements)

lemma same_drafts_ensure: "keeps same_drafts (ensure_container_exists env a)"
  unfolding ensure_container_exists_def by (intro same_drafts_statements same_drafts_found)

lemma same_drafts_status: "keeps same_drafts (set_status env i st)" "keeps same_drafts (complete_process env i pst code)"
  unfolding set_status_def complete_process_def by (intro same_drafts_statements)+

lemma same_drafts_msg: "keeps same_drafts (append_msg env i m)"
  unfolding append_msg_def by (intro same_drafts_statements)

lemma same_drafts_failure: "keeps same_drafts (report_start_failure env t p e)"
  unfolding report_start_failure_def
  by (intro sd.keeps_rules same_drafts_status same_drafts_msg)
     (auto intro!: sd.keeps_rules same_drafts_msg simp del: act_run split: container_error.split executor_error.split)

lemma same_drafts_start: "keeps same_drafts (start_execution env a action reason)"
  unfolding start_execution_def start_execution_inner_def spawn_tracked_def head_of_container_def insert_process_def
    insert_session_def follow_process_def
  by (intro same_drafts_statements same_drafts_found same_drafts_status same_drafts_failure)

lemma same_drafts_launch: "keeps same_drafts (launch_follow_up env a d)"
  unfolding launch_follow_up_def handle_images_for_prompt_def
  by (intro same_drafts_statements same_drafts_ensure same_drafts_associate same_drafts_copy same_drafts_start)

lemma same_drafts_for_attempt: "keeps same_drafts (associate_for_attempt env a ids)"
  unfolding associate_for_attempt_def associate_images_for_task_if_any_def
  by (intro same_drafts_statements same_drafts_associate)


lemma same_drafts_find: "same_drafts s s' \<Longrightarrow> draft_find (c_db s') = draft_find (c_db s) \<and> drafts_unique (c_db s') = drafts_unique (c_db s)"
  by (simp add: same_drafts_def draft_find_def drafts_unique_def fun_eq_iff)


section \<open>Versions\<close>

text \<open>Every write of a draft makes a new version of it.\<close>

lemma draft_write_version: "f \<in> draft_writes \<Longrightarrow> dr_version (f d) = dr_version d + 1"
  by (auto simp: draft_writes_def cleared_draft_def sending_draft_def queued_draft_def set_partial_def excluded_draft_def)

definition version_from :: "uuid \<Rightarrow> int \<Rightarrow> database \<Rightarrow> bool" where
  "version_from i v db \<longleftrightarrow> (\<exists>d. draft_find db i FollowUp = Some d \<and> v \<le> dr_version d)"

lemma version_from_update: "f \<in> draft_writes \<Longrightarrow> version_from i v db \<Longrightarrow> version_from i v (update_drafts P f db)"
proof -
  assume f: "f \<in> draft_writes" and "version_from i v db"
  then obtain d where d: "draft_find db i FollowUp = Some d" "v \<le> dr_version d" by (auto simp: version_from_def)
  with f show ?thesis by (simp add: version_from_def draft_find_update draft_write_version)
qed

lemma version_from_upsert:
  assumes "version_from i v db" and "draft_upsert db data j now = Inr (d, db')"
  shows "version_from i v db'"
proof (cases "lookup draft_key (ud_task_attempt_id data, ud_draft_type data) (drafts db)")
  case None
  with assms(2) obtain r where "db' = db\<lparr>drafts := drafts db @ [r]\<rparr>"
    by (auto simp: draft_upsert_def Let_def split: if_splits)
  with assms(1) show ?thesis by (auto simp: version_from_def draft_find_def lookup_append)
next
  case (Some r)
  with assms show ?thesis
    by (auto simp: draft_upsert_def Let_def intro!: version_from_update split: if_splits)
qed

lemma version_from_delete:
  assumes "version_from i v db" and "drafts_unique db" and "(j, ty) \<noteq> (i, FollowUp)"
  shows "version_from i v (draft_delete db j ty)"
proof -
  obtain d where d: "draft_find db i FollowUp = Some d" "v \<le> dr_version d" using assms(1) by (auto simp: version_from_def)
  then have "draft_key d = (i, FollowUp)" using draft_find_key by blast
  with d assms(2,3) show ?thesis
    by (auto simp: version_from_def draft_find_def draft_delete_def drafts_unique_def dt.lookup_delete)
qed

lemma version_from_run:
  assumes "version_from i v db" and "drafts_unique db" and "op \<noteq> DeleteOp i FollowUp"
  shows "version_from i v (snd (run_draft_op op db))"
proof (cases op)
  case (UpsertOp data j now)
  with assms(1) show ?thesis by (auto split: sum.split intro: version_from_upsert)
next
  case (ClearOp j ty now)
  with assms show ?thesis by (cases ty) (auto simp: clear_after_send_def version_from_delete intro!: version_from_update)
next
  case (PartialOp j ty p w ids r now)
  with assms(1) show ?thesis by (auto simp: update_partial_def intro!: version_from_update split: sum.split if_splits)
qed (use assms in \<open>auto simp: version_from_delete try_mark_sending_def set_queued_def Let_def intro!: version_from_update\<close>)

fun run_draft_ops :: "draft_op list \<Rightarrow> database \<Rightarrow> database" where
  "run_draft_ops [] db = db"
| "run_draft_ops (op # ops) db = run_draft_ops ops (snd (run_draft_op op db))"

lemma version_from_ops:
  "version_from i v db \<Longrightarrow> drafts_unique db \<Longrightarrow> DeleteOp i FollowUp \<notin> set ops \<Longrightarrow> version_from i v (run_draft_ops ops db)"
  by (induction ops arbitrary: db) (auto simp: version_from_run drafts_unique_run)


section \<open>Saves\<close>

definition changes :: "update_follow_up_draft_request \<Rightarrow> bool" where
  "changes p \<longleftrightarrow> uf_prompt p \<noteq> None \<or> uf_variant p \<noteq> None \<or> uf_image_ids p \<noteq> None"

lemma ensure_row:
  assumes "ensure_follow_up_draft_row env i s = (Inr d, s')" and "drafts_unique (c_db s)"
  shows "draft_find (c_db s') i FollowUp = Some d \<and> drafts_unique (c_db s')"
proof (cases "draft_find (c_db s) i FollowUp")
  case None
  with assms show ?thesis
    by (auto simp: ensure_follow_up_draft_row_def upsert_statement_def uuid_v4_run utc_now_run map_err_Inr execute_result_Inr
        found_draft_def of_result_def ok_or_def drafts_unique_upsert split: option.splits
        elim!: and_then_InrE)
qed (use assms in \<open>auto simp: ensure_follow_up_draft_row_def\<close>)

lemma check_ok:
  assumes "check_follow_up_draft env a p s = (Inr (), s')" and "drafts_unique (c_db s)"
  obtains d where "draft_find (c_db s') (ta_id a) FollowUp = Some d" and "\<not> dr_queued d" and "\<not> stale d (uf_version p)"
    and "drafts_unique (c_db s')"
  using assms ensure_row [of env "ta_id a" s]
  by (auto simp: check_follow_up_draft_def elim!: and_then_InrE split: if_splits)

lemma partial_ok:
  assumes "partial_statement env i FollowUp pr va ids None s = (Inr (), s')" and "pr \<noteq> None \<or> va \<noteq> None \<or> ids \<noteq> None"
    and "draft_find (c_db s) i FollowUp = Some d" and "drafts_unique (c_db s)"
  obtains now where "draft_find (c_db s') i FollowUp = Some (set_partial pr va ids None now d)" and "drafts_unique (c_db s')"
  using assms draft_find_key [OF assms(3)]
  by (auto simp: partial_statement_def utc_now_run map_err_Inr execute_result_Inr map_sum_def update_partial_def
      draft_find_update drafts_unique_update ref_ok_def elim!: and_then_InrE split: if_splits sum.splits)

lemma write_ok:
  assumes "write_follow_up_draft env a p s = (Inr r, s')" and "changes p"
    and "draft_find (c_db s) (ta_id a) FollowUp = Some d" and "drafts_unique (c_db s)"
  obtains now where "draft_find (c_db s') (ta_id a) FollowUp
      = Some (set_partial (uf_prompt p) (uf_variant p) (uf_image_ids p) None now d)"
    and "r = draft_to_response (set_partial (uf_prompt p) (uf_variant p) (uf_image_ids p) None now d)"
    and "drafts_unique (c_db s')"
proof -
  from assms(1) obtain s1 s2 where
    1: "partial_statement env (ta_id a) FollowUp (uf_prompt p) (uf_variant p) (uf_image_ids p) None s = (Inr (), s1)"
    and 2: "associate_for_attempt env a (uf_image_ids p) s1 = (Inr (), s2)"
    and 3: "fetch_draft_response (ta_id a) FollowUp s2 = (Inr r, s')"
    unfolding write_follow_up_draft_def by (auto elim!: and_then_InrE)
  obtain now where now: "draft_find (c_db s1) (ta_id a) FollowUp
      = Some (set_partial (uf_prompt p) (uf_variant p) (uf_image_ids p) None now d)" "drafts_unique (c_db s1)"
    using partial_ok [OF 1 _ assms(3,4)] assms(2) unfolding changes_def by blast
  have same: "draft_find (c_db s2) = draft_find (c_db s1)" "drafts_unique (c_db s2) = drafts_unique (c_db s1)"
    using same_drafts_find [OF keepsD [OF same_drafts_for_attempt 2]] by auto
  show thesis
    by (rule that [of now]) (use now same 3 in \<open>auto simp: fetch_draft_response_def\<close>)
qed


lemma save_ok:
  assumes "save_follow_up_draft env a p s = (Inr r, s')" and "changes p" and "drafts_unique (c_db s)"
  obtains d where "draft_find (c_db s') (ta_id a) FollowUp = Some d" and "r = draft_to_response d"
    and "uf_version p = Some v \<Longrightarrow> dr_version d = v + 1" and "drafts_unique (c_db s')"
proof -
  obtain s1 where c: "check_follow_up_draft env a p s = (Inr (), s1)" and w: "write_follow_up_draft env a p s1 = (Inr r, s')"
    using assms(1) unfolding save_follow_up_draft_def by (auto elim: and_then_InrE)
  obtain d where d: "draft_find (c_db s1) (ta_id a) FollowUp = Some d" "\<not> stale d (uf_version p)" "drafts_unique (c_db s1)"
    using check_ok [OF c assms(3)] by blast
  obtain now where n: "draft_find (c_db s') (ta_id a) FollowUp
      = Some (set_partial (uf_prompt p) (uf_variant p) (uf_image_ids p) None now d)"
    "r = draft_to_response (set_partial (uf_prompt p) (uf_variant p) (uf_image_ids p) None now d)" "drafts_unique (c_db s')"
    using write_ok [OF w assms(2) d(1,3)] by blast
  show thesis
    by (rule that [OF n(1,2) _ n(3)]) (use d(2) in \<open>simp add: stale_def set_partial_def\<close>)
qed

lemma stale_save:
  assumes "draft_find (c_db s) (ta_id a) FollowUp = Some d" and "stale d (uf_version q)"
  shows "\<exists>m. save_follow_up_draft env a q s = (Inl (DS_Conflict m), s)"
  using assms by (simp add: save_follow_up_draft_def check_follow_up_draft_def ensure_follow_up_draft_row_def and_then_def)

text \<open>
  C13: No save is lost to an editor with an old version: once a save that held version \<open>v\<close> of the
  follow-up draft has changed it, a save that holds version \<open>v\<close> is refused with a conflict and changes
  nothing, also after any statements on drafts that do not delete the draft.
\<close>

theorem stale_save_conflicts:
  assumes "drafts_unique (c_db s)" and "save_follow_up_draft env a p s = (Inr r, s')" and "changes p"
    and "uf_version p = Some v" and "uf_version q = Some v" and "DeleteOp (ta_id a) FollowUp \<notin> set ops"
  shows "rs_version r = v + 1
    \<and> (\<exists>m. save_follow_up_draft env a q (s'\<lparr>c_db := run_draft_ops ops (c_db s')\<rparr>)
           = (Inl (DS_Conflict m), s'\<lparr>c_db := run_draft_ops ops (c_db s')\<rparr>))"
proof -
  obtain d where d: "draft_find (c_db s') (ta_id a) FollowUp = Some d" "r = draft_to_response d" "dr_version d = v + 1"
    "drafts_unique (c_db s')"
    using save_ok [OF assms(2,3,1), of v] assms(4) by blast
  then have "version_from (ta_id a) (v + 1) (run_draft_ops ops (c_db s'))"
    by (intro version_from_ops assms(6)) (auto simp: version_from_def)
  then obtain d' where "draft_find (run_draft_ops ops (c_db s')) (ta_id a) FollowUp = Some d'" "v < dr_version d'"
    by (auto simp: version_from_def)
  with assms(5) have "\<exists>m. save_follow_up_draft env a q (s'\<lparr>c_db := run_draft_ops ops (c_db s')\<rparr>)
      = (Inl (DS_Conflict m), s'\<lparr>c_db := run_draft_ops ops (c_db s')\<rparr>)"
    by (intro stale_save) (auto simp: stale_def)
  with d show ?thesis by (simp add: draft_to_response_def)
qed

text \<open>A write without images succeeds: no version is compared.\<close>

lemma write_runs:
  assumes "uf_image_ids p = None"
  shows "\<exists>r s'. write_follow_up_draft env a p s = (Inr r, s')"
proof -
  have "\<exists>s1. partial_statement env (ta_id a) FollowUp (uf_prompt p) (uf_variant p) (uf_image_ids p) None s = (Inr (), s1)"
    by (simp add: partial_statement_def and_then_def utc_now_run map_err_run execute_result_def update_partial_def ref_ok_def)
  then obtain s1 where 1: "partial_statement env (ta_id a) FollowUp (uf_prompt p) (uf_variant p) (uf_image_ids p) None s = (Inr (), s1)"
    by blast
  have "\<exists>r. fetch_draft_response (ta_id a) FollowUp s1 = (Inr r, s1)"
    by (simp add: fetch_draft_response_def split: option.split)
  moreover have "associate_for_attempt env a (uf_image_ids p) s1 = (Inr (), s1)"
    using assms by (simp add: associate_for_attempt_def associate_images_for_task_if_any_def split: option.split)
  ultimately show ?thesis using 1 by (auto simp: write_follow_up_draft_def and_then_def)
qed

text \<open>
  C14: The version check does not protect saves that overlap: when two editors of the text hold the same
  version and both pass the check before either writes, both writes succeed, and the draft then has the
  prompt of the second, which was made against the version before the first, and the prompt of the first is gone.
\<close>

theorem overlapping_saves_lose_update:
  assumes "drafts_unique (c_db s)" and "check_follow_up_draft env a p s = (Inr (), s1)"
    and "check_follow_up_draft env a q s1 = (Inr (), s2)" and "uf_version p = Some v" and "uf_version q = Some v"
    and "uf_prompt p = Some first" and "uf_prompt q = Some second" and "uf_image_ids p = None" and "uf_image_ids q = None"
  shows "\<exists>r3 s3 r4 s4 d. write_follow_up_draft env a p s2 = (Inr r3, s3) \<and> rs_version r3 = v + 1 \<and> rs_prompt r3 = first
     \<and> write_follow_up_draft env a q s3 = (Inr r4, s4) \<and> rs_version r4 = v + 2 \<and> rs_prompt r4 = second
     \<and> draft_find (c_db s4) (ta_id a) FollowUp = Some d \<and> dr_prompt d = second"
proof -
  have u1: "drafts_unique (c_db s1)" using check_ok [OF assms(2,1)] by blast
  obtain d where d: "draft_find (c_db s2) (ta_id a) FollowUp = Some d" "\<not> stale d (uf_version q)" "drafts_unique (c_db s2)"
    using check_ok [OF assms(3) u1] by blast
  have ch: "changes p" "changes q" using assms(6,7) by (simp_all add: changes_def)
  let ?w = "\<lambda>x now. set_partial (uf_prompt x) (uf_variant x) (uf_image_ids x) None now"
  obtain r3 s3 where 3: "write_follow_up_draft env a p s2 = (Inr r3, s3)" using write_runs [OF assms(8)] by blast
  obtain n3 where w3: "draft_find (c_db s3) (ta_id a) FollowUp = Some (?w p n3 d)" "r3 = draft_to_response (?w p n3 d)"
    "drafts_unique (c_db s3)"
    using write_ok [OF 3 ch(1) d(1,3)] by blast
  obtain r4 s4 where 4: "write_follow_up_draft env a q s3 = (Inr r4, s4)" using write_runs [OF assms(9)] by blast
  obtain n4 where w4: "draft_find (c_db s4) (ta_id a) FollowUp = Some (?w q n4 (?w p n3 d))"
    "r4 = draft_to_response (?w q n4 (?w p n3 d))"
    using write_ok [OF 4 ch(2) w3(1,3)] by blast
  show ?thesis
    using 3 4 w3(2) w4 assms(5-7) d(2) by (simp add: draft_to_response_def set_partial_def stale_def)
qed


section \<open>A start that fails\<close>

lemma start_fails:
  assumes "start_follow_up_from_draft env a d s = (Inl e, s')"
  shows "same_drafts s s'"
  using assms keepsD [OF same_drafts_launch]
  by (auto simp: start_follow_up_from_draft_def utc_now_run elim!: and_then_InlE)

lemma mark_sending_run:
  "mark_sending_statement env i ty s
     = (Inr (fst (try_mark_sending (c_db s) i ty (clock env (c_tick s)))),
        s\<lparr>c_tick := Suc (c_tick s), c_db := snd (try_mark_sending (c_db s) i ty (clock env (c_tick s)))\<rparr>)"
  by (simp add: mark_sending_statement_def and_then_def utc_now_run)

lemma queue_statement_unique:
  "queue_statement env i ty payload s = (r, s') \<Longrightarrow> drafts_unique (c_db s) \<Longrightarrow> drafts_unique (c_db s')"
  by (auto simp: queue_statement_def and_then_def utc_now_run drafts_unique_ops(3))

lemma failed_start_locked:
  assumes "drafts_unique (c_db s)" and "draft_find (c_db s) (ta_id a) FollowUp = Some d" and "ready_to_send d"
    and "has_running_processes_for_attempt (ta_id a) s = (Inr False, s)"
    and "start_follow_up_from_draft env a d (snd (mark_sending_statement env (ta_id a) FollowUp s)) = (Inl e, s2)"
  shows "consider_start env a d s = (Inr (), s2) \<and> drafts_unique (c_db s2)
    \<and> draft_find (c_db s2) (ta_id a) FollowUp = Some (sending_draft (clock env (c_tick s)) d)"
proof -
  define s1 where "s1 = snd (mark_sending_statement env (ta_id a) FollowUp s)"
  have m: "fst (try_mark_sending (c_db s) (ta_id a) FollowUp now)" for now
    using assms(1-3) by (simp add: try_mark_sending_result)
  then have "mark_sending_statement env (ta_id a) FollowUp s = (Inr True, s1)" by (simp add: mark_sending_run s1_def)
  moreover have "dr_queued d" using assms(3) by (simp add: ready_to_send_def)
  ultimately have "consider_start env a d s = (Inr (), s2)"
    using assms(4,5) by (simp add: consider_start_def and_then_def s1_def [symmetric])
  moreover have "draft_find (c_db s1) (ta_id a) FollowUp = Some (sending_draft (clock env (c_tick s)) d)"
    "drafts_unique (c_db s1)"
    using assms(1-3) by (simp_all add: s1_def mark_sending_run try_mark_sending_result drafts_unique_ops(2))
  ultimately show ?thesis using same_drafts_find [OF start_fails [OF assms(5)]] by (simp add: s1_def)
qed

text \<open>
  C15: A follow-up whose start fails is never sent: queueing a draft whose start then fails answers
  with success and a queued draft, which stays marked as being sent; from then on no statement
  that tries to take the draft for sending succeeds, until it is deleted or cleared after a send.
\<close>

theorem failed_start_blocks_draft:
  assumes "drafts_unique (c_db s)" and "set_follow_up_queue env a payload s = (r, s')"
    and "queue_statement env (ta_id a) FollowUp payload s = (Inr rows, s0)" and "rows \<noteq> 0"
    and "draft_find (c_db s0) (ta_id a) FollowUp = Some d" and "ready_to_send d"
    and "has_running_processes_for_attempt (ta_id a) s0 = (Inr False, s0)"
    and "start_follow_up_from_draft env a d (snd (mark_sending_statement env (ta_id a) FollowUp s0)) = (Inl e, s1)"
    and "list_all (\<lambda>op. \<not> releases (ta_id a, FollowUp) op) ops"
  shows "(\<exists>resp. r = Inr resp \<and> rs_queued resp) \<and> grants (ta_id a, FollowUp) ops (c_db s') = 0"
proof -
  have "drafts_unique (c_db s0)" using queue_statement_unique assms(1,3) by blast
  note started = failed_start_locked [OF this assms(5-8)]
  then have "set_follow_up_queue env a payload s
      = (Inr (draft_to_response (sending_draft (clock env (c_tick s0)) d)), s1)"
    using assms(3-5) by (simp add: set_follow_up_queue_def and_then_def found_draft_def)
  moreover have "locked (ta_id a, FollowUp) (c_db s1)"
    using started by (simp add: locked_def sending_draft_def)
  ultimately show ?thesis
    using assms(2,6,9) started grants_locked
    by (auto simp: draft_to_response_def sending_draft_def ready_to_send_def)
qed


section \<open>Examples\<close>

definition sample_editing :: "string list container" where
  "sample_editing = sample_container\<lparr>c_db := sample_database\<lparr>drafts := [sample_draft\<lparr>dr_queued := False\<rparr>]\<rparr>\<rparr>"

definition sample_edit :: "string \<Rightarrow> update_follow_up_draft_request" where
  "sample_edit prompt = \<lparr> uf_prompt = Some prompt, uf_variant = None, uf_image_ids = None, uf_version = Some 0 \<rparr>"

lemmas draft_method_defs = save_follow_up_draft_def check_follow_up_draft_def write_follow_up_draft_def
  ensure_follow_up_draft_row_def partial_statement_def associate_for_attempt_def associate_images_for_task_if_any_def
  fetch_draft_response_def update_partial_def draft_find_def update_drafts_def update_where_def draft_key_def set_partial_def
  stale_def attempt_parent_task_def task_find_by_id_def

lemma sample_editing_unique: "drafts_unique (c_db sample_editing)"
  by (simp add: sample_editing_def drafts_unique_def unique_by_def)

theorem stale_save_conflicts_witness:
  "\<exists>r s' m. save_follow_up_draft sample_env sample_attempt (sample_edit ''a'') sample_editing = (Inr r, s')
     \<and> rs_version r = 1 \<and> save_follow_up_draft sample_env sample_attempt (sample_edit ''b'') s' = (Inl (DS_Conflict m), s')"
proof -
  have "\<exists>r s'. save_follow_up_draft sample_env sample_attempt (sample_edit ''a'') sample_editing = (Inr r, s')"
    by (simp add: draft_method_defs sample_editing_def sample_edit_def sample_defs sample_draft_def and_then_def utc_now_run
        map_err_run execute_result_def ref_ok_def exists_row_def)
  then obtain r s' where s: "save_follow_up_draft sample_env sample_attempt (sample_edit ''a'') sample_editing = (Inr r, s')" by blast
  have "rs_version r = 0 + 1
    \<and> (\<exists>m. save_follow_up_draft sample_env sample_attempt (sample_edit ''b'') (s'\<lparr>c_db := run_draft_ops [] (c_db s')\<rparr>)
           = (Inl (DS_Conflict m), s'\<lparr>c_db := run_draft_ops [] (c_db s')\<rparr>))"
    by (rule stale_save_conflicts [OF sample_editing_unique s]) (simp_all add: changes_def sample_edit_def)
  with s show ?thesis by auto
qed


theorem overlapping_saves_lose_update_witness:
  "\<exists>r3 s3 r4 s4 d. check_follow_up_draft sample_env sample_attempt (sample_edit ''a'') sample_editing = (Inr (), sample_editing)
     \<and> check_follow_up_draft sample_env sample_attempt (sample_edit ''b'') sample_editing = (Inr (), sample_editing)
     \<and> write_follow_up_draft sample_env sample_attempt (sample_edit ''a'') sample_editing = (Inr r3, s3) \<and> rs_prompt r3 = ''a''
     \<and> write_follow_up_draft sample_env sample_attempt (sample_edit ''b'') s3 = (Inr r4, s4)
     \<and> draft_find (c_db s4) (ta_id sample_attempt) FollowUp = Some d \<and> dr_prompt d = ''b''"
proof -
  have c: "check_follow_up_draft sample_env sample_attempt (sample_edit x) sample_editing = (Inr (), sample_editing)" for x
    by (simp add: draft_method_defs sample_editing_def sample_edit_def sample_defs sample_draft_def and_then_def)
  have "uf_version (sample_edit x) = Some 0" "uf_prompt (sample_edit x) = Some x" "uf_image_ids (sample_edit x) = None" for x
    by (simp_all add: sample_edit_def)
  from overlapping_saves_lose_update [OF sample_editing_unique c c this(1,1,2,2,3,3)] c show ?thesis by blast
qed

text \<open>An attempt whose coding agent never ran has no profile to follow up with.\<close>

lemma launch_without_agent:
  assumes "execution_processes (c_db s) = []"
  shows "\<exists>e s'. launch_follow_up env a d s = (Inl e, s')"
proof -
  obtain r s1 where e: "map_err DS_Container (ensure_container_exists env a) s = (r, s1)" by force
  show ?thesis
  proof (cases r)
    case (Inl err)
    with e show ?thesis by (simp add: launch_follow_up_def and_then_def)
  next
    case (Inr dir)
    with e have "c_db s1 = c_db s"
      by (auto simp: ensure_container_exists_def map_err_Inr found_Inr elim!: and_then_InrE
          split: option.splits if_splits dest!: in_world_db)
    then have "\<exists>err. latest_executor_profile_for_attempt (c_db s1) (ta_id a) = Inl err"
      using assms by (simp add: latest_executor_profile_for_attempt_def profile_of_process_def
          find_latest_by_task_attempt_and_run_reason_def latest_def limit_1_def order_by_desc_def processes_of_attempt_def)
    with e Inr show ?thesis by (auto simp: launch_follow_up_def and_then_def)
  qed
qed

lemma start_without_agent:
  "execution_processes (c_db s) = [] \<Longrightarrow> \<exists>e s'. start_follow_up_from_draft env a d s = (Inl e, s')"
  using launch_without_agent [of s env a d] by (auto simp: start_follow_up_from_draft_def and_then_def)

theorem failed_start_blocks_draft_witness:
  "\<exists>resp s'. set_follow_up_queue sample_env sample_attempt \<lparr> sq_queued = True, sq_expected_queued = None, sq_expected_version = None \<rparr>
       sample_editing = (Inr resp, s')
     \<and> rs_queued resp \<and> grants (3, FollowUp) [QueueOp 3 FollowUp False None None 5, QueueOp 3 FollowUp True None None 6, MarkOp 3 FollowUp 7] (c_db s') = 0"
proof -
  let ?q = "\<lparr> sq_queued = True, sq_expected_queued = None, sq_expected_version = None \<rparr>"
  let ?ops = "[QueueOp 3 FollowUp False None None 5, QueueOp 3 FollowUp True None None 6, MarkOp 3 FollowUp 7]"
  let ?d = "sample_draft\<lparr>dr_version := 1\<rparr>"
  let ?s0 = "sample_editing\<lparr>c_tick := 1, c_db := (c_db sample_editing)\<lparr>drafts := [?d]\<rparr>\<rparr>"
  have tr: "sql_trim ''go'' \<noteq> []" by code_simp
  have id: "ta_id sample_attempt = 3" by (simp add: sample_attempt_def)
  have q: "queue_statement sample_env (ta_id sample_attempt) FollowUp ?q sample_editing = (Inr 1, ?s0)"
    using tr by (simp add: queue_statement_def and_then_def utc_now_run set_queued_def Let_def sample_editing_def rows_affected_def
        sample_draft_def id draft_key_def update_drafts_def update_where_def queued_draft_def)
  have d: "draft_find (c_db ?s0) (ta_id sample_attempt) FollowUp = Some ?d" "ready_to_send ?d"
    "has_running_processes_for_attempt (ta_id sample_attempt) ?s0 = (Inr False, ?s0)"
    using tr by (simp_all add: draft_find_def draft_key_def id sample_draft_def ready_to_send_def has_running_processes_for_attempt_def
        process_find_by_task_attempt_id_def sample_editing_def sample_database_def empty_database_def order_by_asc_def processes_of_attempt_def)
  have "\<exists>e s1. start_follow_up_from_draft sample_env sample_attempt ?d (snd (mark_sending_statement sample_env (ta_id sample_attempt) FollowUp ?s0)) = (Inl e, s1)"
    by (rule start_without_agent)
       (simp add: mark_sending_run try_mark_sending_def Let_def update_drafts_def sample_editing_def sample_database_def
         empty_database_def)
  then obtain e s1 where f: "start_follow_up_from_draft sample_env sample_attempt ?d (snd (mark_sending_statement sample_env (ta_id sample_attempt) FollowUp ?s0)) = (Inl e, s1)"
    by blast
  obtain r s' where run: "set_follow_up_queue sample_env sample_attempt ?q sample_editing = (r, s')" by force
  have "(\<exists>resp. r = Inr resp \<and> rs_queued resp) \<and> grants (ta_id sample_attempt, FollowUp) ?ops (c_db s') = 0"
    by (rule failed_start_blocks_draft [OF sample_editing_unique run q _ d f]) (simp_all add: id)
  with run show ?thesis by (auto simp: id)
qed

end
