(* ===== verification/Conversation.thy ===== *)
theory Conversation
  imports Msg_Store
begin

text \<open>
  The conversation a reader of the log sees, and the interface of the agents' log normalisers.

  A reader applies the patches of the message store to the array \<^verbatim>\<open>/entries\<close>, by the rules of
  RFC 6902: \<^verbatim>\<open>add\<close> inserts at an index up to the length, \<^verbatim>\<open>replace\<close> and \<^verbatim>\<open>remove\<close> need an existing
  index, and a patch that does not apply breaks the conversation.  A normaliser turns messages of
  its agent into patches and takes indexes of new entries from the shared counter.  The locale
  \<open>log_normalizer\<close> states what makes that sound for one message and concludes that every sequence of
  messages gives patches that apply, with as many entries as the counter says.
\<close>

section \<open>Applying patches\<close>

definition entry_position :: "string \<Rightarrow> nat option" where
  "entry_position path = Option.bind (strip_prefix entries_prefix path) parse_usize"

definition insert_at :: "nat \<Rightarrow> 'a \<Rightarrow> 'a list \<Rightarrow> 'a list" where
  "insert_at i x xs = take i xs @ x # drop i xs"

definition remove_at :: "nat \<Rightarrow> 'a list \<Rightarrow> 'a list" where
  "remove_at i xs = take i xs @ drop (Suc i) xs"

fun read_op :: "patch_operation \<Rightarrow> patch_value list \<Rightarrow> patch_value list option" where
  "read_op (OpAdd path v) doc =
     (case entry_position path of Some i \<Rightarrow> if i \<le> length doc then Some (insert_at i v doc) else None | None \<Rightarrow> None)"
| "read_op (OpReplace path v) doc =
     (case entry_position path of Some i \<Rightarrow> if i < length doc then Some (doc[i := v]) else None | None \<Rightarrow> None)"
| "read_op (OpRemove path) doc =
     (case entry_position path of Some i \<Rightarrow> if i < length doc then Some (remove_at i doc) else None | None \<Rightarrow> None)"
| "read_op _ doc = None"

fun read_ops :: "patch_operation list \<Rightarrow> patch_value list \<Rightarrow> patch_value list option" where
  "read_ops [] doc = Some doc"
| "read_ops (oper # rest) doc = (case read_op oper doc of None \<Rightarrow> None | Some doc1 \<Rightarrow> read_ops rest doc1)"

definition read_patches :: "patch list \<Rightarrow> patch_value list \<Rightarrow> patch_value list option" where
  "read_patches ps doc = read_ops (concat ps) doc"

lemma read_ops_append:
  "read_ops (xs @ ys) doc = (case read_ops xs doc of None \<Rightarrow> None | Some doc1 \<Rightarrow> read_ops ys doc1)"
  by (induction xs arbitrary: doc) (auto split: option.splits)

lemma read_patches_simps [simp]:
  "read_patches [] doc = Some doc"
  "read_patches (p # ps) doc = (case read_ops p doc of None \<Rightarrow> None | Some doc1 \<Rightarrow> read_patches ps doc1)"
  "read_patches (ps @ qs) doc = (case read_patches ps doc of None \<Rightarrow> None | Some doc1 \<Rightarrow> read_patches qs doc1)"
  by (simp_all add: read_patches_def read_ops_append split: option.split)

lemma entry_position_path: "i \<le> usize_max \<Longrightarrow> entry_position (entry_path i) = Some i"
  by (simp add: entry_position_def parse_entry_path)

lemma read_add:
  "length doc \<le> usize_max \<Longrightarrow>
   read_ops (add_normalized_entry (length doc) e) doc = Some (doc @ [TypedValue (PT_NormalizedEntry e)])"
  by (simp add: add_normalized_entry_def entry_position_path insert_at_def)

lemma read_replace:
  "i < length doc \<Longrightarrow> length doc \<le> usize_max \<Longrightarrow>
   read_ops (replace_entry i e) doc = Some (doc[i := TypedValue (PT_NormalizedEntry e)])"
  by (simp add: replace_entry_def entry_position_path)

lemma read_remove_first:
  "doc \<noteq> [] \<Longrightarrow> read_ops (remove_diff (show_nat 0)) doc = Some (tl doc)"
  using entry_position_path [of 0] by (simp add: remove_diff_def entry_path_def remove_at_def drop_Suc)

lemma read_remove_all:
  "read_patches (replicate (length doc) (remove_diff (show_nat 0))) doc = Some []"
proof (induction doc)
  case (Cons v doc)
  then show ?case using read_remove_first [of "v # doc"] by simp
qed simp


section \<open>Patches that lead from one length to another\<close>

definition leads :: "nat \<Rightarrow> nat \<Rightarrow> patch list \<Rightarrow> bool" where
  "leads n m ps \<longleftrightarrow> (\<forall>doc. length doc = n \<longrightarrow> (\<exists>doc'. read_patches ps doc = Some doc' \<and> length doc' = m))"

lemma leads_Nil [intro, simp]: "leads n n []"
  by (simp add: leads_def)

lemma leads_trans: "leads n m ps \<Longrightarrow> leads m k qs \<Longrightarrow> leads n k (ps @ qs)"
  by (fastforce simp: leads_def split: option.split)

lemma leads_add: "n < usize_max \<Longrightarrow> leads n (Suc n) [add_normalized_entry n e]"
  using read_add by (auto simp: leads_def)

lemma leads_replace: "i < n \<Longrightarrow> n \<le> usize_max \<Longrightarrow> leads n n [replace_entry i e]"
  using read_replace by (auto simp: leads_def)

lemma leads_clear: "leads n 0 (replicate n (remove_diff (show_nat 0)))"
  using read_remove_all by (auto simp: leads_def)

lemma next_index_exact: "n < usize_max \<Longrightarrow> next_index n = (n, Suc n)"
  by (simp add: next_index_def wrapping_succ_exact)

text \<open>
  A step of a normaliser, as far as the counter goes: from \<open>n\<close> to \<open>m\<close> entries with the patches
  \<open>ps\<close>, growing by at most \<open>k\<close>.
\<close>

definition grows :: "nat \<Rightarrow> nat \<Rightarrow> nat \<Rightarrow> patch list \<Rightarrow> bool" where
  "grows k n m ps \<longleftrightarrow> leads n m ps \<and> m \<le> n + k"

lemma grows_Nil [intro, simp]: "grows k n n []"
  by (simp add: grows_def)

lemma grows_add: "n < usize_max \<Longrightarrow> 1 \<le> k \<Longrightarrow> grows k n (Suc n) [add_normalized_entry n e]"
  by (simp add: grows_def leads_add)

lemma grows_replace: "i < n \<Longrightarrow> n \<le> usize_max \<Longrightarrow> grows k n n [replace_entry i e]"
  by (simp add: grows_def leads_replace)

lemma grows_trans: "grows k n m ps \<Longrightarrow> grows l m r qs \<Longrightarrow> grows (k + l) n r (ps @ qs)"
  using leads_trans by (fastforce simp: grows_def)

lemma grows_mono: "grows k n m ps \<Longrightarrow> k \<le> l \<Longrightarrow> grows l n m ps"
  by (simp add: grows_def)


section \<open>The interface of a normaliser\<close>

text \<open>
  \<open>step\<close> is the normaliser's function on one message, with its state \<open>'s\<close> and the counter; \<open>weight\<close>
  bounds the entries a message can add, and \<open>inv\<close> relates the messages still to come, the counter and
  the state.
\<close>

fun normalize_all ::
  "('m \<Rightarrow> 's \<Rightarrow> nat \<Rightarrow> patch list \<times> 's \<times> nat) \<Rightarrow> 'm list \<Rightarrow> 's \<Rightarrow> nat \<Rightarrow> patch list \<times> 's \<times> nat" where
  "normalize_all step [] s n = ([], s, n)"
| "normalize_all step (m # ms) s n =
     (let (ps, s1, n1) = step m s n; (qs, s2, n2) = normalize_all step ms s1 n1 in (ps @ qs, s2, n2))"

locale log_normalizer =
  fixes step :: "'m \<Rightarrow> 's \<Rightarrow> nat \<Rightarrow> patch list \<times> 's \<times> nat"
    and inv :: "'m list \<Rightarrow> nat \<Rightarrow> 's \<Rightarrow> bool"
    and weight :: "'m \<Rightarrow> nat"
  assumes step_sound:
    "inv (m # ms) n s \<Longrightarrow> n + weight m \<le> usize_max \<Longrightarrow> step m s n = (ps, s', n')
     \<Longrightarrow> grows (weight m) n n' ps \<and> inv ms n' s'"
begin

lemma run_sound:
  assumes "inv ms n s" and "n + sum_list (map weight ms) \<le> usize_max" and "normalize_all step ms s n = (ps, s', n')"
  shows "grows (sum_list (map weight ms)) n n' ps \<and> inv [] n' s'"
  using assms
proof (induction ms arbitrary: s n ps s' n')
  case (Cons m ms)
  obtain qs s1 n1 where st: "step m s n = (qs, s1, n1)" by (metis prod.exhaust)
  obtain rs s2 n2 where rn: "normalize_all step ms s1 n1 = (rs, s2, n2)" by (metis prod.exhaust)
  have 1: "grows (weight m) n n1 qs" "inv ms n1 s1"
    using step_sound [OF Cons.prems(1) _ st] Cons.prems(2) by auto
  then have "n1 + sum_list (map weight ms) \<le> usize_max" using Cons.prems(2) by (simp add: grows_def)
  with Cons.IH [OF 1(2) _ rn] have "grows (sum_list (map weight ms)) n1 n2 rs \<and> inv [] n2 s2" by blast
  with 1 grows_trans st rn Cons.prems(3) show ?case by auto
qed auto

text \<open>The whole log applies, and the conversation then has as many entries as the counter says.\<close>

lemma run_applies:
  assumes "inv ms n s" and "n + sum_list (map weight ms) \<le> usize_max" and "normalize_all step ms s n = (ps, s', n')"
    and "length doc = n"
  shows "\<exists>doc'. read_patches ps doc = Some doc' \<and> length doc' = n'"
  using run_sound [OF assms(1-3)] assms(4) by (auto simp: grows_def leads_def)

end


text \<open>
  A stronger interface, for a normaliser whose state says what the conversation shows: \<open>view\<close> relates
  the state to the entries, every step keeps it, and so does every sequence of messages.
\<close>

locale conversation_view =
  fixes step :: "'m \<Rightarrow> 's \<Rightarrow> nat \<Rightarrow> patch list \<times> 's \<times> nat"
    and view :: "'s \<Rightarrow> patch_value list \<Rightarrow> bool"
    and weight :: "'m \<Rightarrow> nat"
  assumes step_view:
    "view s doc \<Longrightarrow> length doc + weight m \<le> usize_max \<Longrightarrow> step m s (length doc) = (ps, s', n')
     \<Longrightarrow> \<exists>doc'. read_patches ps doc = Some doc' \<and> length doc' = n' \<and> n' \<le> length doc + weight m \<and> view s' doc'"
begin

lemma run_view:
  assumes "view s doc" and "length doc + sum_list (map weight ms) \<le> usize_max"
    and "normalize_all step ms s (length doc) = (ps, s', n')"
  shows "\<exists>doc'. read_patches ps doc = Some doc' \<and> length doc' = n' \<and> view s' doc'"
  using assms
proof (induction ms arbitrary: s doc ps)
  case (Cons m ms)
  obtain qs s1 n1 where st: "step m s (length doc) = (qs, s1, n1)" by (metis prod.exhaust)
  with step_view [OF Cons.prems(1) _ st] Cons.prems(2) obtain doc1 where
    1: "read_patches qs doc = Some doc1" "length doc1 = n1" "n1 \<le> length doc + weight m" "view s1 doc1" by auto
  obtain rs where rn: "normalize_all step ms s1 (length doc1) = (rs, s', n')" "ps = qs @ rs"
    using Cons.prems(3) st 1(2) by (auto split: prod.splits)
  have "length doc1 + sum_list (map weight ms) \<le> usize_max" using 1(2,3) Cons.prems(2) by simp
  from Cons.IH [OF 1(4) this rn(1)] 1(1) rn(2) show ?case by auto
qed auto

end


section \<open>What the normalisers share\<close>

text \<open>What a normaliser pushes to the message store, and entries without a time.\<close>

datatype store_push = PushSessionId string | PushPatch patch

definition plain_entry :: "normalized_entry_type \<Rightarrow> string \<Rightarrow> json option \<Rightarrow> normalized_entry" where
  "plain_entry ty content metadata =
     \<lparr> ne_timestamp = None, entry_type = ty, ne_content = content, ne_metadata = metadata \<rparr>"

text \<open>The patch for an entry: a replacement when it has an index, a new entry with the next one otherwise.\<close>

definition put_entry :: "nat option \<Rightarrow> normalized_entry \<Rightarrow> nat \<Rightarrow> patch \<times> nat \<times> nat" where
  "put_entry entry_index entry n =
     (case entry_index of
        Some i \<Rightarrow> (replace_entry i entry, i, n)
      | None \<Rightarrow> (let (i, n1) = next_index n in (add_normalized_entry i entry, i, n1)))"

definition add_entries :: "normalized_entry list \<Rightarrow> nat \<Rightarrow> patch list \<times> nat" where
  "add_entries es n =
     (let (is, n1) = next_indexes (length es) n in (map2 add_normalized_entry is es, n1))"

lemma put_entry_grows:
  assumes "put_entry ei entry n = (pt, i, n1)" and "\<And>j. ei = Some j \<Longrightarrow> j < n" and "n < usize_max"
  shows "grows 1 n n1 [pt] \<and> i < n1 \<and> n \<le> n1"
  using assms
  by (auto simp: put_entry_def next_index_exact grows_add grows_replace split: option.splits)

text \<open>The value a reader finds for an entry, and what the patch of \<open>put_entry\<close> changes.\<close>

abbreviation shown :: "normalized_entry \<Rightarrow> patch_value" where
  "shown e \<equiv> TypedValue (PT_NormalizedEntry e)"

lemma put_entry_shows:
  assumes "put_entry ei e (length doc) = (pt, i, n1)" and "\<And>j. ei = Some j \<Longrightarrow> j < length doc"
    and "length doc < usize_max"
  obtains doc' where "read_patches [pt] doc = Some doc'" "length doc' = n1" "n1 \<le> Suc (length doc)" "length doc \<le> n1"
    "i < n1" "doc' ! i = shown e" "\<And>k. k < length doc \<Longrightarrow> k \<noteq> i \<Longrightarrow> doc' ! k = doc ! k"
    "i = (case ei of Some j \<Rightarrow> j | None \<Rightarrow> length doc)"
proof (cases ei)
  case None
  with assms have "pt = add_normalized_entry (length doc) e" "i = length doc" "n1 = Suc (length doc)"
    by (auto simp: put_entry_def next_index_exact)
  with None assms(3) read_add [of doc e] that [of "doc @ [shown e]"] show ?thesis by (simp add: nth_append)
next
  case (Some j)
  with assms have "pt = replace_entry j e" "i = j" "n1 = length doc" "j < length doc"
    by (auto simp: put_entry_def)
  with Some assms(3) read_replace [of j doc e] that [of "doc[j := shown e]"] show ?thesis by simp
qed

lemma add_entries_grows:
  assumes "add_entries es n = (ps, n1)" and "n + length es \<le> usize_max" and "length es \<le> k"
  shows "grows k n n1 ps \<and> n \<le> n1"
proof -
  have "n + length es \<le> usize_max \<Longrightarrow> grows (length es) n (n + length es) (map2 add_normalized_entry [n..<n + length es] es)" for n
  proof (induction es arbitrary: n)
    case (Cons e es)
    have "grows 1 n (Suc n) [add_normalized_entry n e]" using Cons.prems by (simp add: grows_add)
    from grows_trans [OF this Cons.IH [of "Suc n"]] Cons.prems show ?case by (simp add: upt_conv_Cons del: upt_Suc)
  qed simp
  with assms show ?thesis
    by (auto simp: add_entries_def next_indexes_upt intro: grows_mono)
qed

end
