(* ===== verification/Unified_Diff.thy ===== *)
theory Unified_Diff
  imports Text_Utils
begin

text \<open>
  The functions on unified diffs of \<^verbatim>\<open>crates/utils/src/diff.rs\<close> and \<^verbatim>\<open>make_path_relative\<close> of
  \<^verbatim>\<open>crates/utils/src/path.rs\<close>, which the log normalisers of the agents share.

  The line diff is the crate \<^verbatim>\<open>similar\<close>: a parameter that gives, for two texts, their lines and the
  list of changes.  \<open>line_diff\<close> states what its documentation promises of texts whose lines end
  with a newline: the changes that are not insertions are the lines of the old text in order, those
  that are not deletions the lines of the new one.
\<close>

section \<open>Creating diffs\<close>

datatype change_tag = ChangeEqual | ChangeDelete | ChangeInsert

record text_diff =
  old_slices :: "string list"
  new_slices :: "string list"
  all_changes :: "(change_tag \<times> string) list"

type_synonym differ = "string \<Rightarrow> string \<Rightarrow> text_diff"

definition line_diff :: "differ \<Rightarrow> bool" where
  "line_diff differ \<longleftrightarrow>
     (\<forall>old new. CHR 0x0D \<notin> set old \<and> CHR 0x0D \<notin> set new \<longrightarrow>
        old_slices (differ old new) = split_inclusive newline old
        \<and> new_slices (differ old new) = split_inclusive newline new
        \<and> map snd (filter (\<lambda>c. fst c \<noteq> ChangeInsert) (all_changes (differ old new))) = old_slices (differ old new)
        \<and> map snd (filter (\<lambda>c. fst c \<noteq> ChangeDelete) (all_changes (differ old new))) = new_slices (differ old new))"

definition ensure_newline :: "string \<Rightarrow> string" where
  "ensure_newline line = (if ends_with [newline] line then line else line @ [newline])"

definition change_sign :: "change_tag \<Rightarrow> char" where
  "change_sign tag = (case tag of ChangeEqual \<Rightarrow> CHR '' '' | ChangeDelete \<Rightarrow> CHR ''-'' | ChangeInsert \<Rightarrow> CHR ''+'')"

definition hunk_header :: "nat \<Rightarrow> nat \<Rightarrow> string" where
  "hunk_header old_count new_count = ''@@ -1,'' @ show_nat old_count @ '' +1,'' @ show_nat new_count @ '' @@''"

definition create_unified_diff_hunk :: "differ \<Rightarrow> string \<Rightarrow> string \<Rightarrow> string" where
  "create_unified_diff_hunk differ old new =
     (let diff = differ (ensure_newline old) (ensure_newline new)
      in hunk_header (length (old_slices diff)) (length (new_slices diff)) @ [newline]
         @ concat (map (\<lambda>(tag, val). change_sign tag # val) (all_changes diff)))"

definition file_header :: "string \<Rightarrow> string" where
  "file_header file_path = ''--- a/'' @ file_path @ [newline] @ ''+++ b/'' @ file_path @ [newline]"

definition create_unified_diff :: "differ \<Rightarrow> string \<Rightarrow> string \<Rightarrow> string \<Rightarrow> string" where
  "create_unified_diff differ file_path old new = file_header file_path @ create_unified_diff_hunk differ old new"

definition compute_line_change_counts :: "differ \<Rightarrow> string \<Rightarrow> string \<Rightarrow> nat \<times> nat" where
  "compute_line_change_counts differ old new =
     (let changes = all_changes (differ (ensure_newline old) (ensure_newline new))
      in (length (filter (\<lambda>c. fst c = ChangeInsert) changes), length (filter (\<lambda>c. fst c = ChangeDelete) changes)))"


section \<open>Extracting hunks\<close>

definition hunk_line :: "string \<Rightarrow> bool" where
  "hunk_line line = starts_with_any '' +-'' line"

definition old_line_count :: "string list \<Rightarrow> nat" where
  "old_line_count ls = length (filter (starts_with_any ''- '') ls)"

definition new_line_count :: "string list \<Rightarrow> nat" where
  "new_line_count ls = length (filter (starts_with_any ''+ '') ls)"

text \<open>The loop that collects hunks at their headers; a line that belongs to no hunk ends the current one.\<close>

fun collect_hunks :: "string option \<Rightarrow> string list \<Rightarrow> string list" where
  "collect_hunks current [] = (case current of Some hunk \<Rightarrow> if hunk \<noteq> [] then [hunk] else [] | None \<Rightarrow> [])"
| "collect_hunks current (line # rest) =
     (if starts_with ''@@'' line
      then (case current of Some hunk \<Rightarrow> if hunk \<noteq> [] then [hunk] else [] | None \<Rightarrow> []) @ collect_hunks (Some line) rest
      else case current of
             None \<Rightarrow> collect_hunks None rest
           | Some hunk \<Rightarrow>
               if hunk_line line then collect_hunks (Some (hunk @ line)) rest
               else (if hunk \<noteq> [] then [hunk] else []) @ collect_hunks None rest)"

definition fix_hunk_header :: "string \<Rightarrow> string option" where
  "fix_hunk_header hunk =
     (let ls = split_inclusive newline hunk
      in if length ls < 2 \<or> \<not> starts_with ''@@'' (hd ls) then None
         else if trim (hd ls) = ''@@''
              then Some (hunk_header (old_line_count (tl ls)) (new_line_count (tl ls)) @ concat (tl ls))
              else Some hunk)"

definition fix_hunk_headers :: "string list \<Rightarrow> string list" where
  "fix_hunk_headers hunks = List.map_filter fix_hunk_header hunks"

definition extract_unified_diff_hunks :: "string \<Rightarrow> string list" where
  "extract_unified_diff_hunks unified_diff =
     (let ls = split_inclusive newline unified_diff
      in if \<not> list_ex (starts_with ''@@'') ls
         then (let hunk = concat (filter hunk_line ls)
               in if hunk = [] then []
                  else [hunk_header (old_line_count ls) (new_line_count ls) @ [newline] @ hunk])
         else fix_hunk_headers (collect_hunks None ls))"

fun join_lines :: "string list \<Rightarrow> string" where
  "join_lines [] = []"
| "join_lines [l] = l"
| "join_lines (l # ls) = l @ [newline] @ join_lines ls"

definition concatenate_diff_hunks :: "string \<Rightarrow> string list \<Rightarrow> string" where
  "concatenate_diff_hunks file_path hunks =
     (if hunks = [] then file_header file_path
      else let ls = filter (\<lambda>l. starts_with ''@@ '' l \<or> hunk_line l) (concat (map str_lines hunks))
           in ensure_newline (file_header file_path @ join_lines ls))"


section \<open>Relative paths\<close>

text \<open>
  Paths on Unix.  \<open>skipped\<close> segments are not components of a path; \<open>strip_segments\<close> is
  \<^verbatim>\<open>Path::strip_prefix\<close>, whose rest is the text of the path without the matched components and the
  separators around it.
\<close>

definition skipped :: "string \<Rightarrow> bool" where
  "skipped seg \<longleftrightarrow> seg = [] \<or> seg = ''.''"

fun strip_segments :: "string list \<Rightarrow> string list \<Rightarrow> string list option" where
  "strip_segments [] segs = Some segs"
| "strip_segments (p # ps) [] = None"
| "strip_segments (p # ps) (s # ss) =
     (if skipped s then strip_segments (p # ps) ss
      else if s = p then strip_segments ps ss else None)"

fun join_segments :: "string list \<Rightarrow> string" where
  "join_segments [] = []"
| "join_segments [s] = s"
| "join_segments (s # ss) = s @ ''/'' @ join_segments ss"

definition trim_segments :: "string list \<Rightarrow> string list" where
  "trim_segments ss = rev (dropWhile skipped (rev (dropWhile skipped ss)))"

definition is_absolute :: "string \<Rightarrow> bool" where
  "is_absolute path = starts_with ''/'' path"

definition path_strip_prefix :: "string \<Rightarrow> string \<Rightarrow> string option" where
  "path_strip_prefix path prefix =
     (if is_absolute path \<and> is_absolute prefix
      then map_option (join_segments \<circ> trim_segments)
             (strip_segments (filter (\<lambda>s. \<not> skipped s) (split_on (CHR ''/'') prefix)) (split_on (CHR ''/'') path))
      else if prefix = [] then Some (''/'' @ join_segments (trim_segments (split_on (CHR ''/'') path)))
      else None)"

definition normalize_macos_private_alias :: "bool \<Rightarrow> string \<Rightarrow> string" where
  "normalize_macos_private_alias macos p =
     (if \<not> macos then p
      else if p = ''/private/var'' then ''/var''
      else case strip_prefix ''/private/var/'' p of
             Some rest \<Rightarrow> ''/var/'' @ rest
           | None \<Rightarrow>
               if p = ''/private/tmp'' then ''/tmp''
               else case strip_prefix ''/private/tmp/'' p of Some rest \<Rightarrow> ''/tmp/'' @ rest | None \<Rightarrow> p)"

text \<open>The platform: whether it is macOS, which paths exist, and \<^verbatim>\<open>std::fs::canonicalize\<close>.\<close>

record path_env =
  pe_macos :: bool
  pe_exists :: "string \<Rightarrow> bool"
  pe_canonicalize :: "string \<Rightarrow> string option"

definition relative_or_dot :: "string \<Rightarrow> string" where
  "relative_or_dot relative = (if relative = [] then ''.'' else relative)"

definition make_path_relative :: "path_env \<Rightarrow> string \<Rightarrow> string \<Rightarrow> string" where
  "make_path_relative pe path worktree_path =
     (let path_obj = normalize_macos_private_alias (pe_macos pe) path;
          worktree_obj = normalize_macos_private_alias (pe_macos pe) worktree_path
      in if \<not> is_absolute path_obj then path
         else case path_strip_prefix path_obj worktree_obj of
                Some relative \<Rightarrow> relative_or_dot relative
              | None \<Rightarrow>
                  if \<not> pe_exists pe path_obj \<or> \<not> pe_exists pe worktree_obj then path
                  else (case (pe_canonicalize pe path_obj, pe_canonicalize pe worktree_obj) of
                          (Some canon_path, Some canon_worktree) \<Rightarrow>
                            (case path_strip_prefix canon_path canon_worktree of
                               Some relative \<Rightarrow> relative_or_dot relative
                             | None \<Rightarrow> path)
                        | _ \<Rightarrow> path))"


section \<open>Lines that end with a newline\<close>

definition terminated :: "string \<Rightarrow> bool" where
  "terminated l \<longleftrightarrow> l \<noteq> [] \<and> last l = newline \<and> newline \<notin> set (butlast l)"

lemma terminatedE:
  assumes "terminated l"
  obtains m where "l = m @ [newline]" and "newline \<notin> set m"
  using assms append_butlast_last_id [of l] by (metis terminated_def)

lemma split_inclusive_concat_terminated:
  "list_all terminated ls \<Longrightarrow> split_inclusive newline (concat ls @ s) = ls @ split_inclusive newline s"
  by (induction ls) (auto elim!: terminatedE simp: split_inclusive_line)

lemma split_inclusive_terminated_lines:
  assumes "s = [] \<or> last s = newline"
  shows "list_all terminated (split_inclusive newline s)"
  using assms
proof (induction s)
  case (Cons c s)
  then have IH: "list_all terminated (split_inclusive newline s)" by (auto split: if_splits)
  show ?case
  proof (cases "c = newline")
    case True
    with IH show ?thesis by (simp add: terminated_def [of "[newline]"])
  next
    case False
    with Cons.prems have "s \<noteq> []" by auto
    then obtain l ls where "split_inclusive newline s = l # ls"
      by (metis list.exhaust split_inclusive_eq_Nil)
    with IH False show ?thesis by (simp add: terminated_def [of l] terminated_def [of "c # l"])
  qed
qed simp

lemma ensure_newline_last: "ensure_newline s \<noteq> [] \<and> last (ensure_newline s) = newline"
  by (auto simp: ensure_newline_def ends_with_single)

lemma ensure_newline_lines: "list_all terminated (split_inclusive newline (ensure_newline s))"
  using split_inclusive_terminated_lines ensure_newline_last by blast

lemma ensure_newline_set: "c \<noteq> newline \<Longrightarrow> c \<in> set (ensure_newline s) \<longleftrightarrow> c \<in> set s"
  by (simp add: ensure_newline_def)

lemma white_space_ends:
  "[] \<notin> set white_space" "CHR ''@'' \<notin> hd ` set white_space" "CHR ''@'' \<notin> last ` set white_space"
  "filter (\<lambda>w. last w = newline) white_space = [[newline]]"
  "[newline] \<in> set white_space"
  by code_simp+

lemma starts_with_hd: "starts_with w (c # s) \<Longrightarrow> w = [] \<or> hd w = c"
  by (cases w) auto

text \<open>The header of a hunk has no white space around it but its newline.\<close>

lemma strip_while_stop:
  assumes "CHR ''@'' \<notin> hd ` set ws"
  shows "strip_while ws (CHR ''@'' # s) = CHR ''@'' # s"
proof -
  have "find (\<lambda>w. w \<noteq> [] \<and> starts_with w (CHR ''@'' # s)) ws = None"
    using assms by (force simp: find_None_iff dest: starts_with_hd)
  then show ?thesis by (subst strip_while.simps) simp
qed

lemma find_unique: "x \<in> set xs \<Longrightarrow> P x \<Longrightarrow> (\<And>y. y \<in> set xs \<Longrightarrow> P y \<Longrightarrow> y = x) \<Longrightarrow> find P xs = Some x"
proof (induction xs)
  case (Cons a xs)
  show ?case
  proof (cases "P a")
    case True
    with Cons.prems(3) [of a] show ?thesis by simp
  next
    case False
    with Cons show ?thesis by (metis find.simps(2) list.set_intros(2) set_ConsD)
  qed
qed simp

lemma strip_while_newline:
  "strip_while (map rev white_space) (newline # CHR ''@'' # s) = CHR ''@'' # s"
proof -
  have at: "CHR ''@'' \<notin> hd ` set (map rev white_space)"
    using white_space_ends(1,3) by (auto simp: hd_rev image_iff)
  have nl: "w = [newline]" if "w \<in> set white_space" "last w = newline" for w
  proof -
    have "w \<in> set (filter (\<lambda>w. last w = newline) white_space)" using that by simp
    then show ?thesis unfolding white_space_ends(4) by simp
  qed
  have "find (\<lambda>w. w \<noteq> [] \<and> starts_with w (newline # CHR ''@'' # s)) (map rev white_space) = Some [newline]"
  proof (rule find_unique)
    show "[newline] \<in> set (map rev white_space)"
      using white_space_ends(5) by (auto simp: image_iff intro!: bexI [of _ "[newline]"])
    show "w = [newline]" if "w \<in> set (map rev white_space)" "w \<noteq> [] \<and> starts_with w (newline # CHR ''@'' # s)" for w
      using that nl starts_with_hd [of w] by (auto simp: hd_rev)
  qed simp
  then show ?thesis using strip_while_stop [OF at] by (subst strip_while.simps) simp
qed

lemma trim_header: "trim (CHR ''@'' # s @ ''@'' @ [newline]) = CHR ''@'' # s @ ''@''"
proof -
  have "trim_start (CHR ''@'' # s @ ''@'' @ [newline]) = CHR ''@'' # s @ ''@'' @ [newline]"
    unfolding trim_start_def by (rule strip_while_stop [OF white_space_ends(2)])
  then show ?thesis
    using strip_while_newline [of "rev s @ ''@''"] by (simp add: trim_def trim_end_def)
qed


section \<open>Hunks\<close>

text \<open>The lines of a hunk: the header, then every change with its sign.\<close>

definition change_lines :: "text_diff \<Rightarrow> string list" where
  "change_lines d = map (\<lambda>(tag, val). change_sign tag # val) (all_changes d)"

definition header_line :: "text_diff \<Rightarrow> string" where
  "header_line d = hunk_header (length (old_slices d)) (length (new_slices d)) @ [newline]"

definition hunk_diff :: "differ \<Rightarrow> string \<Rightarrow> string \<Rightarrow> text_diff" where
  "hunk_diff differ old new = differ (ensure_newline old) (ensure_newline new)"

lemma hunk_concat: "create_unified_diff_hunk differ old new = header_line (hunk_diff differ old new) @ concat (change_lines (hunk_diff differ old new))"
  by (simp add: create_unified_diff_hunk_def Let_def header_line_def change_lines_def hunk_diff_def)

lemma show_nat_chars: "c \<in> set (show_nat n) \<Longrightarrow> \<exists>d < 10. c = digit_char d"
proof (induction n rule: show_nat.induct)
  case (1 n)
  then show ?case
    by (cases "n < 10"; cases "c = digit_char (n mod 10)")
       (auto simp: show_nat.simps [of n] intro: exI [of _ "n mod 10"])
qed

lemma newline_not_in_show_nat: "newline \<notin> set (show_nat n)"
proof
  assume "newline \<in> set (show_nat n)"
  then obtain d where "d < 10" "digit_char d = newline" by (metis show_nat_chars)
  then show False using digit_value_digit_char [of d] by (auto simp: digit_value_def)
qed

lemma header_terminated: "terminated (header_line d)" "starts_with ''@@'' (header_line d)"
  by (simp_all add: terminated_def header_line_def hunk_header_def newline_not_in_show_nat butlast_append starts_with_def)

lemma header_not_empty: "trim (header_line d) \<noteq> ''@@''"
  using trim_header [of "''@ -1,'' @ show_nat (length (old_slices d)) @ '' +1,'' @ show_nat (length (new_slices d)) @ '' @''"]
  by (simp add: header_line_def hunk_header_def)

lemma differ_lines:
  assumes "line_diff differ" and "CHR 0x0D \<notin> set old" "CHR 0x0D \<notin> set new"
  shows "map snd (filter (\<lambda>c. fst c \<noteq> ChangeInsert) (all_changes (hunk_diff differ old new))) = old_slices (hunk_diff differ old new)"
    and "map snd (filter (\<lambda>c. fst c \<noteq> ChangeDelete) (all_changes (hunk_diff differ old new))) = new_slices (hunk_diff differ old new)"
    and "old_slices (hunk_diff differ old new) = split_inclusive newline (ensure_newline old)"
    and "new_slices (hunk_diff differ old new) = split_inclusive newline (ensure_newline new)"
proof -
  have "CHR 0x0D \<notin> set (ensure_newline old)" "CHR 0x0D \<notin> set (ensure_newline new)"
    using assms(2,3) by (simp_all add: ensure_newline_set)
  with assms(1) show "map snd (filter (\<lambda>c. fst c \<noteq> ChangeInsert) (all_changes (hunk_diff differ old new))) = old_slices (hunk_diff differ old new)"
    "map snd (filter (\<lambda>c. fst c \<noteq> ChangeDelete) (all_changes (hunk_diff differ old new))) = new_slices (hunk_diff differ old new)"
    "old_slices (hunk_diff differ old new) = split_inclusive newline (ensure_newline old)"
    "new_slices (hunk_diff differ old new) = split_inclusive newline (ensure_newline new)"
    unfolding line_diff_def hunk_diff_def by blast+
qed

lemma change_lines_terminated:
  assumes "line_diff differ" and "CHR 0x0D \<notin> set old" "CHR 0x0D \<notin> set new"
  shows "list_all terminated (change_lines (hunk_diff differ old new))" and "change_lines (hunk_diff differ old new) \<noteq> []"
proof -
  let ?d = "hunk_diff differ old new"
  note sl = differ_lines [OF assms]
  have "list_all terminated (old_slices ?d)" "list_all terminated (new_slices ?d)"
    unfolding sl(3,4) by (rule ensure_newline_lines)+
  moreover have "val \<in> set (old_slices ?d) \<or> val \<in> set (new_slices ?d)" if "(tag, val) \<in> set (all_changes ?d)" for tag val
  proof (cases "tag = ChangeInsert")
    case True
    with that show ?thesis unfolding sl(2) [symmetric] by force
  next
    case False
    with that show ?thesis unfolding sl(1) [symmetric] by force
  qed
  ultimately have "terminated val" if "(tag, val) \<in> set (all_changes ?d)" for tag val
    using that by (auto simp: list_all_iff)
  moreover have "terminated val \<Longrightarrow> terminated (change_sign tag # val)" for tag val
    by (cases tag) (auto simp: terminated_def change_sign_def)
  ultimately show "list_all terminated (change_lines ?d)"
    unfolding list_all_iff change_lines_def by auto
  have "old_slices ?d \<noteq> []" unfolding sl(3) using ensure_newline_last by simp
  then show "change_lines ?d \<noteq> []" using sl(1) by (auto simp: change_lines_def)
qed

lemma change_lines_hunk: "l \<in> set (change_lines d) \<Longrightarrow> hunk_line l \<and> \<not> starts_with ''@@'' l"
proof -
  assume "l \<in> set (change_lines d)"
  then obtain tag val where "l = change_sign tag # val" by (auto simp: change_lines_def)
  then show ?thesis by (cases tag) (simp_all add: hunk_line_def starts_with_any_def change_sign_def)
qed

lemma collect_hunk_lines:
  "list_all (\<lambda>l. hunk_line l \<and> \<not> starts_with ''@@'' l) ls \<Longrightarrow> hunk \<noteq> [] \<Longrightarrow> collect_hunks (Some hunk) ls = [hunk @ concat ls]"
  by (induction ls arbitrary: hunk) auto

lemma file_header_lines:
  assumes "newline \<notin> set path"
  shows "split_inclusive newline (file_header path @ s)
    = (''--- a/'' @ path @ [newline]) # (''+++ b/'' @ path @ [newline]) # split_inclusive newline s"
  using split_inclusive_concat_terminated [of "[''--- a/'' @ path @ [newline], ''+++ b/'' @ path @ [newline]]" s] assms
  by (simp add: file_header_def terminated_def butlast_append)


lemma hunk_lines:
  assumes "line_diff differ" and "CHR 0x0D \<notin> set old" "CHR 0x0D \<notin> set new"
  shows "split_inclusive newline (create_unified_diff_hunk differ old new)
    = header_line (hunk_diff differ old new) # change_lines (hunk_diff differ old new)"
  using split_inclusive_concat_terminated [of "header_line (hunk_diff differ old new) # change_lines (hunk_diff differ old new)" "[]"]
    change_lines_terminated(1) [OF assms] header_terminated(1)
  by (simp add: hunk_concat)

lemma fix_valid_header:
  assumes "line_diff differ" and "CHR 0x0D \<notin> set old" "CHR 0x0D \<notin> set new"
  shows "fix_hunk_header (create_unified_diff_hunk differ old new) = Some (create_unified_diff_hunk differ old new)"
  using hunk_lines [OF assms] change_lines_terminated(2) [OF assms] header_terminated(2) header_not_empty
  by (cases "change_lines (hunk_diff differ old new)") (simp_all add: fix_hunk_header_def)

lemma change_sign_kinds:
  "starts_with_any ''- '' (change_sign tag # val) \<longleftrightarrow> tag \<noteq> ChangeInsert"
  "starts_with_any ''+ '' (change_sign tag # val) \<longleftrightarrow> tag \<noteq> ChangeDelete"
  by (cases tag; simp add: starts_with_any_def change_sign_def)+

lemma change_counts:
  assumes "line_diff differ" and "CHR 0x0D \<notin> set old" "CHR 0x0D \<notin> set new"
  shows "old_line_count (change_lines (hunk_diff differ old new)) = length (old_slices (hunk_diff differ old new))"
    and "new_line_count (change_lines (hunk_diff differ old new)) = length (new_slices (hunk_diff differ old new))"
proof -
  let ?d = "hunk_diff differ old new"
  have "old_line_count (change_lines ?d) = length (filter (\<lambda>c. fst c \<noteq> ChangeInsert) (all_changes ?d))"
    "new_line_count (change_lines ?d) = length (filter (\<lambda>c. fst c \<noteq> ChangeDelete) (all_changes ?d))"
    by (simp_all add: old_line_count_def new_line_count_def change_lines_def filter_map o_def case_prod_beta change_sign_kinds)
  then show "old_line_count (change_lines ?d) = length (old_slices ?d)" "new_line_count (change_lines ?d) = length (new_slices ?d)"
    using arg_cong [OF differ_lines(1) [OF assms], of length] arg_cong [OF differ_lines(2) [OF assms], of length] by simp_all
qed


section \<open>Properties\<close>

text \<open>
  C28: A diff of texts without carriage returns is read back as it was written, for a path without a
  newline and a differ that takes lines to end with a newline: extracting the hunks of a created unified
  diff gives its one hunk unchanged, whose header counts exactly the old and the new lines of its body,
  and whose body without the inserted (deleted) lines is the old (new) text, ended by a newline.
\<close>

theorem unified_diff_roundtrip:
  assumes "line_diff differ" and "CHR 0x0D \<notin> set old" and "CHR 0x0D \<notin> set new" and "newline \<notin> set path"
  shows "\<exists>body. extract_unified_diff_hunks (create_unified_diff differ path old new)
      = [hunk_header (old_line_count body) (new_line_count body) @ [newline] @ concat body]
    \<and> concat (map tl (filter (starts_with_any ''- '') body)) = ensure_newline old
    \<and> concat (map tl (filter (starts_with_any ''+ '') body)) = ensure_newline new"
proof -
  let ?d = "hunk_diff differ old new" and ?h = "create_unified_diff_hunk differ old new"
  have h: "?h = hunk_header (old_line_count (change_lines ?d)) (new_line_count (change_lines ?d)) @ [newline] @ concat (change_lines ?d)"
    using change_counts [OF assms(1-3)] by (simp add: hunk_concat header_line_def)
  have "list_all (\<lambda>l. hunk_line l \<and> \<not> starts_with ''@@'' l) (change_lines ?d)"
    using change_lines_hunk by (auto simp: list_all_iff)
  then have "collect_hunks (Some (header_line ?d)) (change_lines ?d) = [?h]"
    using collect_hunk_lines [of "change_lines ?d" "header_line ?d"] header_terminated(1) [of ?d]
    by (simp add: hunk_concat terminated_def)
  then have "extract_unified_diff_hunks (create_unified_diff differ path old new) = [?h]"
    using file_header_lines [OF assms(4), of ?h] hunk_lines [OF assms(1-3)] header_terminated(2) fix_valid_header [OF assms(1-3)]
    by (simp add: extract_unified_diff_hunks_def create_unified_diff_def fix_hunk_headers_def map_filter_simps)
  moreover have "concat (map tl (filter (starts_with_any ''- '') (change_lines ?d))) = ensure_newline old"
    "concat (map tl (filter (starts_with_any ''+ '') (change_lines ?d))) = ensure_newline new"
    using differ_lines [OF assms(1-3)]
    by (simp_all add: change_lines_def filter_map o_def case_prod_beta change_sign_kinds)
  ultimately show ?thesis using h by metis
qed


text \<open>A line diff that deletes all old lines and inserts all new ones.\<close>

definition plain_differ :: differ where
  "plain_differ old new =
     \<lparr> old_slices = split_inclusive newline old, new_slices = split_inclusive newline new,
       all_changes = map (Pair ChangeDelete) (split_inclusive newline old) @ map (Pair ChangeInsert) (split_inclusive newline new) \<rparr>"

lemma plain_differ_line_diff: "line_diff plain_differ"
  by (simp add: line_diff_def plain_differ_def filter_map o_def)

theorem unified_diff_roundtrip_witness:
  "\<exists>body. extract_unified_diff_hunks (create_unified_diff plain_differ ''f'' ''a'' ''b'')
      = [hunk_header (old_line_count body) (new_line_count body) @ [newline] @ concat body]
    \<and> concat (map tl (filter (starts_with_any ''- '') body)) = ensure_newline ''a''
    \<and> concat (map tl (filter (starts_with_any ''+ '') body)) = ensure_newline ''b''"
  by (rule unified_diff_roundtrip [OF plain_differ_line_diff]) simp_all

text \<open>
  A hunk with an empty header gets a header without its newline, so the first line of its body
  becomes part of the header.
\<close>

lemma empty_header_swallows_line:
  "extract_unified_diff_hunks (''@@'' @ [newline] @ ''-x'' @ [newline]) = [hunk_header 1 0 @ ''-x'' @ [newline]]"
  by code_simp

text \<open>The counts of added and deleted lines agree with the lengths of the texts.\<close>

lemma line_change_counts:
  assumes "line_diff differ" and "CHR 0x0D \<notin> set old" "CHR 0x0D \<notin> set new"
    and "compute_line_change_counts differ old new = (additions, deletions)"
  shows "length (split_inclusive newline (ensure_newline old)) + additions
       = length (split_inclusive newline (ensure_newline new)) + deletions"
proof -
  have "length (filter (\<lambda>c. fst c \<noteq> ChangeInsert) cs) + length (filter (\<lambda>c. fst c = ChangeInsert) cs)
      = length (filter (\<lambda>c. fst c \<noteq> ChangeDelete) cs) + length (filter (\<lambda>c. fst c = ChangeDelete) cs)"
    for cs :: "(change_tag \<times> string) list"
    using sum_length_filter_compl [of "\<lambda>c. fst c = ChangeInsert" cs] sum_length_filter_compl [of "\<lambda>c. fst c = ChangeDelete" cs]
    by simp
  from this [of "all_changes (hunk_diff differ old new)"] show ?thesis
    using assms(4) arg_cong [OF differ_lines(1) [OF assms(1-3)], of length] arg_cong [OF differ_lines(2) [OF assms(1-3)], of length]
    unfolding compute_line_change_counts_def differ_lines(3,4) [OF assms(1-3)] hunk_diff_def [symmetric] Let_def
    by (auto simp del: length_filter_conv_card)
qed


section \<open>Paths below the worktree\<close>

lemma split_on_Cons: "split_on d s \<noteq> []"
  by (induction s) (auto split: list.split)

lemma split_on_append: "split_on d (s @ d # r) = split_on d s @ split_on d r"
  using split_on_Cons by (induction s) (auto split: list.splits)

lemma join_split: "join_segments (split_on (CHR ''/'') s) = s"
proof (induction s)
  case (Cons c s)
  obtain w ws where w: "split_on (CHR ''/'') s = w # ws" by (metis list.exhaust split_on_Cons)
  with Cons show ?case by (cases ws) auto
qed simp

lemma strip_own_segments:
  "\<exists>rest. strip_segments (filter (\<lambda>s. \<not> skipped s) segs) (segs @ ss) = Some (rest @ ss) \<and> list_all skipped rest"
proof (induction segs)
  case (Cons s segs)
  show ?case
  proof (cases "skipped s \<and> filter (\<lambda>s. \<not> skipped s) segs = []")
    case True
    then have "list_all skipped (s # segs)" by (auto simp: list_all_iff filter_empty_conv)
    with True show ?thesis by (intro exI [of _ "s # segs"]) (simp add: comp_def)
  next
    case False
    with Cons show ?thesis by (cases "filter (\<lambda>s. \<not> skipped s) segs") auto
  qed
qed simp

lemma trim_clean_segments:
  assumes "list_all skipped rest" and "ss \<noteq> []" and "\<not> skipped (hd ss)" and "\<not> skipped (last ss)"
  shows "trim_segments (rest @ ss) = ss"
proof -
  have "dropWhile skipped (rest @ ss) = dropWhile skipped ss"
    using assms(1) by (induction rest) auto
  also have "\<dots> = ss" using assms(2,3) by (cases ss) auto
  finally have "dropWhile skipped (rest @ ss) = ss" .
  moreover have "dropWhile skipped (rev ss) = rev ss"
    using assms(2,4) by (cases "rev ss") (auto simp: last_rev hd_rev [symmetric])
  ultimately show ?thesis by (simp add: trim_segments_def)
qed

lemma relative_below_worktree:
  assumes "\<not> pe_macos pe" and "is_absolute worktree" and "relative \<noteq> []"
    and "\<not> skipped (hd (split_on (CHR ''/'') relative))" and "\<not> skipped (last (split_on (CHR ''/'') relative))"
  shows "make_path_relative pe (worktree @ ''/'' @ relative) worktree = relative"
proof -
  let ?s = "split_on (CHR ''/'')"
  obtain rest where rest: "strip_segments (filter (\<lambda>s. \<not> skipped s) (?s worktree)) (?s worktree @ ?s relative) = Some (rest @ ?s relative)"
    "list_all skipped rest" using strip_own_segments by blast
  have "path_strip_prefix (worktree @ ''/'' @ relative) worktree = Some relative"
    using assms(2) rest trim_clean_segments [OF rest(2) split_on_Cons assms(4,5)]
    by (auto simp: path_strip_prefix_def split_on_append is_absolute_def starts_with_iff join_split)
  with assms(1-3) show ?thesis
    by (auto simp: make_path_relative_def normalize_macos_private_alias_def is_absolute_def starts_with_iff relative_or_dot_def)
qed

end
