(* ===== verification/Claude_Logs.thy ===== *)
theory Claude_Logs
  imports Conversation Unified_Diff "HOL-Library.AList"
begin

text \<open>
  The log normaliser of Claude Code, \<^verbatim>\<open>crates/executors/src/executors/claude.rs\<close> from
  \<^verbatim>\<open>HistoryStrategy\<close> on: the messages of the agent, the state of \<^verbatim>\<open>ClaudeLogProcessor\<close>, the patches
  \<^verbatim>\<open>normalize_entries\<close> makes of a message, and the loop of \<^verbatim>\<open>process_logs\<close> over the raw output.

  serde is a parameter, the record \<open>claude_env\<close>: what a line parses to, and the JSON value and text
  of the agent's own types.  The counter of entries is threaded through as a number.
\<close>

section \<open>The messages of the agent\<close>

record claude_todo_item =
  ct_id :: "string option"
  ct_content :: string
  ct_status :: string
  ct_priority :: "string option"

record claude_edit_item =
  ce_old_string :: "string option"
  ce_new_string :: "string option"

datatype claude_tool_data =
    TD_TodoWrite "claude_todo_item list"
  | TD_Task "string option" "string option" "string option"
  | TD_Glob string "string option" "nat option"
  | TD_LS string
  | TD_Read string
  | TD_Bash string "string option"
  | TD_Grep string "string option" "string option"
  | TD_ExitPlanMode string
  | TD_Edit string "string option" "string option"
  | TD_MultiEdit string "claude_edit_item list"
  | TD_Write string string
  | TD_NotebookEdit string string string "string option"
  | TD_WebFetch string "string option"
  | TD_WebSearch string "nat option"
  | TD_Oracle "string option" "string list option" "string option"
  | TD_Mermaid string
  | TD_CodebaseSearchAgent "string option" "string option" "string list option" "string list option" "nat option"
  | TD_UndoEdit "string option" "nat option"
  | TD_TodoRead
  | TD_Unknown "(string \<times> json) list"

datatype claude_content_item =
    CI_Text string
  | CI_Thinking string
  | CI_ToolUse string claude_tool_data
  | CI_ToolResult string json "bool option"

record claude_message =
  cm_id :: "string option"
  cm_message_type :: "string option"
  cm_role :: string
  cm_model :: "string option"
  cm_content :: "claude_content_item list"
  cm_stop_reason :: "string option"

record claude_message_delta =
  md_stop_reason :: "string option"
  md_stop_sequence :: "string option"

record claude_usage =
  cu_input_tokens :: "nat option"
  cu_output_tokens :: "nat option"
  cu_cache_creation_input_tokens :: "nat option"
  cu_cache_read_input_tokens :: "nat option"
  cu_service_tier :: "string option"

datatype claude_content_block_delta =
    TextDelta string
  | ThinkingDelta string
  | UnknownDelta

datatype claude_stream_event =
    MessageStart claude_message
  | ContentBlockStart nat claude_content_item
  | ContentBlockDelta nat claude_content_block_delta
  | ContentBlockStop nat
  | MessageDelta "claude_message_delta option" "claude_usage option"
  | MessageStop
  | UnknownEvent

datatype claude_json =
    CJ_System (cj_subtype: "string option") "string option" "string option" "json list option" "string option"
      (cj_api_key_source: "string option")
  | CJ_Assistant claude_message "string option"
  | CJ_User claude_message "string option"
  | CJ_ToolUse string claude_tool_data "string option"
  | CJ_ToolResult json "bool option" "string option"
  | CJ_StreamEvent claude_stream_event "string option" "string option" "string option"
  | CJ_Result "string option" "bool option" "nat option" "json option" "string option" "nat option" "string option"
  | CJ_ApprovalResponse string string approval_status
  | CJ_Unknown "(string \<times> json) list"

definition get_name :: "claude_tool_data \<Rightarrow> string" where
  "get_name td =
     (case td of
        TD_TodoWrite _ \<Rightarrow> ''TodoWrite'' | TD_Task _ _ _ \<Rightarrow> ''Task'' | TD_Glob _ _ _ \<Rightarrow> ''Glob'' | TD_LS _ \<Rightarrow> ''LS''
      | TD_Read _ \<Rightarrow> ''Read'' | TD_Bash _ _ \<Rightarrow> ''Bash'' | TD_Grep _ _ _ \<Rightarrow> ''Grep'' | TD_ExitPlanMode _ \<Rightarrow> ''ExitPlanMode''
      | TD_Edit _ _ _ \<Rightarrow> ''Edit'' | TD_MultiEdit _ _ \<Rightarrow> ''MultiEdit'' | TD_Write _ _ \<Rightarrow> ''Write''
      | TD_NotebookEdit _ _ _ _ \<Rightarrow> ''NotebookEdit'' | TD_WebFetch _ _ \<Rightarrow> ''WebFetch'' | TD_WebSearch _ _ \<Rightarrow> ''WebSearch''
      | TD_TodoRead \<Rightarrow> ''TodoRead'' | TD_Oracle _ _ _ \<Rightarrow> ''Oracle'' | TD_Mermaid _ \<Rightarrow> ''Mermaid''
      | TD_CodebaseSearchAgent _ _ _ _ _ \<Rightarrow> ''CodebaseSearchAgent'' | TD_UndoEdit _ _ \<Rightarrow> ''UndoEdit''
      | TD_Unknown data \<Rightarrow> (case Option.bind (map_of data ''name'') json_as_str of Some n \<Rightarrow> n | None \<Rightarrow> ''unknown''))"

record claude_env =
  parse_claude_json :: "string \<Rightarrow> claude_json option"
  parse_json :: "string \<Rightarrow> json option"
  parse_amp_bash_result :: "string \<Rightarrow> (string \<times> int) option"
  item_value :: "claude_content_item \<Rightarrow> json"
  message_value :: "claude_json \<Rightarrow> json"
  message_text :: "claude_json \<Rightarrow> string"
  tool_value :: "claude_tool_data \<Rightarrow> json"
  value_text :: "json \<Rightarrow> string"
  cl_differ :: differ
  cl_paths :: path_env

abbreviation relative :: "claude_env \<Rightarrow> string \<Rightarrow> string \<Rightarrow> string" where
  "relative ce path worktree \<equiv> make_path_relative (cl_paths ce) path worktree"


section \<open>State\<close>

datatype history_strategy = DefaultHistory | AmpResume

datatype streaming_content_kind = StreamText | StreamThinking

record streaming_content_state =
  sc_kind :: streaming_content_kind
  sc_buffer :: string
  sc_entry_index :: "nat option"

record streaming_message_state =
  sm_role :: string
  sm_contents :: "nat \<rightharpoonup> streaming_content_state"

record claude_tool_call_info =
  ti_entry_index :: nat
  ti_tool_name :: string
  ti_tool_data :: claude_tool_data
  ti_content :: string

record claude_log_processor =
  cp_model_name :: "string option"
  cp_tool_map :: "string \<rightharpoonup> claude_tool_call_info"
  cp_strategy :: history_strategy
  cp_streaming_messages :: "string \<rightharpoonup> streaming_message_state"
  cp_streaming_message_id :: "string option"

definition new_with_strategy :: "history_strategy \<Rightarrow> claude_log_processor" where
  "new_with_strategy strategy =
     \<lparr> cp_model_name = None, cp_tool_map = Map.empty, cp_strategy = strategy, cp_streaming_messages = Map.empty,
       cp_streaming_message_id = None \<rparr>"


section \<open>Entries of tools\<close>

text \<open>\<^verbatim>\<open>name.split("__")\<close>.\<close>

fun split_dunder :: "string \<Rightarrow> string list" where
  "split_dunder [] = [[]]"
| "split_dunder [c] = [[c]]"
| "split_dunder (c # d # s) =
     (if c = CHR ''_'' \<and> d = CHR ''_'' then [] # split_dunder s
      else (case split_dunder (d # s) of [] \<Rightarrow> [[c]] | w # ws \<Rightarrow> (c # w) # ws))"

definition mcp_label :: "string \<Rightarrow> string" where
  "mcp_label name =
     (let parts = split_dunder name
      in if starts_with ''mcp__'' name \<and> 3 \<le> length parts then ''mcp:'' @ parts ! 1 @ '':'' @ parts ! 2 else name)"

text \<open>\<^verbatim>\<open>from_value::<ClaudeToolWithInput>\<close>: a struct with one defaulted field.\<close>

definition tool_with_input :: "json \<Rightarrow> json option" where
  "tool_with_input j =
     (case j of
        JObject fs \<Rightarrow> Some (case map_of fs ''input'' of Some v \<Rightarrow> v | None \<Rightarrow> JNull)
      | JArray [] \<Rightarrow> Some JNull
      | JArray [v] \<Rightarrow> Some v
      | _ \<Rightarrow> None)"

definition tool_args :: "claude_env \<Rightarrow> claude_tool_data \<Rightarrow> json" where
  "tool_args ce td = (case tool_with_input (tool_value ce td) of Some v \<Rightarrow> v | None \<Rightarrow> JNull)"

definition unwrap_or_default :: "string option \<Rightarrow> string" where
  "unwrap_or_default s = (case s of Some x \<Rightarrow> x | None \<Rightarrow> [])"

definition edit_hunk :: "claude_env \<Rightarrow> claude_edit_item \<Rightarrow> string option" where
  "edit_hunk ce edit =
     (if ce_old_string edit \<noteq> None \<or> ce_new_string edit \<noteq> None
      then Some (create_unified_diff_hunk (cl_differ ce) (unwrap_or_default (ce_old_string edit)) (unwrap_or_default (ce_new_string edit)))
      else None)"

fun extract_action_type :: "claude_env \<Rightarrow> claude_tool_data \<Rightarrow> string \<Rightarrow> action_type" where
  "extract_action_type ce (TD_Read file_path) wt = FileRead (relative ce file_path wt)"
| "extract_action_type ce (TD_Edit file_path old_string new_string) wt =
     FileEdit (relative ce file_path wt)
       (if old_string \<noteq> None \<or> new_string \<noteq> None
        then [Edit (create_unified_diff (cl_differ ce) file_path (unwrap_or_default old_string) (unwrap_or_default new_string)) False]
        else [])"
| "extract_action_type ce (TD_MultiEdit file_path edits) wt =
     FileEdit (relative ce file_path wt)
       [Edit (concatenate_diff_hunks file_path (List.map_filter (edit_hunk ce) edits)) False]"
| "extract_action_type ce (TD_Write file_path content) wt = FileEdit (relative ce file_path wt) [Write content]"
| "extract_action_type ce (TD_Bash command _) wt = CommandRun command None"
| "extract_action_type ce (TD_Grep pattern _ _) wt = Search pattern"
| "extract_action_type ce (TD_WebFetch url _) wt = WebFetch url"
| "extract_action_type ce (TD_WebSearch query _) wt = WebFetch query"
| "extract_action_type ce (TD_Task _ description prompt) wt =
     TaskCreate (case description of Some desc \<Rightarrow> desc | None \<Rightarrow> unwrap_or_default prompt)"
| "extract_action_type ce (TD_ExitPlanMode plan) wt = PlanPresentation plan"
| "extract_action_type ce (TD_NotebookEdit p s m c) wt =
     Tool ''NotebookEdit'' (Some (tool_value ce (TD_NotebookEdit p s m c))) None"
| "extract_action_type ce (TD_TodoWrite todos) wt =
     TodoManagement (map (\<lambda>t. \<lparr> todo_content = ct_content t, todo_status = ct_status t, todo_priority = ct_priority t \<rparr>) todos) ''write''"
| "extract_action_type ce TD_TodoRead wt = TodoManagement [] ''read''"
| "extract_action_type ce (TD_Glob pattern _ _) wt = Search pattern"
| "extract_action_type ce (TD_LS _) wt = OtherAction ''List directory''"
| "extract_action_type ce (TD_Oracle _ _ _) wt = OtherAction ''Oracle''"
| "extract_action_type ce (TD_Mermaid _) wt = OtherAction ''Mermaid diagram''"
| "extract_action_type ce (TD_CodebaseSearchAgent _ _ _ _ _) wt = OtherAction ''Codebase search''"
| "extract_action_type ce (TD_UndoEdit _ _) wt = OtherAction ''Undo edit''"
| "extract_action_type ce (TD_Unknown data) wt =
     (let name = get_name (TD_Unknown data)
      in if starts_with ''mcp__'' name
         then Tool (mcp_label name) (Some (tool_args ce (TD_Unknown data))) None
         else OtherAction (''Tool: '' @ name))"

definition quote :: "string \<Rightarrow> string" where
  "quote s = ''`'' @ s @ ''`''"

definition other_content :: "claude_env \<Rightarrow> claude_tool_data \<Rightarrow> string \<Rightarrow> string" where
  "other_content ce td wt =
     (case td of
        TD_LS path \<Rightarrow>
          (let relative_path = relative ce path wt
           in if relative_path = [] then ''List directory'' else ''List directory: '' @ quote relative_path)
      | TD_Glob pattern path _ \<Rightarrow>
          (case path of
             Some search_path \<Rightarrow> ''Find files: '' @ quote pattern @ '' in '' @ quote (relative ce search_path wt)
           | None \<Rightarrow> ''Find files: '' @ quote pattern)
      | TD_Oracle task _ _ \<Rightarrow> (case task of Some t \<Rightarrow> ''Oracle: '' @ quote t | None \<Rightarrow> ''Oracle'')
      | TD_Mermaid _ \<Rightarrow> ''Mermaid diagram''
      | TD_CodebaseSearchAgent query path _ _ _ \<Rightarrow>
          (case query of
             Some q \<Rightarrow>
               if q = [] then ''Codebase search''
               else (case path of
                       Some p \<Rightarrow>
                         if p = [] then ''Codebase search: '' @ quote q
                         else ''Codebase search: '' @ quote q @ '' in '' @ quote (relative ce p wt)
                     | None \<Rightarrow> ''Codebase search: '' @ quote q)
           | None \<Rightarrow> ''Codebase search'')
      | TD_UndoEdit path _ \<Rightarrow>
          (case path of
             Some p \<Rightarrow>
               (let rel = relative ce p wt in if rel = [] then ''Undo edit'' else ''Undo edit: '' @ quote rel)
           | None \<Rightarrow> ''Undo edit'')
      | _ \<Rightarrow> get_name td)"

definition generate_concise_content :: "claude_env \<Rightarrow> claude_tool_data \<Rightarrow> action_type \<Rightarrow> string \<Rightarrow> string" where
  "generate_concise_content ce td action wt =
     (case action of
        FileRead path \<Rightarrow> quote path
      | FileEdit path _ \<Rightarrow> quote path
      | CommandRun command _ \<Rightarrow> quote command
      | Search query \<Rightarrow> quote query
      | WebFetch url \<Rightarrow> quote url
      | TaskCreate description \<Rightarrow> if description = [] then ''Task'' else ''Task: '' @ quote description
      | Tool _ _ _ \<Rightarrow>
          (case td of
             TD_NotebookEdit notebook_path _ _ _ \<Rightarrow> quote (relative ce notebook_path wt)
           | TD_Unknown _ \<Rightarrow> mcp_label (get_name td)
           | _ \<Rightarrow> get_name td)
      | PlanPresentation plan \<Rightarrow> plan
      | TodoManagement _ _ \<Rightarrow> ''TODO list updated''
      | OtherAction _ \<Rightarrow> other_content ce td wt)"

text \<open>\<^verbatim>\<open>obj.insert\<close> on the metadata of a tool call, which is left alone when it is no object.\<close>

definition with_tool_call_id :: "json \<Rightarrow> string \<Rightarrow> json" where
  "with_tool_call_id metadata i =
     (case metadata of
        JObject fs \<Rightarrow> JObject (AList.update ''tool_call_id'' (JString i) fs)
      | _ \<Rightarrow> metadata)"

definition tool_use_entry :: "claude_env \<Rightarrow> string \<Rightarrow> string \<Rightarrow> claude_tool_data \<Rightarrow> normalized_entry" where
  "tool_use_entry ce wt i td =
     (let action = extract_action_type ce td wt
      in plain_entry (ToolUse (get_name td) action TS_Created) (generate_concise_content ce td action wt)
           (Some (with_tool_call_id (item_value ce (CI_ToolUse i td)) i)))"

definition content_item_to_normalized_entry ::
  "claude_env \<Rightarrow> claude_content_item \<Rightarrow> string \<Rightarrow> string \<Rightarrow> normalized_entry option" where
  "content_item_to_normalized_entry ce item role wt =
     (case item of
        CI_Text txt \<Rightarrow>
          if role = ''assistant'' then Some (plain_entry AssistantMessage txt (Some (item_value ce item))) else None
      | CI_Thinking thinking \<Rightarrow> Some (plain_entry Thinking thinking (Some (item_value ce item)))
      | CI_ToolUse i td \<Rightarrow> Some (tool_use_entry ce wt i td)
      | CI_ToolResult _ _ _ \<Rightarrow> None)"


section \<open>Streamed messages\<close>

definition from_content_block :: "claude_content_item \<Rightarrow> streaming_content_state option" where
  "from_content_block block =
     (case block of
        CI_Text txt \<Rightarrow> Some \<lparr> sc_kind = StreamText, sc_buffer = txt, sc_entry_index = None \<rparr>
      | CI_Thinking thinking \<Rightarrow> Some \<lparr> sc_kind = StreamThinking, sc_buffer = thinking, sc_entry_index = None \<rparr>
      | _ \<Rightarrow> None)"

definition from_delta :: "claude_content_block_delta \<Rightarrow> streaming_content_state option" where
  "from_delta delta =
     (case delta of
        TextDelta _ \<Rightarrow> Some \<lparr> sc_kind = StreamText, sc_buffer = [], sc_entry_index = None \<rparr>
      | ThinkingDelta _ \<Rightarrow> Some \<lparr> sc_kind = StreamThinking, sc_buffer = [], sc_entry_index = None \<rparr>
      | UnknownDelta \<Rightarrow> None)"

definition apply_content_delta :: "claude_content_block_delta \<Rightarrow> streaming_content_state \<Rightarrow> streaming_content_state" where
  "apply_content_delta delta st =
     (case (sc_kind st, delta) of
        (StreamText, TextDelta txt) \<Rightarrow> st\<lparr>sc_buffer := sc_buffer st @ txt\<rparr>
      | (StreamThinking, ThinkingDelta thinking) \<Rightarrow> st\<lparr>sc_buffer := sc_buffer st @ thinking\<rparr>
      | _ \<Rightarrow> st)"

definition to_content_item :: "streaming_content_state \<Rightarrow> claude_content_item" where
  "to_content_item st = (case sc_kind st of StreamText \<Rightarrow> CI_Text (sc_buffer st) | StreamThinking \<Rightarrow> CI_Thinking (sc_buffer st))"

definition content_block_start :: "nat \<Rightarrow> claude_content_item \<Rightarrow> streaming_message_state \<Rightarrow> streaming_message_state" where
  "content_block_start index block sm =
     (case from_content_block block of
        Some st \<Rightarrow> sm\<lparr>sm_contents := (sm_contents sm)(index \<mapsto> st)\<rparr>
      | None \<Rightarrow> sm)"

definition content_entry_index :: "streaming_message_state \<Rightarrow> nat \<Rightarrow> nat option" where
  "content_entry_index sm content_index = Option.bind (sm_contents sm content_index) sc_entry_index"

definition apply_content_block_delta ::
  "claude_env \<Rightarrow> string \<Rightarrow> nat \<Rightarrow> claude_content_block_delta \<Rightarrow> streaming_message_state \<Rightarrow> nat
   \<Rightarrow> patch list \<times> streaming_message_state \<times> nat" where
  "apply_content_block_delta ce wt index delta sm n =
     (case (case sm_contents sm index of Some st \<Rightarrow> Some st | None \<Rightarrow> from_delta delta) of
        None \<Rightarrow> ([], sm, n)
      | Some st0 \<Rightarrow>
          (let st = apply_content_delta delta st0;
               sm1 = sm\<lparr>sm_contents := (sm_contents sm)(index \<mapsto> st)\<rparr>
           in case content_item_to_normalized_entry ce (to_content_item st) (sm_role sm) wt of
                None \<Rightarrow> ([], sm1, n)
              | Some entry \<Rightarrow>
                  (let (pt, i, n1) = put_entry (sc_entry_index st) entry n
                   in ([pt], sm\<lparr>sm_contents := (sm_contents sm)(index \<mapsto> st\<lparr>sc_entry_index := Some i\<rparr>)\<rparr>, n1))))"


section \<open>One message\<close>

definition extract_session_id :: "claude_json \<Rightarrow> string option" where
  "extract_session_id cj =
     (case cj of
        CJ_System _ sid _ _ _ _ \<Rightarrow> sid
      | CJ_Assistant _ sid \<Rightarrow> sid
      | CJ_User _ sid \<Rightarrow> sid
      | CJ_ToolUse _ _ sid \<Rightarrow> sid
      | CJ_ToolResult _ _ sid \<Rightarrow> sid
      | CJ_StreamEvent _ sid _ _ \<Rightarrow> sid
      | CJ_Result _ _ _ _ _ _ sid \<Rightarrow> sid
      | CJ_ApprovalResponse _ _ _ \<Rightarrow> None
      | CJ_Unknown _ \<Rightarrow> None)"

definition warn_if_unmanaged_key :: "string option \<Rightarrow> normalized_entry option" where
  "warn_if_unmanaged_key src =
     (if src = Some ''ANTHROPIC_API_KEY''
      then Some (plain_entry (ErrorMessage OtherError)
             ''Claude Code + ANTHROPIC_API_KEY detected. Usage will be billed via Anthropic pay-as-you-go instead of your Claude subscription.''
             None)
      else None)"

text \<open>\<^verbatim>\<open>from_value::<Vec<ClaudeToolResultTextItem>>\<close> and \<^verbatim>\<open>join("\n\n")\<close>.\<close>

definition text_item :: "json \<Rightarrow> string option" where
  "text_item j =
     (case j of
        JObject fs \<Rightarrow> Option.bind (map_of fs ''text'') json_as_str
      | JArray [x] \<Rightarrow> json_as_str x
      | _ \<Rightarrow> None)"

fun join_blank_line :: "string list \<Rightarrow> string" where
  "join_blank_line [] = []"
| "join_blank_line [s] = s"
| "join_blank_line (s # ss) = s @ [newline, newline] @ join_blank_line ss"

definition markdown_or_json :: "claude_env \<Rightarrow> string \<Rightarrow> tool_result_value_type \<times> json" where
  "markdown_or_json ce s = (case parse_json ce s of Some parsed \<Rightarrow> (Json, parsed) | None \<Rightarrow> (Markdown, JString s))"

definition normalize_claude_tool_result_value :: "claude_env \<Rightarrow> json \<Rightarrow> tool_result_value_type \<times> json" where
  "normalize_claude_tool_result_value ce content =
     (case content of
        JString s \<Rightarrow> markdown_or_json ce s
      | JArray items \<Rightarrow>
          (case those (map text_item items) of
             Some texts \<Rightarrow> if texts \<noteq> [] then markdown_or_json ce (join_blank_line texts) else (Json, content)
           | None \<Rightarrow> (Json, content))
      | _ \<Rightarrow> (Json, content))"

definition extract_model_name ::
  "claude_log_processor \<Rightarrow> claude_message \<Rightarrow> nat \<Rightarrow> patch list \<times> claude_log_processor \<times> nat" where
  "extract_model_name cp cmsg n =
     (case (cp_model_name cp, cm_model cmsg) of
        (None, Some model) \<Rightarrow>
          (let (i, n1) = next_index n
           in ([add_normalized_entry i (plain_entry SystemMessage (''System initialized with model: '' @ model) None)],
               cp\<lparr>cp_model_name := Some model\<rparr>, n1))
      | _ \<Rightarrow> ([], cp, n))"

text \<open>The loop over the content of an assistant message; \<open>sm\<close> is the streamed state it had.\<close>

definition assistant_item ::
  "claude_env \<Rightarrow> string \<Rightarrow> string \<Rightarrow> nat option \<Rightarrow> claude_content_item \<Rightarrow> claude_log_processor \<Rightarrow> nat
   \<Rightarrow> patch list \<times> claude_log_processor \<times> nat" where
  "assistant_item ce wt role entry_index item cp n =
     (case item of
        CI_ToolUse i td \<Rightarrow>
          (let entry = tool_use_entry ce wt i td;
               (pt, id_num, n1) = put_entry entry_index entry n
           in ([pt],
               cp\<lparr>cp_tool_map := (cp_tool_map cp)(i \<mapsto>
                 \<lparr> ti_entry_index = id_num, ti_tool_name = get_name td, ti_tool_data = td, ti_content = ne_content entry \<rparr>)\<rparr>,
               n1))
      | CI_ToolResult _ _ _ \<Rightarrow> ([], cp, n)
      | _ \<Rightarrow>
          (case content_item_to_normalized_entry ce item role wt of
             None \<Rightarrow> ([], cp, n)
           | Some entry \<Rightarrow> (let (pt, _, n1) = put_entry entry_index entry n in ([pt], cp, n1))))"

fun assistant_items ::
  "claude_env \<Rightarrow> string \<Rightarrow> string \<Rightarrow> streaming_message_state option \<Rightarrow> nat \<Rightarrow> claude_content_item list
   \<Rightarrow> claude_log_processor \<Rightarrow> nat \<Rightarrow> patch list \<times> claude_log_processor \<times> nat" where
  "assistant_items ce wt role sm k [] cp n = ([], cp, n)"
| "assistant_items ce wt role sm k (item # items) cp n =
     (let (ps, cp1, n1) = assistant_item ce wt role (Option.bind sm (\<lambda>s. content_entry_index s k)) item cp n;
          (qs, cp2, n2) = assistant_items ce wt role sm (Suc k) items cp1 n1
      in (ps @ qs, cp2, n2))"

definition tool_result_status :: "bool option \<Rightarrow> tool_status" where
  "tool_result_status is_error = (if is_error = Some True then TS_Failed else TS_Success)"

definition command_result :: "claude_env \<Rightarrow> json \<Rightarrow> bool option \<Rightarrow> command_run_result" where
  "command_result ce content is_error =
     (let content_str = (case json_as_str content of Some s \<Rightarrow> s | None \<Rightarrow> value_text ce content)
      in case parse_amp_bash_result ce content_str of
           Some (out, code) \<Rightarrow> \<lparr> exit_status = Some (ExitCode code), run_output = Some out \<rparr>
         | None \<Rightarrow> \<lparr> exit_status = map_option (\<lambda>e. ExitSuccess (\<not> e)) is_error, run_output = Some content_str \<rparr>)"

definition shows_result :: "claude_tool_data \<Rightarrow> bool" where
  "shows_result td =
     (case td of
        TD_Unknown _ \<Rightarrow> True | TD_Oracle _ _ _ \<Rightarrow> True | TD_Mermaid _ \<Rightarrow> True
      | TD_CodebaseSearchAgent _ _ _ _ _ \<Rightarrow> True | TD_NotebookEdit _ _ _ _ \<Rightarrow> True | _ \<Rightarrow> False)"

definition tool_result_entry ::
  "claude_env \<Rightarrow> claude_tool_call_info \<Rightarrow> json \<Rightarrow> bool option \<Rightarrow> normalized_entry option" where
  "tool_result_entry ce info content is_error =
     (case ti_tool_data info of
        TD_Bash _ _ \<Rightarrow>
          Some (plain_entry
            (ToolUse (ti_tool_name info) (CommandRun (ti_content info) (Some (command_result ce content is_error)))
               (tool_result_status is_error)) (ti_content info) None)
      | td \<Rightarrow>
          if shows_result td
          then (let (res_type, res_value) = normalize_claude_tool_result_value ce content;
                    label = mcp_label (get_name td)
                in Some (plain_entry
                     (ToolUse label
                        (Tool label (Some (tool_args ce td)) (Some \<lparr> tr_type = res_type, tr_value = res_value \<rparr>))
                        (tool_result_status is_error)) (ti_content info) None))
          else None)"

definition tool_result_patches :: "claude_env \<Rightarrow> claude_log_processor \<Rightarrow> claude_content_item \<Rightarrow> patch list" where
  "tool_result_patches ce cp item =
     (case item of
        CI_ToolResult tool_use_id content is_error \<Rightarrow>
          (case cp_tool_map cp tool_use_id of
             None \<Rightarrow> []
           | Some info \<Rightarrow>
               (case tool_result_entry ce info content is_error of
                  None \<Rightarrow> []
                | Some entry \<Rightarrow> [replace_entry (ti_entry_index info) entry]))
      | _ \<Rightarrow> [])"

definition is_text :: "claude_content_item \<Rightarrow> bool" where
  "is_text item = (case item of CI_Text _ \<Rightarrow> True | _ \<Rightarrow> False)"

text \<open>The entries of the user's texts, added one after another.\<close>

fun user_texts :: "claude_env \<Rightarrow> claude_content_item list \<Rightarrow> nat \<Rightarrow> patch list \<times> nat" where
  "user_texts ce [] n = ([], n)"
| "user_texts ce (item # items) n =
     (case item of
        CI_Text txt \<Rightarrow>
          (let (i, n1) = next_index n; (ps, n2) = user_texts ce items n1
           in (add_normalized_entry i (plain_entry UserMessage txt (Some (item_value ce item))) # ps, n2))
      | _ \<Rightarrow> user_texts ce items n)"

definition resume_history ::
  "claude_env \<Rightarrow> claude_message \<Rightarrow> claude_log_processor \<Rightarrow> nat \<Rightarrow> patch list \<times> claude_log_processor \<times> nat" where
  "resume_history ce cmsg cp n =
     (if cp_strategy cp = AmpResume \<and> list_ex is_text (cm_content cmsg)
      then (let cur = current_index n;
                (ps, cp1, n1) =
                  (if 0 < cur
                   then (replicate cur (remove_diff (show_nat 0)), cp\<lparr>cp_tool_map := Map.empty\<rparr>, reset_provider n)
                   else ([], cp, n));
                (qs, n2) = user_texts ce (cm_content cmsg) n1
            in (ps @ qs, cp1, n2))
      else ([], cp, n))"

definition normalize_stream_event ::
  "claude_env \<Rightarrow> string \<Rightarrow> claude_stream_event \<Rightarrow> claude_log_processor \<Rightarrow> nat
   \<Rightarrow> patch list \<times> claude_log_processor \<times> nat" where
  "normalize_stream_event ce wt event cp n =
     (case event of
        MessageStart cmsg \<Rightarrow>
          if cm_role cmsg = ''assistant''
          then (let (ps, cp1, n1) = extract_model_name cp cmsg n
                in case cm_id cmsg of
                     Some message_id \<Rightarrow>
                       (ps, cp1\<lparr>cp_streaming_messages := (cp_streaming_messages cp1)(message_id \<mapsto>
                              \<lparr> sm_role = cm_role cmsg, sm_contents = Map.empty \<rparr>),
                            cp_streaming_message_id := Some message_id\<rparr>, n1)
                   | None \<Rightarrow> (ps, cp1\<lparr>cp_streaming_message_id := None\<rparr>, n1))
          else ([], cp\<lparr>cp_streaming_message_id := None\<rparr>, n)
      | ContentBlockStart index block \<Rightarrow>
          (case cp_streaming_message_id cp of
             None \<Rightarrow> ([], cp, n)
           | Some message_id \<Rightarrow>
               (case cp_streaming_messages cp message_id of
                  None \<Rightarrow> ([], cp, n)
                | Some sm \<Rightarrow>
                    ([], cp\<lparr>cp_streaming_messages := (cp_streaming_messages cp)(message_id \<mapsto> content_block_start index block sm)\<rparr>, n)))
      | ContentBlockDelta index delta \<Rightarrow>
          (case cp_streaming_message_id cp of
             None \<Rightarrow> ([], cp, n)
           | Some message_id \<Rightarrow>
               (case cp_streaming_messages cp message_id of
                  None \<Rightarrow> ([], cp, n)
                | Some sm \<Rightarrow>
                    (let (ps, sm1, n1) = apply_content_block_delta ce wt index delta sm n
                     in (ps, cp\<lparr>cp_streaming_messages := (cp_streaming_messages cp)(message_id \<mapsto> sm1)\<rparr>, n1))))
      | MessageStop \<Rightarrow>
          (case cp_streaming_message_id cp of
             None \<Rightarrow> ([], cp, n)
           | Some message_id \<Rightarrow>
               ([], cp\<lparr>cp_streaming_messages := (cp_streaming_messages cp)(message_id := None), cp_streaming_message_id := None\<rparr>, n))
      | _ \<Rightarrow> ([], cp, n))"

definition system_entries :: "claude_env \<Rightarrow> claude_json \<Rightarrow> normalized_entry list" where
  "system_entries ce cj =
     (case warn_if_unmanaged_key (cj_api_key_source cj) of Some w \<Rightarrow> [w] | None \<Rightarrow> [])
     @ (case cj_subtype cj of
          Some subtype \<Rightarrow>
            if subtype = ''init'' then []
            else [plain_entry SystemMessage (''System: '' @ subtype) (Some (message_value ce cj))]
        | None \<Rightarrow> [plain_entry SystemMessage ''System message'' (Some (message_value ce cj))])"

definition approval_entries :: "string \<Rightarrow> approval_status \<Rightarrow> normalized_entry list" where
  "approval_entries tool_name status =
     (case status of
        AS_Pending \<Rightarrow> []
      | AS_Approved \<Rightarrow> []
      | AS_Denied reason \<Rightarrow>
          [plain_entry (UserFeedback tool_name)
             (case reason of
                Some s \<Rightarrow> if trim s \<noteq> [] then trim s else ''User denied this tool use request''
              | None \<Rightarrow> ''User denied this tool use request'') None]
      | AS_TimedOut \<Rightarrow>
          [plain_entry (ErrorMessage OtherError) (''Approval timed out for tool '' @ tool_name) None])"

definition normalize_entries ::
  "claude_env \<Rightarrow> string \<Rightarrow> claude_json \<Rightarrow> claude_log_processor \<Rightarrow> nat \<Rightarrow> patch list \<times> claude_log_processor \<times> nat" where
  "normalize_entries ce wt cj cp n =
     (case cj of
        CJ_System _ _ _ _ _ _ \<Rightarrow> (let (ps, n1) = add_entries (system_entries ce cj) n in (ps, cp, n1))
      | CJ_Assistant cmsg _ \<Rightarrow>
          (let (ps, cp1, n1) = extract_model_name cp cmsg n;
               sm = Option.bind (cm_id cmsg) (cp_streaming_messages cp1);
               cp2 = (case cm_id cmsg of
                        Some i \<Rightarrow> cp1\<lparr>cp_streaming_messages := (cp_streaming_messages cp1)(i := None)\<rparr>
                      | None \<Rightarrow> cp1);
               (qs, cp3, n2) = assistant_items ce wt (cm_role cmsg) sm 0 (cm_content cmsg) cp2 n1
           in (ps @ qs, cp3, n2))
      | CJ_User cmsg _ \<Rightarrow>
          (let (ps, cp1, n1) = resume_history ce cmsg cp n
           in (ps @ concat (map (tool_result_patches ce cp1) (cm_content cmsg)), cp1, n1))
      | CJ_ToolUse _ td _ \<Rightarrow>
          (let action = extract_action_type ce td wt;
               (ps, n1) = add_entries [plain_entry (ToolUse (get_name td) action TS_Created)
                 (generate_concise_content ce td action wt) (Some (message_value ce cj))] n
           in (ps, cp, n1))
      | CJ_ToolResult _ _ _ \<Rightarrow> ([], cp, n)
      | CJ_StreamEvent event _ _ _ \<Rightarrow> normalize_stream_event ce wt event cp n
      | CJ_Result _ is_error _ _ _ _ _ \<Rightarrow>
          (if cp_strategy cp = AmpResume \<and> is_error = Some True
           then (let (ps, n1) = add_entries [plain_entry (ErrorMessage OtherError) (message_text ce cj) (Some (message_value ce cj))] n
                 in (ps, cp, n1))
           else ([], cp, n))
      | CJ_ApprovalResponse _ tool_name status \<Rightarrow>
          (let (ps, n1) = add_entries (approval_entries tool_name status) n in (ps, cp, n1))
      | CJ_Unknown data \<Rightarrow>
          (let (ps, n1) = add_entries [plain_entry SystemMessage
                 (''Unrecognized JSON message: '' @ value_text ce (JObject data)) None] n
           in (ps, cp, n1)))"


section \<open>The raw output\<close>

text \<open>
  The loop of \<^verbatim>\<open>process_logs\<close>: what it pushes to the message store for each line of the output.
\<close>

record claude_loop =
  cl_buffer :: string
  cl_session_id_extracted :: bool
  cl_processor :: claude_log_processor
  cl_next :: nat

definition router_message :: "string \<Rightarrow> bool" where
  "router_message trimmed \<longleftrightarrow>
     starts_with ''Service not running, starting service'' trimmed
     \<or> contains ''claude code router service has been successfully stopped'' trimmed"

definition raw_entry :: "string \<Rightarrow> normalized_entry" where
  "raw_entry trimmed = plain_entry SystemMessage trimmed None"

definition process_line :: "claude_env \<Rightarrow> string \<Rightarrow> string \<Rightarrow> claude_loop \<Rightarrow> store_push list \<times> claude_loop" where
  "process_line ce wt line st =
     (let trimmed = trim line
      in if trimmed = [] \<or> router_message trimmed then ([], st)
         else case parse_claude_json ce trimmed of
                Some cj \<Rightarrow>
                  (let (ids, extracted) =
                         (case extract_session_id cj of
                            Some sid \<Rightarrow> if \<not> cl_session_id_extracted st then ([PushSessionId sid], True) else ([], True)
                          | None \<Rightarrow> ([], cl_session_id_extracted st));
                       (ps, cp, n) = normalize_entries ce wt cj (cl_processor st) (cl_next st)
                   in (ids @ map PushPatch ps, st\<lparr>cl_session_id_extracted := extracted, cl_processor := cp, cl_next := n\<rparr>))
              | None \<Rightarrow>
                  (let (i, n) = next_index (cl_next st)
                   in ([PushPatch (add_normalized_entry i (raw_entry trimmed))], st\<lparr>cl_next := n\<rparr>)))"

fun process_lines :: "claude_env \<Rightarrow> string \<Rightarrow> string list \<Rightarrow> claude_loop \<Rightarrow> store_push list \<times> claude_loop" where
  "process_lines ce wt [] st = ([], st)"
| "process_lines ce wt (line # rest) st =
     (let (ps, st1) = process_line ce wt line st; (qs, st2) = process_lines ce wt rest st1 in (ps @ qs, st2))"

definition process_stdout :: "claude_env \<Rightarrow> string \<Rightarrow> string \<Rightarrow> claude_loop \<Rightarrow> store_push list \<times> claude_loop" where
  "process_stdout ce wt chunk st =
     (let buf = cl_buffer st @ chunk;
          (ps, st1) = process_lines ce wt (filter (ends_with [newline]) (split_inclusive newline buf)) st
      in (ps, st1\<lparr>cl_buffer := last (split_on newline buf)\<rparr>))"

definition process_rest :: "claude_loop \<Rightarrow> store_push list" where
  "process_rest st =
     (if trim (cl_buffer st) \<noteq> []
      then [PushPatch (add_normalized_entry (fst (next_index (cl_next st))) (raw_entry (trim (cl_buffer st))))] else [])"

fun process_logs :: "claude_env \<Rightarrow> string \<Rightarrow> log_msg list \<Rightarrow> claude_loop \<Rightarrow> store_push list" where
  "process_logs ce wt [] st = process_rest st"
| "process_logs ce wt (m # ms) st =
     (case m of
        Stdout chunk \<Rightarrow> (let (ps, st1) = process_stdout ce wt chunk st in ps @ process_logs ce wt ms st1)
      | Finished \<Rightarrow> process_rest st
      | _ \<Rightarrow> process_logs ce wt ms st)"

definition new_loop :: "history_strategy \<Rightarrow> nat \<Rightarrow> claude_loop" where
  "new_loop strategy n =
     \<lparr> cl_buffer = [], cl_session_id_extracted = False, cl_processor = new_with_strategy strategy, cl_next = n \<rparr>"

end
