(* ===== verification/Claude_Guarantees.thy ===== *)
theory Claude_Guarantees
  imports Claude_Logs
begin

text \<open>
  What the normaliser of Claude Code's log guarantees: it is a \<open>log_normalizer\<close>, so its patches always
  apply; its result does not depend on how the output is cut into chunks; and a streamed text is
  shown as one growing entry.
\<close>

section \<open>Indexes stay within the conversation\<close>

definition indexes_below :: "nat \<Rightarrow> streaming_message_state \<Rightarrow> bool" where
  "indexes_below n sm \<longleftrightarrow> (\<forall>k i. content_entry_index sm k = Some i \<longrightarrow> i < n)"

definition claude_inv :: "nat \<Rightarrow> claude_log_processor \<Rightarrow> bool" where
  "claude_inv n cp \<longleftrightarrow>
     (\<forall>i info. cp_tool_map cp i = Some info \<longrightarrow> ti_entry_index info < n)
     \<and> (\<forall>i sm. cp_streaming_messages cp i = Some sm \<longrightarrow> indexes_below n sm)
     \<and> (cp_strategy cp = AmpResume \<longrightarrow> cp_streaming_messages cp = Map.empty)"

definition claude_weight :: "claude_json \<Rightarrow> nat" where
  "claude_weight cj =
     (case cj of
        CJ_System _ _ _ _ _ _ \<Rightarrow> 2
      | CJ_Assistant m _ \<Rightarrow> 1 + length (cm_content m)
      | CJ_User m _ \<Rightarrow> length (cm_content m)
      | CJ_ToolResult _ _ _ \<Rightarrow> 0
      | _ \<Rightarrow> 1)"

definition claude_admissible :: "claude_log_processor \<Rightarrow> claude_json \<Rightarrow> bool" where
  "claude_admissible cp cj \<longleftrightarrow>
     cp_strategy cp = DefaultHistory \<or> (case cj of CJ_StreamEvent _ _ _ _ \<Rightarrow> False | _ \<Rightarrow> True)"

lemma claude_admissible_strategy: "cp_strategy cp = cp_strategy cp' \<Longrightarrow> claude_admissible cp = claude_admissible cp'"
  by (simp add: claude_admissible_def fun_eq_iff)

lemma claude_inv_new: "claude_inv n (new_with_strategy strategy)"
  by (simp add: claude_inv_def new_with_strategy_def)

lemma indexes_below_mono: "indexes_below n sm \<Longrightarrow> n \<le> m \<Longrightarrow> indexes_below m sm"
  by (auto simp: indexes_below_def intro: less_le_trans)

lemma claude_inv_mono: "claude_inv n cp \<Longrightarrow> n \<le> m \<Longrightarrow> claude_inv m cp"
  unfolding claude_inv_def using indexes_below_mono less_le_trans by blast

lemma extract_model_name_grows:
  assumes "extract_model_name cp m n = (ps, cp1, n1)" and "n < usize_max"
  shows "grows 1 n n1 ps \<and> n \<le> n1 \<and> cp_tool_map cp1 = cp_tool_map cp
    \<and> cp_streaming_messages cp1 = cp_streaming_messages cp \<and> cp_strategy cp1 = cp_strategy cp"
  using assms by (auto simp: extract_model_name_def next_index_exact grows_add split: option.splits)

lemma assistant_item_grows:
  assumes "assistant_item ce wt role ei item cp n = (ps, cp1, n1)" and "\<And>j. ei = Some j \<Longrightarrow> j < n"
    and "n < usize_max" and "claude_inv n cp"
  shows "grows 1 n n1 ps \<and> n \<le> n1 \<and> claude_inv n1 cp1 \<and> cp_strategy cp1 = cp_strategy cp"
proof -
  obtain pt i m where pe: "put_entry ei e n = (pt e, i, m)" for e
    by (cases ei) (auto simp: put_entry_def next_index_def)
  have g: "grows 1 n m [pt e] \<and> i < m \<and> n \<le> m" for e
    by (rule put_entry_grows [OF pe assms(2,3)])
  with claude_inv_mono [OF assms(4)] have inv: "claude_inv m cp" by blast
  show ?thesis
    using assms(1,4) g inv
    by (auto simp: assistant_item_def pe Let_def claude_inv_def split: claude_content_item.splits option.splits if_splits)
qed

lemma assistant_items_grow:
  assumes "assistant_items ce wt role sm k items cp n = (ps, cp1, n1)"
    and "\<And>s. sm = Some s \<Longrightarrow> indexes_below n s" and "n + length items \<le> usize_max" and "claude_inv n cp"
  shows "grows (length items) n n1 ps \<and> n \<le> n1 \<and> claude_inv n1 cp1 \<and> cp_strategy cp1 = cp_strategy cp"
  using assms
proof (induction items arbitrary: k cp n ps)
  case (Cons item items)
  obtain qs cp2 n2 where it: "assistant_item ce wt role (Option.bind sm (\<lambda>s. content_entry_index s k)) item cp n = (qs, cp2, n2)"
    by (metis prod.exhaust)
  obtain rs where its: "assistant_items ce wt role sm (Suc k) items cp2 n2 = (rs, cp1, n1)" and ps: "ps = qs @ rs"
    using Cons.prems(1) it by (auto split: prod.splits)
  have "j < n" if "Option.bind sm (\<lambda>s. content_entry_index s k) = Some j" for j
    using that Cons.prems(2) by (auto simp: indexes_below_def bind_eq_Some_conv)
  then have 1: "grows 1 n n2 qs" "n \<le> n2" "claude_inv n2 cp2" "cp_strategy cp2 = cp_strategy cp"
    using assistant_item_grows [OF it _ _ Cons.prems(4)] Cons.prems(3) by auto
  then have "n2 + length items \<le> usize_max" using Cons.prems(3) by (simp add: grows_def)
  moreover have "\<And>s. sm = Some s \<Longrightarrow> indexes_below n2 s" using Cons.prems(2) indexes_below_mono 1(2) by blast
  ultimately have "grows (length items) n2 n1 rs \<and> n2 \<le> n1 \<and> claude_inv n1 cp1 \<and> cp_strategy cp1 = cp_strategy cp2"
    using Cons.IH [OF its] 1(3) by blast
  with 1 grows_trans [of 1 n n2 qs "length items" n1 rs] ps show ?case by auto
qed auto


lemma tool_results_grow:
  assumes "claude_inv n cp" and "n \<le> usize_max"
  shows "grows 0 n n (concat (map (tool_result_patches ce cp) items))"
proof (induction items)
  case (Cons item items)
  have "grows 0 n n (tool_result_patches ce cp item)"
    using assms by (auto simp: tool_result_patches_def claude_inv_def grows_replace split: claude_content_item.split option.split)
  with Cons grows_trans [of 0 n n _ 0 n] show ?case by simp
qed simp

lemma user_texts_grow:
  "user_texts ce items n = (ps, n1) \<Longrightarrow> n + length items \<le> usize_max \<Longrightarrow> grows (length items) n n1 ps"
proof (induction items arbitrary: n ps)
  case (Cons item items)
  show ?case
  proof (cases item)
    case (CI_Text tx)
    obtain qs where q: "user_texts ce items (Suc n) = (qs, n1)"
      and ps: "ps = add_normalized_entry n (plain_entry UserMessage tx (Some (item_value ce item))) # qs"
      using Cons.prems CI_Text by (auto simp: next_index_exact split: prod.splits)
    have "grows 1 n (Suc n) [add_normalized_entry n (plain_entry UserMessage tx (Some (item_value ce item)))]"
      using Cons.prems(2) by (simp add: grows_add)
    from grows_trans [OF this Cons.IH [OF q]] Cons.prems(2) show ?thesis by (simp add: ps)
  qed (use Cons.IH [of n ps] Cons.prems grows_mono [of "length items" n n1 ps] in auto)
qed simp

lemma resume_history_grows:
  assumes "resume_history ce m cp n = (ps, cp1, n1)" and "claude_inv n cp" and "n + length (cm_content m) \<le> usize_max"
  shows "grows (length (cm_content m)) n n1 ps \<and> claude_inv n1 cp1 \<and> cp_strategy cp1 = cp_strategy cp"
proof (cases "cp_strategy cp = AmpResume \<and> list_ex is_text (cm_content m)")
  case False
  with assms show ?thesis by (auto simp: resume_history_def)
next
  case True
  let ?cp = "if 0 < n then cp\<lparr>cp_tool_map := Map.empty\<rparr> else cp"
  obtain qs where q: "user_texts ce (cm_content m) 0 = (qs, n1)" and cp1: "cp1 = ?cp"
    and ps: "ps = replicate n (remove_diff (show_nat 0)) @ qs"
    using assms(1) True by (auto simp: resume_history_def current_index_def reset_provider_def split: prod.splits if_splits)
  have g: "grows (length (cm_content m)) 0 n1 qs" using user_texts_grow [OF q] assms(3) by simp
  then have "grows (length (cm_content m)) n n1 ps"
    unfolding ps using leads_trans [OF leads_clear] by (auto simp: grows_def)
  moreover have "claude_inv n1 cp1"
    using assms(2) True by (auto simp: claude_inv_def cp1)
  ultimately show ?thesis by (simp add: cp1)
qed

lemma apply_delta_grows:
  assumes "apply_content_block_delta ce wt k delta sm n = (ps, sm1, n1)" and "indexes_below n sm" and "n < usize_max"
  shows "grows 1 n n1 ps \<and> n \<le> n1 \<and> indexes_below n1 sm1"
proof (cases "case sm_contents sm k of Some st \<Rightarrow> Some st | None \<Rightarrow> from_delta delta")
  case None
  with assms show ?thesis by (simp add: apply_content_block_delta_def)
next
  case (Some st0)
  define st where "st = apply_content_delta delta st0"
  have "sc_entry_index st = sc_entry_index st0"
    by (simp add: st_def apply_content_delta_def split: streaming_content_kind.split claude_content_block_delta.split)
  moreover have "j < n" if "sc_entry_index st0 = Some j" for j
  proof (cases "sm_contents sm k")
    case None
    with Some that show ?thesis by (auto simp: from_delta_def split: claude_content_block_delta.splits)
  next
    case (Some st1)
    with \<open>_ = Some st0\<close> that have "content_entry_index sm k = Some j" by (simp add: content_entry_index_def)
    with assms(2) show ?thesis by (auto simp: indexes_below_def)
  qed
  ultimately have st: "j < n" if "sc_entry_index st = Some j" for j using that by simp
  show ?thesis
  proof (cases "content_item_to_normalized_entry ce (to_content_item st) (sm_role sm) wt")
    case None
    with Some assms st show ?thesis
      by (auto simp: apply_content_block_delta_def st_def [symmetric] Let_def indexes_below_def content_entry_index_def split: if_splits)
  next
    case (Some entry)
    obtain pt i m where pe: "put_entry (sc_entry_index st) entry n = (pt, i, m)" by (metis prod.exhaust)
    have "grows 1 n m [pt] \<and> i < m \<and> n \<le> m" by (rule put_entry_grows [OF pe st assms(3)])
    with \<open>(case sm_contents sm k of Some st \<Rightarrow> Some st | None \<Rightarrow> from_delta delta) = Some st0\<close> Some assms(1) pe
      indexes_below_mono [OF assms(2)] show ?thesis
      by (auto simp: apply_content_block_delta_def st_def [symmetric] Let_def indexes_below_def content_entry_index_def split: if_splits)
  qed
qed

lemma content_block_start_below: "indexes_below n sm \<Longrightarrow> indexes_below n (content_block_start k block sm)"
  by (auto simp: content_block_start_def from_content_block_def indexes_below_def content_entry_index_def
      split: claude_content_item.split option.splits)

lemma stream_event_grows:
  assumes "normalize_stream_event ce wt event cp n = (ps, cp1, n1)" and "claude_inv n cp" and "n < usize_max"
    and "cp_strategy cp = DefaultHistory"
  shows "grows 1 n n1 ps \<and> claude_inv n1 cp1 \<and> cp_strategy cp1 = cp_strategy cp"
proof (cases event)
  case (MessageStart m)
  obtain qs cp2 n2 where e: "extract_model_name cp m n = (qs, cp2, n2)" by (metis prod.exhaust)
  from extract_model_name_grows [OF e assms(3)] claude_inv_mono [OF assms(2), of n2] assms MessageStart e show ?thesis
    by (auto simp: normalize_stream_event_def claude_inv_def indexes_below_def content_entry_index_def split: if_splits option.splits)
next
  case (ContentBlockStart k block)
  with assms show ?thesis
    by (auto simp: normalize_stream_event_def claude_inv_def content_block_start_below split: option.splits if_splits)
next
  case (ContentBlockDelta k delta)
  show ?thesis
  proof (cases "Option.bind (cp_streaming_message_id cp) (cp_streaming_messages cp)")
    case None
    with assms ContentBlockDelta show ?thesis by (auto simp: normalize_stream_event_def split: option.splits)
  next
    case (Some sm)
    then obtain i where i: "cp_streaming_message_id cp = Some i" "cp_streaming_messages cp i = Some sm"
      by (auto simp: bind_eq_Some_conv)
    obtain qs sm1 n2 where d: "apply_content_block_delta ce wt k delta sm n = (qs, sm1, n2)" by (metis prod.exhaust)
    have "indexes_below n sm" using assms(2) i by (auto simp: claude_inv_def)
    from apply_delta_grows [OF d this assms(3)] claude_inv_mono [OF assms(2), of n2] assms ContentBlockDelta i d show ?thesis
      by (auto simp: normalize_stream_event_def claude_inv_def split: if_splits)
  qed
qed (use assms in \<open>auto simp: normalize_stream_event_def claude_inv_def split: option.splits if_splits\<close>)


lemma system_entries_length: "length (system_entries ce cj) \<le> 2"
  by (simp add: system_entries_def split: option.split)

lemma approval_entries_length: "length (approval_entries tool st) \<le> 1"
  by (simp add: approval_entries_def split: approval_status.split)

lemma add_entries_step:
  assumes "add_entries es n = (qs, m)" and "length es \<le> k" and "n + k \<le> usize_max" and "claude_inv n cp"
  shows "grows k n m qs \<and> claude_inv m cp"
  using add_entries_grows [OF assms(1) _ assms(2)] claude_inv_mono [OF assms(4)] assms(2,3) by auto

lemma assistant_step:
  assumes "normalize_entries ce wt (CJ_Assistant m sid) cp n = (ps, cp1, n1)" and "claude_inv n cp"
    and "n + 1 + length (cm_content m) \<le> usize_max"
  shows "grows (1 + length (cm_content m)) n n1 ps \<and> claude_inv n1 cp1 \<and> cp_strategy cp1 = cp_strategy cp"
proof -
  obtain qs cp2 n2 where e: "extract_model_name cp m n = (qs, cp2, n2)" by (metis prod.exhaust)
  define cp3 where "cp3 = (case cm_id m of
      Some i \<Rightarrow> cp2\<lparr>cp_streaming_messages := (cp_streaming_messages cp2)(i := None)\<rparr> | None \<Rightarrow> cp2)"
  define sm where "sm = Option.bind (cm_id m) (cp_streaming_messages cp2)"
  obtain rs where a: "assistant_items ce wt (cm_role m) sm 0 (cm_content m) cp3 n2 = (rs, cp1, n1)" and ps: "ps = qs @ rs"
    using assms(1) e by (auto simp: normalize_entries_def Let_def cp3_def sm_def split: prod.splits)
  have "n < usize_max" using assms(3) by simp
  note g = extract_model_name_grows [OF e this]
  then have inv2: "claude_inv n2 cp2" using claude_inv_mono [OF assms(2), of n2] by (simp add: claude_inv_def)
  then have "claude_inv n2 cp3" "\<And>s. sm = Some s \<Longrightarrow> indexes_below n2 s" "cp_strategy cp3 = cp_strategy cp2"
    by (auto simp: claude_inv_def cp3_def sm_def bind_eq_Some_conv split: option.splits if_splits)
  moreover have "n2 + length (cm_content m) \<le> usize_max" using g assms(3) by (simp add: grows_def)
  ultimately have "grows (length (cm_content m)) n2 n1 rs \<and> n2 \<le> n1 \<and> claude_inv n1 cp1 \<and> cp_strategy cp1 = cp_strategy cp3"
    using assistant_items_grow [OF a] by blast
  with g grows_trans [of 1 n n2 qs "length (cm_content m)" n1 rs] ps \<open>cp_strategy cp3 = _\<close> show ?thesis by simp
qed

lemma normalize_entries_step:
  assumes "claude_inv n cp" and "claude_admissible cp cj" and "n + claude_weight cj \<le> usize_max"
    and "normalize_entries ce wt cj cp n = (ps, cp1, n1)"
  shows "grows (claude_weight cj) n n1 ps \<and> claude_inv n1 cp1 \<and> cp_strategy cp1 = cp_strategy cp"
proof (cases cj)
  case (CJ_System a b c d e f)
  then show ?thesis
    using assms add_entries_step [OF _ system_entries_length _ assms(1)]
    by (auto simp: normalize_entries_def claude_weight_def split: prod.splits)
next
  case (CJ_Assistant m sid)
  then show ?thesis using assms assistant_step by (simp add: claude_weight_def)
next
  case (CJ_User m sid)
  obtain qs cp2 n2 where r: "resume_history ce m cp n = (qs, cp2, n2)" by (metis prod.exhaust)
  have eq: "ps = qs @ concat (map (tool_result_patches ce cp2) (cm_content m))" "cp1 = cp2" "n1 = n2"
    using assms(4) CJ_User r by (auto simp: normalize_entries_def)
  have g: "grows (length (cm_content m)) n n2 qs \<and> claude_inv n2 cp2 \<and> cp_strategy cp2 = cp_strategy cp"
    using resume_history_grows [OF r assms(1)] assms(3) CJ_User by (simp add: claude_weight_def)
  then have "n2 \<le> usize_max" using assms(3) CJ_User by (simp add: grows_def claude_weight_def)
  with g tool_results_grow [of n2 cp2 ce "cm_content m"] grows_trans [of "length (cm_content m)" n n2 qs 0 n2] show ?thesis
    by (simp add: eq CJ_User claude_weight_def)
next
  case (CJ_StreamEvent event a b c)
  then show ?thesis
    using assms stream_event_grows [of ce wt event cp n ps cp1 n1]
    by (simp add: normalize_entries_def claude_weight_def claude_admissible_def)
next
  case (CJ_ApprovalResponse a tool st)
  then show ?thesis
    using assms add_entries_step [OF _ approval_entries_length _ assms(1)]
    by (auto simp: normalize_entries_def claude_weight_def split: prod.splits)
qed (use assms add_entries_step [where k = 1, OF _ _ _ assms(1)] in
     \<open>auto simp: normalize_entries_def claude_weight_def Let_def split: prod.splits if_splits\<close>)

interpretation claude: log_normalizer "normalize_entries ce wt"
  "\<lambda>ms n cp. claude_inv n cp \<and> (\<forall>m \<in> set ms. claude_admissible cp m)" claude_weight
proof
  fix m ms n s ps s' n'
  assume inv: "claude_inv n s \<and> (\<forall>m' \<in> set (m # ms). claude_admissible s m')"
    and run: "n + claude_weight m \<le> usize_max" "normalize_entries ce wt m s n = (ps, s', n')"
  then have "grows (claude_weight m) n n' ps \<and> claude_inv n' s' \<and> cp_strategy s' = cp_strategy s"
    by (intro normalize_entries_step [OF _ _ run]) simp_all
  with inv show "grows (claude_weight m) n n' ps \<and> claude_inv n' s' \<and> (\<forall>m' \<in> set ms. claude_admissible s' m')"
    using claude_admissible_strategy [of s' s] by auto
qed

text \<open>
  C16: The patches of Claude Code's log always apply: whatever messages the agent sends, the patches
  made of them, applied in order to a conversation with as many entries as the counter says, never
  fail, and afterwards the conversation again has as many entries as the counter says (as long as
  fewer than \<open>2\<^sup>6\<^sup>4 - 1\<close> entries are made, and with no streamed messages when Amp's history is resumed).
\<close>

theorem claude_patches_apply:
  assumes "normalize_all (normalize_entries ce wt) ms (new_with_strategy strategy) n = (ps, cp, n')"
    and "strategy = DefaultHistory \<or> (\<forall>m \<in> set ms. \<forall>e a b c. m \<noteq> CJ_StreamEvent e a b c)"
    and "length doc = n" and "n + sum_list (map claude_weight ms) \<le> usize_max"
  shows "\<exists>doc'. read_patches ps doc = Some doc' \<and> length doc' = n'"
proof -
  have "\<forall>m \<in> set ms. claude_admissible (new_with_strategy strategy) m"
    using assms(2) by (auto simp: claude_admissible_def new_with_strategy_def split: claude_json.split)
  with claude_inv_new show ?thesis by (intro claude.run_applies [OF _ assms(4,1,3)]) blast
qed


section \<open>The raw output in chunks\<close>

text \<open>Every text is its complete lines and a rest without a newline.\<close>

lemma lines_and_rest: "\<exists>ls p. s = concat ls @ p \<and> list_all terminated ls \<and> newline \<notin> set p"
proof (induction s)
  case Nil
  have "list_all terminated []" by simp
  then show ?case by (metis append_Nil concat.simps(1) empty_iff empty_set)
next
  case (Cons c s)
  then obtain ls p where s: "s = concat ls @ p" "list_all terminated ls" "newline \<notin> set p" by blast
  show ?case
  proof (cases "c = newline")
    case True
    with s show ?thesis by (intro exI [of _ "[c] # ls"] exI [of _ p]) (simp add: terminated_def [of "[newline]"])
  next
    case False
    show ?thesis
    proof (cases ls)
      case Nil
      with s False show ?thesis by (intro exI [of _ "[]"] exI [of _ "c # p"]) simp
    next
      case (Cons l ls')
      with s False show ?thesis
        by (intro exI [of _ "(c # l) # ls'"] exI [of _ p]) (auto simp: terminated_def [of "c # l"] terminated_def [of l])
    qed
  qed
qed

lemma split_on_rest: "newline \<notin> set p \<Longrightarrow> split_on newline p = [p]"
  by (induction p) auto

lemma last_split_on: "list_all terminated ls \<Longrightarrow> newline \<notin> set p \<Longrightarrow> last (split_on newline (concat ls @ p)) = p"
  using split_on_Cons by (induction ls) (auto simp: split_on_rest split_on_append elim!: terminatedE)

lemma split_inclusive_rest: "newline \<notin> set p \<Longrightarrow> split_inclusive newline p = (if p = [] then [] else [p])"
  by (induction p) (auto split: list.split)

definition complete_lines :: "string \<Rightarrow> string list" where
  "complete_lines s = filter (ends_with [newline]) (split_inclusive newline s)"

lemma complete_lines_concat: "list_all terminated ls \<Longrightarrow> newline \<notin> set p \<Longrightarrow> complete_lines (concat ls @ p) = ls"
proof -
  assume ls: "list_all terminated ls" and p: "newline \<notin> set p"
  then have "filter (ends_with [newline]) ls = ls" by (auto simp: list_all_iff filter_id_conv ends_with_single terminated_def)
  moreover have "p \<noteq> [] \<Longrightarrow> last p \<noteq> newline" using p last_in_set [of p] by metis
  ultimately show ?thesis
    using p split_inclusive_concat_terminated [OF ls, of p] by (auto simp: complete_lines_def split_inclusive_rest ends_with_single)
qed

lemma complete_lines_split:
  "complete_lines (s @ r) = complete_lines s @ complete_lines (last (split_on newline s) @ r)"
  "last (split_on newline (s @ r)) = last (split_on newline (last (split_on newline s) @ r))"
proof -
  obtain ls p where s: "s = concat ls @ p" "list_all terminated ls" "newline \<notin> set p" using lines_and_rest by blast
  obtain ls2 p2 where r: "p @ r = concat ls2 @ p2" "list_all terminated ls2" "newline \<notin> set p2" using lines_and_rest by blast
  have "s @ r = concat (ls @ ls2) @ p2" using s r by simp
  moreover have "list_all terminated (ls @ ls2)" using s r by simp
  ultimately show "complete_lines (s @ r) = complete_lines s @ complete_lines (last (split_on newline s) @ r)"
    "last (split_on newline (s @ r)) = last (split_on newline (last (split_on newline s) @ r))"
    using s r by (metis complete_lines_concat last_split_on)+
qed

lemma process_lines_append:
  "process_lines ce wt (xs @ ys) st =
     (let (ps, st1) = process_lines ce wt xs st; (qs, st2) = process_lines ce wt ys st1 in (ps @ qs, st2))"
  by (induction xs arbitrary: st) (auto split: prod.splits)

lemma process_line_buffer:
  "process_line ce wt line (st\<lparr>cl_buffer := b\<rparr>)
     = (let (ps, st1) = process_line ce wt line st in (ps, st1\<lparr>cl_buffer := b\<rparr>))"
  by (auto simp: process_line_def Let_def split: prod.splits option.splits)

lemma process_lines_buffer:
  "process_lines ce wt ls (st\<lparr>cl_buffer := b\<rparr>)
     = (let (ps, st1) = process_lines ce wt ls st in (ps, st1\<lparr>cl_buffer := b\<rparr>))"
  by (induction ls arbitrary: st) (auto simp: process_line_buffer split: prod.splits)


lemma process_stdout_append:
  assumes "process_stdout ce wt c st = (ps, st1)" and "process_stdout ce wt d st1 = (qs, st2)"
  shows "process_stdout ce wt (c @ d) st = (ps @ qs, st2)"
proof -
  obtain st' where 1: "process_lines ce wt (complete_lines (cl_buffer st @ c)) st = (ps, st')"
    and st1: "st1 = st'\<lparr>cl_buffer := last (split_on newline (cl_buffer st @ c))\<rparr>"
    using assms(1) by (auto simp: process_stdout_def complete_lines_def Let_def split: prod.splits)
  obtain st'' where 2: "process_lines ce wt (complete_lines (cl_buffer st1 @ d)) st1 = (qs, st'')"
    and st2: "st2 = st''\<lparr>cl_buffer := last (split_on newline (cl_buffer st1 @ d))\<rparr>"
    using assms(2) by (auto simp: process_stdout_def complete_lines_def Let_def split: prod.splits)
  obtain ts st3 where 3: "process_lines ce wt (complete_lines (cl_buffer st1 @ d)) st' = (ts, st3)" by force
  have "qs = ts" "st'' = st3\<lparr>cl_buffer := cl_buffer st1\<rparr>"
    using 2 3 process_lines_buffer [of ce wt "complete_lines (cl_buffer st1 @ d)" "cl_buffer st1" st'] st1 by simp_all
  then show ?thesis
    using complete_lines_split [of "cl_buffer st @ c" d] 1 3 st1 st2
    by (simp add: process_stdout_def complete_lines_def [symmetric] process_lines_append Let_def)
qed

lemma process_stdout_empty:
  assumes "newline \<notin> set (cl_buffer st)"
  shows "process_stdout ce wt [] st = ([], st)"
  using complete_lines_concat [of "[]" "cl_buffer st"] last_split_on [of "[]" "cl_buffer st"] assms
  by (simp add: process_stdout_def complete_lines_def [symmetric])

text \<open>The output of the process up to the end of the stream.\<close>

fun stdout_text :: "log_msg list \<Rightarrow> string" where
  "stdout_text [] = []"
| "stdout_text (m # ms) =
     (case m of Stdout chunk \<Rightarrow> chunk @ stdout_text ms | Finished \<Rightarrow> [] | _ \<Rightarrow> stdout_text ms)"

lemma last_split_no_newline: "newline \<notin> set (last (split_on newline s))"
  using lines_and_rest [of s] last_split_on by metis

lemma process_logs_text:
  assumes "newline \<notin> set (cl_buffer st)"
  shows "process_logs ce wt ms st
    = (let (ps, st1) = process_stdout ce wt (stdout_text ms) st in ps @ process_rest st1)"
  using assms
proof (induction ms arbitrary: st)
  case (Cons m ms)
  show ?case
  proof (cases m)
    case (Stdout c)
    obtain ps st1 where 1: "process_stdout ce wt c st = (ps, st1)" by force
    obtain qs st2 where 2: "process_stdout ce wt (stdout_text ms) st1 = (qs, st2)" by force
    have "newline \<notin> set (cl_buffer st1)"
      using 1 last_split_no_newline by (auto simp: process_stdout_def Let_def split: prod.splits)
    from Cons.IH [OF this] Stdout 1 2 process_stdout_append [OF 1 2] show ?thesis by simp
  qed (use Cons process_stdout_empty in auto)
qed (simp add: process_stdout_empty)

text \<open>
  C17: How the output of Claude Code is cut into chunks does not matter: two logs whose output is the
  same text, up to the end of the stream, give the same patches and session identifier in the
  same order, wherever the text is cut and whatever other messages are in between.
\<close>

theorem claude_output_chunking:
  assumes "stdout_text ms = stdout_text ms'"
  shows "process_logs ce wt ms (new_loop strategy n) = process_logs ce wt ms' (new_loop strategy n)"
  using assms by (simp add: process_logs_text new_loop_def)


section \<open>Streamed text\<close>

definition text_entry :: "claude_env \<Rightarrow> string \<Rightarrow> patch_value" where
  "text_entry ce s = TypedValue (PT_NormalizedEntry (plain_entry AssistantMessage s (Some (item_value ce (CI_Text s)))))"

definition streaming_text :: "claude_log_processor \<Rightarrow> nat \<Rightarrow> string \<Rightarrow> nat option \<Rightarrow> bool" where
  "streaming_text cp k buf index \<longleftrightarrow>
     (\<exists>i sm. cp_streaming_message_id cp = Some i \<and> cp_streaming_messages cp i = Some sm \<and> sm_role sm = ''assistant''
        \<and> sm_contents sm k = Some \<lparr> sc_kind = StreamText, sc_buffer = buf, sc_entry_index = index \<rparr>)"

definition text_delta :: "nat \<Rightarrow> string \<Rightarrow> claude_json" where
  "text_delta k d = CJ_StreamEvent (ContentBlockDelta k (TextDelta d)) None None None"

lemma text_delta_step:
  assumes "streaming_text cp k buf index" and "normalize_entries ce wt (text_delta k d) cp n = (ps, cp1, n1)"
    and "put_entry index (plain_entry AssistantMessage (buf @ d) (Some (item_value ce (CI_Text (buf @ d))))) n = (pt, j, m)"
  shows "ps = [pt] \<and> n1 = m \<and> streaming_text cp1 k (buf @ d) (Some j)"
  using assms
  by (auto simp: streaming_text_def text_delta_def normalize_entries_def normalize_stream_event_def
      apply_content_block_delta_def apply_content_delta_def to_content_item_def content_item_to_normalized_entry_def)

lemma text_deltas_replace:
  assumes "streaming_text cp k buf (Some (length doc))" and "Suc (length doc) \<le> usize_max"
    and "normalize_all (normalize_entries ce wt) (map (text_delta k) ds) cp n = (ps, cp', n')"
  shows "read_patches ps (doc @ [text_entry ce buf]) = Some (doc @ [text_entry ce (buf @ concat ds)]) \<and> n' = n"
  using assms
proof (induction ds arbitrary: cp buf ps)
  case (Cons d ds)
  let ?e = "plain_entry AssistantMessage (buf @ d) (Some (item_value ce (CI_Text (buf @ d))))"
  obtain qs cp1 n1 where st: "normalize_entries ce wt (text_delta k d) cp n = (qs, cp1, n1)" by (metis prod.exhaust)
  have 1: "qs = [replace_entry (length doc) ?e]" "n1 = n" "streaming_text cp1 k (buf @ d) (Some (length doc))"
    using text_delta_step [OF Cons.prems(1) st] by (simp_all add: put_entry_def)
  obtain rs where rs: "normalize_all (normalize_entries ce wt) (map (text_delta k) ds) cp1 n = (rs, cp', n')" "ps = qs @ rs"
    using Cons.prems(3) st 1(2) by (auto split: prod.splits)
  have "read_ops (replace_entry (length doc) ?e) (doc @ [text_entry ce buf]) = Some (doc @ [text_entry ce (buf @ d)])"
    using read_replace [of "length doc" "doc @ [text_entry ce buf]"] Cons.prems(2) by (simp add: text_entry_def)
  with Cons.IH [OF 1(3) Cons.prems(2) rs(1)] rs(2) 1(1) show ?case by simp
qed simp

text \<open>
  C18: A streamed text is shown as one growing entry: the deltas of a text block, however many, add
  one entry at the end of the conversation, whose content is the text the block started with
  followed by the deltas in order.
\<close>

theorem streamed_text_is_one_entry:
  assumes "streaming_text cp k buf None" and "ds \<noteq> []" and "Suc (length doc) \<le> usize_max"
    and "normalize_all (normalize_entries ce wt) (map (text_delta k) ds) cp (length doc) = (ps, cp', n')"
  shows "read_patches ps doc = Some (doc @ [text_entry ce (buf @ concat ds)]) \<and> n' = Suc (length doc)"
proof -
  obtain d es where ds: "ds = d # es" using assms(2) by (cases ds) auto
  let ?e = "plain_entry AssistantMessage (buf @ d) (Some (item_value ce (CI_Text (buf @ d))))"
  obtain qs cp1 n1 where st: "normalize_entries ce wt (text_delta k d) cp (length doc) = (qs, cp1, n1)" by (metis prod.exhaust)
  have "length doc < usize_max" using assms(3) by simp
  then have 1: "qs = [add_normalized_entry (length doc) ?e]" "n1 = Suc (length doc)" "streaming_text cp1 k (buf @ d) (Some (length doc))"
    using text_delta_step [OF assms(1) st] by (simp_all add: put_entry_def next_index_exact)
  obtain rs where rs: "normalize_all (normalize_entries ce wt) (map (text_delta k) es) cp1 (Suc (length doc)) = (rs, cp', n')" "ps = qs @ rs"
    using assms(4) st 1(2) by (auto simp: ds split: prod.splits)
  have "read_ops (add_normalized_entry (length doc) ?e) doc = Some (doc @ [text_entry ce (buf @ d)])"
    using read_add [of doc] \<open>length doc < usize_max\<close> by (simp add: text_entry_def)
  with text_deltas_replace [OF 1(3) assms(3) rs(1)] rs(2) 1(1) show ?thesis by (simp add: ds)
qed


text \<open>
  When Amp's history is resumed the entries are removed and counted anew, but the streamed messages
  keep the index they had; the next delta then replaces an entry that is not there.
\<close>

lemma resumed_history_keeps_stale_index:
  assumes "streaming_text cp k buf (Some j)" and "cp_strategy cp = AmpResume" and "0 < n" and "1 \<le> j" and "j \<le> usize_max"
    and "normalize_entries ce wt (CJ_User m sid) cp n = (ps, cp1, n1)" and "cm_content m = [CI_Text t]"
    and "normalize_entries ce wt (text_delta k d) cp1 n1 = (qs, cp2, n2)" and "length doc = n"
  shows "\<exists>doc1. read_patches ps doc = Some doc1 \<and> read_patches qs doc1 = None"
proof -
  let ?u = "plain_entry UserMessage t (Some (item_value ce (CI_Text t)))"
  have p: "ps = replicate n (remove_diff (show_nat 0)) @ [add_normalized_entry 0 ?u]" "cp1 = cp\<lparr>cp_tool_map := Map.empty\<rparr>"
    using assms(2,3,6,7)
    by (auto simp: normalize_entries_def resume_history_def is_text_def current_index_def reset_provider_def next_index_def
        tool_result_patches_def)
  then have "streaming_text cp1 k buf (Some j)" using assms(1) by (simp add: streaming_text_def)
  from text_delta_step [OF this assms(8)]
  obtain e where "qs = [replace_entry j e]" by (auto simp: put_entry_def)
  moreover have "read_patches ps doc = Some [TypedValue (PT_NormalizedEntry ?u)]"
    using read_remove_all [of doc] assms(9) read_add [of "[]" ?u] by (simp add: p(1))
  ultimately show ?thesis
    using assms(4,5) by (simp add: replace_entry_def entry_position_path)
qed


section \<open>Examples\<close>

definition sample_claude :: claude_env where
  "sample_claude =
     \<lparr> parse_claude_json = (\<lambda>_. None), parse_json = (\<lambda>_. None), parse_amp_bash_result = (\<lambda>_. None),
       item_value = (\<lambda>_. JNull), message_value = (\<lambda>_. JNull), message_text = (\<lambda>_. []), tool_value = (\<lambda>_. JNull),
       value_text = (\<lambda>_. []), cl_differ = plain_differ,
       cl_paths = \<lparr> pe_macos = False, pe_exists = (\<lambda>_. False), pe_canonicalize = (\<lambda>_. None) \<rparr> \<rparr>"

definition sample_message :: "string \<Rightarrow> claude_content_item list \<Rightarrow> claude_message" where
  "sample_message role items =
     \<lparr> cm_id = Some ''m'', cm_message_type = None, cm_role = role, cm_model = Some ''opus'', cm_content = items, cm_stop_reason = None \<rparr>"

definition sample_claude_log :: "claude_json list" where
  "sample_claude_log =
     [CJ_StreamEvent (MessageStart (sample_message ''assistant'' [])) None None None,
      CJ_StreamEvent (ContentBlockDelta 0 (TextDelta ''hi'')) None None None,
      CJ_Assistant (sample_message ''assistant'' [CI_Text ''hi'', CI_ToolUse ''t'' (TD_Bash ''ls'' None)]) None,
      CJ_User (sample_message ''user'' [CI_ToolResult ''t'' (JString ''a'') None]) None]"

theorem claude_patches_apply_witness:
  "\<exists>doc'. read_patches (fst (normalize_all (normalize_entries sample_claude ''/w'') sample_claude_log (new_with_strategy DefaultHistory) 0)) []
      = Some doc'
     \<and> length doc' = snd (snd (normalize_all (normalize_entries sample_claude ''/w'') sample_claude_log (new_with_strategy DefaultHistory) 0))"
  by (rule claude_patches_apply [where strategy = DefaultHistory and ms = sample_claude_log and n = 0 and
        cp = "fst (snd (normalize_all (normalize_entries sample_claude ''/w'') sample_claude_log (new_with_strategy DefaultHistory) 0))"])
     (simp_all add: sample_claude_log_def claude_weight_def sample_message_def usize_max_def)

theorem claude_output_chunking_witness:
  "process_logs sample_claude ''/w'' [Stdout ''ab'', Stderr ''x'', Stdout (''c'' @ [newline] @ ''d'')] (new_loop DefaultHistory 0)
   = process_logs sample_claude ''/w'' [Stdout (''abc'' @ [newline]), Stdout ''d'', Finished, Stdout ''e''] (new_loop DefaultHistory 0)"
  by (rule claude_output_chunking) simp

definition sample_streaming :: claude_log_processor where
  "sample_streaming = (new_with_strategy DefaultHistory)\<lparr>cp_streaming_message_id := Some ''m'',
     cp_streaming_messages := [''m'' \<mapsto> \<lparr> sm_role = ''assistant'',
       sm_contents = [0 \<mapsto> \<lparr> sc_kind = StreamText, sc_buffer = ''a'', sc_entry_index = None \<rparr>] \<rparr>]\<rparr>"

theorem streamed_text_is_one_entry_witness:
  "read_patches (fst (normalize_all (normalize_entries sample_claude ''/w'') (map (text_delta 0) [''b'', ''c'']) sample_streaming 0)) []
     = Some [text_entry sample_claude ''abc'']"
proof -
  obtain ps cp' n' where run:
    "normalize_all (normalize_entries sample_claude ''/w'') (map (text_delta 0) [''b'', ''c'']) sample_streaming (length ([] :: patch_value list))
     = (ps, cp', n')"
    by (metis prod.exhaust)
  have "streaming_text sample_streaming 0 ''a'' None"
    by (simp add: streaming_text_def sample_streaming_def new_with_strategy_def)
  from streamed_text_is_one_entry [OF this _ _ run] run show ?thesis by (simp add: usize_max_def)
qed

end
