(* ===== verification/Codex_Logs.thy ===== *)
theory Codex_Logs
  imports Conversation Unified_Diff
begin

text \<open>
  The log normaliser of Codex, \<^verbatim>\<open>crates/executors/src/executors/codex/normalize_logs.rs\<close>.

  The events are those of the crate \<^verbatim>\<open>codex_protocol\<close>: \<open>codex_event\<close> has the variants the code
  handles, with the fields it reads, and \<open>IgnoredEvent\<close> for the rest.  A hash map of file changes is the
  list in which the code happens to iterate over it.  Parsing a line is the parameter \<open>codex_env\<close>, one
  field per type the code tries in turn.
\<close>

section \<open>Events\<close>

datatype codex_file_change =
    CF_Add string
  | CF_Delete
  | CF_Update string "string option"

datatype exec_output_stream = ExecStdout | ExecStderr

datatype step_status = StepPending | StepInProgress | StepCompleted

record mcp_invocation =
  mi_server :: string
  mi_tool :: string
  mi_arguments :: "json option"

text \<open>A content block of an MCP result: the text when it is a text block.\<close>

record mcp_result =
  mr_content :: "string option list"
  mr_is_error :: "bool option"
  mr_structured_content :: "json option"
  mr_content_value :: json

datatype codex_event =
    SessionConfigured string string "string option"
  | AgentMessageDelta string
  | AgentReasoningDelta string
  | AgentMessage string
  | AgentReasoning string
  | AgentReasoningSectionBreak
  | ExecApprovalRequest string "string list" "string option"
  | ApplyPatchApprovalRequest string "(string \<times> codex_file_change) list"
  | ExecCommandBegin string "string list"
  | ExecCommandOutputDelta string exec_output_stream string
  | ExecCommandEnd string int string
  | BackgroundEvent string
  | StreamError string
  | McpToolCallBegin string mcp_invocation
  | McpToolCallEnd string "string + mcp_result"
  | PatchApplyBegin string "(string \<times> codex_file_change) list"
  | PatchApplyEnd string bool
  | WebSearchBegin string
  | WebSearchEnd string string
  | ViewImageToolCall string
  | PlanUpdate "(string \<times> step_status) list" "string option"
  | ErrorEvent string
  | TokenCount "json option"
  | IgnoredEvent


section \<open>State\<close>

record cx_text =
  tx_index :: nat
  tx_content :: string

record command_state =
  cs_index :: "nat option"
  cs_command :: string
  cs_stdout :: string
  cs_stderr :: string
  cs_formatted_output :: "string option"
  cs_status :: tool_status
  cs_exit_code :: "int option"
  cs_awaiting_approval :: bool
  cs_call_id :: string

record mcp_tool_state =
  ms_index :: "nat option"
  ms_invocation :: mcp_invocation
  ms_result :: "tool_result option"
  ms_status :: tool_status

record web_search_state =
  ws_index :: "nat option"
  ws_query :: "string option"
  ws_status :: tool_status

record patch_entry =
  pt_index :: "nat option"
  pt_path :: string
  pt_changes :: "file_change list"
  pt_status :: tool_status
  pt_awaiting_approval :: bool
  pt_call_id :: string

record log_state =
  lx_assistant :: "cx_text option"
  lx_thinking :: "cx_text option"
  lx_commands :: "string \<rightharpoonup> command_state"
  lx_mcp_tools :: "string \<rightharpoonup> mcp_tool_state"
  lx_patches :: "string \<rightharpoonup> patch_entry list"
  lx_web_searches :: "string \<rightharpoonup> web_search_state"
  lx_token_usage_info :: "json option"

definition new_log_state :: log_state where
  "new_log_state =
     \<lparr> lx_assistant = None, lx_thinking = None, lx_commands = Map.empty, lx_mcp_tools = Map.empty,
       lx_patches = Map.empty, lx_web_searches = Map.empty, lx_token_usage_info = None \<rparr>"

definition default_command :: command_state where
  "default_command =
     \<lparr> cs_index = None, cs_command = [], cs_stdout = [], cs_stderr = [], cs_formatted_output = None,
       cs_status = TS_Created, cs_exit_code = None, cs_awaiting_approval = False, cs_call_id = [] \<rparr>"


section \<open>Entries\<close>

definition section_of :: "string \<Rightarrow> string \<Rightarrow> string list" where
  "section_of label out = (let cleaned = trim out in if cleaned \<noteq> [] then [label @ '':'' @ [newline] @ cleaned] else [])"

fun join_sections :: "string list \<Rightarrow> string" where
  "join_sections [] = []"
| "join_sections [s] = s"
| "join_sections (s # ss) = s @ [newline, newline] @ join_sections ss"

definition build_command_output :: "string \<Rightarrow> string \<Rightarrow> string option" where
  "build_command_output stdout stderr =
     (let sections = section_of ''stdout'' stdout @ section_of ''stderr'' stderr
      in if sections = [] then None else Some (join_sections sections))"

definition call_metadata :: "string \<Rightarrow> json option" where
  "call_metadata call_id = Some (JObject [(''tool_call_id'', JString call_id)])"

definition command_entry :: "command_state \<Rightarrow> normalized_entry" where
  "command_entry cs =
     plain_entry
       (ToolUse ''bash''
          (CommandRun (cs_command cs)
             (Some \<lparr> exit_status = map_option ExitCode (cs_exit_code cs),
                     run_output = (if cs_formatted_output cs \<noteq> None then cs_formatted_output cs
                                   else build_command_output (cs_stdout cs) (cs_stderr cs)) \<rparr>))
          (cs_status cs))
       (''`'' @ cs_command cs @ ''`'') (call_metadata (cs_call_id cs))"

definition mcp_entry :: "mcp_tool_state \<Rightarrow> normalized_entry" where
  "mcp_entry ms =
     (let tool_name = ''mcp:'' @ mi_server (ms_invocation ms) @ '':'' @ mi_tool (ms_invocation ms)
      in plain_entry (ToolUse tool_name (Tool tool_name (mi_arguments (ms_invocation ms)) (ms_result ms)) (ms_status ms))
           (mi_tool (ms_invocation ms)) None)"

definition web_search_entry :: "web_search_state \<Rightarrow> normalized_entry" where
  "web_search_entry ws =
     plain_entry
       (ToolUse ''web_search'' (WebFetch (case ws_query ws of Some q \<Rightarrow> q | None \<Rightarrow> ''...'')) (ws_status ws))
       (case ws_query ws of Some q \<Rightarrow> q | None \<Rightarrow> ''Web search'') None"

definition patch_entry_entry :: "patch_entry \<Rightarrow> normalized_entry" where
  "patch_entry_entry pe =
     plain_entry (ToolUse ''edit'' (FileEdit (pt_path pe) (pt_changes pe)) (pt_status pe)) (pt_path pe)
       (call_metadata (pt_call_id pe))"

definition normalize_file_changes ::
  "path_env \<Rightarrow> string \<Rightarrow> (string \<times> codex_file_change) list \<Rightarrow> (string \<times> file_change list) list" where
  "normalize_file_changes pe wt changes =
     map (\<lambda>(path, change).
       let rel = make_path_relative pe path wt
       in (rel, case change of
                  CF_Add content \<Rightarrow> [Write content]
                | CF_Delete \<Rightarrow> [Delete]
                | CF_Update unified_diff move_path \<Rightarrow>
                    (case move_path of Some dest \<Rightarrow> [Rename (make_path_relative pe dest wt)] | None \<Rightarrow> [])
                    @ [Edit (concatenate_diff_hunks rel (extract_unified_diff_hunks unified_diff)) True])) changes"

fun format_todo_status :: "step_status \<Rightarrow> string" where
  "format_todo_status StepPending = ''pending''"
| "format_todo_status StepInProgress = ''in_progress''"
| "format_todo_status StepCompleted = ''completed''"

definition model_params_entry :: "string \<Rightarrow> string option \<Rightarrow> normalized_entry" where
  "model_params_entry model reasoning_effort =
     plain_entry SystemMessage
       (''model: '' @ model @ (case reasoning_effort of Some e \<Rightarrow> ''  reasoning effort: '' @ e | None \<Rightarrow> [])) None"

definition plan_entry :: "(string \<times> step_status) list \<Rightarrow> string option \<Rightarrow> normalized_entry" where
  "plan_entry plan explanation =
     (let todos = map (\<lambda>(step, status). \<lparr> todo_content = step, todo_status = format_todo_status status, todo_priority = None \<rparr>) plan;
          default = (if todos = [] then ''Plan updated'' else ''Plan updated ('' @ show_nat (length todos) @ '' steps)'');
          content = (case explanation of Some e \<Rightarrow> if trim e \<noteq> [] then trim e else default | None \<Rightarrow> default)
      in plain_entry (ToolUse ''plan'' (TodoManagement todos ''update'') TS_Success) content None)"

definition mcp_tool_result :: "string + mcp_result \<Rightarrow> tool_status \<times> tool_result" where
  "mcp_tool_result result =
     (case result of
        Inl err \<Rightarrow> (TS_Failed, \<lparr> tr_type = Markdown, tr_value = JString err \<rparr>)
      | Inr value \<Rightarrow>
          (if mr_is_error value = Some True then TS_Failed else TS_Success,
           case those (mr_content value) of
             Some texts \<Rightarrow> \<lparr> tr_type = Markdown, tr_value = JString (join_lines texts) \<rparr>
           | None \<Rightarrow>
               \<lparr> tr_type = Json,
                 tr_value = (case mr_structured_content value of Some v \<Rightarrow> v | None \<Rightarrow> mr_content_value value) \<rparr>))"


section \<open>Streamed text\<close>

datatype text_kind = AssistantText | ThinkingText

datatype update_mode = AppendText | SetText

definition text_of :: "text_kind \<Rightarrow> log_state \<Rightarrow> cx_text option" where
  "text_of kind st = (case kind of AssistantText \<Rightarrow> lx_assistant st | ThinkingText \<Rightarrow> lx_thinking st)"

definition set_text :: "text_kind \<Rightarrow> cx_text option \<Rightarrow> log_state \<Rightarrow> log_state" where
  "set_text kind t st = (case kind of AssistantText \<Rightarrow> st\<lparr>lx_assistant := t\<rparr> | ThinkingText \<Rightarrow> st\<lparr>lx_thinking := t\<rparr>)"

text \<open>\<^verbatim>\<open>streaming_text_update\<close> followed by \<^verbatim>\<open>upsert_normalized_entry\<close>.\<close>

definition streaming_text_update ::
  "string \<Rightarrow> text_kind \<Rightarrow> update_mode \<Rightarrow> log_state \<Rightarrow> nat \<Rightarrow> patch list \<times> log_state \<times> nat" where
  "streaming_text_update content kind mode st n =
     (let full = (case text_of kind st of
                    None \<Rightarrow> content
                  | Some t \<Rightarrow> (case mode of AppendText \<Rightarrow> tx_content t @ content | SetText \<Rightarrow> content));
          entry = plain_entry (case kind of AssistantText \<Rightarrow> AssistantMessage | ThinkingText \<Rightarrow> Thinking) full None;
          (pt, i, n1) = put_entry (map_option tx_index (text_of kind st)) entry n
      in ([pt], set_text kind (Some \<lparr> tx_index = i, tx_content = full \<rparr>) st, n1))"

definition end_texts :: "log_state \<Rightarrow> log_state" where
  "end_texts st = st\<lparr>lx_assistant := None, lx_thinking := None\<rparr>"


section \<open>One event\<close>

definition add_one :: "normalized_entry \<Rightarrow> log_state \<Rightarrow> nat \<Rightarrow> patch list \<times> log_state \<times> nat" where
  "add_one entry st n = (let (pt, _, n1) = put_entry None entry n in ([pt], st, n1))"

definition exec_approval_request ::
  "string \<Rightarrow> string list \<Rightarrow> string option \<Rightarrow> log_state \<Rightarrow> nat \<Rightarrow> patch list \<times> log_state \<times> nat" where
  "exec_approval_request call_id command reason st0 n =
     (let st = end_texts st0;
          command_text = (if command = []
                          then (case reason of Some r \<Rightarrow> if r \<noteq> [] then r else ''command execution'' | None \<Rightarrow> ''command execution'')
                          else join_words command);
          cs0 = (case lx_commands st call_id of Some cs \<Rightarrow> cs | None \<Rightarrow> default_command);
          cs = cs0\<lparr>cs_command := (if cs_command cs0 = [] then command_text else cs_command cs0), cs_awaiting_approval := True\<rparr>;
          (pt, i, n1) = put_entry (cs_index cs) (command_entry cs) n
      in ([pt], st\<lparr>lx_commands := (lx_commands st)(call_id \<mapsto> cs\<lparr>cs_index := Some i\<rparr>)\<rparr>, n1))"

text \<open>New patch entries, one after another.\<close>

fun add_patch_entries ::
  "string \<Rightarrow> bool \<Rightarrow> (string \<times> file_change list) list \<Rightarrow> nat \<Rightarrow> patch list \<times> patch_entry list \<times> nat" where
  "add_patch_entries call_id awaiting [] n = ([], [], n)"
| "add_patch_entries call_id awaiting ((path, changes) # rest) n =
     (let pe = \<lparr> pt_index = None, pt_path = path, pt_changes = changes, pt_status = TS_Created,
                 pt_awaiting_approval = awaiting, pt_call_id = call_id \<rparr>;
          (pt, i, n1) = put_entry None (patch_entry_entry pe) n;
          (ps, pes, n2) = add_patch_entries call_id awaiting rest n1
      in (pt # ps, pe\<lparr>pt_index := Some i\<rparr> # pes, n2))"

definition apply_patch_approval_request ::
  "path_env \<Rightarrow> string \<Rightarrow> string \<Rightarrow> (string \<times> codex_file_change) list \<Rightarrow> log_state \<Rightarrow> nat \<Rightarrow> patch list \<times> log_state \<times> nat" where
  "apply_patch_approval_request pe wt call_id changes st0 n =
     (let st = end_texts st0;
          old = (case lx_patches st call_id of Some es \<Rightarrow> es | None \<Rightarrow> []);
          removed = map remove_entry (List.map_filter pt_index old);
          (ps, es, n1) = add_patch_entries call_id True (normalize_file_changes pe wt changes) n
      in (removed @ ps, st\<lparr>lx_patches := (lx_patches st)(call_id \<mapsto> es)\<rparr>, n1))"

text \<open>\<^verbatim>\<open>PatchApplyBegin\<close> on the entries of an approval: each takes the next change, if there is one.\<close>

fun update_patch_entries ::
  "patch_entry list \<Rightarrow> (string \<times> file_change list) list \<Rightarrow> nat
   \<Rightarrow> patch list \<times> patch_entry list \<times> (string \<times> file_change list) list \<times> nat" where
  "update_patch_entries [] changes n = ([], [], changes, n)"
| "update_patch_entries (e # es) changes n =
     (let e1 = (case changes of (path, cs) # _ \<Rightarrow> e\<lparr>pt_path := path, pt_changes := cs\<rparr> | [] \<Rightarrow> e);
          e2 = e1\<lparr>pt_status := TS_Created, pt_awaiting_approval := False\<rparr>;
          (pt, i, n1) = put_entry (pt_index e2) (patch_entry_entry e2) n;
          (ps, es1, rest, n2) = update_patch_entries es (drop 1 changes) n1
      in (pt # ps, e2\<lparr>pt_index := Some i\<rparr> # es1, rest, n2))"

definition patch_apply_begin ::
  "path_env \<Rightarrow> string \<Rightarrow> string \<Rightarrow> (string \<times> codex_file_change) list \<Rightarrow> log_state \<Rightarrow> nat \<Rightarrow> patch list \<times> log_state \<times> nat" where
  "patch_apply_begin pe wt call_id changes st0 n =
     (let st = end_texts st0;
          normalized = normalize_file_changes pe wt changes;
          (ps, es, rest, n1) = update_patch_entries (case lx_patches st call_id of Some es \<Rightarrow> es | None \<Rightarrow> []) normalized n;
          (qs, fs, n2) = add_patch_entries call_id False rest n1
      in (ps @ qs, st\<lparr>lx_patches := (lx_patches st)(call_id \<mapsto> es @ fs)\<rparr>, n2))"

definition patch_apply_end :: "string \<Rightarrow> bool \<Rightarrow> log_state \<Rightarrow> nat \<Rightarrow> patch list \<times> log_state \<times> nat" where
  "patch_apply_end call_id success st n =
     (case lx_patches st call_id of
        None \<Rightarrow> ([], st, n)
      | Some es \<Rightarrow>
          (List.map_filter (\<lambda>e. case pt_index e of
               Some i \<Rightarrow> Some (replace_entry i (patch_entry_entry (e\<lparr>pt_status := (if success then TS_Success else TS_Failed)\<rparr>)))
             | None \<Rightarrow> None) es,
           st\<lparr>lx_patches := (lx_patches st)(call_id := None)\<rparr>, n))"

definition exec_command_begin :: "string \<Rightarrow> string list \<Rightarrow> log_state \<Rightarrow> nat \<Rightarrow> patch list \<times> log_state \<times> nat" where
  "exec_command_begin call_id command st0 n =
     (let st = end_texts st0; command_text = join_words command
      in if command_text = [] then ([], st, n)
         else let cs = default_command\<lparr>cs_command := command_text, cs_call_id := call_id\<rparr>;
                  (pt, i, n1) = put_entry None (command_entry cs) n
              in ([pt], st\<lparr>lx_commands := (lx_commands st)(call_id \<mapsto> cs\<lparr>cs_index := Some i\<rparr>)\<rparr>, n1))"

definition exec_command_output_delta ::
  "string \<Rightarrow> exec_output_stream \<Rightarrow> string \<Rightarrow> log_state \<Rightarrow> nat \<Rightarrow> patch list \<times> log_state \<times> nat" where
  "exec_command_output_delta call_id stream chunk st n =
     (case lx_commands st call_id of
        None \<Rightarrow> ([], st, n)
      | Some cs \<Rightarrow>
          if chunk = [] then ([], st, n)
          else let cs1 = (case stream of
                            ExecStdout \<Rightarrow> cs\<lparr>cs_stdout := cs_stdout cs @ chunk\<rparr>
                          | ExecStderr \<Rightarrow> cs\<lparr>cs_stderr := cs_stderr cs @ chunk\<rparr>);
                   st1 = st\<lparr>lx_commands := (lx_commands st)(call_id \<mapsto> cs1)\<rparr>
               in case cs_index cs1 of
                    None \<Rightarrow> ([], st1, n)
                  | Some i \<Rightarrow> ([replace_entry i (command_entry cs1)], st1, n))"

definition exec_command_end :: "string \<Rightarrow> int \<Rightarrow> string \<Rightarrow> log_state \<Rightarrow> nat \<Rightarrow> patch list \<times> log_state \<times> nat" where
  "exec_command_end call_id exit_code formatted st n =
     (case lx_commands st call_id of
        None \<Rightarrow> ([], st, n)
      | Some cs \<Rightarrow>
          (let cs1 = cs\<lparr>cs_formatted_output := Some formatted, cs_exit_code := Some exit_code, cs_awaiting_approval := False,
                        cs_status := (if exit_code = 0 then TS_Success else TS_Failed)\<rparr>;
               st1 = st\<lparr>lx_commands := (lx_commands st)(call_id := None)\<rparr>
           in case cs_index cs1 of
                None \<Rightarrow> ([], st1, n)
              | Some i \<Rightarrow> ([replace_entry i (command_entry cs1)], st1, n)))"

definition mcp_tool_call_begin :: "string \<Rightarrow> mcp_invocation \<Rightarrow> log_state \<Rightarrow> nat \<Rightarrow> patch list \<times> log_state \<times> nat" where
  "mcp_tool_call_begin call_id invocation st0 n =
     (let st = end_texts st0;
          ms = \<lparr> ms_index = None, ms_invocation = invocation, ms_result = None, ms_status = TS_Created \<rparr>;
          (pt, i, n1) = put_entry None (mcp_entry ms) n
      in ([pt], st\<lparr>lx_mcp_tools := (lx_mcp_tools st)(call_id \<mapsto> ms\<lparr>ms_index := Some i\<rparr>)\<rparr>, n1))"

definition mcp_tool_call_end :: "string \<Rightarrow> string + mcp_result \<Rightarrow> log_state \<Rightarrow> nat \<Rightarrow> patch list \<times> log_state \<times> nat" where
  "mcp_tool_call_end call_id result st n =
     (case lx_mcp_tools st call_id of
        None \<Rightarrow> ([], st, n)
      | Some ms \<Rightarrow>
          (let ms1 = ms\<lparr>ms_status := fst (mcp_tool_result result), ms_result := Some (snd (mcp_tool_result result))\<rparr>;
               st1 = st\<lparr>lx_mcp_tools := (lx_mcp_tools st)(call_id := None)\<rparr>
           in case ms_index ms1 of
                None \<Rightarrow> ([], st1, n)
              | Some i \<Rightarrow> ([replace_entry i (mcp_entry ms1)], st1, n)))"

definition web_search_begin :: "string \<Rightarrow> log_state \<Rightarrow> nat \<Rightarrow> patch list \<times> log_state \<times> nat" where
  "web_search_begin call_id st0 n =
     (let st = end_texts st0;
          ws = \<lparr> ws_index = None, ws_query = None, ws_status = TS_Created \<rparr>;
          (pt, i, n1) = put_entry None (web_search_entry ws) n
      in ([pt], st\<lparr>lx_web_searches := (lx_web_searches st)(call_id \<mapsto> ws\<lparr>ws_index := Some i\<rparr>)\<rparr>, n1))"

definition web_search_end :: "string \<Rightarrow> string \<Rightarrow> log_state \<Rightarrow> nat \<Rightarrow> patch list \<times> log_state \<times> nat" where
  "web_search_end call_id query st0 n =
     (let st = end_texts st0
      in case lx_web_searches st call_id of
           None \<Rightarrow> ([], st, n)
         | Some ws \<Rightarrow>
             (let ws1 = ws\<lparr>ws_status := TS_Success, ws_query := Some query\<rparr>;
                  st1 = st\<lparr>lx_web_searches := (lx_web_searches st)(call_id := None)\<rparr>
              in case ws_index ws1 of
                   None \<Rightarrow> ([], st1, n)
                 | Some i \<Rightarrow> ([replace_entry i (web_search_entry ws1)], st1, n)))"

fun codex_event_step ::
  "path_env \<Rightarrow> string \<Rightarrow> codex_event \<Rightarrow> log_state \<Rightarrow> nat \<Rightarrow> patch list \<times> log_state \<times> nat" where
  "codex_event_step pe wt (SessionConfigured _ model effort) st n = add_one (model_params_entry model effort) st n"
| "codex_event_step pe wt (AgentMessageDelta delta) st n =
     streaming_text_update delta AssistantText AppendText (st\<lparr>lx_thinking := None\<rparr>) n"
| "codex_event_step pe wt (AgentReasoningDelta delta) st n =
     streaming_text_update delta ThinkingText AppendText (st\<lparr>lx_assistant := None\<rparr>) n"
| "codex_event_step pe wt (AgentMessage message) st n =
     (let (ps, st1, n1) = streaming_text_update message AssistantText SetText (st\<lparr>lx_thinking := None\<rparr>) n
      in (ps, st1\<lparr>lx_assistant := None\<rparr>, n1))"
| "codex_event_step pe wt (AgentReasoning txt) st n =
     (let (ps, st1, n1) = streaming_text_update txt ThinkingText SetText (st\<lparr>lx_assistant := None\<rparr>) n
      in (ps, st1\<lparr>lx_thinking := None\<rparr>, n1))"
| "codex_event_step pe wt AgentReasoningSectionBreak st n = ([], end_texts st, n)"
| "codex_event_step pe wt (ExecApprovalRequest call_id command reason) st n = exec_approval_request call_id command reason st n"
| "codex_event_step pe wt (ApplyPatchApprovalRequest call_id changes) st n = apply_patch_approval_request pe wt call_id changes st n"
| "codex_event_step pe wt (ExecCommandBegin call_id command) st n = exec_command_begin call_id command st n"
| "codex_event_step pe wt (ExecCommandOutputDelta call_id stream chunk) st n = exec_command_output_delta call_id stream chunk st n"
| "codex_event_step pe wt (ExecCommandEnd call_id exit_code formatted) st n = exec_command_end call_id exit_code formatted st n"
| "codex_event_step pe wt (BackgroundEvent message) st n =
     add_one (plain_entry SystemMessage (''Background event: '' @ message) None) st n"
| "codex_event_step pe wt (StreamError message) st n =
     add_one (plain_entry (ErrorMessage OtherError) (''Stream error: '' @ message) None) st n"
| "codex_event_step pe wt (McpToolCallBegin call_id invocation) st n = mcp_tool_call_begin call_id invocation st n"
| "codex_event_step pe wt (McpToolCallEnd call_id result) st n = mcp_tool_call_end call_id result st n"
| "codex_event_step pe wt (PatchApplyBegin call_id changes) st n = patch_apply_begin pe wt call_id changes st n"
| "codex_event_step pe wt (PatchApplyEnd call_id success) st n = patch_apply_end call_id success st n"
| "codex_event_step pe wt (WebSearchBegin call_id) st n = web_search_begin call_id st n"
| "codex_event_step pe wt (WebSearchEnd call_id query) st n = web_search_end call_id query st n"
| "codex_event_step pe wt (ViewImageToolCall path) st n =
     (let rel = make_path_relative pe path wt
      in add_one (plain_entry (ToolUse ''view_image'' (FileRead rel) TS_Success) (''`'' @ rel @ ''`'') None) (end_texts st) n)"
| "codex_event_step pe wt (PlanUpdate plan explanation) st n = add_one (plan_entry plan explanation) st n"
| "codex_event_step pe wt (ErrorEvent message) st n = add_one (plain_entry (ErrorMessage OtherError) message None) st n"
| "codex_event_step pe wt (TokenCount info) st n =
     ([], case info of Some i \<Rightarrow> st\<lparr>lx_token_usage_info := Some i\<rparr> | None \<Rightarrow> st, n)"
| "codex_event_step pe wt IgnoredEvent st n = ([], st, n)"


section \<open>One line\<close>

text \<open>
  Lines of a UUID, \<^verbatim>\<open>8-4-4-4-12\<close> hexadecimal digits: \<open>uuid_prefix\<close> is the capture of \<^verbatim>\<open>SESSION_ID\<close>,
  \<open>extract_session_id_from_rollout_path\<close> reads the same shape before \<^verbatim>\<open>.jsonl\<close> at the end of a name.
\<close>

definition hex_char :: "char \<Rightarrow> bool" where
  "hex_char c \<longleftrightarrow> c \<in> set ''0123456789abcdefABCDEF''"

definition uuid_shaped :: "string \<Rightarrow> bool" where
  "uuid_shaped s \<longleftrightarrow>
     length s = 36 \<and> (\<forall>i < 36. if i \<in> {8, 13, 18, 23} then s ! i = CHR ''-'' else hex_char (s ! i))"

definition uuid_prefix :: "string \<Rightarrow> string option" where
  "uuid_prefix s = (if uuid_shaped (take 36 s) then Some (take 36 s) else None)"

definition extract_session_id_from_rollout_path :: "string \<Rightarrow> string option" where
  "extract_session_id_from_rollout_path path =
     Option.bind (file_name path) (\<lambda>name.
       if ends_with ''.jsonl'' name
       then (let stem = take (length name - 6) name; u = drop (length stem - 36) stem
             in if uuid_shaped u then Some u else None)
       else None)"

record new_conversation_response =
  nc_rollout_path :: string
  nc_model :: string
  nc_reasoning_effort :: "string option"

text \<open>
  What the lines parse to, in the order the code tries; the inner option of \<open>de_response\<close> and
  \<open>de_server_notification\<close> says whether it is the variant that matters.
\<close>

record codex_env =
  de_error :: "string \<Rightarrow> string option"
  de_approval :: "string \<Rightarrow> (string \<times> approval_status) option"
  de_response :: "string \<Rightarrow> new_conversation_response option option"
  de_server_notification :: "string \<Rightarrow> (string \<times> string \<times> string option) option option"
  de_notification :: "string \<Rightarrow> (string \<times> json option) option"
  de_params :: "json \<Rightarrow> codex_event option"
  cx_paths :: path_env

definition display_tool_name :: "string \<Rightarrow> string" where
  "display_tool_name tool_name =
     (if tool_name = ''codex.exec_command'' then ''Exec Command''
      else if tool_name = ''codex.apply_patch'' then ''Edit'' else tool_name)"

definition approval_entry :: "string \<Rightarrow> approval_status \<Rightarrow> normalized_entry option" where
  "approval_entry tool_name status =
     (case status of
        AS_Pending \<Rightarrow> None
      | AS_Approved \<Rightarrow> None
      | AS_Denied reason \<Rightarrow>
          Some (plain_entry (UserFeedback (display_tool_name tool_name))
            (trim (case reason of Some r \<Rightarrow> r | None \<Rightarrow> ''User denied this tool use request'')) None)
      | AS_TimedOut \<Rightarrow>
          Some (plain_entry (ErrorMessage OtherError) (''Approval timed out for tool '' @ display_tool_name tool_name) None))"

definition session_configured_prefix :: string where
  "session_configured_prefix =
     ''{'' @ [CHR 0x22] @ ''method'' @ [CHR 0x22] @ '':'' @ [CHR 0x22] @ ''sessionConfigured'' @ [CHR 0x22] @ '',''
     @ [CHR 0x22] @ ''params'' @ [CHR 0x22] @ '':{'' @ [CHR 0x22] @ ''sessionId'' @ [CHR 0x22] @ '':'' @ [CHR 0x22]"

datatype codex_line =
    LaunchErrorLine string
  | ApprovalLine string approval_status
  | ResponseLine new_conversation_response
  | SessionConfiguredLine string string "string option"
  | SessionIdLine string
  | EventLine codex_event
  | IgnoredLine

definition codex_line_of :: "codex_env \<Rightarrow> string \<Rightarrow> codex_line" where
  "codex_line_of cx line =
     (case de_error cx line of
        Some error \<Rightarrow> LaunchErrorLine error
      | None \<Rightarrow>
     (case de_approval cx line of
        Some (tool_name, status) \<Rightarrow> ApprovalLine tool_name status
      | None \<Rightarrow>
     (case de_response cx line of
        Some response \<Rightarrow> (case response of Some r \<Rightarrow> ResponseLine r | None \<Rightarrow> IgnoredLine)
      | None \<Rightarrow>
     (case de_server_notification cx line of
        Some notification \<Rightarrow>
          (case notification of Some (sid, model, effort) \<Rightarrow> SessionConfiguredLine sid model effort | None \<Rightarrow> IgnoredLine)
      | None \<Rightarrow>
     (case Option.bind (strip_prefix session_configured_prefix line) uuid_prefix of
        Some sid \<Rightarrow> SessionIdLine sid
      | None \<Rightarrow>
     (case de_notification cx line of
        None \<Rightarrow> IgnoredLine
      | Some (meth, params) \<Rightarrow>
          if \<not> starts_with ''codex/event'' meth then IgnoredLine
          else (case Option.bind params (de_params cx) of Some event \<Rightarrow> EventLine event | None \<Rightarrow> IgnoredLine)))))))"

fun codex_session_id :: "codex_line \<Rightarrow> string option" where
  "codex_session_id (ResponseLine r) = extract_session_id_from_rollout_path (nc_rollout_path r)"
| "codex_session_id (SessionConfiguredLine sid _ _) = Some sid"
| "codex_session_id (SessionIdLine sid) = Some sid"
| "codex_session_id (EventLine (SessionConfigured sid _ _)) = Some sid"
| "codex_session_id _ = None"

fun codex_line_step :: "path_env \<Rightarrow> string \<Rightarrow> codex_line \<Rightarrow> log_state \<Rightarrow> nat \<Rightarrow> patch list \<times> log_state \<times> nat" where
  "codex_line_step pe wt (LaunchErrorLine error) st n = add_one (plain_entry (ErrorMessage OtherError) error None) st n"
| "codex_line_step pe wt (ApprovalLine tool_name status) st n =
     (case approval_entry tool_name status of Some entry \<Rightarrow> add_one entry st n | None \<Rightarrow> ([], st, n))"
| "codex_line_step pe wt (ResponseLine r) st n = add_one (model_params_entry (nc_model r) (nc_reasoning_effort r)) st n"
| "codex_line_step pe wt (SessionConfiguredLine sid model effort) st n = add_one (model_params_entry model effort) st n"
| "codex_line_step pe wt (SessionIdLine sid) st n = ([], st, n)"
| "codex_line_step pe wt (EventLine event) st n = codex_event_step pe wt event st n"
| "codex_line_step pe wt IgnoredLine st n = ([], st, n)"

text \<open>The loop of \<^verbatim>\<open>normalize_logs\<close>: what it pushes to the store for the lines of the output.\<close>

fun codex_normalize_logs :: "codex_env \<Rightarrow> string \<Rightarrow> string list \<Rightarrow> log_state \<Rightarrow> nat \<Rightarrow> store_push list" where
  "codex_normalize_logs cx wt [] st n = []"
| "codex_normalize_logs cx wt (line # rest) st n =
     (let l = codex_line_of cx line;
          (ps, st1, n1) = codex_line_step (cx_paths cx) wt l st n
      in (case codex_session_id l of Some sid \<Rightarrow> [PushSessionId sid] | None \<Rightarrow> [])
         @ map PushPatch ps @ codex_normalize_logs cx wt rest st1 n1)"

end
