(* ===== verification/Codex_Guarantees.thy ===== *)
theory Codex_Guarantees
  imports Codex_Logs Approvals
begin

text \<open>
  What holds of the Codex log normaliser: its patches apply to the conversation, with the exception of
  an approval request for a patch that already has entries, and what its command approval entries mean for the approval service.
\<close>

section \<open>Indexes stay within the conversation\<close>

definition below :: "nat \<Rightarrow> nat option \<Rightarrow> bool" where
  "below n i \<longleftrightarrow> (\<forall>j. i = Some j \<longrightarrow> j < n)"

definition codex_inv :: "nat \<Rightarrow> log_state \<Rightarrow> bool" where
  "codex_inv n st \<longleftrightarrow>
     below n (map_option tx_index (lx_assistant st)) \<and> below n (map_option tx_index (lx_thinking st))
     \<and> (\<forall>i c. lx_commands st i = Some c \<longrightarrow> below n (cs_index c))
     \<and> (\<forall>i m. lx_mcp_tools st i = Some m \<longrightarrow> below n (ms_index m))
     \<and> (\<forall>i es. lx_patches st i = Some es \<longrightarrow> (\<forall>e \<in> set es. pt_index e \<noteq> None \<and> below n (pt_index e)))
     \<and> (\<forall>i w. lx_web_searches st i = Some w \<longrightarrow> below n (ws_index w))"

definition codex_weight :: "codex_line \<Rightarrow> nat" where
  "codex_weight l =
     (case l of
        EventLine (ApplyPatchApprovalRequest _ changes) \<Rightarrow> length changes
      | EventLine (PatchApplyBegin _ changes) \<Rightarrow> length changes
      | _ \<Rightarrow> 1)"

text \<open>
  No approval request for a patch comes while the entries of an earlier request or begin with the
  same identifier are there; \<open>S\<close> are the identifiers with entries.
\<close>

fun approvals_fresh :: "string set \<Rightarrow> codex_line list \<Rightarrow> bool" where
  "approvals_fresh S [] = True"
| "approvals_fresh S (l # ls) =
     (case l of
        EventLine (ApplyPatchApprovalRequest i _) \<Rightarrow> i \<notin> S \<and> approvals_fresh (insert i S) ls
      | EventLine (PatchApplyBegin i _) \<Rightarrow> approvals_fresh (insert i S) ls
      | EventLine (PatchApplyEnd i _) \<Rightarrow> approvals_fresh (S - {i}) ls
      | _ \<Rightarrow> approvals_fresh S ls)"

lemma below_simps [simp]: "below n None" "below n (Some i) \<longleftrightarrow> i < n"
  by (simp_all add: below_def)

lemma below_mono: "below n i \<Longrightarrow> n \<le> m \<Longrightarrow> below m i"
  by (auto simp: below_def intro: less_le_trans)

lemma codex_inv_mono: "codex_inv n st \<Longrightarrow> n \<le> m \<Longrightarrow> codex_inv m st"
  unfolding codex_inv_def by (meson below_mono)

lemma codex_inv_new: "codex_inv n new_log_state"
  by (simp add: codex_inv_def new_log_state_def)

lemma codex_inv_ended:
  "codex_inv n st \<Longrightarrow> codex_inv n (end_texts st)"
  "codex_inv n st \<Longrightarrow> codex_inv n (st\<lparr>lx_assistant := None\<rparr>)"
  "codex_inv n st \<Longrightarrow> codex_inv n (st\<lparr>lx_thinking := None\<rparr>)"
  by (simp_all add: codex_inv_def end_texts_def)

lemma end_texts_simps [simp]:
  "lx_commands (end_texts st) = lx_commands st" "lx_mcp_tools (end_texts st) = lx_mcp_tools st"
  "lx_patches (end_texts st) = lx_patches st" "lx_web_searches (end_texts st) = lx_web_searches st"
  by (simp_all add: end_texts_def)

text \<open>Storing a value whose index is below the counter.\<close>

lemma codex_inv_put:
  assumes "codex_inv n st"
  shows "below n (cs_index c) \<Longrightarrow> codex_inv n (st\<lparr>lx_commands := (lx_commands st)(i \<mapsto> c)\<rparr>)"
    and "below n (ms_index m) \<Longrightarrow> codex_inv n (st\<lparr>lx_mcp_tools := (lx_mcp_tools st)(i \<mapsto> m)\<rparr>)"
    and "(\<And>e. e \<in> set es \<Longrightarrow> pt_index e \<noteq> None \<and> below n (pt_index e)) \<Longrightarrow> codex_inv n (st\<lparr>lx_patches := (lx_patches st)(i \<mapsto> es)\<rparr>)"
    and "below n (ws_index w) \<Longrightarrow> codex_inv n (st\<lparr>lx_web_searches := (lx_web_searches st)(i \<mapsto> w)\<rparr>)"
    and "below n (map_option tx_index t) \<Longrightarrow> codex_inv n (set_text kind t st)"
  using assms by (auto simp: codex_inv_def set_text_def split: text_kind.split)

lemma codex_inv_drop:
  assumes "codex_inv n st"
  shows "codex_inv n (st\<lparr>lx_commands := (lx_commands st)(i := None)\<rparr>)"
    and "codex_inv n (st\<lparr>lx_mcp_tools := (lx_mcp_tools st)(i := None)\<rparr>)"
    and "codex_inv n (st\<lparr>lx_patches := (lx_patches st)(i := None)\<rparr>)"
    and "codex_inv n (st\<lparr>lx_web_searches := (lx_web_searches st)(i := None)\<rparr>)"
  using assms by (auto simp: codex_inv_def)

lemma codex_invD:
  assumes "codex_inv n st"
  shows "lx_commands st i = Some c \<Longrightarrow> cs_index c = Some j \<Longrightarrow> j < n"
    and "lx_mcp_tools st i = Some m \<Longrightarrow> ms_index m = Some j \<Longrightarrow> j < n"
    and "lx_web_searches st i = Some w \<Longrightarrow> ws_index w = Some j \<Longrightarrow> j < n"
    and "lx_patches st i = Some es \<Longrightarrow> e \<in> set es \<Longrightarrow> \<exists>j. pt_index e = Some j \<and> j < n"
  using assms by (fastforce simp: codex_inv_def below_def)+

text \<open>What every step shows: the patches apply, the invariant holds and the patch identifiers are as said.\<close>

definition sound_step :: "nat \<Rightarrow> string set \<Rightarrow> nat \<Rightarrow> patch list \<times> log_state \<times> nat \<Rightarrow> bool" where
  "sound_step k S n r \<longleftrightarrow> (case r of (ps, st, m) \<Rightarrow> grows k n m ps \<and> codex_inv m st \<and> dom (lx_patches st) = S)"

lemma put_below:
  assumes "put_entry i entry n = (pt, j, m)" and "below n i" and "n < usize_max" and "codex_inv n st"
  shows "grows 1 n m [pt]" "j < m" "n \<le> m" "codex_inv m st"
  using put_entry_grows [OF assms(1) _ assms(3)] assms(2) codex_inv_mono [OF assms(4), of m] by (auto simp: below_def)

lemma add_one_sound:
  assumes "codex_inv n st" and "n < usize_max"
  shows "sound_step 1 (dom (lx_patches st)) n (add_one entry st n)"
proof -
  obtain pt j m where pe: "put_entry None entry n = (pt, j, m)" by (metis prod.exhaust)
  from put_below [OF pe _ assms(2,1)] show ?thesis by (simp add: sound_step_def add_one_def pe)
qed

lemma streaming_text_sound:
  assumes "codex_inv n st" and "n < usize_max"
  shows "sound_step 1 (dom (lx_patches st)) n (streaming_text_update content kind mode st n)"
proof -
  have "below n (map_option tx_index (text_of kind st))"
    using assms(1) by (simp add: codex_inv_def text_of_def split: text_kind.split)
  moreover obtain f where f: "streaming_text_update content kind mode st n = (let (pt, i, n1) = put_entry (map_option tx_index (text_of kind st)) (f :: normalized_entry) n
      in ([pt], set_text kind (Some \<lparr> tx_index = i, tx_content = ne_content f \<rparr>) st, n1))"
    by (simp add: streaming_text_update_def Let_def plain_entry_def) (metis normalized_entry.select_convs(3))
  moreover obtain pt j m where pe: "put_entry (map_option tx_index (text_of kind st)) f n = (pt, j, m)" by (metis prod.exhaust)
  ultimately show ?thesis
    using put_below [OF pe _ assms(2,1)] codex_inv_put(5) [of m st "Some \<lparr> tx_index = j, tx_content = ne_content f \<rparr>"]
    by (simp add: sound_step_def set_text_def split: text_kind.splits)
qed

lemma exec_approval_sound:
  assumes "codex_inv n st" and "n < usize_max"
  shows "sound_step 1 (dom (lx_patches st)) n (exec_approval_request call_id command reason st n)"
proof -
  define cs0 where "cs0 = (case lx_commands st call_id of Some cs \<Rightarrow> cs | None \<Rightarrow> default_command)"
  have b: "below n (cs_index cs0)"
    using assms(1) by (auto simp: cs0_def codex_inv_def default_command_def split: option.split)
  obtain pt j m where pe: "put_entry (cs_index cs0) entry n = (pt entry, j, m)" for entry
    by (cases "cs_index cs0") (auto simp: put_entry_def next_index_def)
  note g = put_below [OF pe b assms(2) codex_inv_ended(1) [OF assms(1)]]
  have "codex_inv m ((end_texts st)\<lparr>lx_commands := (lx_commands (end_texts st))(call_id \<mapsto> c\<lparr>cs_index := Some j\<rparr>)\<rparr>)" for c
    by (rule codex_inv_put(1)) (use g in simp_all)
  with g show ?thesis
    by (simp add: sound_step_def exec_approval_request_def Let_def cs0_def [symmetric] pe)
qed

lemma exec_begin_sound:
  assumes "codex_inv n st" and "n < usize_max"
  shows "sound_step 1 (dom (lx_patches st)) n (exec_command_begin call_id command st n)"
proof (cases "join_words command = []")
  case False
  let ?cs = "default_command\<lparr>cs_command := join_words command, cs_call_id := call_id\<rparr>"
  obtain pt j m where pe: "put_entry None (command_entry ?cs) n = (pt, j, m)" by (metis prod.exhaust)
  note g = put_below [OF pe _ assms(2) codex_inv_ended(1) [OF assms(1)]]
  have "codex_inv m ((end_texts st)\<lparr>lx_commands := (lx_commands (end_texts st))(call_id \<mapsto> ?cs\<lparr>cs_index := Some j\<rparr>)\<rparr>)"
    by (rule codex_inv_put(1)) (use g in simp_all)
  with g False show ?thesis by (simp add: sound_step_def exec_command_begin_def Let_def pe)
qed (use assms in \<open>simp add: sound_step_def exec_command_begin_def codex_inv_ended\<close>)

lemma exec_delta_sound:
  assumes "codex_inv n st" and "n \<le> usize_max"
  shows "sound_step 1 (dom (lx_patches st)) n (exec_command_output_delta call_id stream chunk st n)"
proof (cases "lx_commands st call_id")
  case (Some cs)
  then have b: "below n (cs_index cs)" using assms(1) by (auto simp: codex_inv_def)
  moreover have "codex_inv n (st\<lparr>lx_commands := (lx_commands st)(call_id \<mapsto> c)\<rparr>)" if "cs_index c = cs_index cs" for c
    using codex_inv_put(1) [OF assms(1)] b that by simp
  ultimately show ?thesis
    using Some assms
    by (auto simp: sound_step_def exec_command_output_delta_def Let_def grows_replace split: option.split exec_output_stream.split)
qed (use assms in \<open>simp add: sound_step_def exec_command_output_delta_def\<close>)

lemma ends_sound:
  assumes "codex_inv n st" and "n \<le> usize_max"
  shows "sound_step 1 (dom (lx_patches st)) n (exec_command_end call_id code out st n)"
    and "sound_step 1 (dom (lx_patches st)) n (mcp_tool_call_end call_id result st n)"
    and "sound_step 1 (dom (lx_patches st)) n (web_search_end call_id query st n)"
proof -
  have inv: "codex_inv n (end_texts st)" using codex_inv_ended assms(1) by blast
  show "sound_step 1 (dom (lx_patches st)) n (exec_command_end call_id code out st n)"
    "sound_step 1 (dom (lx_patches st)) n (mcp_tool_call_end call_id result st n)"
    "sound_step 1 (dom (lx_patches st)) n (web_search_end call_id query st n)"
    using assms inv codex_inv_drop [OF assms(1), of call_id] codex_inv_drop [OF inv, of call_id]
    by (auto simp: sound_step_def exec_command_end_def mcp_tool_call_end_def web_search_end_def Let_def
        split: option.split intro!: grows_replace dest: codex_invD)
qed

lemma begins_sound:
  assumes "codex_inv n st" and "n < usize_max"
  shows "sound_step 1 (dom (lx_patches st)) n (mcp_tool_call_begin call_id invocation st n)"
    and "sound_step 1 (dom (lx_patches st)) n (web_search_begin call_id st n)"
proof -
  note inv = codex_inv_ended(1) [OF assms(1)]
  let ?ms = "\<lparr> ms_index = None, ms_invocation = invocation, ms_result = None, ms_status = TS_Created \<rparr>"
  let ?ws = "\<lparr> ws_index = None, ws_query = None, ws_status = TS_Created \<rparr>"
  obtain pt j m where pe: "put_entry None (mcp_entry ?ms) n = (pt, j, m)" by (metis prod.exhaust)
  note g = put_below [OF pe _ assms(2) inv]
  have "codex_inv m ((end_texts st)\<lparr>lx_mcp_tools := (lx_mcp_tools (end_texts st))(call_id \<mapsto> ?ms\<lparr>ms_index := Some j\<rparr>)\<rparr>)"
    by (rule codex_inv_put(2)) (use g in simp_all)
  with g show "sound_step 1 (dom (lx_patches st)) n (mcp_tool_call_begin call_id invocation st n)"
    by (simp add: sound_step_def mcp_tool_call_begin_def Let_def pe)
  obtain pt j m where pe: "put_entry None (web_search_entry ?ws) n = (pt, j, m)" by (metis prod.exhaust)
  note g = put_below [OF pe _ assms(2) inv]
  have "codex_inv m ((end_texts st)\<lparr>lx_web_searches := (lx_web_searches (end_texts st))(call_id \<mapsto> ?ws\<lparr>ws_index := Some j\<rparr>)\<rparr>)"
    by (rule codex_inv_put(4)) (use g in simp_all)
  with g show "sound_step 1 (dom (lx_patches st)) n (web_search_begin call_id st n)"
    by (simp add: sound_step_def web_search_begin_def Let_def pe)
qed


lemma normalize_file_changes_length [simp]: "length (normalize_file_changes pe wt changes) = length changes"
  by (simp add: normalize_file_changes_def)

definition indexed :: "nat \<Rightarrow> patch_entry list \<Rightarrow> bool" where
  "indexed n es \<longleftrightarrow> (\<forall>e \<in> set es. pt_index e \<noteq> None \<and> below n (pt_index e))"

lemma indexed_mono: "indexed n es \<Longrightarrow> n \<le> m \<Longrightarrow> indexed m es"
  unfolding indexed_def by (meson below_mono)

lemma add_patch_entries_grow:
  "add_patch_entries i b changes n = (ps, es, m) \<Longrightarrow> n + length changes \<le> usize_max
   \<Longrightarrow> grows (length changes) n m ps \<and> n \<le> m \<and> indexed m es"
proof (induction changes arbitrary: n ps es)
  case (Cons ch changes)
  obtain path cs where ch: "ch = (path, cs)" by fastforce
  let ?pe = "\<lparr> pt_index = None, pt_path = path, pt_changes = cs, pt_status = TS_Created, pt_awaiting_approval = b, pt_call_id = i \<rparr>"
  obtain pt j n1 where pe: "put_entry None (patch_entry_entry ?pe) n = (pt, j, n1)" by (metis prod.exhaust)
  obtain qs fs where r: "add_patch_entries i b changes n1 = (qs, fs, m)" "ps = pt # qs" "es = ?pe\<lparr>pt_index := Some j\<rparr> # fs"
    using Cons.prems(1) ch pe by (auto split: prod.splits)
  have g: "grows 1 n n1 [pt] \<and> j < n1 \<and> n \<le> n1" using put_entry_grows [OF pe] Cons.prems(2) by simp
  then have "n1 + length changes \<le> usize_max" using Cons.prems(2) by (simp add: grows_def)
  with Cons.IH [OF r(1)] have "grows (length changes) n1 m qs \<and> n1 \<le> m \<and> indexed m fs" by blast
  with g grows_trans [of 1 n n1 "[pt]" "length changes" m qs] show ?case by (simp add: r(2,3) indexed_def)
qed (simp add: indexed_def)

lemma update_patch_entries_grow:
  "update_patch_entries es changes n = (ps, fs, rest, m) \<Longrightarrow> indexed n es \<Longrightarrow> n \<le> usize_max
   \<Longrightarrow> grows 0 n n ps \<and> m = n \<and> indexed n fs \<and> length rest \<le> length changes"
proof (induction es arbitrary: changes ps fs)
  case (Cons e es)
  obtain j where j: "pt_index e = Some j" "j < n" using Cons.prems(2) by (auto simp: indexed_def)
  define e2 where "e2 = (case changes of (path, cs) # _ \<Rightarrow> e\<lparr>pt_path := path, pt_changes := cs\<rparr> | [] \<Rightarrow> e)\<lparr>pt_status := TS_Created, pt_awaiting_approval := False\<rparr>"
  have e1: "pt_index (case changes of (path, cs) # _ \<Rightarrow> e\<lparr>pt_path := path, pt_changes := cs\<rparr> | [] \<Rightarrow> e) = Some j"
    using j by (simp split: list.split prod.split)
  obtain qs gs where r: "update_patch_entries es (drop 1 changes) n = (qs, gs, rest, m)"
    "ps = replace_entry j (patch_entry_entry e2) # qs" "fs = e2\<lparr>pt_index := Some j\<rparr> # gs"
    using Cons.prems(1) by (auto simp: Let_def e1 e2_def [symmetric] put_entry_def split: prod.splits)
  have "grows 0 n n qs \<and> m = n \<and> indexed n gs \<and> length rest \<le> length (drop 1 changes)"
    using Cons.IH [OF r(1)] Cons.prems(2,3) by (simp add: indexed_def)
  moreover have "grows 0 n n [replace_entry j (patch_entry_entry e2)]" using grows_replace j Cons.prems(3) by blast
  ultimately show ?case
    using grows_trans [of 0 n n "[replace_entry j (patch_entry_entry e2)]" 0 n qs] j by (auto simp: r(2,3) indexed_def)
qed (auto simp: indexed_def)

lemma patch_approval_sound:
  assumes "codex_inv n st" and "n + length changes \<le> usize_max" and "i \<notin> dom (lx_patches st)"
  shows "sound_step (length changes) (insert i (dom (lx_patches st))) n (apply_patch_approval_request pe wt i changes st n)"
proof -
  obtain ps es m where a: "add_patch_entries i True (normalize_file_changes pe wt changes) n = (ps, es, m)" by (metis prod.exhaust)
  note g = add_patch_entries_grow [OF a]
  then have "codex_inv m (end_texts st)" using codex_inv_mono [OF codex_inv_ended(1) [OF assms(1)]] assms(2) by simp
  with g assms have "codex_inv m ((end_texts st)\<lparr>lx_patches := (lx_patches (end_texts st))(i \<mapsto> es)\<rparr>)"
    by (intro codex_inv_put(3)) (simp_all add: indexed_def)
  moreover have "lx_patches st i = None" using assms(3) by auto
  ultimately show ?thesis
    using g assms(2) a by (simp add: sound_step_def apply_patch_approval_request_def Let_def map_filter_simps)
qed

lemma patch_begin_sound:
  assumes "codex_inv n st" and "n + length changes \<le> usize_max"
  shows "sound_step (length changes) (insert i (dom (lx_patches st))) n (patch_apply_begin pe wt i changes st n)"
proof -
  define es0 where "es0 = (case lx_patches st i of Some es \<Rightarrow> es | None \<Rightarrow> [])"
  have "indexed n es0"
    using codex_invD(4) [OF assms(1), of i] by (cases "lx_patches st i") (fastforce simp: es0_def indexed_def)+
  moreover obtain ps es rest m where u: "update_patch_entries es0 (normalize_file_changes pe wt changes) n = (ps, es, rest, m)"
    by (metis prod.exhaust)
  ultimately have 1: "grows 0 n n ps" "m = n" "indexed n es" "length rest \<le> length changes"
    using update_patch_entries_grow [OF u] assms(2) by auto
  obtain qs fs k where a: "add_patch_entries i False rest n = (qs, fs, k)" by (metis prod.exhaust)
  have 2: "grows (length rest) n k qs" "n \<le> k" "indexed k fs"
    using add_patch_entries_grow [OF a] 1(4) assms(2) by auto
  have "codex_inv k (end_texts st)" using codex_inv_mono [OF codex_inv_ended(1) [OF assms(1)] 2(2)] .
  then have "codex_inv k ((end_texts st)\<lparr>lx_patches := (lx_patches (end_texts st))(i \<mapsto> es @ fs)\<rparr>)"
    by (intro codex_inv_put(3)) (use indexed_mono [OF 1(3) 2(2)] 2(3) in \<open>auto simp: indexed_def\<close>)
  moreover have "grows (length changes) n k (ps @ qs)"
    using grows_mono [OF grows_trans [OF 1(1) 2(1)]] 1(4) by simp
  ultimately show ?thesis
    using u a 1(2) by (simp add: sound_step_def patch_apply_begin_def Let_def es0_def [symmetric])
qed

lemma replaces_grow: "list_all (\<lambda>p. \<exists>j e. p = replace_entry j e \<and> j < n) ps \<Longrightarrow> n \<le> usize_max \<Longrightarrow> grows 0 n n ps"
proof (induction ps)
  case (Cons p ps)
  then obtain j e where "p = replace_entry j e" "j < n" by auto
  with Cons grows_trans [of 0 n n "[p]" 0 n ps] grows_replace [of j n 0 e] show ?case by simp
qed simp

lemma patch_end_sound:
  assumes "codex_inv n st" and "n \<le> usize_max"
  shows "sound_step 1 (dom (lx_patches st) - {i}) n (patch_apply_end i success st n)"
proof (cases "lx_patches st i")
  case None
  then have "dom (lx_patches st) - {i} = dom (lx_patches st)" by auto
  with None assms show ?thesis by (simp add: sound_step_def patch_apply_end_def)
next
  case (Some es)
  let ?f = "\<lambda>e. case pt_index e of
      Some j \<Rightarrow> Some (replace_entry j (patch_entry_entry (e\<lparr>pt_status := (if success then TS_Success else TS_Failed)\<rparr>))) | None \<Rightarrow> None"
  have "list_all (\<lambda>p. \<exists>j e. p = replace_entry j e \<and> j < n) (List.map_filter ?f es)"
    using codex_invD(4) [OF assms(1) Some] by (force simp: List.map_filter_def list_all_iff)
  then have "grows 1 n n (List.map_filter ?f es)" using grows_mono [OF replaces_grow] assms(2) by simp
  with Some codex_inv_drop(3) [OF assms(1)] show ?thesis by (simp add: sound_step_def patch_apply_end_def)
qed


section \<open>Every line is a sound step\<close>

text \<open>The identifiers of patches with entries after a line.\<close>

fun patch_ids_after :: "codex_line \<Rightarrow> string set \<Rightarrow> string set" where
  "patch_ids_after (EventLine (ApplyPatchApprovalRequest i _)) S = insert i S"
| "patch_ids_after (EventLine (PatchApplyBegin i _)) S = insert i S"
| "patch_ids_after (EventLine (PatchApplyEnd i _)) S = S - {i}"
| "patch_ids_after _ S = S"

fun fresh_line :: "codex_line \<Rightarrow> string set \<Rightarrow> bool" where
  "fresh_line (EventLine (ApplyPatchApprovalRequest i _)) S \<longleftrightarrow> i \<notin> S"
| "fresh_line _ S \<longleftrightarrow> True"

lemma approvals_fresh_Cons: "approvals_fresh S (l # ls) \<longleftrightarrow> fresh_line l S \<and> approvals_fresh (patch_ids_after l S) ls"
  by (auto split: codex_line.split codex_event.split)

lemma no_change_sound: "codex_inv n st \<Longrightarrow> dom (lx_patches st) = S \<Longrightarrow> sound_step k S n ([], st, n)"
  by (simp add: sound_step_def)

lemma final_text_sound:
  assumes "codex_inv n st" and "n < usize_max"
  shows "sound_step 1 (dom (lx_patches st)) n
      (let (ps, st1, n1) = streaming_text_update c kind mode st n in (ps, st1\<lparr>lx_assistant := None\<rparr>, n1))"
    and "sound_step 1 (dom (lx_patches st)) n
      (let (ps, st1, n1) = streaming_text_update c kind mode st n in (ps, st1\<lparr>lx_thinking := None\<rparr>, n1))"
  using streaming_text_sound [OF assms, of c kind mode] codex_inv_ended
  by (auto simp: sound_step_def split: prod.splits)

lemmas one_entry_sound =
  add_one_sound [unfolded One_nat_def] exec_approval_sound [unfolded One_nat_def] exec_begin_sound [unfolded One_nat_def]
  exec_delta_sound [unfolded One_nat_def] ends_sound [unfolded One_nat_def] begins_sound [unfolded One_nat_def]

lemma event_sound:
  assumes "codex_inv n st" and "n + codex_weight (EventLine ev) \<le> usize_max"
    and "fresh_line (EventLine ev) (dom (lx_patches st))"
  shows "sound_step (codex_weight (EventLine ev)) (patch_ids_after (EventLine ev) (dom (lx_patches st))) n
    (codex_event_step pe wt ev st n)"
proof (cases ev)
  case (AgentMessageDelta d)
  then show ?thesis
    using streaming_text_sound [OF codex_inv_ended(3) [OF assms(1)]] assms(2) by (simp add: codex_weight_def)
next
  case (AgentReasoningDelta d)
  then show ?thesis
    using streaming_text_sound [OF codex_inv_ended(2) [OF assms(1)]] assms(2) by (simp add: codex_weight_def)
next
  case (AgentMessage m)
  then show ?thesis
    using final_text_sound(1) [OF codex_inv_ended(3) [OF assms(1)]] assms(2) by (simp add: codex_weight_def)
next
  case (AgentReasoning m)
  then show ?thesis
    using final_text_sound(2) [OF codex_inv_ended(2) [OF assms(1)]] assms(2) by (simp add: codex_weight_def)
next
  case (ViewImageToolCall path)
  then show ?thesis
    using add_one_sound [OF codex_inv_ended(1) [OF assms(1)]] assms(2) by (simp add: codex_weight_def Let_def)
next
  case (TokenCount info)
  then show ?thesis
    using assms(1) by (auto simp: codex_weight_def sound_step_def codex_inv_def split: option.split)
next
  case (ApplyPatchApprovalRequest i changes)
  then show ?thesis
    using patch_approval_sound [OF assms(1), of changes i] assms(2,3) by (simp add: codex_weight_def)
next
  case (PatchApplyBegin i changes)
  then show ?thesis using patch_begin_sound [OF assms(1)] assms(2) by (simp add: codex_weight_def)
next
  case (PatchApplyEnd i success)
  then show ?thesis using patch_end_sound [OF assms(1)] assms(2) by (simp add: codex_weight_def)
qed (use assms(2) in \<open>simp_all add: codex_weight_def one_entry_sound [OF assms(1)] no_change_sound assms(1)
      codex_inv_ended(1) Suc_le_eq less_imp_le\<close>)

lemma line_sound:
  assumes "codex_inv n st" and "n + codex_weight l \<le> usize_max" and "fresh_line l (dom (lx_patches st))"
  shows "sound_step (codex_weight l) (patch_ids_after l (dom (lx_patches st))) n (codex_line_step pe wt l st n)"
proof (cases l)
  case (EventLine ev)
  with event_sound assms show ?thesis by simp
next
  case (ApprovalLine tool status)
  with assms show ?thesis
    by (auto simp: codex_weight_def one_entry_sound no_change_sound Suc_le_eq split: option.split)
qed (use assms in \<open>simp_all add: codex_weight_def one_entry_sound no_change_sound Suc_le_eq\<close>)

interpretation codex: log_normalizer "codex_line_step pe wt"
  "\<lambda>ls n st. codex_inv n st \<and> approvals_fresh (dom (lx_patches st)) ls" codex_weight
proof
  fix l ls n st ps st' n'
  assume inv: "codex_inv n st \<and> approvals_fresh (dom (lx_patches st)) (l # ls)"
    and run: "n + codex_weight l \<le> usize_max" "codex_line_step pe wt l st n = (ps, st', n')"
  then have fresh: "fresh_line l (dom (lx_patches st))" "approvals_fresh (patch_ids_after l (dom (lx_patches st))) ls"
    by (simp_all only: approvals_fresh_Cons)
  have "sound_step (codex_weight l) (patch_ids_after l (dom (lx_patches st))) n (ps, st', n')"
    using line_sound [OF _ run(1) fresh(1), of pe wt] inv run(2) by simp
  with fresh show "grows (codex_weight l) n n' ps \<and> codex_inv n' st' \<and> approvals_fresh (dom (lx_patches st')) ls"
    by (simp add: sound_step_def)
qed

text \<open>
  C21: The patches of Codex' log apply: whatever lines the agent writes, the patches made of them,
  applied in order to a conversation with as many entries as the counter says, never fail, and
  afterwards the conversation again has as many entries as the counter says, as long as the counter
  fits its type and no approval of a patch is requested for an identifier that already has entries:
  one that was requested before or whose application has begun, and has not ended since.
\<close>

theorem codex_patches_apply:
  assumes "normalize_all (codex_line_step pe wt) ls new_log_state n = (ps, st, n')"
    and "approvals_fresh {} ls" and "length doc = n" and "n + sum_list (map codex_weight ls) \<le> usize_max"
  shows "\<exists>doc'. read_patches ps doc = Some doc' \<and> length doc' = n'"
proof -
  have "codex_inv n new_log_state \<and> approvals_fresh (dom (lx_patches new_log_state)) ls"
    using assms(2) codex_inv_new by (simp add: new_log_state_def)
  then show ?thesis by (rule codex.run_applies [OF _ assms(4,1,3)])
qed

text \<open>Removing entries takes away as many as there are removals, if they apply at all.\<close>

lemma removed_length:
  "read_patches (map remove_entry is) doc = Some doc' \<Longrightarrow> length doc' + length is = length doc"
  by (induction "is" arbitrary: doc)
    (auto simp: remove_entry_def remove_at_def split: option.splits if_splits)

lemma add_patch_entries_first:
  assumes "add_patch_entries i aw changes n = (ps, es, m)" and "changes \<noteq> []" and "n < usize_max"
  shows "\<exists>e qs. ps = add_normalized_entry n e # qs"
  using assms by (cases changes) (fastforce simp: put_entry_def next_index_exact split: prod.splits)+

lemma add_beyond_end: "length doc < n \<Longrightarrow> n \<le> usize_max \<Longrightarrow> read_patches (add_normalized_entry n e # ps) doc = None"
  by (simp add: add_normalized_entry_def entry_position_path)

lemma indexed_indexes: "indexed n es \<Longrightarrow> es \<noteq> [] \<Longrightarrow> List.map_filter pt_index es \<noteq> []"
  by (cases es) (auto simp: indexed_def map_filter_simps)

lemma patch_approval_breaks:
  assumes "codex_inv (length doc) st" and "length doc < usize_max" and "changes \<noteq> []"
    and "lx_patches st i = Some es" and "es \<noteq> []"
    and "apply_patch_approval_request pe wt i changes st (length doc) = (qs, st', n')"
  shows "read_patches qs doc = None"
proof -
  define removed where "removed = List.map_filter pt_index es"
  have "indexed (length doc) es" using codex_invD(4) [OF assms(1,4)] by (fastforce simp: indexed_def)
  then have "removed \<noteq> []" using indexed_indexes assms(5) by (simp add: removed_def)
  obtain rs fs where rs: "add_patch_entries i True (normalize_file_changes pe wt changes) (length doc) = (rs, fs, n')"
    and qs: "qs = map remove_entry removed @ rs"
    using assms(4,6) by (auto simp: apply_patch_approval_request_def removed_def Let_def split: prod.splits)
  obtain e rs' where "rs = add_normalized_entry (length doc) e # rs'"
    using add_patch_entries_first [OF rs] assms(2,3) by (auto simp: normalize_file_changes_def)
  moreover have "length doc' < length doc" if "read_patches (map remove_entry removed) doc = Some doc'" for doc'
    using removed_length [OF that] \<open>removed \<noteq> []\<close> by (cases removed) auto
  ultimately show ?thesis
    using add_beyond_end [of _ "length doc"] assms(2) by (auto simp: qs split: option.split)
qed

text \<open>
  C22: The exception is real: whatever the agent wrote before, an approval request for a patch (with at
  least one changed file) whose identifier still has entries, of an earlier request or of a begun
  application, breaks the conversation, since it removes those entries and numbers the new ones after
  them, so that its patches do not apply.
\<close>

theorem repeated_patch_approval_breaks:
  assumes "normalize_all (codex_line_step pe wt) ls new_log_state (length doc) = (ps, st, n)"
    and "approvals_fresh {} ls" and "length doc + sum_list (map codex_weight ls) < usize_max"
    and "lx_patches st i = Some es" and "es \<noteq> []" and "changes \<noteq> []"
    and "codex_line_step pe wt (EventLine (ApplyPatchApprovalRequest i changes)) st n = (qs, st', n')"
  shows "\<exists>doc1. read_patches ps doc = Some doc1 \<and> length doc1 = n \<and> read_patches qs doc1 = None"
proof -
  have "codex_inv (length doc) new_log_state \<and> approvals_fresh (dom (lx_patches new_log_state)) ls"
    using assms(2) codex_inv_new by (simp add: new_log_state_def)
  from codex.run_sound [OF this _ assms(1)] assms(3)
  have run: "grows (sum_list (map codex_weight ls)) (length doc) n ps" "codex_inv n st" by auto
  then obtain doc1 where doc1: "read_patches ps doc = Some doc1" "length doc1 = n" "n < usize_max"
    using assms(3) by (auto simp: grows_def leads_def)
  with patch_approval_breaks [of doc1 st changes i es pe wt qs st' n'] run(2) assms(4-7) show ?thesis by simp
qed


section \<open>Approvals of commands\<close>

text \<open>The entry of a command whose approval is asked for before anything else names no call.\<close>

lemma exec_approval_unmatched:
  assumes "lx_commands ls call_id = None" and "n \<le> usize_max" and "call_id \<noteq> []"
    and "exec_approval_request call_id command reason ls n = (ps, ls', n')" and "p \<in> set ps"
  shows "match_tool_use call_id (JsonPatch p) = None"
proof (rule ccontr)
  assume "match_tool_use call_id (JsonPatch p) \<noteq> None"
  then obtain idx e where "extract_normalized_entry_from_patch p = Some (idx, e)"
    "Option.bind (ne_metadata e) tool_call_metadata = Some call_id"
    using match_tool_use_Some by fastforce
  with assms show False
    by (auto simp: tool_call_metadata_def json_as_str_def exec_approval_request_def Let_def default_command_def put_entry_def next_index_def command_entry_def
        plain_entry_def call_metadata_def end_texts_def split: prod.splits)
qed

text \<open>
  C23: The approval of a command that Codex asks for before it has shown that command does not reach the
  user: in any state of the normaliser that knows no command under the call, the entry made for the request
  names no call, so the approval service, asked for that call when this entry is the newest message of the
  process and no earlier one names the call, finds no entry, keeps no pending approval and answers that the
  request timed out.
\<close>

theorem codex_command_approval_times_out:
  assumes "store_inv store" and "fits_usize ser (JsonPatch p)"
    and "find_matching_tool_use store call_id = None" and "call_id \<noteq> []" and "n \<le> usize_max"
    and "lx_commands ls call_id = None"
    and "codex_line_step pe wt (EventLine (ExecApprovalRequest call_id command reason)) ls n = ([p], ls', n')"
    and "ap_msg_stores st (ar_execution_process_id request) = Some (push_patch ser p store)"
    and "ar_tool_call_id request = call_id"
  shows "\<exists>st'. create_with_waiter ser request now st = Inr st'
     \<and> ap_channels st' (ar_id request) = Some (Some AS_TimedOut) \<and> ap_pending st' = ap_pending st"
proof -
  obtain k where h: "get_history (push ser (JsonPatch p) store) = drop k (get_history store) @ [JsonPatch p]"
    using get_history_push [OF assms(1,2)] by blast
  have "match_tool_use call_id (JsonPatch p) = None"
    by (rule exec_approval_unmatched [OF assms(6,5,4), of command reason "[p]" ls' n']) (use assms(7) in simp_all)
  moreover have "\<forall>m \<in> set (drop k (get_history store)). match_tool_use call_id m = None"
    using assms(3) in_set_dropD by (fastforce simp: find_matching_tool_use_def find_map_None)
  ultimately have "find_matching_tool_use (push_patch ser p store) call_id = None"
    by (simp add: find_matching_tool_use_def push_patch_def h find_map_None)
  with assms(8,9) show ?thesis by (simp add: create_with_waiter_def approvals_simps)
qed


section \<open>Witnesses\<close>

definition plain_paths :: path_env where
  "plain_paths = \<lparr> pe_macos = False, pe_exists = (\<lambda>_. False), pe_canonicalize = (\<lambda>_. None) \<rparr>"

definition sample_codex_log :: "codex_line list" where
  "sample_codex_log =
     [EventLine (AgentMessageDelta ''a''),
      EventLine (ApplyPatchApprovalRequest ''c'' [(''f'', CF_Add ''x''), (''g'', CF_Delete)]),
      EventLine (PatchApplyBegin ''c'' [(''f'', CF_Add ''x'')]), EventLine (PatchApplyEnd ''c'' True),
      EventLine (ApplyPatchApprovalRequest ''c'' [(''f'', CF_Delete)]), ApprovalLine ''codex.apply_patch'' AS_TimedOut]"

theorem codex_patches_apply_witness:
  "\<exists>doc'. read_patches (fst (normalize_all (codex_line_step plain_paths ''/w'') sample_codex_log new_log_state 0)) [] = Some doc'
     \<and> length doc' = snd (snd (normalize_all (codex_line_step plain_paths ''/w'') sample_codex_log new_log_state 0))"
  by (rule codex_patches_apply [where ls = sample_codex_log and n = 0 and pe = plain_paths and wt = "''/w''" and
        st = "fst (snd (normalize_all (codex_line_step plain_paths ''/w'') sample_codex_log new_log_state 0))"])
     (simp_all add: sample_codex_log_def codex_weight_def usize_max_def)

theorem repeated_patch_approval_breaks_witness:
  "\<exists>ps st n qs st' n' doc1.
     normalize_all (codex_line_step plain_paths ''/w'') [EventLine (PatchApplyBegin ''c'' [(''f'', CF_Delete)])] new_log_state 0 = (ps, st, n)
     \<and> codex_line_step plain_paths ''/w'' (EventLine (ApplyPatchApprovalRequest ''c'' [(''f'', CF_Delete)])) st n = (qs, st', n')
     \<and> read_patches ps [] = Some doc1 \<and> length doc1 = n \<and> read_patches qs doc1 = None"
proof -
  let ?run = "normalize_all (codex_line_step plain_paths ''/w'') [EventLine (PatchApplyBegin ''c'' [(''f'', CF_Delete)])] new_log_state"
  let ?again = "codex_line_step plain_paths ''/w'' (EventLine (ApplyPatchApprovalRequest ''c'' [(''f'', CF_Delete)]))"
  obtain ps st n where 1: "?run 0 = (ps, st, n)" by (metis prod.exhaust)
  then obtain es where 2: "lx_patches st ''c'' = Some es" "es \<noteq> []"
    by (auto simp: patch_apply_begin_def new_log_state_def normalize_file_changes_def Let_def split: prod.splits)
  obtain qs st' n' where 3: "?again st n = (qs, st', n')" by (metis prod.exhaust)
  have "?run (length ([] :: patch_value list)) = (ps, st, n)" using 1 by simp
  from repeated_patch_approval_breaks [OF this _ _ 2 _ 3] 1 3 show ?thesis
    by (fastforce simp: usize_max_def codex_weight_def)
qed

definition sample_command_patch :: patch where
  "sample_command_patch = hd (fst (exec_approval_request ''c1'' [''ls''] None new_log_state 0))"

definition command_approvals :: approvals where
  "command_approvals = new_approvals [7 \<mapsto> push_patch (\<lambda>_. None) sample_command_patch new_msg_store]"

theorem codex_command_approval_times_out_witness:
  "\<exists>st'. create_with_waiter (\<lambda>_. None) sample_request 0 command_approvals = Inr st'
     \<and> ap_channels st' ''a1'' = Some (Some AS_TimedOut) \<and> ap_pending st' = ap_pending command_approvals"
proof -
  obtain ls n' where "codex_line_step plain_paths ''/w'' (EventLine (ExecApprovalRequest ''c1'' [''ls''] None)) new_log_state 0
      = ([sample_command_patch], ls, n')"
    by (simp add: sample_command_patch_def exec_approval_request_def Let_def new_log_state_def default_command_def
        end_texts_def put_entry_def next_index_def)
  moreover have "ap_msg_stores command_approvals (ar_execution_process_id sample_request)
      = Some (push_patch (\<lambda>_. None) sample_command_patch new_msg_store)"
    by (simp add: command_approvals_def new_approvals_def sample_request_def from_create_def)
  moreover have "find_matching_tool_use new_msg_store ''c1'' = None"
    by (simp add: find_matching_tool_use_def get_history_def new_msg_store_def)
  moreover have "lx_commands new_log_state ''c1'' = None" by (simp add: new_log_state_def)
  ultimately show ?thesis
    using codex_command_approval_times_out [OF store_inv_new, of "\<lambda>_. None" sample_command_patch "''c1''" 0 new_log_state
        plain_paths "''/w''" "[''ls'']" None ls n' command_approvals sample_request 0]
    by (simp add: fits_usize_def usize_max_def sample_request_def from_create_def)
qed

end
