(* ===== verification/Acp_Logs.thy ===== *)
theory Acp_Logs
  imports Conversation Unified_Diff Text_Utils
begin

text \<open>
  The agents that speak the Agent Client Protocol (Gemini, Qwen): the log normaliser
  \<^verbatim>\<open>crates/executors/src/executors/acp/normalize_logs.rs\<close>, the client callbacks of \<^verbatim>\<open>acp/client.rs\<close>
  and the session files of \<^verbatim>\<open>acp/session.rs\<close>.

  The data of the crate \<^verbatim>\<open>agent_client_protocol\<close> has the variants and fields the code reads.  What that
  crate and serde compute (conversion of an update to a tool call, defaults, typed readings of JSON
  values, the text of an event) are fields of the parameter \<open>acp_env\<close>.
\<close>

section \<open>Protocol data and events\<close>

datatype content_block = TextBlock string | OtherBlock json

datatype tool_call_content =
    ContentItem content_block
  | DiffItem string "string option" string
  | TerminalItem json

datatype tool_kind =
    KindRead | KindEdit | KindDelete | KindMove | KindSearch | KindExecute | KindThink | KindFetch
  | KindSwitchMode | KindOther

datatype tool_call_status = CallPending | CallInProgress | CallCompleted | CallFailed

record tool_call =
  tc_id :: string
  tc_title :: string
  tc_kind :: tool_kind
  tc_status :: tool_call_status
  tc_content :: "tool_call_content list"
  tc_locations :: "string list"
  tc_raw_input :: "json option"
  tc_raw_output :: "json option"

text \<open>An update: its identifier, its title and its other fields, which only the crate reads.\<close>

record tool_call_update =
  tu_id :: string
  tu_title :: "string option"
  tu_fields :: json

datatype permission_option_kind = AllowOnce | AllowAlways | RejectOnce | RejectAlways

record permission_option =
  po_id :: string
  po_kind :: permission_option_kind

record permission_request =
  pr_tool_call :: tool_call_update
  pr_options :: "permission_option list"

datatype session_update =
    AgentMessageChunk content_block
  | AgentThoughtChunk content_block
  | ToolCallStarted tool_call
  | ToolCallUpdated tool_call_update
  | PlanChanged "string list"
  | AvailableCommandsUpdate "string list"
  | CurrentModeUpdate string
  | OtherUpdate json

datatype acp_event =
    AcpUser string
  | AcpSessionStart string
  | AcpMessage content_block
  | AcpThought content_block
  | AcpToolCall tool_call
  | AcpToolUpdate tool_call_update
  | AcpPlan "string list"
  | AcpAvailableCommands "string list"
  | AcpCurrentMode string
  | AcpRequestPermission permission_request
  | AcpError string
  | AcpDone string
  | AcpOther session_update

record shell_output =
  so_exit_code :: "int option"
  so_stdout :: "string option"
  so_stderr :: "string option"

record acp_env =
  de_event :: "string \<Rightarrow> acp_event option"
  tool_call_of :: "tool_call_update \<Rightarrow> tool_call option"
  default_kind :: tool_kind
  default_status :: tool_call_status
  de_shell_output :: "json \<Rightarrow> shell_output option"
  de_search_args :: "json \<Rightarrow> string option"
  de_fetch_args :: "json \<Rightarrow> string option"
  de_value :: "string \<Rightarrow> json option"
  event_text :: "acp_event \<Rightarrow> string option"
  json_text :: "json \<Rightarrow> string option"
  acp_differ :: differ
  acp_paths :: path_env


section \<open>State\<close>

record partial_tool_call =
  pd_index :: nat
  pd_id :: string
  pd_kind :: tool_kind
  pd_title :: string
  pd_status :: tool_call_status
  pd_path :: "string option"
  pd_content :: "tool_call_content list"
  pd_raw_input :: "json option"
  pd_raw_output :: "json option"

record acp_text =
  at_index :: nat
  at_content :: string

record acp_state =
  as_stored_session_id :: bool
  as_assistant :: "acp_text option"
  as_thinking :: "acp_text option"
  as_tools :: "string \<rightharpoonup> partial_tool_call"

definition new_acp_state :: acp_state where
  "new_acp_state =
     \<lparr> as_stored_session_id = False, as_assistant = None, as_thinking = None, as_tools = Map.empty \<rparr>"

definition default_tool_call :: "acp_env \<Rightarrow> partial_tool_call" where
  "default_tool_call ae =
     \<lparr> pd_index = 0, pd_id = [], pd_kind = default_kind ae, pd_title = [], pd_status = default_status ae,
       pd_path = None, pd_content = [], pd_raw_input = None, pd_raw_output = None \<rparr>"

text \<open>Fields that the call leaves at their default keep what is known.\<close>

definition extend_tool_call :: "acp_env \<Rightarrow> string \<Rightarrow> tool_call \<Rightarrow> partial_tool_call \<Rightarrow> partial_tool_call" where
  "extend_tool_call ae wt tc d =
     d\<lparr>pd_id := tc_id tc,
       pd_kind := (if tc_kind tc \<noteq> default_kind ae then tc_kind tc else pd_kind d),
       pd_title := (if tc_title tc \<noteq> [] then tc_title tc else pd_title d),
       pd_status := (if tc_status tc \<noteq> default_status ae then tc_status tc else pd_status d),
       pd_path := (case tc_locations tc of l # _ \<Rightarrow> Some (make_path_relative (acp_paths ae) l wt) | [] \<Rightarrow> pd_path d),
       pd_content := (if tc_content tc \<noteq> [] then tc_content tc else pd_content d),
       pd_raw_input := (case tc_raw_input tc of Some v \<Rightarrow> Some v | None \<Rightarrow> pd_raw_input d),
       pd_raw_output := (case tc_raw_output tc of Some v \<Rightarrow> Some v | None \<Rightarrow> pd_raw_output d)\<rparr>"


section \<open>The entry of a tool call\<close>

text \<open>The text before the first \<^verbatim>\<open> (\<close>.\<close>

fun before :: "'a list \<Rightarrow> 'a list \<Rightarrow> 'a list" where
  "before pat [] = []"
| "before pat (c # cs) = (if starts_with pat (c # cs) then [] else c # before pat cs)"

definition parse_execute_command :: "string \<Rightarrow> string" where
  "parse_execute_command title = trim (before '' ('' title)"

definition path_text :: "partial_tool_call \<Rightarrow> string" where
  "path_text d = (case pd_path d of Some p \<Rightarrow> p | None \<Rightarrow> [])"

fun push_text :: "string \<Rightarrow> tool_call_content \<Rightarrow> string" where
  "push_text out (ContentItem (TextBlock t)) =
     (let out1 = out @ t in if ends_with [newline] out1 then out1 else out1 @ [newline])"
| "push_text out _ = out"

definition collect_text_content :: "tool_call_content list \<Rightarrow> string option" where
  "collect_text_content content = (let out = foldl push_text [] content in if out = [] then None else Some out)"

definition ascii_digit :: "char \<Rightarrow> bool" where
  "ascii_digit c \<longleftrightarrow> c \<in> set ''0123456789''"

text \<open>The identifier up to its last hyphen, when only digits follow.\<close>

definition extract_tool_name_from_id :: "string \<Rightarrow> string option" where
  "extract_tool_name_from_id i =
     (if hyphen \<notin> set i then None
      else let tail = rev (takeWhile (\<lambda>c. c \<noteq> hyphen) (rev i)); head = butlast (rev (dropWhile (\<lambda>c. c \<noteq> hyphen) (rev i)))
           in if list_all ascii_digit tail then Some head else None)"

text \<open>The longest run of characters of a URL: up to white space, a quote or a closing parenthesis.\<close>

fun url_rest :: "string \<Rightarrow> string" where
  "url_rest [] = []"
| "url_rest (c # cs) =
     (if list_ex (\<lambda>w. starts_with w (c # cs)) white_space \<or> c \<in> {CHR 0x22, CHR 0x27, CHR '')''} then []
      else c # url_rest cs)"

definition url_at :: "string \<Rightarrow> string option" where
  "url_at s =
     (case (case strip_prefix ''https://'' s of Some r \<Rightarrow> Some (''https://'', r)
            | None \<Rightarrow> map_option (\<lambda>r. (''http://'', r)) (strip_prefix ''http://'' s)) of
        None \<Rightarrow> None
      | Some (scheme, r) \<Rightarrow> if url_rest r = [] then None else Some (scheme @ url_rest r))"

fun extract_url_from_text :: "string \<Rightarrow> string option" where
  "extract_url_from_text [] = None"
| "extract_url_from_text (c # cs) = (case url_at (c # cs) of Some u \<Rightarrow> Some u | None \<Rightarrow> extract_url_from_text cs)"

definition extract_file_changes :: "acp_env \<Rightarrow> partial_tool_call \<Rightarrow> file_change list" where
  "extract_file_changes ae d =
     List.map_filter (\<lambda>c. case c of
         DiffItem path old new_text \<Rightarrow>
           (let rel = (if path \<noteq> [] then path else path_text d);
                old_text = (case old of Some t \<Rightarrow> t | None \<Rightarrow> [])
            in if old_text = [] then Some (Write new_text)
               else Some (Edit (create_unified_diff (acp_differ ae) rel old_text new_text) False))
       | _ \<Rightarrow> None) (pd_content d)"

definition text_or_raw_result :: "partial_tool_call \<Rightarrow> tool_result option" where
  "text_or_raw_result d =
     (case pd_raw_output d of
        Some out \<Rightarrow> Some \<lparr> tr_type = Json, tr_value = out \<rparr>
      | None \<Rightarrow> map_option (\<lambda>t. \<lparr> tr_type = Markdown, tr_value = JString t \<rparr>) (collect_text_content (pd_content d)))"

definition shell_result :: "acp_env \<Rightarrow> partial_tool_call \<Rightarrow> command_run_result option" where
  "shell_result ae d =
     (let completed = (pd_status d = CallCompleted);
          structured = map_option (\<lambda>out.
            \<lparr> exit_status = (case so_exit_code out of Some code \<Rightarrow> Some (ExitCode code)
                             | None \<Rightarrow> if completed then Some (ExitSuccess True) else None),
              run_output = Some (case so_stdout out of Some t \<Rightarrow> t
                                 | None \<Rightarrow> (case so_stderr out of Some t \<Rightarrow> t | None \<Rightarrow> [])) \<rparr>)
            (Option.bind (pd_raw_output d) (de_shell_output ae))
      in case structured of
           Some r \<Rightarrow> Some r
         | None \<Rightarrow> if completed then Some \<lparr> exit_status = Some (ExitSuccess True), run_output = None \<rparr> else None)"

definition tool_name_or_title :: "partial_tool_call \<Rightarrow> string" where
  "tool_name_or_title d = (case extract_tool_name_from_id (pd_id d) of Some t \<Rightarrow> t | None \<Rightarrow> pd_title d)"

definition map_to_action_type :: "acp_env \<Rightarrow> partial_tool_call \<Rightarrow> action_type" where
  "map_to_action_type ae d =
     (case pd_kind d of
        KindRead \<Rightarrow>
          if starts_with ''read_many_files'' (pd_id d)
          then Tool ''read_many_files'' (Some (JString (pd_title d)))
                 (map_option (\<lambda>t. \<lparr> tr_type = Markdown, tr_value = JString t \<rparr>) (collect_text_content (pd_content d)))
          else FileRead (path_text d)
      | KindEdit \<Rightarrow> FileEdit (path_text d) (extract_file_changes ae d)
      | KindExecute \<Rightarrow> CommandRun (parse_execute_command (pd_title d)) (shell_result ae d)
      | KindDelete \<Rightarrow> FileEdit (path_text d) [Delete]
      | KindSearch \<Rightarrow>
          Search (case Option.bind (pd_raw_input d) (de_search_args ae) of Some q \<Rightarrow> q | None \<Rightarrow> pd_title d)
      | KindFetch \<Rightarrow>
          (let url = (case Option.bind (pd_raw_input d) (de_fetch_args ae) of Some u \<Rightarrow> u | None \<Rightarrow> [])
           in WebFetch (if url = [] then (case extract_url_from_text (pd_title d) of Some u \<Rightarrow> u | None \<Rightarrow> url) else url))
      | KindThink \<Rightarrow>
          Tool (tool_name_or_title d)
            (Some (JObject ((case collect_text_content (pd_content d) of Some t \<Rightarrow> [(''content'', JString t)] | None \<Rightarrow> [])
                            @ [(''title'', JString (pd_title d))])))
            (text_or_raw_result d)
      | KindSwitchMode \<Rightarrow> OtherAction ''switch_mode''
      | _ \<Rightarrow>
          Tool (tool_name_or_title d)
            (case pd_raw_input d of
               Some raw \<Rightarrow> Some raw
             | None \<Rightarrow> if starts_with ''{'' (trim_start (pd_title d)) then de_value ae (pd_title d) else None)
            (text_or_raw_result d))"

definition get_tool_content :: "partial_tool_call \<Rightarrow> string" where
  "get_tool_content d =
     (case pd_kind d of
        KindExecute \<Rightarrow> parse_execute_command (pd_title d)
      | KindThink \<Rightarrow> ''Saving memory''
      | KindOther \<Rightarrow>
          (let tool_name = (case extract_tool_name_from_id (pd_id d) of Some t \<Rightarrow> t | None \<Rightarrow> ''tool'')
           in if pd_title d = [] then tool_name else tool_name @ '': '' @ pd_title d)
      | KindRead \<Rightarrow> if starts_with ''read_many_files'' (pd_id d) then ''Read files'' else pd_title d
      | _ \<Rightarrow> pd_title d)"

fun convert_tool_status :: "tool_call_status \<Rightarrow> tool_status" where
  "convert_tool_status CallPending = TS_Created"
| "convert_tool_status CallInProgress = TS_Created"
| "convert_tool_status CallCompleted = TS_Success"
| "convert_tool_status CallFailed = TS_Failed"

definition tool_call_entry :: "acp_env \<Rightarrow> partial_tool_call \<Rightarrow> normalized_entry" where
  "tool_call_entry ae d =
     plain_entry (ToolUse (pd_title d) (map_to_action_type ae d) (convert_tool_status (pd_status d))) (get_tool_content d) None"


section \<open>One event\<close>

definition end_streaming :: "acp_state \<Rightarrow> acp_state" where
  "end_streaming st = st\<lparr>as_assistant := None, as_thinking := None\<rparr>"

definition handle_tool_call :: "acp_env \<Rightarrow> string \<Rightarrow> tool_call \<Rightarrow> acp_state \<Rightarrow> nat \<Rightarrow> patch list \<times> acp_state \<times> nat" where
  "handle_tool_call ae wt tc st0 n =
     (let st = end_streaming st0;
          known = as_tools st (tc_id tc);
          d = extend_tool_call ae wt tc (case known of Some d \<Rightarrow> d | None \<Rightarrow> default_tool_call ae);
          (pt, i, n1) = put_entry (map_option pd_index known) (tool_call_entry ae d) n
      in ([pt], st\<lparr>as_tools := (as_tools st)(tc_id tc \<mapsto> d\<lparr>pd_index := i\<rparr>)\<rparr>, n1))"

definition stream_acp_text :: "normalized_entry_type \<Rightarrow> string \<Rightarrow> acp_text option \<Rightarrow> nat \<Rightarrow> patch \<times> acp_text \<times> nat" where
  "stream_acp_text ty t s n =
     (let content = (case s of Some x \<Rightarrow> at_content x | None \<Rightarrow> []) @ t;
          (pt, i, n1) = put_entry (map_option at_index s) (plain_entry ty content None) n
      in (pt, \<lparr> at_index = i, at_content = content \<rparr>, n1))"

definition add_system :: "normalized_entry_type \<Rightarrow> string \<Rightarrow> acp_state \<Rightarrow> nat \<Rightarrow> patch list \<times> acp_state \<times> nat" where
  "add_system ty content st n = (let (pt, _, n1) = put_entry None (plain_entry ty content None) n in ([pt], st, n1))"

definition plan_body :: "string list \<Rightarrow> string" where
  "plan_body contents =
     ''Plan:'' @ [newline] @ concat (map2 (\<lambda>i c. show_nat (i + 1) @ ''. '' @ c @ [newline]) [0..<length contents] contents)"

definition commands_body :: "string list \<Rightarrow> string" where
  "commands_body names = ''Available commands:'' @ [newline] @ concat (map (\<lambda>c. ''- '' @ c @ [newline]) names)"

definition titled_update :: "acp_state \<Rightarrow> tool_call_update \<Rightarrow> tool_call_update" where
  "titled_update st update =
     (case tu_title update of
        Some _ \<Rightarrow> update
      | None \<Rightarrow> update\<lparr>tu_title := Some (case as_tools st (tu_id update) of Some d \<Rightarrow> pd_title d | None \<Rightarrow> [])\<rparr>)"

fun acp_event_step :: "acp_env \<Rightarrow> string \<Rightarrow> acp_event \<Rightarrow> acp_state \<Rightarrow> nat \<Rightarrow> patch list \<times> acp_state \<times> nat" where
  "acp_event_step ae wt (AcpSessionStart i) st n = ([], st\<lparr>as_stored_session_id := True\<rparr>, n)"
| "acp_event_step ae wt (AcpError m) st n = add_system (ErrorMessage OtherError) m st n"
| "acp_event_step ae wt (AcpDone _) st n = ([], end_streaming st, n)"
| "acp_event_step ae wt (AcpMessage content) st n =
     (let st1 = st\<lparr>as_thinking := None\<rparr>
      in case content of
           TextBlock t \<Rightarrow>
             (let (pt, s, n1) = stream_acp_text AssistantMessage t (as_assistant st1) n
              in ([pt], st1\<lparr>as_assistant := Some s\<rparr>, n1))
         | OtherBlock _ \<Rightarrow> ([], st1, n))"
| "acp_event_step ae wt (AcpThought content) st n =
     (let st1 = st\<lparr>as_assistant := None\<rparr>
      in case content of
           TextBlock t \<Rightarrow>
             (let (pt, s, n1) = stream_acp_text Thinking t (as_thinking st1) n
              in ([pt], st1\<lparr>as_thinking := Some s\<rparr>, n1))
         | OtherBlock _ \<Rightarrow> ([], st1, n))"
| "acp_event_step ae wt (AcpPlan contents) st n = add_system SystemMessage (plan_body contents) (end_streaming st) n"
| "acp_event_step ae wt (AcpAvailableCommands names) st n = add_system SystemMessage (commands_body names) st n"
| "acp_event_step ae wt (AcpCurrentMode mode) st n = add_system SystemMessage (''Current mode: '' @ mode) st n"
| "acp_event_step ae wt (AcpRequestPermission perm) st n =
     (case tool_call_of ae (pr_tool_call perm) of
        Some tc \<Rightarrow> handle_tool_call ae wt tc st n
      | None \<Rightarrow> ([], st, n))"
| "acp_event_step ae wt (AcpToolCall tc) st n = handle_tool_call ae wt tc st n"
| "acp_event_step ae wt (AcpToolUpdate update) st n =
     (case tool_call_of ae (titled_update st update) of
        Some tc \<Rightarrow> handle_tool_call ae wt tc st n
      | None \<Rightarrow> ([], st, n))"
| "acp_event_step ae wt (AcpUser _) st n = ([], st, n)"
| "acp_event_step ae wt (AcpOther _) st n = ([], st, n)"

definition acp_parse_line :: "acp_env \<Rightarrow> string \<Rightarrow> acp_event option" where
  "acp_parse_line ae line = de_event ae (trim line)"

text \<open>The session identifier an event pushes to the store.\<close>

definition acp_session_push :: "acp_event \<Rightarrow> acp_state \<Rightarrow> store_push list" where
  "acp_session_push ev st =
     (case ev of AcpSessionStart i \<Rightarrow> if as_stored_session_id st then [] else [PushSessionId i] | _ \<Rightarrow> [])"

text \<open>The loop of \<^verbatim>\<open>normalize_logs\<close> over the lines of the output.\<close>

fun acp_normalize_logs :: "acp_env \<Rightarrow> string \<Rightarrow> string list \<Rightarrow> acp_state \<Rightarrow> nat \<Rightarrow> store_push list" where
  "acp_normalize_logs ae wt [] st n = []"
| "acp_normalize_logs ae wt (line # rest) st n =
     (case acp_parse_line ae line of
        None \<Rightarrow> acp_normalize_logs ae wt rest st n
      | Some ev \<Rightarrow>
          (let (ps, st1, n1) = acp_event_step ae wt ev st n
           in acp_session_push ev st @ map PushPatch ps @ acp_normalize_logs ae wt rest st1 n1))"


section \<open>Callbacks of the client\<close>

datatype permission_outcome = SelectedOption string | CancelledPermission

definition choose_option :: "permission_option list \<Rightarrow> permission_option option" where
  "choose_option options =
     (case List.find (\<lambda>opt. po_kind opt = AllowAlways) options of
        Some opt \<Rightarrow> Some opt
      | None \<Rightarrow>
          (case List.find (\<lambda>opt. po_kind opt = AllowOnce) options of
             Some opt \<Rightarrow> Some opt
           | None \<Rightarrow> (case options of opt # _ \<Rightarrow> Some opt | [] \<Rightarrow> None)))"

definition request_permission :: "permission_request \<Rightarrow> acp_event \<times> permission_outcome" where
  "request_permission args =
     (AcpRequestPermission args,
      case choose_option (pr_options args) of Some opt \<Rightarrow> SelectedOption (po_id opt) | None \<Rightarrow> CancelledPermission)"

fun session_notification :: "session_update \<Rightarrow> acp_event" where
  "session_notification (AgentMessageChunk content) = AcpMessage content"
| "session_notification (AgentThoughtChunk content) = AcpThought content"
| "session_notification (ToolCallStarted tc) = AcpToolCall tc"
| "session_notification (ToolCallUpdated update) = AcpToolUpdate update"
| "session_notification (PlanChanged plan) = AcpPlan plan"
| "session_notification update = AcpOther update"

text \<open>\<^verbatim>\<open>TryFrom<SessionNotification> for AcpEvent\<close>.\<close>

fun event_of_update :: "session_update \<Rightarrow> acp_event option" where
  "event_of_update (AgentMessageChunk content) = Some (AcpMessage content)"
| "event_of_update (AgentThoughtChunk content) = Some (AcpThought content)"
| "event_of_update (ToolCallStarted tc) = Some (AcpToolCall tc)"
| "event_of_update (ToolCallUpdated update) = Some (AcpToolUpdate update)"
| "event_of_update (PlanChanged plan) = Some (AcpPlan plan)"
| "event_of_update (AvailableCommandsUpdate names) = Some (AcpAvailableCommands names)"
| "event_of_update (CurrentModeUpdate mode) = Some (AcpCurrentMode mode)"
| "event_of_update (OtherUpdate _) = None"


section \<open>Session files\<close>

text \<open>
  The files below the directory of the sessions; \<open>io_error\<close> says which paths cannot be opened, read,
  copied or removed.
\<close>

record session_files =
  sf_base_dir :: string
  sf_files :: "string \<rightharpoonup> string"

definition session_file_path :: "session_files \<Rightarrow> string \<Rightarrow> string" where
  "session_file_path fs session_id = join_path (sf_base_dir fs) (session_id @ ''.jsonl'')"

definition normalize_session_event :: "acp_env \<Rightarrow> string \<Rightarrow> string option" where
  "normalize_session_event ae raw_json =
     Option.bind (de_event ae raw_json) (\<lambda>event.
       case event of
         AcpSessionStart _ \<Rightarrow> None
       | AcpError _ \<Rightarrow> None
       | AcpDone _ \<Rightarrow> None
       | AcpOther _ \<Rightarrow> None
       | AcpRequestPermission req \<Rightarrow> event_text ae (AcpToolUpdate (pr_tool_call req))
       | AcpUser prompt \<Rightarrow> json_text ae (JObject [(''user'', JString prompt)])
       | AcpMessage (TextBlock t) \<Rightarrow> json_text ae (JObject [(''assistant'', JString t)])
       | AcpThought (TextBlock t) \<Rightarrow> json_text ae (JObject [(''thinking'', JString t)])
       | _ \<Rightarrow> event_text ae event)"

definition append_raw_line ::
  "(string \<Rightarrow> string option) \<Rightarrow> acp_env \<Rightarrow> string \<Rightarrow> string \<Rightarrow> session_files \<Rightarrow> string + session_files" where
  "append_raw_line io_error ae session_id raw_json fs =
     (case normalize_session_event ae raw_json of
        None \<Rightarrow> Inr fs
      | Some normalized \<Rightarrow>
          (let path = session_file_path fs session_id
           in case io_error path of
                Some e \<Rightarrow> Inl e
              | None \<Rightarrow>
                  Inr (fs\<lparr>sf_files := (sf_files fs)(path \<mapsto>
                    (case sf_files fs path of Some content \<Rightarrow> content | None \<Rightarrow> []) @ normalized @ [newline])\<rparr>)))"

definition read_session_raw :: "(string \<Rightarrow> string option) \<Rightarrow> string \<Rightarrow> session_files \<Rightarrow> string + string" where
  "read_session_raw io_error session_id fs =
     (let path = session_file_path fs session_id
      in case sf_files fs path of
           None \<Rightarrow> Inr []
         | Some content \<Rightarrow> (case io_error path of Some e \<Rightarrow> Inl e | None \<Rightarrow> Inr content))"

text \<open>Copying can fail at the old and at the new path.\<close>

definition fork_session :: "(string \<Rightarrow> string option) \<Rightarrow> string \<Rightarrow> string \<Rightarrow> session_files \<Rightarrow> string + session_files" where
  "fork_session io_error old_id new_id fs =
     (let old_path = session_file_path fs old_id; new_path = session_file_path fs new_id
      in case sf_files fs old_path of
           Some content \<Rightarrow>
             (case io_error old_path of
                Some e \<Rightarrow> Inl e
              | None \<Rightarrow>
                  (case io_error new_path of
                     Some e \<Rightarrow> Inl e
                   | None \<Rightarrow> Inr (fs\<lparr>sf_files := (sf_files fs)(new_path \<mapsto> content)\<rparr>)))
         | None \<Rightarrow>
             (case io_error new_path of
                Some e \<Rightarrow> Inl e
              | None \<Rightarrow> Inr (fs\<lparr>sf_files := (sf_files fs)(new_path \<mapsto> [])\<rparr>)))"

definition delete_session :: "(string \<Rightarrow> string option) \<Rightarrow> string \<Rightarrow> session_files \<Rightarrow> string + session_files" where
  "delete_session io_error session_id fs =
     (let path = session_file_path fs session_id
      in case sf_files fs path of
           None \<Rightarrow> Inr fs
         | Some _ \<Rightarrow> (case io_error path of Some e \<Rightarrow> Inl e | None \<Rightarrow> Inr (fs\<lparr>sf_files := (sf_files fs)(path := None)\<rparr>)))"

definition generate_resume_prompt ::
  "(string \<Rightarrow> string option) \<Rightarrow> string \<Rightarrow> string \<Rightarrow> session_files \<Rightarrow> string + string" where
  "generate_resume_prompt io_error session_id current_prompt fs =
     (case read_session_raw io_error session_id fs of
        Inl e \<Rightarrow> Inl e
      | Inr session_context \<Rightarrow>
          Inr (''RESUME CONTEXT FOR CONTINUING TASK'' @ [newline, newline]
               @ ''=== EXECUTION HISTORY ==='' @ [newline]
               @ ''The following is the conversation history from this session:'' @ [newline]
               @ session_context @ [newline, newline]
               @ ''=== CURRENT REQUEST ==='' @ [newline]
               @ current_prompt @ [newline, newline]
               @ ''=== INSTRUCTIONS ==='' @ [newline]
               @ ''You are continuing work on the above task. The execution history shows ''
               @ ''the previous conversation in this session. Please continue from where ''
               @ ''the previous execution left off, taking into account all the context provided above.''))"

end
