(* ===== verification/Acp_Guarantees.thy ===== *)
theory Acp_Guarantees
  imports Acp_Logs
begin

text \<open>
  What holds of the agents that speak the Agent Client Protocol: their conversation shows every tool call
  as one entry, the session identifier is stored once, and the session file holds the events in order.
\<close>

section \<open>The conversation shows the state\<close>

definition text_shown :: "normalized_entry_type \<Rightarrow> acp_text option \<Rightarrow> nat \<Rightarrow> (string \<rightharpoonup> partial_tool_call) \<Rightarrow> patch_value list \<Rightarrow> bool" where
  "text_shown ty s k tools doc \<longleftrightarrow>
     (\<forall>t. s = Some t \<longrightarrow> k \<le> at_index t \<and> at_index t < length doc
        \<and> doc ! at_index t = shown (plain_entry ty (at_content t) None)
        \<and> (\<forall>i d. tools i = Some d \<longrightarrow> pd_index d \<noteq> at_index t))"

definition tools_shown :: "acp_env \<Rightarrow> nat \<Rightarrow> (string \<rightharpoonup> partial_tool_call) \<Rightarrow> patch_value list \<Rightarrow> bool" where
  "tools_shown ae k tools doc \<longleftrightarrow>
     (\<forall>i d. tools i = Some d \<longrightarrow> k \<le> pd_index d \<and> pd_index d < length doc
        \<and> doc ! pd_index d = shown (tool_call_entry ae d) \<and> pd_id d = i)
     \<and> (\<forall>i d j e. tools i = Some d \<longrightarrow> tools j = Some e \<longrightarrow> pd_index d = pd_index e \<longrightarrow> i = j)"

text \<open>The entries of \<open>base\<close> are as they were and everything the state knows is shown after them.\<close>

definition acp_view :: "acp_env \<Rightarrow> patch_value list \<Rightarrow> acp_state \<Rightarrow> patch_value list \<Rightarrow> bool" where
  "acp_view ae base st doc \<longleftrightarrow>
     length base \<le> length doc \<and> take (length base) doc = base
     \<and> text_shown AssistantMessage (as_assistant st) (length base) (as_tools st) doc
     \<and> text_shown Thinking (as_thinking st) (length base) (as_tools st) doc
     \<and> tools_shown ae (length base) (as_tools st) doc"

lemma text_shown_None [simp]: "text_shown ty None k tools doc"
  by (simp add: text_shown_def)

lemma tool_call_entry_index [simp]: "tool_call_entry ae (d\<lparr>pd_index := i\<rparr>) = tool_call_entry ae d"
  by (cases d, hypsubst,
      unfold tool_call_entry_def map_to_action_type_def get_tool_content_def path_text_def extract_file_changes_def
      text_or_raw_result_def shell_result_def tool_name_or_title_def partial_tool_call.update_convs
      partial_tool_call.select_convs, rule refl)

lemma acp_view_end: "acp_view ae base st doc \<Longrightarrow> acp_view ae base (end_streaming st) doc"
  by (simp add: acp_view_def end_streaming_def)

text \<open>What another entry at a new or an unrelated place leaves alone.\<close>

lemma view_elsewhere:
  assumes "length doc \<le> length doc'" and "\<And>k. k < length doc \<Longrightarrow> k \<noteq> i \<Longrightarrow> doc' ! k = doc ! k"
  shows "text_shown ty s k tools doc \<Longrightarrow> (\<And>t. s = Some t \<Longrightarrow> at_index t \<noteq> i) \<Longrightarrow> text_shown ty s k tools doc'"
    and "tools_shown ae k tools doc \<Longrightarrow> (\<And>j d. tools j = Some d \<Longrightarrow> pd_index d \<noteq> i) \<Longrightarrow> tools_shown ae k tools doc'"
    and "take k doc = base \<Longrightarrow> k \<le> i \<Longrightarrow> k \<le> length doc \<Longrightarrow> take k doc' = base"
proof -
  show "text_shown ty s k tools doc \<Longrightarrow> (\<And>t. s = Some t \<Longrightarrow> at_index t \<noteq> i) \<Longrightarrow> text_shown ty s k tools doc'"
    using assms by (cases s) (auto simp: text_shown_def)
  show "tools_shown ae k tools doc \<Longrightarrow> (\<And>j d. tools j = Some d \<Longrightarrow> pd_index d \<noteq> i) \<Longrightarrow> tools_shown ae k tools doc'"
    using assms by (fastforce simp: tools_shown_def)
  show "take k doc = base \<Longrightarrow> k \<le> i \<Longrightarrow> k \<le> length doc \<Longrightarrow> take k doc' = base"
    using assms by (auto intro!: nth_equalityI)
qed

definition view_step :: "acp_env \<Rightarrow> patch_value list \<Rightarrow> patch_value list \<Rightarrow> patch list \<times> acp_state \<times> nat \<Rightarrow> bool" where
  "view_step ae base doc r \<longleftrightarrow>
     (case r of (ps, st, n) \<Rightarrow> \<exists>doc'. read_patches ps doc = Some doc' \<and> length doc' = n \<and> n \<le> length doc + 1 \<and> acp_view ae base st doc')"

lemma view_step_quiet: "acp_view ae base st doc \<Longrightarrow> view_step ae base doc ([], st, length doc)"
  by (simp add: view_step_def)

lemma handle_tool_call_view:
  assumes "acp_view ae base st doc" and "length doc < usize_max"
  shows "view_step ae base doc (handle_tool_call ae wt tc st (length doc))"
proof -
  let ?known = "as_tools st (tc_id tc)"
  define d where "d = extend_tool_call ae wt tc (case ?known of Some d \<Rightarrow> d | None \<Rightarrow> default_tool_call ae)"
  obtain pt i n1 where pe: "put_entry (map_option pd_index ?known) (tool_call_entry ae d) (length doc) = (pt, i, n1)"
    by (metis prod.exhaust)
  have old: "tools_shown ae (length base) (as_tools st) doc" "length base \<le> length doc" "take (length base) doc = base"
    using assms(1) by (simp_all add: acp_view_def)
  then have "map_option pd_index ?known = Some j \<Longrightarrow> j < length doc" for j by (auto simp: tools_shown_def)
  from put_entry_shows [OF pe this assms(2)] obtain doc' where doc': "read_patches [pt] doc = Some doc'" "length doc' = n1"
      "n1 \<le> Suc (length doc)" "length doc \<le> n1" "i < n1" "doc' ! i = shown (tool_call_entry ae d)"
      "\<And>k. k < length doc \<Longrightarrow> k \<noteq> i \<Longrightarrow> doc' ! k = doc ! k"
      "i = (case map_option pd_index ?known of Some j \<Rightarrow> j | None \<Rightarrow> length doc)" by blast
  have i: "length base \<le> i" using doc'(8) old(1,2) by (auto simp: tools_shown_def split: option.splits)
  have other: "pd_index e \<noteq> i" if "as_tools st j = Some e" "j \<noteq> tc_id tc" for j e
    using that old(1) doc'(8) by (fastforce simp: tools_shown_def split: option.splits)
  have "tools_shown ae (length base) ((as_tools st)(tc_id tc \<mapsto> d\<lparr>pd_index := i\<rparr>)) doc'"
    using old(1) other i doc'(2,4,5,6,7)
    by (auto simp: tools_shown_def d_def extend_tool_call_def dest: less_le_trans) (metis less_le_trans)+
  moreover have "take (length base) doc' = base"
    using view_elsewhere(3) [of doc doc' i "length base" base] old i doc'(2,4,7) by simp
  ultimately show ?thesis
    using doc'(1-4) old(2) pe
    by (simp add: view_step_def handle_tool_call_def acp_view_def d_def [symmetric] end_streaming_def Let_def)
qed


lemma add_system_view:
  assumes "acp_view ae base st doc" and "length doc < usize_max"
  shows "view_step ae base doc (add_system ty content st (length doc))"
proof -
  obtain pt i n1 where pe: "put_entry None (plain_entry ty content None) (length doc) = (pt, i, n1)" by (metis prod.exhaust)
  from put_entry_shows [OF pe _ assms(2)] obtain doc' where doc': "read_patches [pt] doc = Some doc'" "length doc' = n1"
      "n1 \<le> Suc (length doc)" "length doc \<le> n1" "\<And>k. k < length doc \<Longrightarrow> k \<noteq> i \<Longrightarrow> doc' ! k = doc ! k" "i = length doc"
    by (metis option.simps(4) option.discI)
  have len: "length doc \<le> length doc'" using doc'(2,4) by simp
  have old: "text_shown ty s k tools doc \<Longrightarrow> s = Some t \<Longrightarrow> at_index t \<noteq> i"
    "tools_shown ae k tools doc \<Longrightarrow> tools j = Some d \<Longrightarrow> pd_index d \<noteq> i" for ty s k t tools j d
    using doc'(6) by (fastforce simp: text_shown_def tools_shown_def)+
  have texts: "text_shown ty s k tools doc'" if "text_shown ty s k tools doc" for ty s k tools
    by (rule view_elsewhere(1) [where i = i, OF len _ that]) (erule doc'(5), assumption, erule old(1) [OF that])
  have tools: "tools_shown ae k tools doc'" if "tools_shown ae k tools doc" for k tools
    by (rule view_elsewhere(2) [where i = i, OF len _ that]) (erule doc'(5), assumption, erule old(2) [OF that])
  have "take (length base) doc' = base"
    using assms(1) doc'(5,6) view_elsewhere(3) [OF len, of i "length base" base] by (simp add: acp_view_def)
  with assms(1) len texts tools have "acp_view ae base st doc'" by (simp add: acp_view_def)
  with doc'(1-3) pe show ?thesis by (simp add: view_step_def add_system_def)
qed

lemma stream_text_view:
  assumes "length doc < usize_max" and "stream_acp_text ty t s (length doc) = (pt, s', n1)"
    and "text_shown ty s k tools doc" and "tools_shown ae k tools doc" and "take k doc = base" and "k \<le> length doc"
  shows "\<exists>doc'. read_patches [pt] doc = Some doc' \<and> length doc' = n1 \<and> n1 \<le> Suc (length doc) \<and> length doc \<le> n1
     \<and> text_shown ty (Some s') k tools doc' \<and> tools_shown ae k tools doc' \<and> take k doc' = base"
proof -
  define e where "e = plain_entry ty ((case s of Some x \<Rightarrow> at_content x | None \<Rightarrow> []) @ t) None"
  obtain i where pe: "put_entry (map_option at_index s) e (length doc) = (pt, i, n1)"
    and s': "s' = \<lparr> at_index = i, at_content = (case s of Some x \<Rightarrow> at_content x | None \<Rightarrow> []) @ t \<rparr>"
    using assms(2) by (auto simp: stream_acp_text_def e_def Let_def split: prod.splits)
  have "map_option at_index s = Some j \<Longrightarrow> j < length doc" for j using assms(3) by (auto simp: text_shown_def)
  from put_entry_shows [OF pe this assms(1)] obtain doc' where doc': "read_patches [pt] doc = Some doc'" "length doc' = n1"
      "n1 \<le> Suc (length doc)" "length doc \<le> n1" "i < n1" "doc' ! i = shown e"
      "\<And>k. k < length doc \<Longrightarrow> k \<noteq> i \<Longrightarrow> doc' ! k = doc ! k"
      "i = (case map_option at_index s of Some j \<Rightarrow> j | None \<Rightarrow> length doc)" by blast
  have i: "k \<le> i" using doc'(8) assms(3,6) by (auto simp: text_shown_def split: option.splits)
  have other: "pd_index d \<noteq> i" if "tools j = Some d" for j d
    using that doc'(8) assms(3,4) by (fastforce simp: text_shown_def tools_shown_def split: option.splits)
  have "text_shown ty (Some s') k tools doc'" using i other doc'(2,5,6) by (simp add: text_shown_def s' e_def)
  moreover have "tools_shown ae k tools doc'"
    using view_elsewhere(2) [of doc doc' i] doc'(2,4,7) assms(4) other by blast
  moreover have "take k doc' = base"
    using view_elsewhere(3) [of doc doc' i k base] doc'(2,4,7) assms(5,6) i by simp
  ultimately show ?thesis using doc'(1-4) by blast
qed

lemma message_view:
  assumes "acp_view ae base st doc" and "length doc < usize_max"
  shows "view_step ae base doc (acp_event_step ae wt (AcpMessage c) st (length doc))"
    and "view_step ae base doc (acp_event_step ae wt (AcpThought c) st (length doc))"
proof -
  note old = assms(1) [unfolded acp_view_def]
  show "view_step ae base doc (acp_event_step ae wt (AcpMessage c) st (length doc))"
  proof (cases c)
    case (TextBlock t)
    obtain pt s' n1 where sa: "stream_acp_text AssistantMessage t (as_assistant st) (length doc) = (pt, s', n1)"
      by (metis prod.exhaust)
    from stream_text_view [OF assms(2) sa, of "length base" "as_tools st" ae base] old sa TextBlock show ?thesis
      by (fastforce simp: view_step_def acp_view_def)
  qed (use old in \<open>simp add: view_step_def acp_view_def\<close>)
  show "view_step ae base doc (acp_event_step ae wt (AcpThought c) st (length doc))"
  proof (cases c)
    case (TextBlock t)
    obtain pt s' n1 where sa: "stream_acp_text Thinking t (as_thinking st) (length doc) = (pt, s', n1)"
      by (metis prod.exhaust)
    from stream_text_view [OF assms(2) sa, of "length base" "as_tools st" ae base] old sa TextBlock show ?thesis
      by (fastforce simp: view_step_def acp_view_def)
  qed (use old in \<open>simp add: view_step_def acp_view_def\<close>)
qed

lemma event_view:
  assumes "acp_view ae base st doc" and "length doc < usize_max"
  shows "view_step ae base doc (acp_event_step ae wt ev st (length doc))"
proof (cases ev)
  case (AcpSessionStart i)
  with assms(1) show ?thesis by (simp add: view_step_def acp_view_def)
next
  case (AcpRequestPermission perm)
  with assms handle_tool_call_view view_step_quiet show ?thesis by (auto split: option.split)
next
  case (AcpToolUpdate update)
  with assms handle_tool_call_view view_step_quiet show ?thesis by (auto split: option.split)
qed (use assms message_view in \<open>simp_all add: handle_tool_call_view view_step_quiet add_system_view acp_view_end\<close>)

interpretation acp: conversation_view "acp_event_step ae wt" "acp_view ae base" "\<lambda>_. 1"
proof
  fix st doc ev ps st' n'
  assume "acp_view ae base st doc" "length doc + 1 \<le> usize_max" "acp_event_step ae wt ev st (length doc) = (ps, st', n')"
  with event_view [of ae base st doc wt ev] show
    "\<exists>doc'. read_patches ps doc = Some doc' \<and> length doc' = n' \<and> n' \<le> length doc + 1 \<and> acp_view ae base st' doc'"
    by (simp add: view_step_def)
qed


section \<open>What the agent reported\<close>

text \<open>
  The calls that the events report, in order, read off the events alone: a call, an update or a permission
  request.  An update without a title is for the title that the call was last reported with.
\<close>

definition last_given :: "('a \<Rightarrow> 'b option) \<Rightarrow> 'a list \<Rightarrow> 'b option" where
  "last_given f xs = find_map f (rev xs)"

definition unless :: "'a \<Rightarrow> 'a \<Rightarrow> 'a option" where
  "unless blank x = (if x = blank then None else Some x)"

definition calls_of :: "string \<Rightarrow> tool_call list \<Rightarrow> tool_call list" where
  "calls_of i tcs = filter (\<lambda>tc. tc_id tc = i) tcs"

definition reported_title :: "string \<Rightarrow> tool_call list \<Rightarrow> string" where
  "reported_title i tcs = (case last_given (\<lambda>tc. unless [] (tc_title tc)) (calls_of i tcs) of Some t \<Rightarrow> t | None \<Rightarrow> [])"

fun report :: "acp_env \<Rightarrow> tool_call list \<Rightarrow> acp_event \<Rightarrow> tool_call option" where
  "report ae tcs (AcpToolCall tc) = Some tc"
| "report ae tcs (AcpToolUpdate u) =
     tool_call_of ae (if tu_title u = None then u\<lparr>tu_title := Some (reported_title (tu_id u) tcs)\<rparr> else u)"
| "report ae tcs (AcpRequestPermission p) = tool_call_of ae (pr_tool_call p)"
| "report ae tcs _ = None"

fun reported :: "acp_env \<Rightarrow> tool_call list \<Rightarrow> acp_event list \<Rightarrow> tool_call list" where
  "reported ae tcs [] = tcs"
| "reported ae tcs (ev # evs) =
     reported ae (case report ae tcs ev of Some tc \<Rightarrow> tcs @ [tc] | None \<Rightarrow> tcs) evs"

text \<open>
  The data of a call over all its reports: of every field the last value that was given, where the default
  of the protocol, an empty list or text and an absent value count as not given.
\<close>

definition merged_call :: "acp_env \<Rightarrow> string \<Rightarrow> string \<Rightarrow> tool_call list \<Rightarrow> partial_tool_call" where
  "merged_call ae wt i tcs =
     (let own = calls_of i tcs in
      \<lparr> pd_index = 0, pd_id = i,
        pd_kind = (case last_given (\<lambda>tc. unless (default_kind ae) (tc_kind tc)) own of Some k \<Rightarrow> k | None \<Rightarrow> default_kind ae),
        pd_title = reported_title i tcs,
        pd_status = (case last_given (\<lambda>tc. unless (default_status ae) (tc_status tc)) own of Some s \<Rightarrow> s | None \<Rightarrow> default_status ae),
        pd_path = map_option (\<lambda>ls. make_path_relative (acp_paths ae) (hd ls) wt) (last_given (\<lambda>tc. unless [] (tc_locations tc)) own),
        pd_content = (case last_given (\<lambda>tc. unless [] (tc_content tc)) own of Some c \<Rightarrow> c | None \<Rightarrow> []),
        pd_raw_input = last_given tc_raw_input own,
        pd_raw_output = last_given tc_raw_output own \<rparr>)"

lemma last_given_simps [simp]:
  "last_given f [] = None"
  "last_given f (xs @ [x]) = (case f x of Some y \<Rightarrow> Some y | None \<Rightarrow> last_given f xs)"
  by (simp_all add: last_given_def split: option.split)

lemma calls_of_simps [simp]:
  "calls_of i [] = []" "calls_of i (tcs @ [tc]) = (if tc_id tc = i then calls_of i tcs @ [tc] else calls_of i tcs)"
  by (simp_all add: calls_of_def)

lemma merged_call_new: "i \<notin> tc_id ` set tcs \<Longrightarrow> merged_call ae wt i tcs = (default_tool_call ae)\<lparr>pd_id := i\<rparr>"
  by (subgoal_tac "calls_of i tcs = []")
    (auto simp: merged_call_def reported_title_def default_tool_call_def calls_of_def filter_empty_conv Let_def)

lemma merged_call_snoc:
  "merged_call ae wt i (tcs @ [tc]) =
     (if tc_id tc = i then extend_tool_call ae wt tc (merged_call ae wt i tcs) else merged_call ae wt i tcs)"
  by (auto simp: merged_call_def extend_tool_call_def reported_title_def unless_def Let_def split: option.split list.split)

text \<open>The state knows exactly the reported calls, with the merged data of each.\<close>

definition knows_reports :: "acp_env \<Rightarrow> string \<Rightarrow> tool_call list \<Rightarrow> acp_state \<Rightarrow> bool" where
  "knows_reports ae wt tcs st \<longleftrightarrow>
     dom (as_tools st) = tc_id ` set tcs
     \<and> (\<forall>i d. as_tools st i = Some d \<longrightarrow> d\<lparr>pd_index := 0\<rparr> = merged_call ae wt i tcs)"

lemma extend_tool_call_over:
  "d\<lparr>pd_index := 0\<rparr> = d' \<Longrightarrow> (extend_tool_call ae wt tc d)\<lparr>pd_index := 0\<rparr> = extend_tool_call ae wt tc d'"
  by (cases d) (auto simp: extend_tool_call_def split: list.split option.split)

lemma extend_tool_call_id: "extend_tool_call ae wt tc (d\<lparr>pd_id := i\<rparr>) = extend_tool_call ae wt tc d"
  by (cases d) (simp add: extend_tool_call_def split: list.split option.split)

lemma handle_tool_call_knows:
  assumes "knows_reports ae wt tcs st" and "handle_tool_call ae wt tc st n = (ps, st', n')"
  shows "knows_reports ae wt (tcs @ [tc]) st'"
proof -
  define d where "d = (case as_tools st (tc_id tc) of Some d \<Rightarrow> d | None \<Rightarrow> default_tool_call ae)"
  obtain j where st': "as_tools st' = (as_tools st)(tc_id tc \<mapsto> (extend_tool_call ae wt tc d)\<lparr>pd_index := j\<rparr>)"
    using assms(2) by (auto simp: handle_tool_call_def end_streaming_def d_def Let_def split: prod.splits)
  have "(extend_tool_call ae wt tc d)\<lparr>pd_index := 0\<rparr> = merged_call ae wt (tc_id tc) (tcs @ [tc])"
  proof (cases "as_tools st (tc_id tc)")
    case None
    then have "tc_id tc \<notin> tc_id ` set tcs" using assms(1) by (auto simp: knows_reports_def)
    from merged_call_new [OF this, of ae wt] None show ?thesis
      by (simp add: merged_call_snoc d_def extend_tool_call_id)
         (rule extend_tool_call_over, simp add: default_tool_call_def)
  next
    case (Some e)
    then show ?thesis using assms(1) by (simp add: knows_reports_def merged_call_snoc d_def extend_tool_call_over)
  qed
  with assms(1) st' show ?thesis by (auto simp: knows_reports_def merged_call_snoc)
qed

lemma knows_title:
  assumes "knows_reports ae wt tcs st"
  shows "(case as_tools st i of Some d \<Rightarrow> pd_title d | None \<Rightarrow> []) = reported_title i tcs"
proof (cases "as_tools st i")
  case None
  then have "i \<notin> tc_id ` set tcs" using assms by (auto simp: knows_reports_def)
  then have "pd_title (merged_call ae wt i tcs) = []" by (simp add: merged_call_new default_tool_call_def)
  with None show ?thesis by (simp add: merged_call_def Let_def)
next
  case (Some d)
  then have "pd_title (d\<lparr>pd_index := 0\<rparr>) = pd_title (merged_call ae wt i tcs)" using assms by (simp add: knows_reports_def)
  with Some show ?thesis by (simp add: merged_call_def Let_def)
qed

lemma quiet_event_tools:
  assumes "report ae tcs ev = None" and "acp_event_step ae wt ev st n = (ps, st', n')"
    and "knows_reports ae wt tcs st"
  shows "as_tools st' = as_tools st"
  using assms knows_title [OF assms(3)]
  by (cases ev) (auto simp: add_system_def end_streaming_def titled_update_def Let_def
      split: prod.splits content_block.splits option.splits if_splits)

lemma event_knows:
  assumes "knows_reports ae wt tcs st" and "acp_event_step ae wt ev st n = (ps, st', n')"
  shows "knows_reports ae wt (case report ae tcs ev of Some tc \<Rightarrow> tcs @ [tc] | None \<Rightarrow> tcs) st'"
proof (cases "report ae tcs ev")
  case None
  then show ?thesis using quiet_event_tools [OF None assms(2,1)] assms(1) by (simp add: knows_reports_def)
next
  case (Some tc)
  then have "handle_tool_call ae wt tc st n = (ps, st', n')"
    using assms(2) knows_title [OF assms(1)]
    by (cases ev) (auto simp: titled_update_def split: option.splits if_splits)
  with Some handle_tool_call_knows [OF assms(1)] show ?thesis by simp
qed

lemma events_known:
  "normalize_all (acp_event_step ae wt) evs st n = (ps, st', n') \<Longrightarrow> knows_reports ae wt tcs st
   \<Longrightarrow> knows_reports ae wt (reported ae tcs evs) st'"
proof (induction evs arbitrary: tcs st n ps)
  case (Cons ev evs)
  obtain qs st1 n1 where step: "acp_event_step ae wt ev st n = (qs, st1, n1)" by (metis prod.exhaust)
  with Cons.prems(1) obtain rs where "normalize_all (acp_event_step ae wt) evs st1 n1 = (rs, st', n')"
    by (auto split: prod.splits)
  from Cons.IH [OF this event_knows [OF Cons.prems(2) step]] show ?case by simp
qed simp

text \<open>
  C25: The conversation of an ACP agent shows every tool call the agent reported: after any events, the
  patches have applied, the entries that were there before are unchanged, and every call that was reported
  by a call, an update or a permission request (one that the protocol's types can convert) has an entry of
  its own after those, which shows the data of the call merged over all its reports: of every field the last
  value that was given.
\<close>

theorem acp_conversation_shows_calls:
  assumes "normalize_all (acp_event_step ae wt) evs new_acp_state (length doc) = (ps, st, n)"
    and "length doc + length evs \<le> usize_max"
  shows "\<exists>doc' place. read_patches ps doc = Some doc' \<and> length doc' = n \<and> take (length doc) doc' = doc
     \<and> inj_on place (tc_id ` set (reported ae [] evs))
     \<and> (\<forall>tc \<in> set (reported ae [] evs). length doc \<le> place (tc_id tc) \<and> place (tc_id tc) < n
          \<and> doc' ! place (tc_id tc)
            = TypedValue (PT_NormalizedEntry (tool_call_entry ae (merged_call ae wt (tc_id tc) (reported ae [] evs)))))"
proof -
  have "acp_view ae doc new_acp_state doc" by (simp add: acp_view_def new_acp_state_def tools_shown_def)
  from acp.run_view [OF this _ assms(1)] assms(2) obtain doc' where
    doc': "read_patches ps doc = Some doc'" "length doc' = n" "acp_view ae doc st doc'"
    by (auto simp: sum_list_triv)
  define place where "place i = pd_index (the (as_tools st i))" for i
  have "knows_reports ae wt [] new_acp_state" by (simp add: knows_reports_def new_acp_state_def)
  note known = events_known [OF assms(1) this, unfolded knows_reports_def]
  have call: "\<exists>d. as_tools st i = Some d \<and> tool_call_entry ae (merged_call ae wt i (reported ae [] evs)) = tool_call_entry ae d"
    if "i \<in> tc_id ` set (reported ae [] evs)" for i
    using known that tool_call_entry_index by (metis domD)
  have "inj_on place (tc_id ` set (reported ae [] evs))"
  proof (rule inj_onI)
    fix i j
    assume ids: "i \<in> tc_id ` set (reported ae [] evs)" "j \<in> tc_id ` set (reported ae [] evs)" "place i = place j"
    obtain d e where "as_tools st i = Some d" "as_tools st j = Some e" using call [OF ids(1)] call [OF ids(2)] by blast
    moreover from this ids(3) have "pd_index d = pd_index e" by (simp add: place_def)
    ultimately show "i = j" using doc'(3) by (auto simp: acp_view_def tools_shown_def)
  qed
  moreover have "length doc \<le> place (tc_id tc) \<and> place (tc_id tc) < n
      \<and> doc' ! place (tc_id tc) = shown (tool_call_entry ae (merged_call ae wt (tc_id tc) (reported ae [] evs)))"
    if "tc \<in> set (reported ae [] evs)" for tc
    using call [of "tc_id tc"] that doc'(2,3) by (auto simp: place_def acp_view_def tools_shown_def)
  ultimately show ?thesis using doc' by (auto simp: acp_view_def)
qed


section \<open>The session identifier\<close>

definition session_id_of :: "store_push \<Rightarrow> string option" where
  "session_id_of p = (case p of PushSessionId i \<Rightarrow> Some i | PushPatch _ \<Rightarrow> None)"

definition session_started :: "acp_event \<Rightarrow> string option" where
  "session_started ev = (case ev of AcpSessionStart i \<Rightarrow> Some i | _ \<Rightarrow> None)"

lemma acp_step_session:
  "acp_event_step ae wt ev st n = (ps, st', n') \<Longrightarrow>
   as_stored_session_id st' = (as_stored_session_id st \<or> session_started ev \<noteq> None)"
  by (cases ev)
    (auto simp: session_started_def add_system_def handle_tool_call_def end_streaming_def Let_def
      split: prod.splits option.splits content_block.splits)

lemma map_filter_append: "List.map_filter f (xs @ ys) = List.map_filter f xs @ List.map_filter f ys"
  by (simp add: List.map_filter_def)

lemma session_ids_of_push [simp]:
  "List.map_filter session_id_of (map PushPatch ps) = []"
  "List.map_filter session_id_of (acp_session_push ev st) =
     (case session_started ev of Some i \<Rightarrow> if as_stored_session_id st then [] else [i] | None \<Rightarrow> [])"
  by (induction ps)
     (auto simp: session_id_of_def acp_session_push_def session_started_def map_filter_simps split: acp_event.split)

text \<open>
  The session identifier of the store is the first one the agent reports: whatever lines it writes,
  the normaliser pushes at most one identifier, that of the first session start.
\<close>

theorem acp_first_session_id:
  "List.map_filter session_id_of (acp_normalize_logs ae wt lines new_acp_state n)
   = take 1 (List.map_filter session_started (List.map_filter (acp_parse_line ae) lines))"
proof -
  have "List.map_filter session_id_of (acp_normalize_logs ae wt lines st n)
        = (if as_stored_session_id st then []
           else take 1 (List.map_filter session_started (List.map_filter (acp_parse_line ae) lines)))" for st
  proof (induction lines arbitrary: st n)
    case (Cons line lines)
    show ?case
    proof (cases "acp_parse_line ae line")
      case (Some ev)
      obtain ps st' n' where ste: "acp_event_step ae wt ev st n = (ps, st', n')" by (metis prod.exhaust)
      from Cons.IH [of st' n'] acp_step_session [OF ste] Some ste show ?thesis
        by (cases "session_started ev") (auto simp: map_filter_simps map_filter_append)
    qed (simp add: map_filter_simps Cons.IH)
  qed (simp add: map_filter_simps)
  from this [of new_acp_state] show ?thesis by (simp add: new_acp_state_def)
qed


section \<open>Session files\<close>

lemma append_raw_line_read:
  assumes "io_error (session_file_path fs i) = None"
  shows "\<exists>fs'. append_raw_line io_error ae i line fs = Inr fs' \<and> sf_base_dir fs' = sf_base_dir fs
     \<and> read_session_raw io_error i fs' = Inr ((case sf_files fs (session_file_path fs i) of Some c \<Rightarrow> c | None \<Rightarrow> [])
          @ (case normalize_session_event ae line of Some t \<Rightarrow> t @ [newline] | None \<Rightarrow> []))
     \<and> (\<forall>p. p \<noteq> session_file_path fs i \<longrightarrow> sf_files fs' p = sf_files fs p)"
  using assms
  by (cases "normalize_session_event ae line"; cases "sf_files fs (session_file_path fs i)")
     (auto simp: append_raw_line_def read_session_raw_def session_file_path_def Let_def)

text \<open>Appending lines one after another, as the harness does for the events of a session.\<close>

fun append_lines :: "(string \<Rightarrow> string option) \<Rightarrow> acp_env \<Rightarrow> string \<Rightarrow> string list \<Rightarrow> session_files \<Rightarrow> string + session_files" where
  "append_lines io_error ae i [] fs = Inr fs"
| "append_lines io_error ae i (l # ls) fs =
     (case append_raw_line io_error ae i l fs of Inl e \<Rightarrow> Inl e | Inr fs1 \<Rightarrow> append_lines io_error ae i ls fs1)"

definition session_text :: "acp_env \<Rightarrow> string list \<Rightarrow> string" where
  "session_text ae ls = concat (map (\<lambda>t. t @ [newline]) (List.map_filter (normalize_session_event ae) ls))"

lemma session_text_Cons:
  "session_text ae (l # ls) = (case normalize_session_event ae l of Some t \<Rightarrow> t @ [newline] | None \<Rightarrow> []) @ session_text ae ls"
  by (simp add: session_text_def map_filter_simps split: option.split)

lemma append_lines_read:
  assumes "io_error (session_file_path fs i) = None" and "read_session_raw io_error i fs = Inr old"
  shows "\<exists>fs'. append_lines io_error ae i ls fs = Inr fs' \<and> sf_base_dir fs' = sf_base_dir fs
     \<and> read_session_raw io_error i fs' = Inr (old @ session_text ae ls)
     \<and> (\<forall>p. p \<noteq> session_file_path fs i \<longrightarrow> sf_files fs' p = sf_files fs p)"
  using assms
proof (induction ls arbitrary: fs old)
  case (Cons l ls)
  obtain fs1 where 1: "append_raw_line io_error ae i l fs = Inr fs1" "sf_base_dir fs1 = sf_base_dir fs"
      "read_session_raw io_error i fs1 = Inr ((case sf_files fs (session_file_path fs i) of Some c \<Rightarrow> c | None \<Rightarrow> [])
          @ (case normalize_session_event ae l of Some t \<Rightarrow> t @ [newline] | None \<Rightarrow> []))"
      "\<And>p. p \<noteq> session_file_path fs i \<Longrightarrow> sf_files fs1 p = sf_files fs p"
    using append_raw_line_read [of io_error fs i ae l] Cons.prems(1) by auto
  have path: "session_file_path fs1 i = session_file_path fs i" using 1(2) by (simp add: session_file_path_def)
  have old: "(case sf_files fs (session_file_path fs i) of Some c \<Rightarrow> c | None \<Rightarrow> []) = old"
    using Cons.prems by (auto simp: read_session_raw_def Let_def split: option.splits)
  from Cons.IH [of fs1] Cons.prems(1) 1 path old show ?case by (auto simp: session_text_Cons)
qed (simp add: session_text_def map_filter_simps)

text \<open>
  A forked session continues the history of the old one: after a fork and any further lines, the
  new session reads as the old history followed by the normalised lines, and the old session still
  reads as before.
\<close>

theorem forked_session_history:
  assumes "\<And>p. io_error p = None" and "session_file_path fs old_id \<noteq> session_file_path fs new_id"
    and "read_session_raw io_error old_id fs = Inr old"
  shows "\<exists>fs1 fs2. fork_session io_error old_id new_id fs = Inr fs1
     \<and> append_lines io_error ae new_id ls fs1 = Inr fs2
     \<and> read_session_raw io_error new_id fs2 = Inr (old @ session_text ae ls)
     \<and> read_session_raw io_error old_id fs2 = Inr old"
proof -
  obtain fs1 where f: "fork_session io_error old_id new_id fs = Inr fs1" "sf_base_dir fs1 = sf_base_dir fs"
      "read_session_raw io_error new_id fs1 = Inr old" "sf_files fs1 (session_file_path fs old_id) = sf_files fs (session_file_path fs old_id)"
    using assms by (auto simp: fork_session_def read_session_raw_def session_file_path_def Let_def split: option.splits)
  have path: "session_file_path fs1 i = session_file_path fs i" for i using f(2) by (simp add: session_file_path_def)
  from append_lines_read [of io_error fs1 new_id old ae ls] assms(1) f(3) obtain fs2 where
    a: "append_lines io_error ae new_id ls fs1 = Inr fs2" "sf_base_dir fs2 = sf_base_dir fs1"
      "read_session_raw io_error new_id fs2 = Inr (old @ session_text ae ls)"
      "\<And>p. p \<noteq> session_file_path fs new_id \<Longrightarrow> sf_files fs2 p = sf_files fs1 p"
    unfolding path by auto
  have "read_session_raw io_error old_id fs2 = read_session_raw io_error old_id fs"
    using a(2) a(4) [of "session_file_path fs old_id"] assms(2) f(2,4)
    by (simp add: read_session_raw_def session_file_path_def)
  with f(1) a(1,3) assms(3) show ?thesis by auto
qed


section \<open>Permissions\<close>

text \<open>An option that allows is chosen whenever there is one; otherwise the first one is, even a rejection.\<close>

lemma choose_option_allows:
  assumes "choose_option options = Some opt" and "\<exists>p \<in> set options. po_kind p = AllowAlways \<or> po_kind p = AllowOnce"
  shows "opt \<in> set options \<and> (po_kind opt = AllowAlways \<or> po_kind opt = AllowOnce)"
  using assms by (auto simp: choose_option_def find_None_iff find_Some_iff split: option.splits list.splits)

lemma choose_option_rejects:
  assumes "\<forall>p \<in> set (opt # options). po_kind p = RejectOnce \<or> po_kind p = RejectAlways"
  shows "choose_option (opt # options) = Some opt"
proof -
  have "List.find (\<lambda>p. po_kind p = k) (opt # options) = None" if "k = AllowAlways \<or> k = AllowOnce" for k
    using assms that unfolding find_None_iff by fastforce
  then show ?thesis by (simp add: choose_option_def del: find.simps)
qed

text \<open>The events the client makes of commands and modes never reach the arms of the normaliser for them.\<close>

lemma session_notification_drops:
  "session_notification (AvailableCommandsUpdate names) \<noteq> AcpAvailableCommands names"
  "event_of_update (AvailableCommandsUpdate names) = Some (AcpAvailableCommands names)"
  "acp_event_step ae wt (session_notification (AvailableCommandsUpdate names)) st n = ([], st, n)"
  "acp_event_step ae wt (session_notification (CurrentModeUpdate mode)) st n = ([], st, n)"
  by simp_all


section \<open>Witnesses\<close>

definition sample_call :: tool_call where
  "sample_call =
     \<lparr> tc_id = ''run-1'', tc_title = ''ls (list)'', tc_kind = KindExecute, tc_status = CallPending, tc_content = [],
       tc_locations = [], tc_raw_input = None, tc_raw_output = None \<rparr>"

definition sample_acp :: acp_env where
  "sample_acp =
     \<lparr> de_event = (\<lambda>s. Some (AcpUser s)), tool_call_of = (\<lambda>u. Some (sample_call\<lparr>tc_id := tu_id u, tc_status := CallCompleted\<rparr>)),
       default_kind = KindOther, default_status = CallPending, de_shell_output = (\<lambda>_. None),
       de_search_args = (\<lambda>_. None), de_fetch_args = (\<lambda>_. None), de_value = (\<lambda>_. None),
       event_text = (\<lambda>_. None), json_text = (\<lambda>j. case j of JObject [(_, JString s)] \<Rightarrow> Some s | _ \<Rightarrow> None),
       acp_differ = plain_differ,
       acp_paths = \<lparr> pe_macos = False, pe_exists = (\<lambda>_. False), pe_canonicalize = (\<lambda>_. None) \<rparr> \<rparr>"

definition sample_events :: "acp_event list" where
  "sample_events =
     [AcpMessage (TextBlock ''a''), AcpToolCall sample_call, AcpThought (TextBlock ''b''),
      AcpToolUpdate \<lparr> tu_id = ''run-1'', tu_title = None, tu_fields = JNull \<rparr>]"

lemma sample_reported:
  "reported sample_acp [] sample_events = [sample_call, sample_call\<lparr>tc_status := CallCompleted\<rparr>]"
  by (simp add: sample_events_def sample_acp_def sample_call_def)

theorem acp_conversation_shows_calls_witness:
  "\<exists>ps st n doc' k. normalize_all (acp_event_step sample_acp ''/w'') sample_events new_acp_state 0 = (ps, st, n)
     \<and> read_patches ps [] = Some doc' \<and> length doc' = n \<and> k < n
     \<and> doc' ! k = TypedValue (PT_NormalizedEntry (tool_call_entry sample_acp
         (merged_call sample_acp ''/w'' ''run-1'' [sample_call, sample_call\<lparr>tc_status := CallCompleted\<rparr>])))"
proof -
  obtain ps st n where run: "normalize_all (acp_event_step sample_acp ''/w'') sample_events new_acp_state (length ([] :: patch_value list)) = (ps, st, n)"
    by (metis prod.exhaust)
  have "length ([] :: patch_value list) + length sample_events \<le> usize_max" by (simp add: sample_events_def usize_max_def)
  from acp_conversation_shows_calls [OF run this] obtain doc' place where
    "read_patches ps [] = Some doc'" "length doc' = n" "place (tc_id sample_call) < n"
    "doc' ! place (tc_id sample_call) = TypedValue (PT_NormalizedEntry (tool_call_entry sample_acp
       (merged_call sample_acp ''/w'' (tc_id sample_call) [sample_call, sample_call\<lparr>tc_status := CallCompleted\<rparr>])))"
    unfolding sample_reported by auto
  moreover have "tc_id sample_call = ''run-1''" by (simp add: sample_call_def)
  ultimately show ?thesis using run by auto
qed

theorem forked_session_history_witness:
  "\<exists>fs1 fs2. fork_session (\<lambda>_. None) ''a'' ''b'' \<lparr> sf_base_dir = ''/s'', sf_files = [''/s/a.jsonl'' \<mapsto> ''x'' @ [newline]] \<rparr> = Inr fs1
     \<and> append_lines (\<lambda>_. None) sample_acp ''b'' [''y''] fs1 = Inr fs2
     \<and> read_session_raw (\<lambda>_. None) ''b'' fs2 = Inr (''x'' @ [newline] @ ''y'' @ [newline])
     \<and> read_session_raw (\<lambda>_. None) ''a'' fs2 = Inr (''x'' @ [newline])"
  using forked_session_history [of "\<lambda>_. None" "\<lparr> sf_base_dir = ''/s'', sf_files = [''/s/a.jsonl'' \<mapsto> ''x'' @ [newline]] \<rparr>"
      "''a''" "''b''" "''x'' @ [newline]" sample_acp "[''y'']"]
  by (simp add: session_file_path_def join_path_def read_session_raw_def session_text_def sample_acp_def
      normalize_session_event_def map_filter_simps)

end
