(* ===== verification/Cursor_Logs.thy ===== *)
theory Cursor_Logs
  imports Conversation Unified_Diff Plain_Text Executor_Actions
begin

text \<open>
  The log normaliser of Cursor, \<^verbatim>\<open>crates/executors/src/executors/cursor.rs\<close>: the typed lines of its
  output, the action and text of a tool call, the loop over the lines and the one over stderr.

  What serde reads of a line or of a JSON value is the parameter \<open>cursor_env\<close>.  The results of shell and
  MCP calls are untagged enums: the first variant whose reading succeeds is taken, so their readings are
  composed here of one field per variant.
\<close>

section \<open>Lines\<close>

record cursor_str_replace =
  sr_old_text :: string
  sr_new_text :: string

record cursor_edit_args =
  ea_path :: string
  ea_apply_patch :: "string option"
  ea_str_replace :: "cursor_str_replace option"
  ea_multi_str_replace :: "cursor_str_replace list option"

text \<open>A successful edit with its diff, or anything else.\<close>

datatype cursor_edit_result = EditSuccess "string option" | EditUnknown json

record cursor_glob_args =
  ga_glob_pattern :: "string option"
  ga_path :: "string option"
  ga_target_directory :: "string option"

record cursor_mcp_args =
  ma_name :: string
  ma_args :: json
  ma_provider_identifier :: "string option"
  ma_tool_name :: "string option"

datatype cursor_tool_call =
    CT_Shell string "json option"
  | CT_LS string
  | CT_Glob cursor_glob_args
  | CT_Grep string
  | CT_SemSearch string
  | CT_Write string
  | CT_Read string
  | CT_Edit cursor_edit_args "cursor_edit_result option"
  | CT_Delete string
  | CT_Todo "(string \<times> string) list option"
  | CT_Mcp cursor_mcp_args "json option"
  | CT_Unknown "(string \<times> json) list"

datatype cursor_json =
    CJ_System "string option" "string option"
  | CJ_User "string option"
  | CJ_Assistant "string list" "string option"
  | CJ_Thinking "string option" "string option"
  | CJ_ToolCall "string option" "string option" cursor_tool_call "string option"
  | CJ_Result
  | CJ_Unknown

fun cursor_session_id :: "cursor_json \<Rightarrow> string option" where
  "cursor_session_id (CJ_System _ sid) = sid"
| "cursor_session_id (CJ_User sid) = sid"
| "cursor_session_id (CJ_Assistant _ sid) = sid"
| "cursor_session_id (CJ_Thinking _ sid) = sid"
| "cursor_session_id (CJ_ToolCall _ _ _ sid) = sid"
| "cursor_session_id CJ_Result = None"
| "cursor_session_id CJ_Unknown = None"

definition concat_text :: "string list \<Rightarrow> string option" where
  "concat_text texts = (let out = concat texts in if out = [] then None else Some out)"


section \<open>Results\<close>

record cursor_shell_outcome =
  co_stdout :: "string option"
  co_stderr :: "string option"
  co_exit_code :: "int option"

text \<open>\<^verbatim>\<open>success\<close> and \<^verbatim>\<open>failure\<close> of a wrapped result.\<close>

datatype 'o cursor_result = WrappedResult "'o option" "'o option" | FlatResult 'o | UnknownResult json

definition result_outcome :: "'o cursor_result \<Rightarrow> 'o option" where
  "result_outcome r =
     (case r of
        FlatResult out \<Rightarrow> Some out
      | WrappedResult s f \<Rightarrow> (case s of Some out \<Rightarrow> Some out | None \<Rightarrow> f)
      | UnknownResult _ \<Rightarrow> None)"

definition read_untagged ::
  "(json \<Rightarrow> ('o option \<times> 'o option) option) \<Rightarrow> (json \<Rightarrow> 'o option) \<Rightarrow> json \<Rightarrow> 'o cursor_result" where
  "read_untagged wrapped flat v =
     (case wrapped v of
        Some (s, f) \<Rightarrow> WrappedResult s f
      | None \<Rightarrow> (case flat v of Some out \<Rightarrow> FlatResult out | None \<Rightarrow> UnknownResult v))"

text \<open>An MCP outcome: the texts of its content items, where they have one.\<close>

type_synonym cursor_mcp_outcome = "string option list option"

fun join_paragraphs :: "string list \<Rightarrow> string" where
  "join_paragraphs [] = []"
| "join_paragraphs [s] = s"
| "join_paragraphs (s # ss) = s @ [newline, newline] @ join_paragraphs ss"

definition into_markdown :: "cursor_mcp_outcome cursor_result \<Rightarrow> string option" where
  "into_markdown r =
     Option.bind (result_outcome r) (\<lambda>content.
       let parts = List.map_filter id (case content of Some items \<Rightarrow> items | None \<Rightarrow> [])
       in if parts = [] then None else Some (join_paragraphs parts))"

record cursor_env =
  de_cursor_json :: "string \<Rightarrow> cursor_json option"
  de_shell_wrapped :: "json \<Rightarrow> (cursor_shell_outcome option \<times> cursor_shell_outcome option) option"
  de_shell_flat :: "json \<Rightarrow> cursor_shell_outcome option"
  de_mcp_wrapped :: "json \<Rightarrow> (cursor_mcp_outcome option \<times> cursor_mcp_outcome option) option"
  de_mcp_flat :: "json \<Rightarrow> cursor_mcp_outcome option"
  cu_differ :: differ
  cu_paths :: path_env
  cu_strip :: "string \<Rightarrow> string"


section \<open>Actions\<close>

definition backquoted :: "string \<Rightarrow> string" where
  "backquoted s = ''`'' @ s @ ''`''"

text \<open>The keys of an unknown call come in the order the hash map yields them.\<close>

fun cursor_tool_name :: "cursor_tool_call \<Rightarrow> string" where
  "cursor_tool_name (CT_Shell _ _) = ''shell''"
| "cursor_tool_name (CT_LS _) = ''ls''"
| "cursor_tool_name (CT_Glob _) = ''glob''"
| "cursor_tool_name (CT_Grep _) = ''grep''"
| "cursor_tool_name (CT_SemSearch _) = ''semsearch''"
| "cursor_tool_name (CT_Write _) = ''write''"
| "cursor_tool_name (CT_Read _) = ''read''"
| "cursor_tool_name (CT_Edit _ _) = ''edit''"
| "cursor_tool_name (CT_Delete _) = ''delete''"
| "cursor_tool_name (CT_Todo _) = ''todo''"
| "cursor_tool_name (CT_Mcp _ _) = ''mcp''"
| "cursor_tool_name (CT_Unknown data) = (case data of (k, _) # _ \<Rightarrow> k | [] \<Rightarrow> ''unknown'')"

definition hunks_edit :: "string \<Rightarrow> string list \<Rightarrow> file_change" where
  "hunks_edit path hunks = Edit (concatenate_diff_hunks path hunks) False"

definition edit_changes :: "cursor_env \<Rightarrow> string \<Rightarrow> cursor_edit_args \<Rightarrow> cursor_edit_result option \<Rightarrow> file_change list" where
  "edit_changes cu path args result =
     (let changes =
            (case ea_apply_patch args of Some content \<Rightarrow> [hunks_edit path (extract_unified_diff_hunks content)] | None \<Rightarrow> [])
            @ (case ea_str_replace args of
                 Some r \<Rightarrow> [Edit (create_unified_diff (cu_differ cu) path (sr_old_text r) (sr_new_text r)) False]
               | None \<Rightarrow> [])
            @ (case ea_multi_str_replace args of
                 Some edits \<Rightarrow>
                   [hunks_edit path (map (\<lambda>e. create_unified_diff_hunk (cu_differ cu) (sr_old_text e) (sr_new_text e)) edits)]
               | None \<Rightarrow> [])
      in if changes = []
         then (case result of
                 Some (EditSuccess (Some diff_string)) \<Rightarrow> [hunks_edit path (extract_unified_diff_hunks diff_string)]
               | _ \<Rightarrow> [])
         else changes)"

definition cursor_mcp_tool :: "cursor_mcp_args \<Rightarrow> string" where
  "cursor_mcp_tool args = (case ma_tool_name args of Some t \<Rightarrow> t | None \<Rightarrow> ma_name args)"

definition cursor_mcp_label :: "cursor_mcp_args \<Rightarrow> string" where
  "cursor_mcp_label args =
     ''mcp:'' @ (case ma_provider_identifier args of Some p \<Rightarrow> p | None \<Rightarrow> ''mcp'') @ '':'' @ cursor_mcp_tool args"

text \<open>Keys in the order of serde's sorted maps.\<close>

definition started_arguments :: "cursor_mcp_args \<Rightarrow> json" where
  "started_arguments args =
     JObject ([(''args'', ma_args args), (''name'', JString (ma_name args))]
       @ (case ma_provider_identifier args of Some p \<Rightarrow> [(''providerIdentifier'', JString p)] | None \<Rightarrow> [])
       @ (case ma_tool_name args of Some t \<Rightarrow> [(''toolName'', JString t)] | None \<Rightarrow> []))"

definition completed_arguments :: "cursor_mcp_args \<Rightarrow> json" where
  "completed_arguments args =
     JObject [(''args'', ma_args args), (''name'', JString (ma_name args)),
       (''providerIdentifier'', case ma_provider_identifier args of Some p \<Rightarrow> JString p | None \<Rightarrow> JNull),
       (''toolName'', case ma_tool_name args of Some t \<Rightarrow> JString t | None \<Rightarrow> JNull)]"

definition to_action_and_content :: "cursor_env \<Rightarrow> string \<Rightarrow> cursor_tool_call \<Rightarrow> action_type \<times> string" where
  "to_action_and_content cu wt call =
     (let rel = (\<lambda>p. make_path_relative (cu_paths cu) p wt)
      in case call of
        CT_Read path \<Rightarrow> (FileRead (rel path), backquoted (rel path))
      | CT_Write path \<Rightarrow> (FileEdit (rel path) [], backquoted (rel path))
      | CT_Edit args result \<Rightarrow>
          (FileEdit (rel (ea_path args)) (edit_changes cu (rel (ea_path args)) args result), backquoted (rel (ea_path args)))
      | CT_Delete path \<Rightarrow> (FileEdit (rel path) [Delete], backquoted (rel path))
      | CT_Shell command _ \<Rightarrow> (CommandRun command None, backquoted command)
      | CT_Grep pattern \<Rightarrow> (Search pattern, backquoted pattern)
      | CT_SemSearch query \<Rightarrow> (Search query, backquoted query)
      | CT_Glob args \<Rightarrow>
          (let pattern = (case ga_glob_pattern args of Some p \<Rightarrow> p | None \<Rightarrow> ''*'')
           in (Search pattern,
               case (case ga_path args of Some p \<Rightarrow> Some p | None \<Rightarrow> ga_target_directory args) of
                 Some path \<Rightarrow> ''Find files: '' @ backquoted pattern @ '' in '' @ backquoted (rel path)
               | None \<Rightarrow> ''Find files: '' @ backquoted pattern))
      | CT_LS path \<Rightarrow>
          (OtherAction ''List directory'',
           if rel path = [] then ''List directory'' else ''List directory: '' @ backquoted (rel path))
      | CT_Todo todos \<Rightarrow>
          (TodoManagement
             (map (\<lambda>(content, status). \<lparr> todo_content = content, todo_status = status, todo_priority = None \<rparr>)
               (case todos of Some ts \<Rightarrow> ts | None \<Rightarrow> []))
             ''write'',
           ''TODO list updated'')
      | CT_Mcp args _ \<Rightarrow> (Tool (cursor_mcp_label args) (Some (started_arguments args)) None, cursor_mcp_tool args)
      | CT_Unknown _ \<Rightarrow> (OtherAction (''Tool: '' @ cursor_tool_name call), cursor_tool_name call))"

definition shell_streams :: "cursor_env \<Rightarrow> json option \<Rightarrow> string option \<times> string option \<times> int option" where
  "shell_streams cu result =
     (case Option.bind result (\<lambda>v. result_outcome (read_untagged (de_shell_wrapped cu) (de_shell_flat cu) v)) of
        Some out \<Rightarrow> (co_stdout out, co_stderr out, co_exit_code out)
      | None \<Rightarrow> (None, None, None))"

definition not_blank :: "string \<Rightarrow> string option" where
  "not_blank s = (if trim s = [] then None else Some s)"

definition merge_output :: "string option \<Rightarrow> string option \<Rightarrow> string option" where
  "merge_output stdout_val stderr_val =
     (case (stdout_val, stderr_val) of
        (Some sout, Some serr) \<Rightarrow>
          if trim sout = [] \<and> trim serr = [] then None
          else if trim sout = [] then Some serr
          else if trim serr = [] then Some sout
          else Some (''STDOUT:'' @ [newline] @ trim sout @ [newline, newline] @ ''STDERR:'' @ [newline] @ trim serr)
      | (Some sout, None) \<Rightarrow> not_blank sout
      | (None, Some serr) \<Rightarrow> not_blank serr
      | (None, None) \<Rightarrow> None)"

definition completed_action :: "cursor_env \<Rightarrow> string \<Rightarrow> cursor_tool_call \<Rightarrow> action_type" where
  "completed_action cu wt call =
     (case call of
        CT_Shell command result \<Rightarrow>
          (let (sout, serr, code) = shell_streams cu result
           in CommandRun command (Some \<lparr> exit_status = map_option ExitCode code, run_output = merge_output sout serr \<rparr>))
      | CT_Mcp args result \<Rightarrow>
          Tool (cursor_mcp_label args) (Some (completed_arguments args))
            (map_option (\<lambda>s. \<lparr> tr_type = Markdown, tr_value = JString s \<rparr>)
              (Option.bind result (\<lambda>v. into_markdown (read_untagged (de_mcp_wrapped cu) (de_mcp_flat cu) v))))
      | _ \<Rightarrow> fst (to_action_and_content cu wt call))"

definition started_entry :: "cursor_env \<Rightarrow> string \<Rightarrow> cursor_tool_call \<Rightarrow> normalized_entry" where
  "started_entry cu wt call =
     (let (action, content) = to_action_and_content cu wt call
      in plain_entry (ToolUse (cursor_tool_name call) action TS_Created) content None)"

definition completed_entry :: "cursor_env \<Rightarrow> string \<Rightarrow> cursor_tool_call \<Rightarrow> normalized_entry" where
  "completed_entry cu wt call =
     plain_entry
       (ToolUse (case call of CT_Mcp args _ \<Rightarrow> cursor_mcp_label args | _ \<Rightarrow> cursor_tool_name call)
          (completed_action cu wt call) TS_Success)
       (snd (to_action_and_content cu wt call)) None"


section \<open>The loop over the output\<close>

record cursor_state =
  cr_model_reported :: bool
  cr_session_id_reported :: bool
  cr_assistant_buffer :: string
  cr_assistant_index :: "nat option"
  cr_thinking_buffer :: string
  cr_thinking_index :: "nat option"
  cr_calls :: "string \<rightharpoonup> nat"

definition new_cursor_state :: cursor_state where
  "new_cursor_state =
     \<lparr> cr_model_reported = False, cr_session_id_reported = False, cr_assistant_buffer = [], cr_assistant_index = None,
       cr_thinking_buffer = [], cr_thinking_index = None, cr_calls = Map.empty \<rparr>"

definition flush_assistant :: "cursor_state \<Rightarrow> cursor_state" where
  "flush_assistant st =
     (if cr_assistant_index st \<noteq> None then st\<lparr>cr_assistant_index := None, cr_assistant_buffer := []\<rparr> else st)"

definition flush_thinking :: "cursor_state \<Rightarrow> cursor_state" where
  "flush_thinking st =
     (if cr_thinking_index st \<noteq> None then st\<lparr>cr_thinking_index := None, cr_thinking_buffer := []\<rparr> else st)"

definition flush_for :: "cursor_json \<Rightarrow> cursor_state \<Rightarrow> cursor_state" where
  "flush_for j st =
     (case j of
        CJ_Assistant _ _ \<Rightarrow> flush_thinking st
      | CJ_Thinking _ _ \<Rightarrow> flush_assistant st
      | _ \<Rightarrow> flush_thinking (flush_assistant st))"

definition is_subtype :: "string \<Rightarrow> string option \<Rightarrow> bool" where
  "is_subtype name subtype = (case subtype of Some s \<Rightarrow> eq_ignore_ascii_case s name | None \<Rightarrow> False)"

definition cursor_add :: "normalized_entry \<Rightarrow> cursor_state \<Rightarrow> nat \<Rightarrow> patch list \<times> cursor_state \<times> nat" where
  "cursor_add entry st n = (let (pt, _, n1) = put_entry None entry n in ([pt], st, n1))"

definition cursor_tool_step ::
  "cursor_env \<Rightarrow> string \<Rightarrow> string option \<Rightarrow> string option \<Rightarrow> cursor_tool_call \<Rightarrow> cursor_state \<Rightarrow> nat
   \<Rightarrow> patch list \<times> cursor_state \<times> nat" where
  "cursor_tool_step cu wt subtype call_id call st n =
     (if is_subtype ''started'' subtype
      then (let (pt, i, n1) = put_entry None (started_entry cu wt call) n
            in ([pt], case call_id of Some c \<Rightarrow> st\<lparr>cr_calls := (cr_calls st)(c \<mapsto> i)\<rparr> | None \<Rightarrow> st, n1))
      else if is_subtype ''completed'' subtype
      then (case Option.bind call_id (cr_calls st) of
              Some i \<Rightarrow> ([replace_entry i (completed_entry cu wt call)], st, n)
            | None \<Rightarrow> ([], st, n))
      else ([], st, n))"

text \<open>One parsed line; \<open>line\<close> is its text, shown when its type is unknown.\<close>

definition cursor_json_step ::
  "cursor_env \<Rightarrow> string \<Rightarrow> string \<Rightarrow> cursor_json \<Rightarrow> cursor_state \<Rightarrow> nat \<Rightarrow> patch list \<times> cursor_state \<times> nat" where
  "cursor_json_step cu wt line j st0 n =
     (let st = flush_for j st0
      in case j of
           CJ_System model _ \<Rightarrow>
             (case model of
                Some m \<Rightarrow>
                  if cr_model_reported st then ([], st, n)
                  else cursor_add (plain_entry SystemMessage (''System initialized with model: '' @ m) None)
                         (st\<lparr>cr_model_reported := True\<rparr>) n
              | None \<Rightarrow> ([], st, n))
         | CJ_User _ \<Rightarrow> ([], st, n)
         | CJ_Assistant texts _ \<Rightarrow>
             (case concat_text texts of
                None \<Rightarrow> ([], st, n)
              | Some chunk \<Rightarrow>
                  (let buf = cr_assistant_buffer st @ chunk;
                       (pt, i, n1) = put_entry (cr_assistant_index st) (plain_entry AssistantMessage buf None) n
                   in ([pt], st\<lparr>cr_assistant_buffer := buf, cr_assistant_index := Some i\<rparr>, n1)))
         | CJ_Thinking text _ \<Rightarrow>
             (case text of
                None \<Rightarrow> ([], st, n)
              | Some chunk \<Rightarrow>
                  if chunk = [] then ([], st, n)
                  else (let buf = cr_thinking_buffer st @ chunk;
                            (pt, i, n1) = put_entry (cr_thinking_index st) (plain_entry Thinking buf None) n
                        in ([pt], st\<lparr>cr_thinking_buffer := buf, cr_thinking_index := Some i\<rparr>, n1)))
         | CJ_ToolCall subtype call_id call _ \<Rightarrow> cursor_tool_step cu wt subtype call_id call st n
         | CJ_Result \<Rightarrow> ([], st, n)
         | CJ_Unknown \<Rightarrow> cursor_add (plain_entry SystemMessage line None) st n)"

text \<open>One line: the session identifier is marked as reported before the line is handled.\<close>

definition cursor_line_step ::
  "cursor_env \<Rightarrow> string \<Rightarrow> string \<Rightarrow> cursor_state \<Rightarrow> nat \<Rightarrow> patch list \<times> cursor_state \<times> nat" where
  "cursor_line_step cu wt line st n =
     (case de_cursor_json cu line of
        None \<Rightarrow> if line = [] then ([], st, n) else cursor_add (plain_entry SystemMessage line None) st n
      | Some j \<Rightarrow>
          cursor_json_step cu wt line j
            (if \<not> cr_session_id_reported st \<and> cursor_session_id j \<noteq> None then st\<lparr>cr_session_id_reported := True\<rparr> else st) n)"

definition cursor_session_push :: "cursor_env \<Rightarrow> string \<Rightarrow> cursor_state \<Rightarrow> store_push list" where
  "cursor_session_push cu line st =
     (case Option.bind (de_cursor_json cu line) cursor_session_id of
        Some sid \<Rightarrow> if cr_session_id_reported st then [] else [PushSessionId sid]
      | None \<Rightarrow> [])"

fun cursor_normalize_logs :: "cursor_env \<Rightarrow> string \<Rightarrow> string list \<Rightarrow> cursor_state \<Rightarrow> nat \<Rightarrow> store_push list" where
  "cursor_normalize_logs cu wt [] st n = []"
| "cursor_normalize_logs cu wt (line # rest) st n =
     (let (ps, st1, n1) = cursor_line_step cu wt line st n
      in cursor_session_push cu line st @ map PushPatch ps @ cursor_normalize_logs cu wt rest st1 n1)"


section \<open>The loop over stderr\<close>

definition CURSOR_AUTH_REQUIRED_MSG :: string where
  "CURSOR_AUTH_REQUIRED_MSG =
     ''Authentication required. Please run '' @ [CHR 0x27] @ ''cursor-agent login'' @ [CHR 0x27]
     @ '' first, or set CURSOR_API_KEY environment variable.''"

definition login_entry :: "string \<Rightarrow> normalized_entry" where
  "login_entry content = plain_entry (ErrorMessage SetupRequired) content None"

fun cursor_stderr_loop ::
  "(patch \<Rightarrow> string option) \<Rightarrow> (string \<Rightarrow> string) \<Rightarrow> (datetime \<times> string) list \<Rightarrow> unit processor \<Rightarrow> msg_store \<Rightarrow> msg_store option" where
  "cursor_stderr_loop ser strip [] p s = Some s"
| "cursor_stderr_loop ser strip ((now, chunk) # rest) p s =
     (let content = strip chunk
      in if contains CURSOR_AUTH_REQUIRED_MSG content
         then (let (i, provider) = next_index (index_provider p)
               in cursor_stderr_loop ser strip rest (p\<lparr>index_provider := provider\<rparr>)
                    (push_patch ser (add_normalized_entry i (login_entry content)) s))
         else (case process now chunk p of
                 None \<Rightarrow> None
               | Some (patches, p1) \<Rightarrow> cursor_stderr_loop ser strip rest p1 (fold (push_patch ser) patches s)))"

end
