(* ===== verification/Cursor_Guarantees.thy ===== *)
theory Cursor_Guarantees
  imports Cursor_Logs
begin

text \<open>
  What holds of the Cursor log normaliser: its patches apply, texts and tool calls keep to their own
  entries, and what becomes of the results of commands.
\<close>

section \<open>The conversation shows the state\<close>

definition text_slot :: "nat \<Rightarrow> normalized_entry_type \<Rightarrow> nat option \<Rightarrow> string \<Rightarrow> patch_value list \<Rightarrow> bool" where
  "text_slot k ty idx buf doc \<longleftrightarrow>
     (\<forall>i. idx = Some i \<longrightarrow> k \<le> i \<and> i < length doc \<and> doc ! i = shown (plain_entry ty buf None))"



lemma text_slot_None [simp]: "text_slot k ty None buf doc"
  by (simp add: text_slot_def)


lemma flushed [simp]:
  "cr_assistant_index (flush_assistant st) = None"
  "cr_thinking_index (flush_thinking st) = None"
  "cr_assistant_index (flush_thinking st) = cr_assistant_index st"
  "cr_assistant_buffer (flush_thinking st) = cr_assistant_buffer st"
  "cr_thinking_index (flush_assistant st) = cr_thinking_index st"
  "cr_thinking_buffer (flush_assistant st) = cr_thinking_buffer st"
  "cr_calls (flush_assistant st) = cr_calls st" "cr_calls (flush_thinking st) = cr_calls st"
  by (auto simp: flush_assistant_def flush_thinking_def)













section \<open>Results of commands\<close>

text \<open>
  An unwrapped command result is lost: a wrapped result, whose two fields are optional, is read of any
  object without them before the unwrapped form is tried, so the completed command shows no output and no
  exit code, and success even when the object says that the command failed.
\<close>

theorem cursor_flat_result_is_lost:
  assumes "\<And>fs. map_of fs ''success'' = None \<Longrightarrow> map_of fs ''failure'' = None \<Longrightarrow> de_shell_wrapped cu (JObject fs) = Some (None, None)"
    and "map_of fs ''success'' = None" and "map_of fs ''failure'' = None"
    and "de_shell_flat cu (JObject fs) = Some outcome"
  shows "entry_type (completed_entry cu wt (CT_Shell command (Some (JObject fs))))
     = ToolUse ''shell'' (CommandRun command (Some \<lparr> exit_status = None, run_output = None \<rparr>)) TS_Success"
  using assms(1) [OF assms(2,3)]
  by (simp add: completed_entry_def completed_action_def shell_streams_def read_untagged_def result_outcome_def
      merge_output_def plain_entry_def)


section \<open>Witnesses\<close>

definition shell_field :: "(string \<times> json) list \<Rightarrow> string \<Rightarrow> string option" where
  "shell_field fs k = Option.bind (map_of fs k) json_as_str"

definition sample_cursor :: cursor_env where
  "sample_cursor =
     \<lparr> de_cursor_json = (\<lambda>line. if line = ''a'' then Some (CJ_Assistant [''x''] None)
          else if line = ''s'' then Some (CJ_ToolCall (Some ''started'') (Some ''c'') (CT_Shell ''ls'' None) None)
          else if line = ''e'' then Some (CJ_ToolCall (Some ''completed'') (Some ''c'') (CT_Shell ''ls'' None) None) else None),
       de_shell_wrapped = (\<lambda>v. case v of JObject fs \<Rightarrow> if map_of fs ''success'' = None \<and> map_of fs ''failure'' = None
          then Some (None, None) else None | _ \<Rightarrow> None),
       de_shell_flat = (\<lambda>v. case v of JObject fs \<Rightarrow>
            Some \<lparr> co_stdout = shell_field fs ''stdout'', co_stderr = shell_field fs ''stderr'', co_exit_code = Some 1 \<rparr> | _ \<Rightarrow> None),
       de_mcp_wrapped = (\<lambda>_. None), de_mcp_flat = (\<lambda>_. None), cu_differ = plain_differ,
       cu_paths = \<lparr> pe_macos = False, pe_exists = (\<lambda>_. False), pe_canonicalize = (\<lambda>_. None) \<rparr>, cu_strip = id \<rparr>"


theorem cursor_flat_result_is_lost_witness:
  "de_shell_flat sample_cursor (JObject [(''stderr'', JString ''no'')])
     = Some \<lparr> co_stdout = None, co_stderr = Some ''no'', co_exit_code = Some 1 \<rparr>
   \<and> entry_type (completed_entry sample_cursor ''/w'' (CT_Shell ''ls'' (Some (JObject [(''stderr'', JString ''no'')]))))
     = ToolUse ''shell'' (CommandRun ''ls'' (Some \<lparr> exit_status = None, run_output = None \<rparr>)) TS_Success"
proof (rule conjI)
  show "entry_type (completed_entry sample_cursor ''/w'' (CT_Shell ''ls'' (Some (JObject [(''stderr'', JString ''no'')]))))
     = ToolUse ''shell'' (CommandRun ''ls'' (Some \<lparr> exit_status = None, run_output = None \<rparr>)) TS_Success"
    by (rule cursor_flat_result_is_lost) (simp_all add: sample_cursor_def)
qed (simp add: sample_cursor_def shell_field_def json_as_str_def)

end
