(* ===== verification/Opencode_Logs.thy ===== *)
theory Opencode_Logs
  imports Conversation Unified_Diff
begin

text \<open>
  The log normaliser of OpenCode, \<^verbatim>\<open>crates/executors/src/executors/opencode.rs\<close>: the share events, whose
  text parts are gathered per message and segment, and the error lines of stderr.

  What serde reads of a line and of the content of an event, and the regular expression of log lines, are
  fields of \<open>opencode_env\<close>.  Writing a typed input as JSON and reading it back is the identity.
\<close>

section \<open>Events\<close>

record todo_info =
  ti_content :: string
  ti_status :: string
  ti_priority :: "string option"

record oc_tool_input =
  ti_file_path :: "string option"
  ti_path :: "string option"
  ti_include :: "string option"
  ti_pattern :: "string option"
  ti_command :: "string option"
  ti_description :: "string option"
  ti_url :: "string option"
  ti_format :: "string option"
  ti_timeout :: "nat option"
  ti_file_content :: "string option"
  ti_todos :: "todo_info list option"

definition default_tool_input :: oc_tool_input where
  "default_tool_input =
     \<lparr> ti_file_path = None, ti_path = None, ti_include = None, ti_pattern = None, ti_command = None, ti_description = None,
       ti_url = None, ti_format = None, ti_timeout = None, ti_file_content = None, ti_todos = None \<rparr>"

record oc_tool_metadata =
  tm_description :: "string option"
  tm_exit :: "int option"
  tm_diff :: "string option"

record oc_tool_state =
  os_input :: "oc_tool_input option"
  os_metadata :: "oc_tool_metadata option"
  os_output :: "string option"
  os_status :: "string option"
  os_title :: "string option"

definition default_tool_state :: oc_tool_state where
  "default_tool_state = \<lparr> os_input = None, os_metadata = None, os_output = None, os_status = None, os_title = None \<rparr>"

text \<open>The identifier, the message and the text of a text part; those of a tool part with the tool and its state.\<close>

datatype share_content =
    SharedText string string "string option"
  | SharedTool string string string "oc_tool_state option"

record share_envelope =
  se_session_id :: string
  se_key :: string
  se_content :: json

record opencode_env =
  de_envelope :: "string \<Rightarrow> share_envelope option"
  de_message_meta :: "json \<Rightarrow> (string \<times> string option) option"
  de_share_content :: "json \<Rightarrow> share_content option"
  log_regex :: "string \<Rightarrow> bool"
  oe_paths :: path_env


section \<open>Tools\<close>

definition or_text :: "string \<Rightarrow> string option \<Rightarrow> string" where
  "or_text d v = (case v of Some t \<Rightarrow> t | None \<Rightarrow> d)"

definition derive_action_type :: "path_env \<Rightarrow> string \<Rightarrow> string \<Rightarrow> oc_tool_state \<Rightarrow> action_type option" where
  "derive_action_type pe wt tool_name state =
     (let input = (case os_input state of Some i \<Rightarrow> i | None \<Rightarrow> default_tool_input);
          rel = make_path_relative pe (or_text [] (ti_file_path input)) wt
      in if tool_name = ''read'' then Some (FileRead rel)
         else if tool_name = ''write'' then Some (FileEdit rel [Write (or_text [] (ti_file_content input))])
         else if tool_name = ''edit''
         then (let diff = or_text [] (Option.bind (os_metadata state) tm_diff)
               in if diff = [] then None else Some (FileEdit rel [Edit diff False]))
         else if tool_name = ''bash'' then Some (CommandRun (or_text [] (ti_command input)) None)
         else if tool_name = ''grep'' \<or> tool_name = ''glob'' then Some (Search (or_text [] (ti_pattern input)))
         else if tool_name = ''webfetch'' then Some (WebFetch (or_text [] (ti_url input)))
         else if tool_name = ''todowrite''
         then Some (TodoManagement
                (map (\<lambda>t. \<lparr> todo_content = ti_content t, todo_status = ti_status t, todo_priority = ti_priority t \<rparr>)
                  (case ti_todos input of Some ts \<Rightarrow> ts | None \<Rightarrow> []))
                ''write'')
         else if tool_name = ''todoread'' then Some (TodoManagement [] ''read'')
         else None)"

text \<open>The result and the text of a state.\<close>

definition tool_outcome :: "string \<Rightarrow> oc_tool_state \<Rightarrow> tool_result option \<times> string" where
  "tool_outcome tool state =
     (let status = or_text [] (os_status state)
      in if status = ''completed''
         then (let title = or_text [] (os_title state)
               in (Some \<lparr> tr_type = Markdown, tr_value = JString (or_text [] (os_output state)) \<rparr>,
                   (if title = [] then tool @ '' completed'' else tool @ '': '' @ title) @ [newline]))
         else if status = ''error''
         then (let err = or_text [] (Option.bind (os_metadata state) tm_description)
               in (Some \<lparr> tr_type = Markdown, tr_value = JString (''Error: '' @ err) \<rparr>, tool @ '' error: '' @ err @ [newline]))
         else if status = ''running'' then (None, tool @ '' started'' @ [newline])
         else (None, []))"

definition quoted_path :: "string \<Rightarrow> string" where
  "quoted_path s = ''`'' @ s @ ''`''"

text \<open>The concise text of a known tool, when the state has an input.\<close>

definition concise_text :: "path_env \<Rightarrow> string \<Rightarrow> string \<Rightarrow> oc_tool_input \<Rightarrow> string option" where
  "concise_text pe wt tool input =
     (let rel = (\<lambda>p. make_path_relative pe p wt); dir = rel (or_text ''.'' (ti_path input)); pat = or_text [] (ti_pattern input)
      in if tool = ''read'' then Some (quoted_path (rel (or_text [] (ti_file_path input))))
         else if tool = ''list'' then Some (''List directory: '' @ quoted_path dir)
         else if tool = ''grep''
         then Some (case ti_include input of
                      Some inc \<Rightarrow> quoted_path pat @ '' in '' @ quoted_path dir @ '' ('' @ inc @ '')''
                    | None \<Rightarrow> quoted_path pat @ '' in '' @ quoted_path dir)
         else if tool = ''glob'' then Some (''glob '' @ quoted_path pat @ '' in '' @ quoted_path dir)
         else if tool = ''webfetch'' then Some (''fetch '' @ quoted_path (or_text [] (ti_url input)))
         else None)"

definition json_field :: "string \<Rightarrow> string option \<Rightarrow> (string \<times> json) list" where
  "json_field k v = (case v of Some t \<Rightarrow> [(k, JString t)] | None \<Rightarrow> [])"

text \<open>The arguments, with the keys in the order of serde's sorted maps.\<close>

definition args_json :: "path_env \<Rightarrow> string \<Rightarrow> oc_tool_state \<Rightarrow> json" where
  "args_json pe wt state =
     (case os_input state of
        None \<Rightarrow> JNull
      | Some input \<Rightarrow>
          (let rel = map_option (\<lambda>p. make_path_relative pe p wt)
           in JObject (json_field ''command'' (ti_command input) @ json_field ''description'' (ti_description input)
                @ json_field ''filePath'' (rel (ti_file_path input)) @ json_field ''format'' (ti_format input)
                @ json_field ''include'' (ti_include input) @ json_field ''path'' (rel (ti_path input))
                @ json_field ''pattern'' (ti_pattern input)
                @ (case ti_timeout input of Some t \<Rightarrow> [(''timeout'', JNumber (show_nat t))] | None \<Rightarrow> [])
                @ json_field ''url'' (ti_url input))))"

definition attach_result :: "oc_tool_state \<Rightarrow> tool_result option \<Rightarrow> action_type \<Rightarrow> action_type" where
  "attach_result state result action =
     (case (action, result) of
        (CommandRun command _, Some res) \<Rightarrow>
          CommandRun command (Some \<lparr> exit_status = map_option ExitCode (Option.bind (os_metadata state) tm_exit),
                                    run_output = json_as_str (tr_value res) \<rparr>)
      | _ \<Rightarrow> action)"

definition tool_part_entry :: "path_env \<Rightarrow> string \<Rightarrow> string \<Rightarrow> oc_tool_state \<Rightarrow> normalized_entry" where
  "tool_part_entry pe wt tool state =
     (let (result, outcome_text) = tool_outcome tool state;
          content = (case Option.bind (os_input state) (concise_text pe wt tool) of Some t \<Rightarrow> t | None \<Rightarrow> outcome_text);
          action = (case derive_action_type pe wt tool state of
                      Some a \<Rightarrow> attach_result state result a
                    | None \<Rightarrow> Tool tool (Some (args_json pe wt state)) result)
      in plain_entry (ToolUse tool action TS_Success) content None)"


section \<open>The loop over the share events\<close>

record opencode_state =
  ox_by_part :: "string \<rightharpoonup> nat"
  ox_by_message :: "string \<rightharpoonup> nat"
  ox_order :: "string \<Rightarrow> string list"
  ox_texts :: "string \<Rightarrow> string \<rightharpoonup> string"
  ox_aggregated :: "string \<rightharpoonup> string"
  ox_segment :: "string \<Rightarrow> nat"
  ox_break :: "string \<Rightarrow> bool"
  ox_roles :: "string \<rightharpoonup> string"
  ox_session_set :: bool

definition new_opencode_state :: opencode_state where
  "new_opencode_state =
     \<lparr> ox_by_part = Map.empty, ox_by_message = Map.empty, ox_order = (\<lambda>_. []), ox_texts = (\<lambda>_. Map.empty),
       ox_aggregated = Map.empty, ox_segment = (\<lambda>_. 0), ox_break = (\<lambda>_. False), ox_roles = Map.empty, ox_session_set = False \<rparr>"

definition base_key :: "string \<Rightarrow> string \<Rightarrow> string" where
  "base_key session_id message_id = session_id @ '':'' @ message_id"

definition segment_key :: "opencode_state \<Rightarrow> string \<Rightarrow> string" where
  "segment_key st base = base @ ''#'' @ show_nat (ox_segment st base)"

definition role_entry :: "string \<Rightarrow> string \<Rightarrow> normalized_entry" where
  "role_entry role content = plain_entry (if role = ''system'' then SystemMessage else AssistantMessage) content None"

text \<open>The entry of a message segment is added once and replaced afterwards.\<close>

definition upsert_message ::
  "string \<Rightarrow> normalized_entry \<Rightarrow> opencode_state \<Rightarrow> nat \<Rightarrow> patch list \<times> opencode_state \<times> nat" where
  "upsert_message key entry st n =
     (let (pt, i, n1) = put_entry (ox_by_message st key) entry n
      in ([pt], st\<lparr>ox_by_message := (ox_by_message st)(key \<mapsto> i)\<rparr>, n1))"

definition message_step ::
  "string \<Rightarrow> string \<Rightarrow> string option \<Rightarrow> opencode_state \<Rightarrow> nat \<Rightarrow> patch list \<times> opencode_state \<times> nat" where
  "message_step session_id message_id role st n =
     (case role of
        None \<Rightarrow> ([], st, n)
      | Some r \<Rightarrow>
          (let st1 = st\<lparr>ox_roles := (ox_roles st)(message_id \<mapsto> r)\<rparr>; key = segment_key st1 (base_key session_id message_id)
           in case ox_aggregated st1 key of
                None \<Rightarrow> ([], st1, n)
              | Some content \<Rightarrow> if r = ''user'' then ([], st1, n) else upsert_message key (role_entry r content) st1 n))"

text \<open>Gathering a text part: a pending break starts the next segment of its message.\<close>

definition gather_text :: "string \<Rightarrow> string \<Rightarrow> string \<Rightarrow> string \<Rightarrow> opencode_state \<Rightarrow> string \<times> opencode_state" where
  "gather_text session_id message_id part txt st =
     (let base = base_key session_id message_id;
          st1 = (if ox_break st base then st\<lparr>ox_segment := (ox_segment st)(base := Suc (ox_segment st base))\<rparr> else st)
                  \<lparr>ox_break := (ox_break st)(base := False)\<rparr>;
          key = segment_key st1 base;
          order = (if part \<in> set (ox_order st1 key) then ox_order st1 key else ox_order st1 key @ [part]);
          texts = (ox_texts st1 key)(part \<mapsto> txt);
          aggregated = concat (List.map_filter texts order)
      in (key, st1\<lparr>ox_order := (ox_order st1)(key := order), ox_texts := (ox_texts st1)(key := texts),
                   ox_aggregated := (ox_aggregated st1)(key \<mapsto> aggregated)\<rparr>))"

definition text_step ::
  "string \<Rightarrow> string \<Rightarrow> string \<Rightarrow> string option \<Rightarrow> opencode_state \<Rightarrow> nat \<Rightarrow> patch list \<times> opencode_state \<times> nat" where
  "text_step session_id part message_id txt st n =
     (let (key, st1) = gather_text session_id message_id part (or_text [] txt) st
      in case ox_roles st1 message_id of
           None \<Rightarrow> ([], st1, n)
         | Some role \<Rightarrow>
             if role = ''user'' then ([], st1, n)
             else upsert_message key (role_entry role (or_text [] (ox_aggregated st1 key))) st1 n)"

definition tool_step ::
  "path_env \<Rightarrow> string \<Rightarrow> string \<Rightarrow> string \<Rightarrow> string \<Rightarrow> string \<Rightarrow> oc_tool_state option \<Rightarrow> opencode_state \<Rightarrow> nat
   \<Rightarrow> patch list \<times> opencode_state \<times> nat" where
  "tool_step pe wt session_id part message_id tool state st n =
     (let base = base_key session_id message_id;
          pending = (case ox_aggregated st (segment_key st base) of Some s \<Rightarrow> s \<noteq> [] | None \<Rightarrow> False);
          st1 = (if pending then st\<lparr>ox_break := (ox_break st)(base := True)\<rparr> else st);
          entry = tool_part_entry pe wt tool (case state of Some s \<Rightarrow> s | None \<Rightarrow> default_tool_state);
          (pt, i, n1) = put_entry (ox_by_part st1 part) entry n
      in ([pt], st1\<lparr>ox_by_part := (ox_by_part st1)(part \<mapsto> i)\<rparr>, n1))"

definition envelope_step ::
  "opencode_env \<Rightarrow> string \<Rightarrow> share_envelope \<Rightarrow> opencode_state \<Rightarrow> nat \<Rightarrow> patch list \<times> opencode_state \<times> nat" where
  "envelope_step oe wt env st0 n =
     (let st = st0\<lparr>ox_session_set := True\<rparr>
      in if starts_with ''session/message/'' (se_key env)
         then (case de_message_meta oe (se_content env) of
                 Some (message_id, role) \<Rightarrow> message_step (se_session_id env) message_id role st n
               | None \<Rightarrow> ([], st, n))
         else if \<not> starts_with ''session/part/'' (se_key env) then ([], st, n)
         else (case de_share_content oe (se_content env) of
                 Some (SharedText part message_id txt) \<Rightarrow> text_step (se_session_id env) part message_id txt st n
               | Some (SharedTool part message_id tool state) \<Rightarrow>
                   tool_step (oe_paths oe) wt (se_session_id env) part message_id tool state st n
               | None \<Rightarrow> ([], st, n)))"

definition share_line_step ::
  "opencode_env \<Rightarrow> string \<Rightarrow> string \<Rightarrow> opencode_state \<Rightarrow> nat \<Rightarrow> patch list \<times> opencode_state \<times> nat" where
  "share_line_step oe wt line st n =
     (case de_envelope oe line of None \<Rightarrow> ([], st, n) | Some env \<Rightarrow> envelope_step oe wt env st n)"

definition SHARE_PREFIX :: string where
  "SHARE_PREFIX = ''[oc-share] ''"

definition share_lines :: "string list \<Rightarrow> string list" where
  "share_lines ls = List.map_filter (strip_prefix SHARE_PREFIX) ls"

fun process_share_events :: "opencode_env \<Rightarrow> string \<Rightarrow> string list \<Rightarrow> opencode_state \<Rightarrow> nat \<Rightarrow> store_push list" where
  "process_share_events oe wt [] st n = []"
| "process_share_events oe wt (line # rest) st n =
     (let (ps, st1, n1) = share_line_step oe wt line st n
      in (case de_envelope oe line of
            Some env \<Rightarrow> if ox_session_set st then [] else [PushSessionId (se_session_id env)]
          | None \<Rightarrow> [])
         @ map PushPatch ps @ process_share_events oe wt rest st1 n1)"


section \<open>Error lines\<close>

definition is_error_line :: "string \<Rightarrow> bool" where
  "is_error_line line = starts_with ''!  '' line"

definition opencode_log_lines :: "opencode_env \<Rightarrow> string list \<Rightarrow> string list" where
  "opencode_log_lines oe ls = filter (\<lambda>line. log_regex oe line \<or> is_error_line line) ls"

fun process_opencode_log_lines :: "string list \<Rightarrow> nat \<Rightarrow> patch list \<times> nat" where
  "process_opencode_log_lines [] n = ([], n)"
| "process_opencode_log_lines (line # rest) n =
     (if starts_with ''ERROR'' line \<or> is_error_line line
      then (let (pt, _, n1) = put_entry None (plain_entry (ErrorMessage OtherError) line None) n;
                (ps, n2) = process_opencode_log_lines rest n1
            in (pt # ps, n2))
      else process_opencode_log_lines rest n)"

end
