(* ===== verification/Opencode_Guarantees.thy ===== *)
theory Opencode_Guarantees
  imports Opencode_Logs
begin

text \<open>
  What holds of the OpenCode log normaliser: its patches apply, texts and tool parts keep to their own
  entries, and the text that is lost when the role of a message comes late.
\<close>

section \<open>The conversation shows the state\<close>

text \<open>Every index a table holds is that of an entry of the wanted kind, past the first \<open>k\<close> entries.\<close>

definition slots :: "(normalized_entry \<Rightarrow> bool) \<Rightarrow> nat \<Rightarrow> (string \<rightharpoonup> nat) \<Rightarrow> patch_value list \<Rightarrow> bool" where
  "slots kind k table doc \<longleftrightarrow>
     (\<forall>c i. table c = Some i \<longrightarrow> k \<le> i \<and> i < length doc \<and> (\<exists>e. doc ! i = shown e \<and> kind e))"

lemma slots_empty [simp]: "slots kind k Map.empty doc"
  by (simp add: slots_def)

lemma slots_after:
  assumes "slots kind k table doc" and "length doc \<le> length doc'" and "\<And>j. j < length doc \<Longrightarrow> j \<noteq> i \<Longrightarrow> doc' ! j = doc ! j"
    and "\<And>c. table c = Some i \<Longrightarrow> \<exists>e. doc' ! i = shown e \<and> kind e"
  shows "slots kind k table doc'"
  unfolding slots_def
proof (intro allI impI)
  fix c j
  assume j: "table c = Some j"
  with assms(1) have "k \<le> j" "j < length doc" "\<exists>e. doc ! j = shown e \<and> kind e" by (auto simp: slots_def)
  with assms(2-4) j show "k \<le> j \<and> j < length doc' \<and> (\<exists>e. doc' ! j = shown e \<and> kind e)" by (cases "j = i") auto
qed

text \<open>An entry put for a key of one table leaves the entries of the other table alone.\<close>

lemma upsert_slots:
  assumes "put_entry (table c) e (length doc) = (pt, i, n1)" and "length doc < usize_max" and "kind e"
    and "slots kind (length base) table doc" and "slots other (length base) table' doc"
    and "\<And>x. kind x \<Longrightarrow> \<not> other x" and "length base \<le> length doc" and "take (length base) doc = base"
  shows "\<exists>doc'. read_patches [pt] doc = Some doc' \<and> length doc' = n1 \<and> n1 \<le> length doc + 1 \<and> length base \<le> length doc'
     \<and> take (length base) doc' = base \<and> slots kind (length base) (table(c \<mapsto> i)) doc' \<and> slots other (length base) table' doc'"
proof -
  have "table c = Some j \<Longrightarrow> j < length doc" for j using assms(4) by (simp add: slots_def)
  from put_entry_shows [OF assms(1) this assms(2)] obtain doc' where doc': "read_patches [pt] doc = Some doc'" "length doc' = n1"
      "n1 \<le> Suc (length doc)" "length doc \<le> n1" "i < n1" "doc' ! i = shown e"
      "\<And>k. k < length doc \<Longrightarrow> k \<noteq> i \<Longrightarrow> doc' ! k = doc ! k"
      "i = (case table c of Some j \<Rightarrow> j | None \<Rightarrow> length doc)" by blast
  have len: "length doc \<le> length doc'" using doc'(2,4) by simp
  have i: "length base \<le> i" using doc'(8) assms(4,7) by (auto simp: slots_def split: option.splits)
  have "slots kind (length base) table doc'"
    by (rule slots_after [where i = i, OF assms(4) len doc'(7)]) (use doc'(6) assms(3) in auto)
  then have "slots kind (length base) (table(c \<mapsto> i)) doc'" using i doc'(2,5,6) assms(3) by (auto simp: slots_def)
  moreover have "table' d \<noteq> Some i" for d
  proof
    assume d: "table' d = Some i"
    with assms(5) obtain x where x: "i < length doc" "doc ! i = shown x" "other x" by (auto simp: slots_def)
    with doc'(8) have "table c = Some i" by (auto split: option.splits)
    with assms(4) obtain y where "doc ! i = shown y" "kind y" by (auto simp: slots_def)
    with x(2) have "kind x" by simp
    with assms(6) x(3) show False by blast
  qed
  then have "slots other (length base) table' doc'"
    by (intro slots_after [where i = i, OF assms(5) len doc'(7)]) auto
  moreover have "take (length base) doc' = base"
  proof (rule nth_equalityI)
    fix j
    assume "j < length (take (length base) doc')"
    then show "take (length base) doc' ! j = base ! j"
      using assms(7) i doc'(7) [of j] arg_cong [OF assms(8), of "\<lambda>l. l ! j"] by simp
  qed (use assms(7) len in simp)
  ultimately show ?thesis using doc' len assms(7) by auto
qed

definition is_message :: "normalized_entry \<Rightarrow> bool" where
  "is_message e \<longleftrightarrow> entry_type e = AssistantMessage \<or> entry_type e = SystemMessage"

lemma message_is_no_tool: "is_message e \<Longrightarrow> \<not> is_tool_use e" "is_tool_use e \<Longrightarrow> \<not> is_message e"
  by (auto simp: is_message_def is_tool_use_def)

lemma entry_kinds [simp]: "is_message (role_entry r t)" "is_tool_use (tool_part_entry pe wt tool s)"
  by (auto simp: is_message_def role_entry_def plain_entry_def tool_part_entry_def is_tool_use_def split: prod.split)

definition opencode_view :: "patch_value list \<Rightarrow> opencode_state \<Rightarrow> patch_value list \<Rightarrow> bool" where
  "opencode_view base st doc \<longleftrightarrow>
     length base \<le> length doc \<and> take (length base) doc = base
     \<and> slots is_tool_use (length base) (ox_by_part st) doc \<and> slots is_message (length base) (ox_by_message st) doc"

definition opencode_step_ok :: "patch_value list \<Rightarrow> patch_value list \<Rightarrow> patch list \<times> opencode_state \<times> nat \<Rightarrow> bool" where
  "opencode_step_ok base doc r \<longleftrightarrow>
     (case r of (ps, st, n) \<Rightarrow> \<exists>doc'. read_patches ps doc = Some doc' \<and> length doc' = n \<and> n \<le> length doc + 1 \<and> opencode_view base st doc')"

lemma quiet_step_ok: "opencode_view base st doc \<Longrightarrow> opencode_step_ok base doc ([], st, length doc)"
  by (simp add: opencode_step_ok_def)

lemma view_cong:
  "ox_by_part st' = ox_by_part st \<Longrightarrow> ox_by_message st' = ox_by_message st \<Longrightarrow> opencode_view base st' doc = opencode_view base st doc"
  by (simp add: opencode_view_def)

lemma upsert_message_ok:
  assumes "opencode_view base st doc" and "length doc < usize_max"
  shows "opencode_step_ok base doc (upsert_message key (role_entry r t) st (length doc))"
proof -
  obtain pt i n1 where pe: "put_entry (ox_by_message st key) (role_entry r t) (length doc) = (pt, i, n1)" by (metis prod.exhaust)
  have "slots is_message (length base) (ox_by_message st) doc" "slots is_tool_use (length base) (ox_by_part st) doc"
    "length base \<le> length doc" "take (length base) doc = base"
    using assms(1) by (simp_all add: opencode_view_def)
  from upsert_slots [where table = "ox_by_message st" and kind = is_message and base = base, OF pe assms(2) _ this(1,2) _ this(3,4)]
    message_is_no_tool(1) pe show ?thesis
    by (auto simp: opencode_step_ok_def upsert_message_def opencode_view_def)
qed

lemma tool_part_step_ok:
  assumes "opencode_view base st doc" and "length doc < usize_max"
  shows "opencode_step_ok base doc (tool_step pe wt sid part mid tool state st (length doc))"
proof -
  let ?e = "tool_part_entry pe wt tool (case state of Some s \<Rightarrow> s | None \<Rightarrow> default_tool_state)"
  obtain pt i n1 where pe: "put_entry (ox_by_part st part) ?e (length doc) = (pt, i, n1)" by (metis prod.exhaust)
  have "slots is_tool_use (length base) (ox_by_part st) doc" "slots is_message (length base) (ox_by_message st) doc"
    "length base \<le> length doc" "take (length base) doc = base"
    using assms(1) by (simp_all add: opencode_view_def)
  from upsert_slots [where table = "ox_by_part st" and kind = is_tool_use and base = base, OF pe assms(2) _ this(1,2) _ this(3,4)] message_is_no_tool(2) pe
  show ?thesis by (auto simp: opencode_step_ok_def tool_step_def opencode_view_def Let_def)
qed

lemma gather_text_tables [simp]:
  "gather_text sid mid part t st = (key, st1) \<Longrightarrow> ox_by_part st1 = ox_by_part st"
  "gather_text sid mid part t st = (key, st1) \<Longrightarrow> ox_by_message st1 = ox_by_message st"
  by (auto simp: gather_text_def Let_def)

lemma text_step_ok:
  assumes "opencode_view base st doc" and "length doc < usize_max"
  shows "opencode_step_ok base doc (text_step sid part mid t st (length doc))"
proof -
  obtain key st1 where g: "gather_text sid mid part (or_text [] t) st = (key, st1)" by (metis prod.exhaust)
  then have "opencode_view base st1 doc" using assms(1) view_cong gather_text_tables by metis
  with g assms(2) show ?thesis
    by (auto simp: text_step_def quiet_step_ok upsert_message_ok split: option.split)
qed

lemma message_step_ok:
  assumes "opencode_view base st doc" and "length doc < usize_max"
  shows "opencode_step_ok base doc (message_step sid mid role st (length doc))"
proof (cases role)
  case (Some r)
  have "opencode_view base (st\<lparr>ox_roles := (ox_roles st)(mid \<mapsto> r)\<rparr>) doc" using assms(1) by (simp add: opencode_view_def)
  with Some assms(2) show ?thesis
    by (auto simp: message_step_def Let_def quiet_step_ok upsert_message_ok split: option.split)
qed (use assms in \<open>simp add: message_step_def quiet_step_ok\<close>)

lemma share_line_step_ok:
  assumes "opencode_view base st doc" and "length doc < usize_max"
  shows "opencode_step_ok base doc (share_line_step oe wt line st (length doc))"
proof -
  have "opencode_view base (st\<lparr>ox_session_set := True\<rparr>) doc" using assms(1) by (simp add: opencode_view_def)
  with assms show ?thesis
    by (auto simp: share_line_step_def envelope_step_def Let_def
        intro!: quiet_step_ok message_step_ok text_step_ok tool_part_step_ok split: option.split share_content.split)
qed

interpretation opencode: conversation_view "share_line_step oe wt" "opencode_view base" "\<lambda>_. 1"
proof
  fix st doc line ps st' n'
  assume "opencode_view base st doc" "length doc + 1 \<le> usize_max" "share_line_step oe wt line st (length doc) = (ps, st', n')"
  with share_line_step_ok [of base st doc oe wt line] show
    "\<exists>doc'. read_patches ps doc = Some doc' \<and> length doc' = n' \<and> n' \<le> length doc + 1 \<and> opencode_view base st' doc'"
    by (simp add: opencode_step_ok_def)
qed

text \<open>
  C27: The patches of OpenCode's share events always apply, whatever lines arrive: the entries that were there
  before are unchanged, the entry of every tool part is a tool use and the entry of every message segment is
  a message, so neither ever overwrites an entry of the other.
\<close>

theorem opencode_patches_apply:
  assumes "normalize_all (share_line_step oe wt) ls new_opencode_state (length doc) = (ps, st, n)"
    and "length doc + length ls \<le> usize_max"
  shows "\<exists>doc'. read_patches ps doc = Some doc' \<and> length doc' = n \<and> take (length doc) doc' = doc
     \<and> (\<forall>part i. ox_by_part st part = Some i \<longrightarrow> i < n \<and> (\<exists>e. doc' ! i = TypedValue (PT_NormalizedEntry e) \<and> is_tool_use e))
     \<and> (\<forall>key i. ox_by_message st key = Some i \<longrightarrow> i < n \<and> (\<exists>e. doc' ! i = TypedValue (PT_NormalizedEntry e) \<and> is_message e))"
proof -
  have "opencode_view doc new_opencode_state doc" by (simp add: opencode_view_def new_opencode_state_def)
  from opencode.run_view [OF this _ assms(1)] assms(2) obtain doc' where
    "read_patches ps doc = Some doc'" "length doc' = n" "opencode_view doc st doc'"
    by (auto simp: sum_list_triv)
  then show ?thesis by (auto simp: opencode_view_def slots_def)
qed


section \<open>Texts\<close>

text \<open>The text of a segment is that of its parts, each in its latest version and in the place of its first.\<close>

lemma gather_text_spec:
  fixes sid mid part t st
  defines "key \<equiv> fst (gather_text sid mid part t st)" and "st' \<equiv> snd (gather_text sid mid part t st)"
  shows "ox_aggregated st' key = Some (concat (List.map_filter (ox_texts st' key) (ox_order st' key)))"
    and "ox_texts st' key part = Some t" and "part \<in> set (ox_order st' key)"
    and "key' \<noteq> key \<Longrightarrow> ox_aggregated st' key' = ox_aggregated st key'"
  by (simp_all add: key_def st'_def gather_text_def Let_def)

lemma text_step_unknown:
  assumes "ox_roles st mid = None"
  shows "text_step sid part mid t st n = ([], snd (gather_text sid mid part (or_text [] t) st), n)"
proof -
  obtain key st1 where g: "gather_text sid mid part (or_text [] t) st = (key, st1)" by (metis prod.exhaust)
  have "ox_roles (snd (gather_text sid mid part (or_text [] t) st)) = ox_roles st" by (simp add: gather_text_def Let_def)
  with g assms show ?thesis by (simp add: text_step_def)
qed

text \<open>
  Text is lost when the role of a message arrives after a tool part has split it: of the texts gathered
  while the role was unknown, only the segment that is current when the role arrives gets an entry.  The
  segment before the tool part stays gathered and is never shown by the event that tells the role.
\<close>

theorem late_role_loses_text:
  assumes "t1 \<noteq> []" and "n + 1 < usize_max"
    and "text_step sid p1 mid (Some t1) new_opencode_state n = (ps1, st1, n1)"
    and "tool_step pe wt sid q mid tool state st1 n1 = (ps2, st2, n2)"
    and "text_step sid p2 mid (Some t2) st2 n2 = (ps3, st3, n3)"
    and "message_step sid mid (Some ''assistant'') st3 n3 = (ps4, st4, n4)"
  shows "ps1 @ ps2 @ ps3 @ ps4 =
     [add_normalized_entry n (tool_part_entry pe wt tool (case state of Some s \<Rightarrow> s | None \<Rightarrow> default_tool_state)),
      add_normalized_entry (n + 1) (role_entry ''assistant'' t2)]
     \<and> ox_aggregated st4 (base_key sid mid @ ''#0'') = Some t1 \<and> ox_by_message st4 (base_key sid mid @ ''#0'') = None"
proof -
  have digits: "show_nat 0 = ''0''" "show_nat (Suc 0) = ''1''" by code_simp+
  note defs = gather_text_def new_opencode_state_def segment_key_def Let_def or_text_def List.map_filter_simps
  have st1: "st1 = snd (gather_text sid mid p1 t1 new_opencode_state)" "ps1 = []" "n1 = n"
    using assms(3) text_step_unknown [of new_opencode_state mid] by (simp_all add: or_text_def new_opencode_state_def)
  have 1: "ox_aggregated st1 = [base_key sid mid @ ''#0'' \<mapsto> t1]" "ox_break st1 = (\<lambda>_. False)"
    "ox_segment st1 = (\<lambda>_. 0)" "ox_roles st1 = Map.empty" "ox_by_part st1 = Map.empty" "ox_by_message st1 = Map.empty"
    "ox_order st1 = (\<lambda>_. [])(base_key sid mid @ ''#0'' := [p1])"
    by (simp_all add: st1(1) defs digits fun_eq_iff)
  have 2: "ps2 = [add_normalized_entry n (tool_part_entry pe wt tool (case state of Some s \<Rightarrow> s | None \<Rightarrow> default_tool_state))]"
    "n2 = n + 1" "ox_aggregated st2 = ox_aggregated st1" "ox_break st2 (base_key sid mid)"
    "ox_segment st2 = (\<lambda>_. 0)" "ox_roles st2 = Map.empty" "ox_by_message st2 = Map.empty" "ox_order st2 = ox_order st1"
    using assms(1,2,4) 1 st1 by (auto simp: tool_step_def Let_def segment_key_def digits put_entry_def next_index_exact split: option.splits)
  have st3: "st3 = snd (gather_text sid mid p2 t2 st2)" "ps3 = []" "n3 = n + 1"
    using assms(5) text_step_unknown [of st2 mid] 2 by (simp_all add: or_text_def)
  have 3: "ox_aggregated st3 = (ox_aggregated st1)(base_key sid mid @ ''#1'' \<mapsto> t2)"
    "ox_segment st3 (base_key sid mid) = 1" "ox_by_message st3 = Map.empty"
    unfolding st3(1) gather_text_def Let_def if_P [OF 2(4)]
    by (simp_all add: segment_key_def List.map_filter_simps digits 2(3,5,7,8) 1(7))
  have "ps4 = [add_normalized_entry (n + 1) (role_entry ''assistant'' t2)]"
    "ox_aggregated st4 = ox_aggregated st3" "ox_by_message st4 (base_key sid mid @ ''#0'') = None"
    using assms(2,6) st3 3
    by (auto simp: message_step_def upsert_message_def segment_key_def digits put_entry_def next_index_exact)
  with st1 st3 1 2 3 show ?thesis by simp
qed


section \<open>Witnesses\<close>

definition sample_opencode :: opencode_env where
  "sample_opencode =
     \<lparr> de_envelope = (\<lambda>line. if line = ''m'' then Some \<lparr> se_session_id = ''s'', se_key = ''session/message/m'', se_content = JNull \<rparr>
          else if line = ''t'' then Some \<lparr> se_session_id = ''s'', se_key = ''session/part/t'', se_content = JString ''t'' \<rparr>
          else if line = ''u'' then Some \<lparr> se_session_id = ''s'', se_key = ''session/part/u'', se_content = JString ''u'' \<rparr> else None),
       de_message_meta = (\<lambda>_. Some (''m'', Some ''assistant'')),
       de_share_content = (\<lambda>v. if v = JString ''t'' then Some (SharedText ''p'' ''m'' (Some ''hello''))
          else Some (SharedTool ''q'' ''m'' ''read'' None)),
       log_regex = (\<lambda>_. False),
       oe_paths = \<lparr> pe_macos = False, pe_exists = (\<lambda>_. False), pe_canonicalize = (\<lambda>_. None) \<rparr> \<rparr>"

theorem opencode_patches_apply_witness:
  "\<exists>ps st n doc'. normalize_all (share_line_step sample_opencode ''/w'') [''m'', ''t'', ''u'', ''t'', ''?''] new_opencode_state 0 = (ps, st, n)
     \<and> read_patches ps [] = Some doc' \<and> length doc' = n
     \<and> (\<forall>part i. ox_by_part st part = Some i \<longrightarrow> i < n \<and> (\<exists>e. doc' ! i = TypedValue (PT_NormalizedEntry e) \<and> is_tool_use e))"
proof -
  let ?ls = "[''m'', ''t'', ''u'', ''t'', ''?'']"
  obtain ps st n where run:
    "normalize_all (share_line_step sample_opencode ''/w'') ?ls new_opencode_state (length ([] :: patch_value list)) = (ps, st, n)"
    by (metis prod.exhaust)
  have "length ([] :: patch_value list) + length ?ls \<le> usize_max" by (simp add: usize_max_def)
  from opencode_patches_apply [OF run this] run show ?thesis by auto
qed

theorem late_role_loses_text_witness:
  "\<exists>ps1 ps2 ps3 ps4 st1 st2 st3 st4 n1 n2 n3 n4.
     text_step ''s'' ''p'' ''m'' (Some ''first'') new_opencode_state 0 = (ps1, st1, n1)
     \<and> tool_step (oe_paths sample_opencode) ''/w'' ''s'' ''q'' ''m'' ''read'' None st1 n1 = (ps2, st2, n2)
     \<and> text_step ''s'' ''r'' ''m'' (Some ''second'') st2 n2 = (ps3, st3, n3)
     \<and> message_step ''s'' ''m'' (Some ''assistant'') st3 n3 = (ps4, st4, n4)
     \<and> ps1 @ ps2 @ ps3 @ ps4 =
        [add_normalized_entry 0 (tool_part_entry (oe_paths sample_opencode) ''/w'' ''read'' default_tool_state),
         add_normalized_entry 1 (role_entry ''assistant'' ''second'')]"
proof -
  obtain ps1 st1 n1 where 1: "text_step ''s'' ''p'' ''m'' (Some ''first'') new_opencode_state 0 = (ps1, st1, n1)" by (metis prod.exhaust)
  obtain ps2 st2 n2 where 2: "tool_step (oe_paths sample_opencode) ''/w'' ''s'' ''q'' ''m'' ''read'' None st1 n1 = (ps2, st2, n2)"
    by (metis prod.exhaust)
  obtain ps3 st3 n3 where 3: "text_step ''s'' ''r'' ''m'' (Some ''second'') st2 n2 = (ps3, st3, n3)" by (metis prod.exhaust)
  obtain ps4 st4 n4 where 4: "message_step ''s'' ''m'' (Some ''assistant'') st3 n3 = (ps4, st4, n4)" by (metis prod.exhaust)
  have "(0::nat) + 1 < usize_max" by (simp add: usize_max_def)
  from late_role_loses_text [OF _ this 1 2 3 4] 1 2 3 4 show ?thesis by auto
qed

end
