(* ===== verification/Agent_Commands.thy ===== *)
theory Agent_Commands
  imports Executor_Actions Plain_Text Codex_Logs
begin

text \<open>
  The command lines of the agents: \<^verbatim>\<open>crates/executors/src/command.rs\<close>, the \<^verbatim>\<open>build_command_builder\<close> of
  every agent under \<^verbatim>\<open>crates/executors/src/executors\<close>, the permission settings of Claude, the conversation
  parameters of Codex and the output loop of Copilot.

  \<open>shlex\<close> stands for \<^verbatim>\<open>shlex::split\<close>, which the code calls on the joined command line on Unix.
\<close>

section \<open>The command builder\<close>

datatype command_build_error = InvalidBase string | EmptyCommand | QuoteError string

record command_parts =
  cp_program :: string
  cp_args :: "string list"

record cmd_overrides =
  base_command_override :: "string option"
  additional_params :: "string list option"

record command_builder =
  cb_base :: string
  cb_params :: "string list option"

definition new_builder :: "string \<Rightarrow> command_builder" where
  "new_builder base = \<lparr> cb_base = base, cb_params = None \<rparr>"

definition with_params :: "string list \<Rightarrow> command_builder \<Rightarrow> command_builder" where
  "with_params params b = b\<lparr>cb_params := Some params\<rparr>"

definition override_base :: "string \<Rightarrow> command_builder \<Rightarrow> command_builder" where
  "override_base base b = b\<lparr>cb_base := base\<rparr>"

definition extend_params :: "string list \<Rightarrow> command_builder \<Rightarrow> command_builder" where
  "extend_params added b =
     b\<lparr>cb_params := Some (case cb_params b of Some p \<Rightarrow> p @ added | None \<Rightarrow> added)\<rparr>"

definition simple_join :: "command_builder \<Rightarrow> string list \<Rightarrow> string" where
  "simple_join b additional_args =
     join_words ([cb_base b] @ (case cb_params b of Some p \<Rightarrow> p | None \<Rightarrow> []) @ additional_args)"

definition split_command_line :: "(string \<Rightarrow> string list option) \<Rightarrow> string \<Rightarrow> command_build_error + string list" where
  "split_command_line shlex input = (case shlex input of Some parts \<Rightarrow> Inr parts | None \<Rightarrow> Inl (InvalidBase input))"

text \<open>Taking the program out of an empty list panics.\<close>

datatype build_outcome = BuildOk command_parts | BuildError command_build_error | BuildPanic

definition build_command :: "(string \<Rightarrow> string list option) \<Rightarrow> command_builder \<Rightarrow> string list \<Rightarrow> build_outcome" where
  "build_command shlex b additional_args =
     (case split_command_line shlex (simple_join b additional_args) of
        Inl e \<Rightarrow> BuildError e
      | Inr [] \<Rightarrow> BuildPanic
      | Inr (program # args) \<Rightarrow> BuildOk \<lparr> cp_program = program, cp_args = args \<rparr>)"

definition build_initial :: "(string \<Rightarrow> string list option) \<Rightarrow> command_builder \<Rightarrow> build_outcome" where
  "build_initial shlex b = build_command shlex b []"

definition build_follow_up :: "(string \<Rightarrow> string list option) \<Rightarrow> command_builder \<Rightarrow> string list \<Rightarrow> build_outcome" where
  "build_follow_up shlex b additional_args = build_command shlex b additional_args"

definition apply_overrides :: "command_builder \<Rightarrow> cmd_overrides \<Rightarrow> command_builder" where
  "apply_overrides b overrides =
     (let b1 = (case base_command_override overrides of Some base \<Rightarrow> override_base base b | None \<Rightarrow> b)
      in case additional_params overrides of Some extra \<Rightarrow> extend_params extra b1 | None \<Rightarrow> b1)"

text \<open>\<^verbatim>\<open>into_resolved\<close>: looking the program up.\<close>

definition into_resolved :: "(string \<Rightarrow> string option) \<Rightarrow> command_parts \<Rightarrow> string + (string \<times> string list)" where
  "into_resolved resolve parts =
     (case resolve (cp_program parts) of
        Some executable \<Rightarrow> Inr (executable, cp_args parts)
      | None \<Rightarrow> Inl (cp_program parts))"

text \<open>A flag that is added when an optional switch is on, and one with a value when there is one.\<close>

definition switched :: "bool option \<Rightarrow> bool" where
  "switched b \<longleftrightarrow> b = Some True"

definition when_on :: "bool \<Rightarrow> string list \<Rightarrow> command_builder \<Rightarrow> command_builder" where
  "when_on c params b = (if c then extend_params params b else b)"

definition with_value :: "string \<Rightarrow> string option \<Rightarrow> command_builder \<Rightarrow> command_builder" where
  "with_value flag v b = (case v of Some x \<Rightarrow> extend_params [flag, x] b | None \<Rightarrow> b)"


section \<open>Claude\<close>

datatype permission_mode = PM_Default | PM_AcceptEdits | PM_Plan | PM_BypassPermissions

fun permission_mode_name :: "permission_mode \<Rightarrow> string" where
  "permission_mode_name PM_Default = ''default''"
| "permission_mode_name PM_AcceptEdits = ''acceptEdits''"
| "permission_mode_name PM_Plan = ''plan''"
| "permission_mode_name PM_BypassPermissions = ''bypassPermissions''"

record claude_code =
  cc_append_prompt :: "string option"
  cc_router :: "bool option"
  cc_plan :: "bool option"
  cc_approvals :: "bool option"
  cc_model :: "string option"
  cc_skip_permissions :: "bool option"
  cc_cmd :: cmd_overrides

definition claude_base_command :: "bool \<Rightarrow> string" where
  "claude_base_command claude_code_router =
     (if claude_code_router then ''npx -y @musistudio/claude-code-router@1.0.58 code''
      else ''npx -y @anthropic-ai/claude-code@2.0.55'')"

definition claude_command_builder :: "claude_code \<Rightarrow> command_builder" where
  "claude_command_builder c =
     (let b0 = with_params [''-p''] (new_builder (claude_base_command (switched (cc_router c))));
          b1 = (if switched (cc_plan c) \<or> switched (cc_approvals c)
                then extend_params [''--permission-mode='' @ permission_mode_name PM_BypassPermissions]
                       (extend_params [''--permission-prompt-tool=stdio''] b0)
                else b0);
          b2 = when_on (switched (cc_skip_permissions c)) [''--dangerously-skip-permissions''] b1;
          b3 = with_value ''--model'' (cc_model c) b2;
          b4 = extend_params [''--verbose'', ''--output-format=stream-json'', ''--input-format=stream-json'',
                 ''--include-partial-messages''] b3
      in apply_overrides b4 (cc_cmd c))"

definition claude_permission_mode :: "claude_code \<Rightarrow> permission_mode" where
  "claude_permission_mode c =
     (if switched (cc_plan c) then PM_Plan
      else if switched (cc_approvals c) then PM_Default else PM_BypassPermissions)"

definition tool_approval_hook :: "string \<Rightarrow> json" where
  "tool_approval_hook matcher =
     JObject [(''PreToolUse'', JArray [JObject [(''hookCallbackIds'', JArray [JString ''tool_approval'']), (''matcher'', JString matcher)]])]"

definition claude_get_hooks :: "claude_code \<Rightarrow> json option" where
  "claude_get_hooks c =
     (if switched (cc_plan c) then Some (tool_approval_hook ''^ExitPlanMode$'')
      else if switched (cc_approvals c)
      then Some (tool_approval_hook ''^(?!(Glob|Grep|NotebookRead|Read|Task|TodoWrite)$).*'')
      else None)"

definition claude_follow_up_args :: "string \<Rightarrow> string list" where
  "claude_follow_up_args session_id = [''--fork-session'', ''--resume'', session_id]"


section \<open>Codex\<close>

datatype sandbox_mode = SM_Auto | SM_ReadOnly | SM_WorkspaceWrite | SM_DangerFullAccess

datatype ask_for_approval = UnlessTrusted | OnFailure | OnRequest | NeverAsk

datatype codex_sandbox = CS_ReadOnly | CS_WorkspaceWrite | CS_DangerFullAccess

datatype reasoning_effort = EffortLow | EffortMedium | EffortHigh

datatype reasoning_summary = SummaryAuto | SummaryConcise | SummaryDetailed | SummaryNone

datatype reasoning_summary_format = FormatNone | FormatExperimental

record codex_agent =
  cx_append_prompt :: "string option"
  cx_sandbox :: "sandbox_mode option"
  cx_ask_for_approval :: "ask_for_approval option"
  cx_oss :: "bool option"
  cx_model :: "string option"
  cx_reasoning_effort :: "reasoning_effort option"
  cx_reasoning_summary :: "reasoning_summary option"
  cx_summary_format :: "reasoning_summary_format option"
  cx_profile :: "string option"
  cx_base_instructions :: "string option"
  cx_include_apply_patch_tool :: "bool option"
  cx_cmd :: cmd_overrides

record new_conversation_params =
  np_model :: "string option"
  np_profile :: "string option"
  np_cwd :: "string option"
  np_approval_policy :: "ask_for_approval option"
  np_sandbox :: "codex_sandbox option"
  np_config :: "(string \<rightharpoonup> json) option"
  np_base_instructions :: "string option"
  np_include_apply_patch_tool :: "bool option"

definition codex_command_builder :: "codex_agent \<Rightarrow> command_builder" where
  "codex_command_builder c =
     apply_overrides (when_on (switched (cx_oss c)) [''--oss''] (new_builder ''npx -y @openai/codex@0.55.0 app-server'')) (cx_cmd c)"

fun effort_name :: "reasoning_effort \<Rightarrow> string" where
  "effort_name EffortLow = ''low''"
| "effort_name EffortMedium = ''medium''"
| "effort_name EffortHigh = ''high''"

fun summary_name :: "reasoning_summary \<Rightarrow> string" where
  "summary_name SummaryAuto = ''auto''"
| "summary_name SummaryConcise = ''concise''"
| "summary_name SummaryDetailed = ''detailed''"
| "summary_name SummaryNone = ''none''"

fun summary_format_name :: "reasoning_summary_format \<Rightarrow> string" where
  "summary_format_name FormatNone = ''none''"
| "summary_format_name FormatExperimental = ''experimental''"

definition build_config_overrides :: "codex_agent \<Rightarrow> (string \<rightharpoonup> json) option" where
  "build_config_overrides c =
     (let o1 = (case cx_reasoning_effort c of
                  Some e \<Rightarrow> [''model_reasoning_effort'' \<mapsto> JString (effort_name e)] | None \<Rightarrow> Map.empty);
          o2 = (case cx_reasoning_summary c of
                  Some s \<Rightarrow> o1(''model_reasoning_summary'' \<mapsto> JString (summary_name s)) | None \<Rightarrow> o1);
          o3 = (case cx_summary_format c of
                  Some f \<Rightarrow> if f \<noteq> FormatNone then o2(''model_reasoning_summary_format'' \<mapsto> JString (summary_format_name f)) else o2
                | None \<Rightarrow> o2)
      in if cx_reasoning_effort c = None \<and> cx_reasoning_summary c = None
            \<and> (cx_summary_format c = None \<or> cx_summary_format c = Some FormatNone)
         then None else Some o3)"

definition build_new_conversation_params :: "codex_agent \<Rightarrow> string \<Rightarrow> new_conversation_params" where
  "build_new_conversation_params c cwd =
     \<lparr> np_model = cx_model c,
       np_profile = cx_profile c,
       np_cwd = Some cwd,
       np_approval_policy =
         (case cx_ask_for_approval c of
            None \<Rightarrow> if cx_sandbox c = None \<or> cx_sandbox c = Some SM_Auto then Some OnRequest else None
          | Some a \<Rightarrow> Some a),
       np_sandbox =
         (case cx_sandbox c of
            None \<Rightarrow> Some CS_WorkspaceWrite
          | Some SM_Auto \<Rightarrow> Some CS_WorkspaceWrite
          | Some SM_ReadOnly \<Rightarrow> Some CS_ReadOnly
          | Some SM_WorkspaceWrite \<Rightarrow> Some CS_WorkspaceWrite
          | Some SM_DangerFullAccess \<Rightarrow> Some CS_DangerFullAccess),
       np_config = build_config_overrides c,
       np_base_instructions = cx_base_instructions c,
       np_include_apply_patch_tool = cx_include_apply_patch_tool c \<rparr>"


section \<open>The other agents\<close>

record cursor_agent =
  cu_force :: "bool option"
  cu_model :: "string option"
  cu_cmd :: cmd_overrides

definition cursor_command_builder :: "cursor_agent \<Rightarrow> command_builder" where
  "cursor_command_builder c =
     apply_overrides
       (with_value ''--model'' (cu_model c)
         (when_on (switched (cu_force c)) [''--force'']
           (with_params [''-p'', ''--output-format=stream-json''] (new_builder ''cursor-agent''))))
       (cu_cmd c)"

datatype gemini_model = GeminiDefault | GeminiFlash

record gemini_agent =
  ge_model :: gemini_model
  ge_yolo :: "bool option"
  ge_cmd :: cmd_overrides

definition gemini_model_builder :: "gemini_model \<Rightarrow> command_builder" where
  "gemini_model_builder m =
     when_on (m = GeminiFlash) [''--model'', ''gemini-2.5-flash''] (new_builder ''npx -y @google/gemini-cli@0.18.4'')"

definition gemini_command_builder :: "gemini_agent \<Rightarrow> command_builder" where
  "gemini_command_builder g =
     apply_overrides
       (extend_params [''--experimental-acp''] (when_on (switched (ge_yolo g)) [''--yolo''] (gemini_model_builder (ge_model g))))
       (ge_cmd g)"

record qwen_agent =
  qw_yolo :: "bool option"
  qw_cmd :: cmd_overrides

definition qwen_command_builder :: "qwen_agent \<Rightarrow> command_builder" where
  "qwen_command_builder q =
     apply_overrides
       (extend_params [''--experimental-acp'']
         (when_on (switched (qw_yolo q)) [''--yolo''] (new_builder ''npx -y @qwen-code/qwen-code@0.0.14'')))
       (qw_cmd q)"

record amp_agent =
  am_allow_all :: "bool option"
  am_cmd :: cmd_overrides

definition amp_command_builder :: "amp_agent \<Rightarrow> command_builder" where
  "amp_command_builder a =
     apply_overrides
       (when_on (switched (am_allow_all a)) [''--dangerously-allow-all'']
         (with_params [''--execute'', ''--stream-json''] (new_builder ''npx -y @sourcegraph/amp@0.0.1761050239-g36fe88'')))
       (am_cmd a)"

text \<open>The thread that a fork printed: the last line that is not blank.\<close>

definition amp_new_thread_id :: "string \<Rightarrow> string + string" where
  "amp_new_thread_id stdout =
     (let new_thread_id = trim (case List.find (\<lambda>l. trim l \<noteq> []) (rev (str_lines stdout)) of Some l \<Rightarrow> l | None \<Rightarrow> [])
      in if new_thread_id = [] then Inl ''AMP threads fork did not return a thread id'' else Inr new_thread_id)"

record opencode_agent =
  oc_model :: "string option"
  oc_agent :: "string option"
  oc_cmd :: cmd_overrides

definition opencode_command_builder :: "opencode_agent \<Rightarrow> command_builder" where
  "opencode_command_builder c =
     apply_overrides
       (with_value ''--agent'' (oc_agent c)
         (with_value ''--model'' (oc_model c)
           (with_params [''--print-logs'', ''--log-level'', ''ERROR''] (new_builder ''npx -y opencode-ai@0.15.8 run''))))
       (oc_cmd c)"

record copilot_agent =
  po_model :: "string option"
  po_allow_all_tools :: "bool option"
  po_allow_tool :: "string option"
  po_deny_tool :: "string option"
  po_add_dir :: "string list option"
  po_disable_mcp_server :: "string list option"
  po_cmd :: cmd_overrides

definition with_each :: "string \<Rightarrow> string list option \<Rightarrow> command_builder \<Rightarrow> command_builder" where
  "with_each flag vs b = (case vs of Some xs \<Rightarrow> fold (\<lambda>x. extend_params [flag, x]) xs b | None \<Rightarrow> b)"

definition copilot_command_builder :: "copilot_agent \<Rightarrow> string \<Rightarrow> command_builder" where
  "copilot_command_builder c log_dir =
     (let b0 = with_params [''--no-color'', ''--log-level'', ''debug'', ''--log-dir'', log_dir]
                 (new_builder ''npx -y @github/copilot@0.0.337'');
          b1 = when_on (switched (po_allow_all_tools c)) [''--allow-all-tools''] b0;
          b2 = with_value ''--model'' (po_model c) b1;
          b3 = with_value ''--allow-tool'' (po_allow_tool c) b2;
          b4 = with_value ''--deny-tool'' (po_deny_tool c) b3;
          b5 = with_each ''--add-dir'' (po_add_dir c) b4;
          b6 = with_each ''--disable-mcp-server'' (po_disable_mcp_server c) b5
      in apply_overrides b6 (po_cmd c))"

definition SESSION_PREFIX :: string where
  "SESSION_PREFIX = ''[copilot-session] ''"

definition create_simple_stdout_normalizer :: "(string \<Rightarrow> string) \<Rightarrow> entry_index_provider \<Rightarrow> datetime \<Rightarrow> unit processor" where
  "create_simple_stdout_normalizer strip provider now =
     new_processor (\<lambda>content. plain_entry AssistantMessage content None) None None None
       (Some (\<lambda>_ ls. (map strip ls, ()))) () None provider now"

text \<open>The output of Copilot: what is pushed to the store for the lines, with their arrival times.\<close>

fun copilot_loop :: "(datetime \<times> string) list \<Rightarrow> unit processor \<Rightarrow> store_push list option" where
  "copilot_loop [] p = Some []"
| "copilot_loop ((now, line) # rest) p =
     (case strip_prefix SESSION_PREFIX line of
        Some session_id \<Rightarrow> map_option (\<lambda>r. PushSessionId (trim session_id) # r) (copilot_loop rest p)
      | None \<Rightarrow>
          (case process now (line @ [newline]) p of
             None \<Rightarrow> None
           | Some (patches, p1) \<Rightarrow> map_option (\<lambda>r. map PushPatch patches @ r) (copilot_loop rest p1)))"

end
