(* ===== verification/Agent_Clients.thy ===== *)
theory Agent_Clients
  imports Agent_Commands
begin

text \<open>
  The clients that talk to a running agent about permissions: Claude's control protocol
  (\<^verbatim>\<open>crates/executors/src/executors/claude/client.rs\<close> and \<^verbatim>\<open>claude/protocol.rs\<close>) and the callbacks of the
  Codex app server client (\<^verbatim>\<open>codex/client.rs\<close>).

  The approval service, the writer of the log and the protocol texts are fields of \<open>client_env\<close>; what a
  client does is the list of its effects, in order.
\<close>

section \<open>Effects\<close>

datatype permission_update_type = SetMode | AddRules | RemoveRules | ClearRules

datatype permission_update_destination = SessionDestination | UserSettings | ProjectSettings | LocalSettings

record permission_update =
  pu_type :: permission_update_type
  pu_mode :: "permission_mode option"
  pu_destination :: permission_update_destination

datatype permission_result =
    AllowTool json "permission_update list option"
  | DenyTool string "bool option"

datatype codex_decision = RD_Approved | RD_ApprovedForSession | RD_Denied | RD_Abort

datatype client_effect =
    Asked string json string
  | Logged string
  | PermissionSent string permission_result
  | HookSent string json
  | ErrorSent string string
  | ReviewSent string codex_decision
  | AcceptSent string
  | NullSent string
  | FeedbackSent string string

text \<open>
  \<open>ask\<close> is \<^verbatim>\<open>request_tool_approval\<close> of the service with the tool, its input and the call; \<open>log_error\<close> is the
  error with which writing a line fails, if it does.
\<close>

record client_env =
  ask :: "string \<Rightarrow> json \<Rightarrow> string \<Rightarrow> string + approval_status"
  log_error :: "string \<Rightarrow> string option"
  approval_line :: "string \<Rightarrow> string \<Rightarrow> approval_status \<Rightarrow> string"

definition log_raw :: "client_env \<Rightarrow> string \<Rightarrow> client_effect list \<times> (string + unit)" where
  "log_raw ce raw = (case log_error ce raw of None \<Rightarrow> ([Logged raw], Inr ()) | Some e \<Rightarrow> ([], Inl e))"


section \<open>Claude\<close>

record claude_client =
  ac_service :: bool
  ac_auto_approve :: bool
  ac_latest_tool_use_id :: "string option"

definition new_claude_client :: "bool \<Rightarrow> claude_client" where
  "new_claude_client service = \<lparr> ac_service = service, ac_auto_approve = (\<not> service), ac_latest_tool_use_id = None \<rparr>"

definition EXIT_PLAN_MODE_NAME :: string where
  "EXIT_PLAN_MODE_NAME = ''ExitPlanMode''"

fun approval_result :: "string \<Rightarrow> json \<Rightarrow> approval_status \<Rightarrow> permission_result" where
  "approval_result tool_name tool_input AS_Approved =
     (if tool_name = EXIT_PLAN_MODE_NAME
      then AllowTool tool_input (Some [\<lparr> pu_type = SetMode, pu_mode = Some PM_BypassPermissions, pu_destination = SessionDestination \<rparr>])
      else AllowTool tool_input None)"
| "approval_result tool_name tool_input (AS_Denied reason) =
     DenyTool (case reason of Some r \<Rightarrow> r | None \<Rightarrow> ''Denied by user'') (Some False)"
| "approval_result tool_name tool_input AS_TimedOut = DenyTool ''Approval request timed out'' (Some False)"
| "approval_result tool_name tool_input AS_Pending = DenyTool ''Approval still pending (unexpected)'' (Some False)"

definition handle_approval ::
  "client_env \<Rightarrow> claude_client \<Rightarrow> string \<Rightarrow> string \<Rightarrow> json \<Rightarrow> client_effect list \<times> (string + permission_result)" where
  "handle_approval ce c tool_use_id tool_name tool_input =
     (if \<not> ac_service c then ([], Inl ''executor approval service unavailable'')
      else (case ask ce tool_name tool_input tool_use_id of
              Inl _ \<Rightarrow> ([Asked tool_name tool_input tool_use_id], Inr (DenyTool ''Tool approval request failed'' (Some False)))
            | Inr status \<Rightarrow>
                (case log_raw ce (approval_line ce tool_use_id tool_name status) of
                   (logged, Inl e) \<Rightarrow> (Asked tool_name tool_input tool_use_id # logged, Inl e)
                 | (logged, Inr _) \<Rightarrow>
                     (Asked tool_name tool_input tool_use_id # logged, Inr (approval_result tool_name tool_input status)))))"

definition on_can_use_tool ::
  "client_env \<Rightarrow> string \<Rightarrow> json \<Rightarrow> claude_client \<Rightarrow> client_effect list \<times> (string + permission_result) \<times> claude_client" where
  "on_can_use_tool ce tool_name input c =
     (if ac_auto_approve c then ([], Inr (AllowTool input None), c)
      else (case ac_latest_tool_use_id c of
              Some tool_use_id \<Rightarrow>
                (let c1 = c\<lparr>ac_latest_tool_use_id := None\<rparr>; (effects, r) = handle_approval ce c1 tool_use_id tool_name input
                 in (effects, r, c1))
            | None \<Rightarrow> ([], Inr (AllowTool input None), c)))"

definition hook_output :: "string \<Rightarrow> string \<Rightarrow> json" where
  "hook_output decision reason =
     JObject [(''hookSpecificOutput'', JObject
       [(''hookEventName'', JString ''PreToolUse''), (''permissionDecision'', JString decision),
        (''permissionDecisionReason'', JString reason)])]"

definition on_hook_callback :: "string option \<Rightarrow> claude_client \<Rightarrow> json \<times> claude_client" where
  "on_hook_callback tool_use_id c =
     (if ac_auto_approve c then (hook_output ''allow'' ''Auto-approved by SDK'', c)
      else (hook_output ''ask'' ''Forwarding to canusetool service'',
            case tool_use_id of Some i \<Rightarrow> c\<lparr>ac_latest_tool_use_id := Some i\<rparr> | None \<Rightarrow> c))"

datatype control_request = CanUseTool string json | HookCallback "string option"

text \<open>Sending an answer to the agent that fails is only reported.\<close>

definition handle_control_request ::
  "client_env \<Rightarrow> string \<Rightarrow> control_request \<Rightarrow> claude_client \<Rightarrow> client_effect list \<times> claude_client" where
  "handle_control_request ce request_id request c =
     (case request of
        CanUseTool tool_name input \<Rightarrow>
          (let (effects, r, c1) = on_can_use_tool ce tool_name input c
           in (effects @ [case r of Inr result \<Rightarrow> PermissionSent request_id result | Inl e \<Rightarrow> ErrorSent request_id e], c1))
      | HookCallback tool_use_id \<Rightarrow>
          (let (out, c1) = on_hook_callback tool_use_id c in ([HookSent request_id out], c1)))"

datatype cli_message = ControlRequest string control_request | ControlResponse | ResultMessage | OtherMessage

text \<open>
  \<^verbatim>\<open>read_loop\<close> over the lines up to the end of the output; \<open>de_cli\<close> reads a line, \<open>None\<close> when that
  fails.  The result says whether the loop ended with an error of the log.
\<close>

fun read_loop ::
  "client_env \<Rightarrow> (string \<Rightarrow> cli_message option) \<Rightarrow> string list \<Rightarrow> claude_client \<Rightarrow> client_effect list \<times> (string + unit) \<times> claude_client" where
  "read_loop ce de_cli [] c = ([], Inr (), c)"
| "read_loop ce de_cli (raw # rest) c =
     (let line = trim raw
      in if line = [] then read_loop ce de_cli rest c
         else (case de_cli line of
                 Some (ControlRequest request_id request) \<Rightarrow>
                   (let (effects, c1) = handle_control_request ce request_id request c;
                        (more_effects, r, c2) = read_loop ce de_cli rest c1
                    in (effects @ more_effects, r, c2))
               | Some ControlResponse \<Rightarrow> read_loop ce de_cli rest c
               | Some ResultMessage \<Rightarrow> (let (logged, r) = log_raw ce line in (logged, r, c))
               | _ \<Rightarrow>
                   (case log_raw ce line of
                      (logged, Inl e) \<Rightarrow> (logged, Inl e, c)
                    | (logged, Inr _) \<Rightarrow>
                        (let (more_effects, r, c1) = read_loop ce de_cli rest c in (logged @ more_effects, r, c1)))))"


section \<open>Codex\<close>

record codex_client =
  xc_service :: bool
  xc_auto_approve :: bool
  xc_conversation_id :: "string option"
  xc_pending_feedback :: "string list"

definition new_codex_client :: "bool \<Rightarrow> bool \<Rightarrow> codex_client" where
  "new_codex_client service auto_approve =
     \<lparr> xc_service = service, xc_auto_approve = auto_approve, xc_conversation_id = None, xc_pending_feedback = [] \<rparr>"

definition codex_request_tool_approval ::
  "client_env \<Rightarrow> codex_client \<Rightarrow> string \<Rightarrow> json \<Rightarrow> string \<Rightarrow> client_effect list \<times> (string + approval_status)" where
  "codex_request_tool_approval ce c tool_name tool_input tool_call_id =
     (if xc_auto_approve c then ([], Inr AS_Approved)
      else if \<not> xc_service c then ([], Inl ''executor approval service unavailable'')
      else ([Asked tool_name tool_input tool_call_id], ask ce tool_name tool_input tool_call_id))"

definition review_decision :: "codex_client \<Rightarrow> approval_status \<Rightarrow> codex_decision \<times> string option" where
  "review_decision c status =
     (if xc_auto_approve c then (RD_ApprovedForSession, None)
      else (case status of
              AS_Approved \<Rightarrow> (RD_Approved, None)
            | AS_Denied reason \<Rightarrow>
                (let feedback = Option.bind reason (\<lambda>s. if trim s = [] then None else Some (trim s))
                 in if feedback \<noteq> None then (RD_Abort, feedback) else (RD_Denied, None))
            | AS_TimedOut \<Rightarrow> (RD_Denied, None)
            | AS_Pending \<Rightarrow> (RD_Denied, None)))"

definition enqueue_feedback :: "string \<Rightarrow> codex_client \<Rightarrow> codex_client" where
  "enqueue_feedback message c =
     (if trim message = [] then c else c\<lparr>xc_pending_feedback := xc_pending_feedback c @ [message]\<rparr>)"

definition flush_pending_feedback :: "codex_client \<Rightarrow> client_effect list \<times> codex_client" where
  "flush_pending_feedback c =
     (let messages = xc_pending_feedback c; c1 = c\<lparr>xc_pending_feedback := []\<rparr>
      in if messages = [] then ([], c1)
         else (case xc_conversation_id c1 of
                 None \<Rightarrow> ([], c1)
               | Some conversation_id \<Rightarrow>
                   (map (\<lambda>m. FeedbackSent conversation_id (''User feedback: '' @ trim m))
                      (filter (\<lambda>m. trim m \<noteq> []) messages), c1)))"

definition register_session :: "string \<Rightarrow> codex_client \<Rightarrow> client_effect list \<times> codex_client" where
  "register_session conversation_id c = flush_pending_feedback (c\<lparr>xc_conversation_id := Some conversation_id\<rparr>)"

datatype server_request =
    ApplyPatchApproval string string json
  | ExecCommandApproval string string json
  | CommandExecutionRequestApproval string
  | FileChangeRequestApproval string

text \<open>
  The two approval requests differ in the names of the tool.  \<open>send_error\<close> is the error with which
  sending the answer fails, if it does.
\<close>

definition review_tool ::
  "client_env \<Rightarrow> string option \<Rightarrow> string \<Rightarrow> string \<Rightarrow> string \<Rightarrow> string \<Rightarrow> json \<Rightarrow> codex_client
   \<Rightarrow> client_effect list \<times> (string + unit) \<times> codex_client" where
  "review_tool ce send_error tool log_name request_id call_id input c =
     (let (asked, answer) = codex_request_tool_approval ce c tool input call_id;
          status = (case answer of Inr s \<Rightarrow> s | Inl _ \<Rightarrow> AS_Denied (Some ''approval service error''))
      in case log_raw ce (approval_line ce call_id log_name status) of
           (logged, Inl e) \<Rightarrow> (asked @ logged, Inl e, c)
         | (logged, Inr _) \<Rightarrow>
             (let (decision, feedback) = review_decision c status
              in case send_error of
                   Some e \<Rightarrow> (asked @ logged, Inl e, c)
                 | None \<Rightarrow>
                     (asked @ logged @ [ReviewSent request_id decision], Inr (),
                      case feedback of Some m \<Rightarrow> enqueue_feedback m c | None \<Rightarrow> c)))"

definition handle_server_request ::
  "client_env \<Rightarrow> string option \<Rightarrow> server_request \<Rightarrow> codex_client \<Rightarrow> client_effect list \<times> (string + unit) \<times> codex_client" where
  "handle_server_request ce send_error request c =
     (case request of
        ApplyPatchApproval request_id call_id input \<Rightarrow> review_tool ce send_error ''edit'' ''codex.apply_patch'' request_id call_id input c
      | ExecCommandApproval request_id call_id input \<Rightarrow> review_tool ce send_error ''bash'' ''codex.exec_command'' request_id call_id input c
      | CommandExecutionRequestApproval request_id \<Rightarrow>
          (case send_error of Some e \<Rightarrow> ([], Inl e, c) | None \<Rightarrow> ([AcceptSent request_id], Inr (), c))
      | FileChangeRequestApproval request_id \<Rightarrow>
          (case send_error of Some e \<Rightarrow> ([], Inl e, c) | None \<Rightarrow> ([AcceptSent request_id], Inr (), c)))"

text \<open>\<^verbatim>\<open>on_request\<close>; \<open>None\<close> is a request of an unknown method.\<close>

definition on_request ::
  "client_env \<Rightarrow> string option \<Rightarrow> string \<Rightarrow> string \<Rightarrow> server_request option \<Rightarrow> codex_client
   \<Rightarrow> client_effect list \<times> (string + unit) \<times> codex_client" where
  "on_request ce send_error raw request_id request c =
     (case log_raw ce raw of
        (logged, Inl e) \<Rightarrow> (logged, Inl e, c)
      | (logged, Inr _) \<Rightarrow>
          (case request of
             Some r \<Rightarrow> (let (effects, res, c1) = handle_server_request ce send_error r c in (logged @ effects, res, c1))
           | None \<Rightarrow>
               (case send_error of Some e \<Rightarrow> (logged, Inl e, c) | None \<Rightarrow> (logged @ [NullSent request_id], Inr (), c))))"

text \<open>\<^verbatim>\<open>on_notification\<close>: \<open>shown_raw\<close> is the line without the history; the result says whether the turn has finished.\<close>

definition on_notification ::
  "client_env \<Rightarrow> string \<Rightarrow> string \<Rightarrow> codex_client \<Rightarrow> client_effect list \<times> (string + bool) \<times> codex_client" where
  "on_notification ce shown_raw meth c =
     (case log_raw ce shown_raw of
        (logged, Inl e) \<Rightarrow> (logged, Inl e, c)
      | (logged, Inr _) \<Rightarrow>
          if \<not> starts_with ''codex/event'' meth then (logged, Inr False, c)
          else if ends_with ''turn_aborted'' meth
          then (let (effects, c1) = flush_pending_feedback c in (logged @ effects, Inr False, c1))
          else (logged, Inr (strip_prefix ''codex/event/'' meth = Some ''task_complete''), c))"

end
