(* ===== verification/Agent_Guarantees.thy ===== *)
theory Agent_Guarantees
  imports Agent_Clients
begin

text \<open>
  What holds of the command lines of the agents and of the clients that decide about their tools.
\<close>

section \<open>Command lines\<close>

text \<open>A word that needs no quoting.\<close>

definition plain_word :: "string \<Rightarrow> bool" where
  "plain_word w \<longleftrightarrow> w \<noteq> [] \<and> list_all (\<lambda>c. c \<in> set ''abcdefghijklmnopqrstuvwxyzABCDEFGHIJKLMNOPQRSTUVWXYZ0123456789-_./=@:'') w"

lemma join_words_append:
  "xs \<noteq> [] \<Longrightarrow> ys \<noteq> [] \<Longrightarrow> join_words (xs @ ys) = join_words xs @ '' '' @ join_words ys"
proof (induction xs)
  case (Cons x xs)
  show ?case
  proof (cases xs)
    case Nil
    with Cons.prems show ?thesis by (cases ys) simp_all
  next
    case (Cons y zs)
    with Cons.IH Cons.prems show ?thesis by simp
  qed
qed simp

lemma simple_join_words:
  assumes "cb_base b = join_words ws" and "ws \<noteq> []"
  shows "simple_join b args = join_words (ws @ (case cb_params b of Some p \<Rightarrow> p | None \<Rightarrow> []) @ args)"
proof (cases "(case cb_params b of Some p \<Rightarrow> p | None \<Rightarrow> []) @ args = []")
  case False
  then show ?thesis
    using assms join_words_append [of "[cb_base b]"] join_words_append [of ws] by (simp add: simple_join_def)
qed (simp add: simple_join_def assms)

lemma extend_params_words [simp]:
  "cb_base (extend_params xs b) = cb_base b"
  "cb_params (extend_params xs b) = Some ((case cb_params b of Some p \<Rightarrow> p | None \<Rightarrow> []) @ xs)"
  by (simp_all add: extend_params_def split: option.split)

text \<open>
  A command line of plain words is split into exactly those words: the base command, the parameters of
  the agent and those added to it, in that order.
\<close>

lemma build_plain_words:
  assumes "\<And>ws. list_all plain_word ws \<Longrightarrow> shlex (join_words ws) = Some ws"
    and "cb_base b = join_words (w # ws)"
    and "list_all plain_word ((w # ws) @ (case cb_params b of Some p \<Rightarrow> p | None \<Rightarrow> []) @ args)"
  shows "build_command shlex b args =
     BuildOk \<lparr> cp_program = w, cp_args = ws @ (case cb_params b of Some p \<Rightarrow> p | None \<Rightarrow> []) @ args \<rparr>"
  using assms(1) [OF assms(3)] simple_join_words [OF assms(2), of args]
  by (simp add: build_command_def split_command_line_def)

text \<open>
  A follow-up of Claude resumes the session it is given: with the built-in command, a plain model and
  a plain session identifier the process is \<^verbatim>\<open>npx\<close> with the package, its flags and, at the end, the fork
  of that very session, and the permission prompt is enabled exactly when hooks are installed.
\<close>

theorem claude_follow_up_command:
  assumes shlex: "\<And>ws. list_all plain_word ws \<Longrightarrow> shlex (join_words ws) = Some ws"
    and "cc_cmd c = \<lparr> base_command_override = None, additional_params = None \<rparr>" and "cc_router c \<noteq> Some True"
    and "cc_model c \<noteq> Some ''--permission-prompt-tool=stdio''"
    and "\<And>m. cc_model c = Some m \<Longrightarrow> plain_word m" and "plain_word session_id"
  shows "\<exists>flags. build_follow_up shlex (claude_command_builder c) (claude_follow_up_args session_id)
       = BuildOk \<lparr> cp_program = ''npx'', cp_args = [''-y'', ''@anthropic-ai/claude-code@2.0.55'', ''-p''] @ flags
           @ [''--fork-session'', ''--resume'', session_id] \<rparr>
     \<and> (''--permission-prompt-tool=stdio'' \<in> set flags \<longleftrightarrow> claude_get_hooks c \<noteq> None)"
proof -
  define flags where "flags =
    (if switched (cc_plan c) \<or> switched (cc_approvals c)
     then [''--permission-prompt-tool=stdio'', ''--permission-mode=bypassPermissions''] else [])
    @ (if switched (cc_skip_permissions c) then [''--dangerously-skip-permissions''] else [])
    @ (case cc_model c of Some m \<Rightarrow> [''--model'', m] | None \<Rightarrow> [])
    @ [''--verbose'', ''--output-format=stream-json'', ''--input-format=stream-json'', ''--include-partial-messages'']"
  let ?b = "claude_command_builder c"
  have b: "cb_base ?b = join_words [''npx'', ''-y'', ''@anthropic-ai/claude-code@2.0.55'']"
      "cb_params ?b = Some ([''-p''] @ flags)"
    using assms(2,3)
    by (auto simp: claude_command_builder_def flags_def Let_def new_builder_def with_params_def claude_base_command_def
        switched_def when_on_def with_value_def apply_overrides_def split: option.split)
  have "list_all plain_word ([''npx'', ''-y'', ''@anthropic-ai/claude-code@2.0.55''] @ ([''-p''] @ flags) @ claude_follow_up_args session_id)"
    using assms(5,6) by (simp add: flags_def claude_follow_up_args_def plain_word_def split: option.split)
  then have "build_command shlex ?b (claude_follow_up_args session_id)
      = BuildOk \<lparr> cp_program = ''npx'', cp_args = [''-y'', ''@anthropic-ai/claude-code@2.0.55''] @ ([''-p''] @ flags) @ claude_follow_up_args session_id \<rparr>"
    using build_plain_words [OF shlex b(1)] b(2) by simp
  moreover have "''--permission-prompt-tool=stdio'' \<in> set flags \<longleftrightarrow> claude_get_hooks c \<noteq> None"
    using assms(4) by (auto simp: flags_def claude_get_hooks_def split: option.split)
  ultimately show ?thesis by (auto simp: build_follow_up_def claude_follow_up_args_def)
qed

text \<open>
  Arguments are not quoted: a session identifier with a space in it reaches the process as two arguments.
\<close>

theorem spaced_argument_is_split:
  assumes shlex: "\<And>ws. list_all plain_word ws \<Longrightarrow> shlex (join_words ws) = Some ws"
    and "plain_word x" and "plain_word y" and "cu_cmd c = \<lparr> base_command_override = None, additional_params = None \<rparr>"
    and "cu_force c = None" and "cu_model c = None"
  shows "build_follow_up shlex (cursor_command_builder c) [''--resume'', x @ '' '' @ y]
     = BuildOk \<lparr> cp_program = ''cursor-agent'', cp_args = [''-p'', ''--output-format=stream-json'', ''--resume'', x, y] \<rparr>"
proof -
  let ?ws = "[''cursor-agent'', ''-p'', ''--output-format=stream-json'', ''--resume'', x, y]"
  have "simple_join (cursor_command_builder c) [''--resume'', x @ '' '' @ y] = join_words ?ws"
    using assms(4-6)
    by (simp add: simple_join_def cursor_command_builder_def apply_overrides_def with_value_def when_on_def switched_def
        with_params_def new_builder_def)
  moreover have "shlex (join_words ?ws) = Some ?ws" by (rule shlex) (use assms(2,3) in \<open>simp add: plain_word_def\<close>)
  ultimately show ?thesis by (simp add: build_follow_up_def build_command_def split_command_line_def)
qed

text \<open>A command line without a word makes the builder panic; the error for it is never returned.\<close>

lemma empty_command_panics:
  "shlex (simple_join b args) = Some [] \<Longrightarrow> build_command shlex b args = BuildPanic"
  "build_command shlex b args \<noteq> BuildError EmptyCommand"
  by (auto simp: build_command_def split_command_line_def split: option.split list.split)


section \<open>Claude's tools\<close>

fun handle_all :: "client_env \<Rightarrow> (string \<times> control_request) list \<Rightarrow> claude_client \<Rightarrow> client_effect list \<times> claude_client" where
  "handle_all ce [] c = ([], c)"
| "handle_all ce ((i, r) # rs) c =
     (let (effects, c1) = handle_control_request ce i r c; (more_effects, c2) = handle_all ce rs c1
      in (effects @ more_effects, c2))"

text \<open>The loop over the output does this for lines that are control requests.\<close>

lemma read_loop_handles_all:
  assumes "\<And>i r. (i, r) \<in> set rs \<Longrightarrow> trim (line i r) = line i r \<and> line i r \<noteq> [] \<and> de_cli (line i r) = Some (ControlRequest i r)"
  shows "read_loop ce de_cli (map (\<lambda>(i, r). line i r) rs) c = (fst (handle_all ce rs c), Inr (), snd (handle_all ce rs c))"
  using assms by (induction rs arbitrary: c) (auto simp: Let_def split: prod.splits)

definition asked_of :: "client_effect \<Rightarrow> (string \<times> json \<times> string) option" where
  "asked_of e = (case e of Asked t x i \<Rightarrow> Some (t, x, i) | _ \<Rightarrow> None)"

definition permission_of :: "client_effect \<Rightarrow> permission_result option" where
  "permission_of e = (case e of PermissionSent _ p \<Rightarrow> Some p | _ \<Rightarrow> None)"

definition tool_requests :: "(string \<times> string \<times> json) list \<Rightarrow> control_request list" where
  "tool_requests us = concat (map (\<lambda>(i, t, x). [HookCallback (Some i), CanUseTool t x]) us)"

text \<open>
  What the answer of the service about a tool is for Claude, said of the permission that is sent: it is
  allowed only when it was approved, with its own input, and only leaving the plan mode changes the mode;
  anything else denies it without interrupting, with the reason of the user when there is one.
\<close>

definition permission_fits :: "client_env \<Rightarrow> string \<times> string \<times> json \<Rightarrow> permission_result \<Rightarrow> bool" where
  "permission_fits ce u p \<longleftrightarrow>
     (case u of (i, t, x) \<Rightarrow> case p of
        AllowTool y updates \<Rightarrow>
          ask ce t x i = Inr AS_Approved \<and> y = x
          \<and> (if t = ''ExitPlanMode''
             then updates = Some [\<lparr> pu_type = SetMode, pu_mode = Some PM_BypassPermissions, pu_destination = SessionDestination \<rparr>]
             else updates = None)
      | DenyTool m interrupt \<Rightarrow>
          interrupt = Some False
          \<and> (ask ce t x i = Inr (AS_Denied (Some m))
             \<or> ask ce t x i = Inr (AS_Denied None) \<and> m = ''Denied by user''
             \<or> ask ce t x i = Inr AS_TimedOut \<and> m = ''Approval request timed out''
             \<or> ask ce t x i = Inr AS_Pending \<and> m = ''Approval still pending (unexpected)''
             \<or> (\<exists>e. ask ce t x i = Inl e) \<and> m = ''Tool approval request failed''))"

lemma approval_result_fits:
  "ask ce t x i = Inr s \<Longrightarrow> permission_fits ce (i, t, x) (approval_result t x s)"
  "ask ce t x i = Inl e \<Longrightarrow> permission_fits ce (i, t, x) (DenyTool ''Tool approval request failed'' (Some False))"
  by (cases s) (auto simp: permission_fits_def EXIT_PLAN_MODE_NAME_def split: option.split)

lemma client_effects_append:
  "List.map_filter f (xs @ ys) = List.map_filter f xs @ List.map_filter f ys"
  by (simp add: List.map_filter_def)

text \<open>
  C19: Tools that Claude uses one after another are each put to the approval service: when every hook is
  followed by the permission request of its tool and the lines of the log can be written, the service is
  asked about every tool, under its own call and in order, and Claude gets one permission for each tool, in
  order: the tool is allowed, with its own input, exactly when the service approved it, and only leaving the
  plan mode also sets the mode; every other answer, and a failing service, denies the tool without
  interrupting, with the reason the user gave when there is one.
\<close>

theorem claude_serial_tools_are_asked:
  assumes "map snd rs = tool_requests us" and "\<And>raw. log_error ce raw = None"
  shows "List.map_filter asked_of (fst (handle_all ce rs (new_claude_client True))) = map (\<lambda>(i, t, x). (t, x, i)) us
     \<and> list_all2 (permission_fits ce) us (List.map_filter permission_of (fst (handle_all ce rs (new_claude_client True))))"
  using assms(1)
proof (induction us arbitrary: rs)
  case Nil
  then show ?case by (simp add: tool_requests_def map_filter_simps)
next
  case (Cons u us)
  obtain i t x where u: "u = (i, t, x)" by (metis prod.exhaust)
  from Cons.prems u obtain r1 r2 rs' where
    rs: "rs = (r1, HookCallback (Some i)) # (r2, CanUseTool t x) # rs'" "map snd rs' = tool_requests us"
    by (auto simp: tool_requests_def map_eq_Cons_conv)
  show ?case
    using Cons.IH [OF rs(2)] assms(2) u
    by (auto simp: rs(1) new_claude_client_def handle_control_request_def on_hook_callback_def on_can_use_tool_def
        handle_approval_def log_raw_def asked_of_def permission_of_def approval_result_fits map_filter_simps Let_def
        split: prod.splits sum.splits)
qed

text \<open>
  C20: A tool that Claude uses beside another is not put to the user: when the hooks of two tools come
  before their permission requests, the service is asked once, about the first tool under the call of the
  second, and the second tool is allowed without being asked about.
\<close>

theorem claude_parallel_tool_is_not_asked:
  fixes ce r1 r2 r3 r4 a b t1 t2 x1 x2
  defines "effects \<equiv> fst (handle_all ce
       [(r1, HookCallback (Some a)), (r2, HookCallback (Some b)), (r3, CanUseTool t1 x1), (r4, CanUseTool t2 x2)]
       (new_claude_client True))"
  shows "List.map_filter asked_of effects = [(t1, x1, b)] \<and> last effects = PermissionSent r4 (AllowTool x2 None)"
  unfolding effects_def
  by (auto simp: new_claude_client_def handle_control_request_def on_hook_callback_def on_can_use_tool_def handle_approval_def
      log_raw_def asked_of_def map_filter_simps Let_def split: sum.splits option.splits)


section \<open>Codex' tools\<close>

text \<open>What a request for a review is about: the identifier of the request, the name of the tool, the call and the input.\<close>

fun reviewed_tool :: "server_request \<Rightarrow> (string \<times> string \<times> string \<times> json) option" where
  "reviewed_tool (ApplyPatchApproval request_id call_id input) = Some (request_id, ''edit'', call_id, input)"
| "reviewed_tool (ExecCommandApproval request_id call_id input) = Some (request_id, ''bash'', call_id, input)"
| "reviewed_tool (CommandExecutionRequestApproval request_id) = None"
| "reviewed_tool (FileChangeRequestApproval request_id) = None"

lemma denied_review:
  assumes "\<And>raw. log_error ce raw = None" and "\<not> xc_auto_approve c" and "xc_service c" and "trim reason \<noteq> []"
    and "reviewed_tool request = Some (request_id, tool, call_id, input)"
    and "ask ce tool input call_id = Inr (AS_Denied (Some reason))"
    and "handle_server_request ce None request c = (effects, r, c1)"
  shows "ReviewSent request_id RD_Abort \<in> set effects" "r = Inr ()"
    and "c1 = c\<lparr>xc_pending_feedback := xc_pending_feedback c @ [trim reason]\<rparr>"
  using assms by (auto simp: handle_server_request_def review_tool_def codex_request_tool_approval_def log_raw_def
      review_decision_def enqueue_feedback_def trim_idem elim!: reviewed_tool.elims)

lemma aborted_turn_flushes:
  assumes "\<And>raw. log_error ce raw = None" and "xc_conversation_id c = Some conversation"
    and "on_notification ce raw ''codex/event/turn_aborted'' c = (effects, r, c')"
  shows "c' = c\<lparr>xc_pending_feedback := []\<rparr>"
    and "m \<in> set (xc_pending_feedback c) \<Longrightarrow> trim m \<noteq> [] \<Longrightarrow> FeedbackSent conversation (''User feedback: '' @ trim m) \<in> set effects"
  using assms by (auto simp: on_notification_def log_raw_def flush_pending_feedback_def starts_with_def ends_with_def Let_def
      split: if_splits)

text \<open>
  C24: The reason of a denial reaches Codex: when the user refuses a command or a patch with a reason (not
  only blanks), the answer to the request aborts the turn, and the notification that the turn is aborted sends
  the reason to the conversation as feedback of the user, whatever feedback was waiting before, and leaves none
  waiting.  This is for a client that asks the service, whose session is registered, whose answer to the
  request can be sent and whose lines of the log can be written.
\<close>

theorem codex_denial_reaches_agent:
  assumes "\<And>raw. log_error ce raw = None" and "\<not> xc_auto_approve c" and "xc_service c"
    and "xc_conversation_id c = Some conversation"
    and "reviewed_tool request = Some (request_id, tool, call_id, input)"
    and "ask ce tool input call_id = Inr (AS_Denied (Some reason))" and "trim reason \<noteq> []"
    and "handle_server_request ce None request c = (effects, r, c1)"
    and "on_notification ce raw ''codex/event/turn_aborted'' c1 = (effects', r', c2)"
  shows "ReviewSent request_id RD_Abort \<in> set effects
     \<and> FeedbackSent conversation (''User feedback: '' @ trim reason) \<in> set effects' \<and> xc_pending_feedback c2 = []"
proof -
  note denied = denied_review [OF assms(1-3,7,5,6,8)]
  have "xc_conversation_id c1 = Some conversation" using denied(3) assms(4) by simp
  note flushed = aborted_turn_flushes [OF assms(1) this assms(9)]
  show ?thesis using flushed(1) flushed(2) [of "trim reason"] denied assms(7) by (simp add: trim_idem)
qed

text \<open>The newer approval requests are accepted without asking, also when the user wants to be asked.\<close>

lemma codex_new_requests_are_not_asked:
  "handle_server_request ce None (CommandExecutionRequestApproval i) c = ([AcceptSent i], Inr (), c)"
  "handle_server_request ce None (FileChangeRequestApproval i) c = ([AcceptSent i], Inr (), c)"
  by (simp_all add: handle_server_request_def)



section \<open>Witnesses\<close>

text \<open>A splitter that has the law: words between spaces.\<close>

definition space_splitter :: "string \<Rightarrow> string list option" where
  "space_splitter s = Some (if s = [] then [] else split_on (CHR '' '') s)"

lemma split_on_word: "d \<notin> set w \<Longrightarrow> split_on d w = [w]"
  by (induction w) auto

lemma split_on_word_append: "d \<notin> set w \<Longrightarrow> split_on d (w @ d # s) = w # split_on d s"
  by (induction w) auto

lemma plain_word_no_space: "plain_word w \<Longrightarrow> CHR '' '' \<notin> set w \<and> w \<noteq> []"
  by (auto simp: plain_word_def list_all_iff)

lemma space_splitter_law: "list_all plain_word ws \<Longrightarrow> space_splitter (join_words ws) = Some ws"
proof (induction ws rule: join_words.induct)
  case (2 w)
  then show ?case using plain_word_no_space [of w] by (simp add: space_splitter_def split_on_word)
next
  case (3 w v ws)
  then have "join_words (v # ws) \<noteq> []" using plain_word_no_space [of v] by (cases ws) auto
  with 3 plain_word_no_space [of w] show ?case
    by (auto simp: space_splitter_def split_on_word_append)
qed (simp add: space_splitter_def)

definition plain_overrides :: cmd_overrides where
  "plain_overrides = \<lparr> base_command_override = None, additional_params = None \<rparr>"

definition sample_claude_code :: claude_code where
  "sample_claude_code =
     \<lparr> cc_append_prompt = None, cc_router = None, cc_plan = Some True, cc_approvals = None, cc_model = Some ''opus'',
       cc_skip_permissions = None, cc_cmd = plain_overrides \<rparr>"

theorem claude_follow_up_command_witness:
  "\<exists>flags. build_follow_up space_splitter (claude_command_builder sample_claude_code) (claude_follow_up_args ''s1'')
       = BuildOk \<lparr> cp_program = ''npx'', cp_args = [''-y'', ''@anthropic-ai/claude-code@2.0.55'', ''-p''] @ flags
           @ [''--fork-session'', ''--resume'', ''s1''] \<rparr>
     \<and> (''--permission-prompt-tool=stdio'' \<in> set flags \<longleftrightarrow> claude_get_hooks sample_claude_code \<noteq> None)"
  by (rule claude_follow_up_command)
     (simp_all add: space_splitter_law sample_claude_code_def plain_overrides_def plain_word_def)

theorem spaced_argument_is_split_witness:
  "build_follow_up space_splitter (cursor_command_builder \<lparr> cu_force = None, cu_model = None, cu_cmd = plain_overrides \<rparr>) [''--resume'', ''a b'']
     = BuildOk \<lparr> cp_program = ''cursor-agent'', cp_args = [''-p'', ''--output-format=stream-json'', ''--resume'', ''a'', ''b''] \<rparr>"
  using spaced_argument_is_split [of space_splitter "''a''" "''b''" "\<lparr> cu_force = None, cu_model = None, cu_cmd = plain_overrides \<rparr>"]
  by (simp add: space_splitter_law plain_overrides_def plain_word_def)

definition denying_env :: client_env where
  "denying_env =
     \<lparr> ask = (\<lambda>t _ _. if t = ''Read'' then Inr AS_Approved else Inr (AS_Denied (Some ''no''))), log_error = (\<lambda>_. None),
       approval_line = (\<lambda>i t _. i @ t) \<rparr>"

theorem claude_serial_tools_are_asked_witness:
  "List.map_filter asked_of (fst (handle_all denying_env
       [(''1'', HookCallback (Some ''a'')), (''2'', CanUseTool ''Read'' JNull), (''3'', HookCallback (Some ''b'')), (''4'', CanUseTool ''Bash'' JNull)]
       (new_claude_client True))) = [(''Read'', JNull, ''a''), (''Bash'', JNull, ''b'')]
   \<and> list_all2 (permission_fits denying_env) [(''a'', ''Read'', JNull), (''b'', ''Bash'', JNull)]
       (List.map_filter permission_of (fst (handle_all denying_env
         [(''1'', HookCallback (Some ''a'')), (''2'', CanUseTool ''Read'' JNull), (''3'', HookCallback (Some ''b'')), (''4'', CanUseTool ''Bash'' JNull)]
         (new_claude_client True))))"
  using claude_serial_tools_are_asked [of "[(''1'', HookCallback (Some ''a'')), (''2'', CanUseTool ''Read'' JNull), (''3'', HookCallback (Some ''b'')), (''4'', CanUseTool ''Bash'' JNull)]"
      "[(''a'', ''Read'', JNull), (''b'', ''Bash'', JNull)]" denying_env]
  by (simp add: tool_requests_def denying_env_def)

theorem codex_denial_reaches_agent_witness:
  "\<exists>effects c1 r effects' r' c2.
     handle_server_request denying_env None (ApplyPatchApproval ''1'' ''c'' JNull)
       ((new_codex_client True False)\<lparr>xc_conversation_id := Some ''v'', xc_pending_feedback := [''earlier'']\<rparr>) = (effects, r, c1)
     \<and> on_notification denying_env ''line'' ''codex/event/turn_aborted'' c1 = (effects', r', c2)
     \<and> ReviewSent ''1'' RD_Abort \<in> set effects \<and> FeedbackSent ''v'' (''User feedback: '' @ trim ''no'') \<in> set effects'"
proof -
  let ?c = "(new_codex_client True False)\<lparr>xc_conversation_id := Some ''v'', xc_pending_feedback := [''earlier'']\<rparr>"
  obtain effects r c1 where 1: "handle_server_request denying_env None (ApplyPatchApproval ''1'' ''c'' JNull) ?c = (effects, r, c1)"
    by (metis prod.exhaust)
  obtain effects' r' c2 where 2: "on_notification denying_env ''line'' ''codex/event/turn_aborted'' c1 = (effects', r', c2)"
    by (metis prod.exhaust)
  have trim: "trim ''no'' \<noteq> []" by code_simp
  from codex_denial_reaches_agent [OF _ _ _ _ _ _ trim 1 2, of "''v''" "''1''" "''edit''" "''c''" JNull] 1 2 show ?thesis
    by (simp add: denying_env_def new_codex_client_def)
qed

end
