(* ===== verification/Mcp_Config.thy ===== *)
theory Mcp_Config
  imports Executor_Actions Log_Entries "HOL-Library.AList"
begin

text \<open>
  The MCP server configuration of the agents: \<^verbatim>\<open>crates/executors/src/mcp_config.rs\<close> and \<^verbatim>\<open>get_mcp_config\<close> of
  \<^verbatim>\<open>crates/executors/src/executors/mod.rs\<close>.

  A JSON object is an association list with distinct keys; the order of its entries carries no meaning.
  Files are read and written through \<open>config_codec\<close>, the JSON and TOML libraries.
\<close>

section \<open>Reading and writing the agents' files\<close>

type_synonym server_map = "(string \<times> json) list"

record mcp_config =
  mc_servers :: server_map
  mc_servers_path :: "string list"
  mc_template :: json
  mc_preconfigured :: json
  mc_is_toml :: bool

definition new_mcp_config :: "string list \<Rightarrow> json \<Rightarrow> json \<Rightarrow> bool \<Rightarrow> mcp_config" where
  "new_mcp_config servers_path template preconfigured is_toml =
     \<lparr> mc_servers = [], mc_servers_path = servers_path, mc_template = template, mc_preconfigured = preconfigured, mc_is_toml = is_toml \<rparr>"

definition set_servers :: "server_map \<Rightarrow> mcp_config \<Rightarrow> mcp_config" where
  "set_servers servers m = m\<lparr>mc_servers := servers\<rparr>"

record config_codec =
  cf_json_read :: "string \<Rightarrow> string + json"
  cf_json_write :: "json \<Rightarrow> string + string"
  cf_toml_read :: "string \<Rightarrow> string + json"
  cf_toml_write :: "json \<Rightarrow> string + string"

text \<open>\<open>file\<close> is the content of the file, \<open>None\<close> when it cannot be read.\<close>

definition read_agent_config :: "config_codec \<Rightarrow> string option \<Rightarrow> mcp_config \<Rightarrow> string + json" where
  "read_agent_config cf file m =
     (case file of
        None \<Rightarrow> Inr (mc_template m)
      | Some content \<Rightarrow>
          if mc_is_toml m
          then (if trim content = [] then Inr (JObject []) else cf_toml_read cf content)
          else cf_json_read cf content)"

definition write_agent_config :: "config_codec \<Rightarrow> mcp_config \<Rightarrow> json \<Rightarrow> string + string" where
  "write_agent_config cf m config = (if mc_is_toml m then cf_toml_write cf config else cf_json_write cf config)"


section \<open>Adapters\<close>

definition is_http_server :: "server_map \<Rightarrow> bool" where
  "is_http_server s \<longleftrightarrow> map_of s ''type'' = Some (JString ''http'')"

definition is_stdio :: "server_map \<Rightarrow> bool" where
  "is_stdio s \<longleftrightarrow> \<not> is_http_server s \<and> map_of s ''command'' \<noteq> None"

definition extract_meta :: "server_map \<Rightarrow> server_map \<times> json option" where
  "extract_meta obj = (AList.delete ''meta'' obj, map_of obj ''meta'')"

definition attach_meta :: "server_map \<Rightarrow> json option \<Rightarrow> json" where
  "attach_meta obj meta = JObject (case meta of Some m \<Rightarrow> AList.update ''meta'' m obj | None \<Rightarrow> obj)"

definition ensure_header :: "string \<Rightarrow> string \<Rightarrow> server_map \<Rightarrow> server_map" where
  "ensure_header key val headers =
     (case map_of headers key of Some (JString _) \<Rightarrow> headers | _ \<Rightarrow> AList.update key (JString val) headers)"

text \<open>\<^verbatim>\<open>iter_mut\<close> over the values that are objects.\<close>

definition map_object :: "(server_map \<Rightarrow> server_map) \<Rightarrow> json \<Rightarrow> json" where
  "map_object f v = (case v of JObject s \<Rightarrow> JObject (f s) | _ \<Rightarrow> v)"

definition transform_http_servers :: "(server_map \<Rightarrow> server_map) \<Rightarrow> server_map \<Rightarrow> server_map" where
  "transform_http_servers f servers = map (\<lambda>(k, v). (k, map_object (\<lambda>s. if is_http_server s then f s else s) v)) servers"

definition url_of :: "server_map \<Rightarrow> json" where
  "url_of s = (case map_of s ''url'' of Some u \<Rightarrow> u | None \<Rightarrow> JString [])"

definition object_headers :: "server_map \<Rightarrow> server_map" where
  "object_headers s = (case map_of s ''headers'' of Some (JObject hs) \<Rightarrow> hs | _ \<Rightarrow> [])"

definition accept_headers :: "server_map \<Rightarrow> json" where
  "accept_headers s = JObject (ensure_header ''Accept'' ''application/json, text/event-stream'' (object_headers s))"

definition adapt_passthrough :: "server_map \<Rightarrow> json option \<Rightarrow> json" where
  "adapt_passthrough servers meta = attach_meta servers meta"

definition adapt_gemini :: "server_map \<Rightarrow> json option \<Rightarrow> json" where
  "adapt_gemini servers meta =
     attach_meta (transform_http_servers (\<lambda>s. [(''httpUrl'', url_of s), (''headers'', accept_headers s)]) servers) meta"

definition adapt_cursor :: "server_map \<Rightarrow> json option \<Rightarrow> json" where
  "adapt_cursor servers meta =
     attach_meta
       (transform_http_servers
          (\<lambda>s. [(''url'', url_of s), (''headers'', case map_of s ''headers'' of Some h \<Rightarrow> h | None \<Rightarrow> JObject [])]) servers) meta"

definition stdio_value :: "json \<Rightarrow> bool" where
  "stdio_value v = (case v of JObject s \<Rightarrow> is_stdio s | _ \<Rightarrow> False)"

definition adapt_codex :: "server_map \<Rightarrow> json option \<Rightarrow> json" where
  "adapt_codex servers meta =
     (let kept = filter (\<lambda>(k, v). stdio_value v) servers
      in case meta of
           Some (JObject m) \<Rightarrow> attach_meta (AList.update ''meta'' (JObject (filter (\<lambda>(k, _). k \<in> fst ` set kept) m)) kept) None
         | _ \<Rightarrow> attach_meta kept meta)"

definition local_command :: "server_map \<Rightarrow> json list" where
  "local_command s =
     (case map_of s ''command'' of Some (JString c) \<Rightarrow> if c = [] then [] else [JString c] | _ \<Rightarrow> [])
     @ (case map_of s ''args'' of Some (JArray xs) \<Rightarrow> xs | _ \<Rightarrow> [])"

definition local_server :: "server_map \<Rightarrow> server_map" where
  "local_server s =
     (if is_stdio s
      then [(''type'', JString ''local''), (''command'', JArray (local_command s)), (''enabled'', JBool True)]
      else s)"

definition remote_server :: "server_map \<Rightarrow> server_map" where
  "remote_server s =
     [(''type'', JString ''remote''), (''url'', url_of s), (''headers'', accept_headers s), (''enabled'', JBool True)]"

definition adapt_opencode :: "server_map \<Rightarrow> json option \<Rightarrow> json" where
  "adapt_opencode servers meta =
     attach_meta (map (\<lambda>(k, v). (k, map_object local_server v)) (transform_http_servers remote_server servers)) meta"

definition all_tools :: "server_map \<Rightarrow> server_map" where
  "all_tools s = (if map_of s ''tools'' = None then AList.update ''tools'' (JArray [JString ''*'']) s else s)"

definition adapt_copilot :: "server_map \<Rightarrow> json option \<Rightarrow> json" where
  "adapt_copilot servers meta = attach_meta (map (\<lambda>(k, v). (k, map_object all_tools v)) servers) meta"

datatype mcp_adapter =
  PassthroughAdapter | GeminiAdapter | CursorAdapter | CodexAdapter | OpencodeAdapter | CopilotAdapter

definition apply_adapter :: "mcp_adapter \<Rightarrow> json \<Rightarrow> json" where
  "apply_adapter adapter canonical =
     (let (servers_only, meta) = (case canonical of JObject obj \<Rightarrow> extract_meta obj | _ \<Rightarrow> ([], None))
      in (case adapter of
            PassthroughAdapter \<Rightarrow> adapt_passthrough
          | GeminiAdapter \<Rightarrow> adapt_gemini
          | CursorAdapter \<Rightarrow> adapt_cursor
          | CodexAdapter \<Rightarrow> adapt_codex
          | OpencodeAdapter \<Rightarrow> adapt_opencode
          | CopilotAdapter \<Rightarrow> adapt_copilot) servers_only meta)"

fun adapter_of :: "base_coding_agent \<Rightarrow> mcp_adapter" where
  "adapter_of ClaudeCode = PassthroughAdapter"
| "adapter_of Amp = PassthroughAdapter"
| "adapter_of QwenCode = GeminiAdapter"
| "adapter_of Gemini = GeminiAdapter"
| "adapter_of CursorAgent = CursorAdapter"
| "adapter_of Codex = CodexAdapter"
| "adapter_of Opencode = OpencodeAdapter"
| "adapter_of Copilot = CopilotAdapter"

text \<open>\<open>canonical\<close> is the built-in list of servers, the file \<^verbatim>\<open>default_mcp.json\<close>.\<close>

definition preconfigured_mcp :: "json \<Rightarrow> base_coding_agent \<Rightarrow> json" where
  "preconfigured_mcp canonical agent = apply_adapter (adapter_of agent) canonical"

definition get_mcp_config :: "json \<Rightarrow> base_coding_agent \<Rightarrow> mcp_config" where
  "get_mcp_config canonical agent =
     (case agent of
        Codex \<Rightarrow> new_mcp_config [''mcp_servers''] (JObject [(''mcp_servers'', JObject [])]) (preconfigured_mcp canonical agent) True
      | Amp \<Rightarrow> new_mcp_config [''amp.mcpServers''] (JObject [(''amp.mcpServers'', JObject [])]) (preconfigured_mcp canonical agent) False
      | Opencode \<Rightarrow>
          new_mcp_config [''mcp'']
            (JObject [(''$schema'', JString ''https://opencode.ai/config.json''), (''mcp'', JObject [])])
            (preconfigured_mcp canonical agent) False
      | _ \<Rightarrow> new_mcp_config [''mcpServers''] (JObject [(''mcpServers'', JObject [])]) (preconfigured_mcp canonical agent) False)"


section \<open>What an agent is given\<close>

definition adapted_server :: "base_coding_agent \<Rightarrow> json \<Rightarrow> json option" where
  "adapted_server agent v =
     (case agent of
        Codex \<Rightarrow> if stdio_value v then Some v else None
      | Opencode \<Rightarrow> Some (map_object (\<lambda>s. local_server (if is_http_server s then remote_server s else s)) v)
      | Copilot \<Rightarrow> Some (map_object all_tools v)
      | CursorAgent \<Rightarrow>
          Some (map_object (\<lambda>s. if is_http_server s
            then [(''url'', url_of s), (''headers'', case map_of s ''headers'' of Some h \<Rightarrow> h | None \<Rightarrow> JObject [])] else s) v)
      | Gemini \<Rightarrow> Some (map_object (\<lambda>s. if is_http_server s then [(''httpUrl'', url_of s), (''headers'', accept_headers s)] else s) v)
      | QwenCode \<Rightarrow> Some (map_object (\<lambda>s. if is_http_server s then [(''httpUrl'', url_of s), (''headers'', accept_headers s)] else s) v)
      | _ \<Rightarrow> Some v)"

lemma map_of_map_snd: "map_of (map (\<lambda>(k, v). (k, f v)) xs) k = map_option f (map_of xs k)"
  by (induction xs) auto

lemma map_of_filter_value:
  "distinct (map fst xs) \<Longrightarrow> map_of (filter (\<lambda>(k, v). P v) xs) k = Option.bind (map_of xs k) (\<lambda>v. if P v then Some v else None)"
proof (induction xs)
  case (Cons x xs)
  then show ?case by (cases "map_of xs k") (auto split: if_splits dest: map_of_SomeD simp: rev_image_eqI)
qed simp

lemma delete_lookup: "map_of (AList.delete k obj) j = (if j = k then None else map_of obj j)"
  by (simp add: delete_conv')

lemma map_object_map_object: "map_object g (map_object f v) = map_object (\<lambda>s. g (f s)) v"
  by (simp add: map_object_def split: json.split)

lemma map_values_id: "map (\<lambda>(k, v). (k, v)) xs = xs"
  by (induction xs) auto

text \<open>Except for Codex, an adapter is a function on the servers, applied to each.\<close>

lemma uniform_adapter:
  assumes "agent \<noteq> Codex"
  shows "\<exists>f. (\<forall>v. adapted_server agent v = Some (f v))
     \<and> preconfigured_mcp (JObject obj) agent = attach_meta (map (\<lambda>(k, v). (k, f v)) (AList.delete ''meta'' obj)) (map_of obj ''meta'')"
proof -
  note defs = preconfigured_mcp_def apply_adapter_def extract_meta_def adapted_server_def
  consider "agent = ClaudeCode \<or> agent = Amp" | "agent = Gemini \<or> agent = QwenCode" | "agent = CursorAgent"
    | "agent = Opencode" | "agent = Copilot"
    using assms by (cases agent) auto
  then show ?thesis
  proof cases
    case 1
    then show ?thesis by (intro exI [of _ "\<lambda>v. v"]) (auto simp: defs adapt_passthrough_def map_values_id)
  next
    case 2
    then show ?thesis by (auto simp: defs adapt_gemini_def transform_http_servers_def)
  next
    case 3
    then show ?thesis by (auto simp: defs adapt_cursor_def transform_http_servers_def)
  next
    case 4
    then show ?thesis
      by (auto simp: defs adapt_opencode_def transform_http_servers_def comp_def case_prod_unfold map_object_map_object)
  next
    case 5
    then show ?thesis by (auto simp: defs adapt_copilot_def)
  qed
qed

lemma attach_meta_lookup: "attach_meta servers meta = JObject out \<Longrightarrow> k \<noteq> ''meta'' \<Longrightarrow> map_of out k = map_of servers k"
  by (auto simp: attach_meta_def update_conv' split: option.splits)

text \<open>
  Every agent is given every server it can use, in its own format: for each server of the built-in
  list, the configuration for an agent has under the same name that server adapted for the agent, all
  other names are absent, and only Codex, which cannot use them, is not given the servers that are not commands.
\<close>

theorem preconfigured_servers:
  assumes "distinct (map fst obj)" and "preconfigured_mcp (JObject obj) agent = JObject out" and "k \<noteq> ''meta''"
  shows "map_of out k = Option.bind (map_of obj k) (adapted_server agent)"
proof (cases "agent = Codex")
  case True
  let ?kept = "filter (\<lambda>(k, v). stdio_value v) (AList.delete ''meta'' obj)"
  have "map_of out k = map_of ?kept k"
  proof (cases "\<exists>m. map_of obj ''meta'' = Some (JObject m)")
    case False
    with True assms(2) have "attach_meta ?kept (map_of obj ''meta'') = JObject out"
      by (auto simp: preconfigured_mcp_def apply_adapter_def extract_meta_def adapt_codex_def Let_def split: option.splits json.splits)
    with assms(3) show ?thesis by (blast intro: attach_meta_lookup)
  qed (use True assms(2,3) in \<open>auto simp: preconfigured_mcp_def apply_adapter_def extract_meta_def adapt_codex_def
      attach_meta_def update_conv'\<close>)
  with True assms(1,3) show ?thesis
    by (cases "map_of obj k") (simp_all add: map_of_filter_value distinct_delete delete_lookup adapted_server_def)
next
  case False
  from uniform_adapter [OF False, of obj] obtain f where f: "\<And>v. adapted_server agent v = Some (f v)"
    "attach_meta (map (\<lambda>(k, v). (k, f v)) (AList.delete ''meta'' obj)) (map_of obj ''meta'') = JObject out"
    using assms(2) by auto
  have "map_of out k = map_option f (map_of obj k)"
    using attach_meta_lookup [OF f(2) assms(3)] assms(3) by (simp add: map_of_map_snd delete_lookup)
  with f(1) show ?thesis by (cases "map_of obj k") simp_all
qed

lemma update_new: "k \<notin> fst ` set xs \<Longrightarrow> AList.update k x xs = xs @ [(k, x)]"
  by (induction xs) auto

lemma last_entry: "k \<notin> fst ` set xs \<Longrightarrow> (k, v) \<in> set (xs @ [(k, m)]) \<Longrightarrow> v = m"
  by force

text \<open>
  What Codex is given is consistent: every server of its configuration runs a command, and the
  descriptions describe only servers that are there.
\<close>

theorem codex_meta_describes_servers:
  assumes "preconfigured_mcp (JObject obj) Codex = JObject out" and "map_of obj ''meta'' = Some (JObject m)"
    and "(k, v) \<in> set out" and "k \<noteq> ''meta'' \<or> (\<exists>m'. v = JObject m' \<and> j \<in> fst ` set m')"
  shows "if k = ''meta'' then \<exists>w. (j, w) \<in> set out \<and> stdio_value w else stdio_value v"
proof -
  let ?kept = "filter (\<lambda>(k, v). stdio_value v) (AList.delete ''meta'' obj)"
  let ?meta = "JObject (filter (\<lambda>(k, _). k \<in> fst ` set ?kept) m)"
  have nometa: "''meta'' \<notin> fst ` set ?kept" by (auto simp: AList.delete_eq)
  have out: "out = AList.update ''meta'' ?meta ?kept"
    using assms(1,2) by (simp add: preconfigured_mcp_def apply_adapter_def extract_meta_def adapt_codex_def attach_meta_def)
  have out': "out = ?kept @ [(''meta'', ?meta)]" unfolding out by (rule update_new [OF nometa])
  have kept: "stdio_value w" if "(k', w) \<in> set ?kept" for k' w using that by auto
  show ?thesis
  proof (cases "k = ''meta''")
    case True
    from assms(3) have "v = ?meta" unfolding True out' by (rule last_entry [OF nometa])
    with True assms(4) have "j \<in> fst ` set ?kept" by force
    then obtain w where "(j, w) \<in> set ?kept" by force
    with kept [OF this] True show ?thesis unfolding out' by auto
  next
    case False
    from assms(3) have "(k, v) \<in> set ?kept" unfolding out' using False by simp
    from kept [OF this] False show ?thesis by simp
  qed
qed


section \<open>Witnesses\<close>

definition sample_servers :: server_map where
  "sample_servers =
     [(''a'', JObject [(''command'', JString ''npx''), (''args'', JArray [JString ''x''])]),
      (''b'', JObject [(''type'', JString ''http''), (''url'', JString ''u'')]),
      (''meta'', JObject [(''a'', JNull), (''b'', JNull)])]"

theorem preconfigured_servers_witness:
  "\<exists>out. preconfigured_mcp (JObject sample_servers) Opencode = JObject out
     \<and> map_of out ''b'' = Some (JObject [(''type'', JString ''remote''), (''url'', JString ''u''),
          (''headers'', JObject [(''Accept'', JString ''application/json, text/event-stream'')]), (''enabled'', JBool True)])"
proof -
  obtain out where out: "preconfigured_mcp (JObject sample_servers) Opencode = JObject out"
    by (simp add: preconfigured_mcp_def apply_adapter_def sample_servers_def extract_meta_def adapt_opencode_def attach_meta_def)
  have "map_of out ''b'' = Option.bind (map_of sample_servers ''b'') (adapted_server Opencode)"
    by (rule preconfigured_servers [OF _ out]) (simp_all add: sample_servers_def)
  with out show ?thesis
    by (simp add: sample_servers_def adapted_server_def map_object_def is_http_server_def local_server_def is_stdio_def
        remote_server_def url_of_def accept_headers_def object_headers_def ensure_header_def)
qed

theorem codex_meta_describes_servers_witness:
  "\<exists>out m' w. preconfigured_mcp (JObject sample_servers) Codex = JObject out
     \<and> (''meta'', JObject m') \<in> set out \<and> (''a'', w) \<in> set out \<and> stdio_value w"
proof -
  have out: "preconfigured_mcp (JObject sample_servers) Codex
      = JObject [(''a'', JObject [(''command'', JString ''npx''), (''args'', JArray [JString ''x''])]), (''meta'', JObject [(''a'', JNull)])]"
    by (simp add: preconfigured_mcp_def apply_adapter_def sample_servers_def extract_meta_def adapt_codex_def attach_meta_def
        stdio_value_def is_stdio_def is_http_server_def)
  have "map_of sample_servers ''meta'' = Some (JObject [(''a'', JNull), (''b'', JNull)])" by (simp add: sample_servers_def)
  from codex_meta_describes_servers [OF out this, of "''meta''" "JObject [(''a'', JNull)]" "''a''"] out show ?thesis by auto
qed

end
