(* ===== verification/Spec2Isabelle.thy ===== *)
theory Spec2Isabelle
  imports Msg_Store Plain_Text Executor_Actions Db_Integrity Draft_Models Misc_Models Approvals
    Container_Failures Drafts_Guarantees Claude_Guarantees Codex_Guarantees Acp_Guarantees Cursor_Guarantees
    Opencode_Guarantees Agent_Guarantees Mcp_Config
begin

text \<open>
  A verification development of forge-core, the server that runs coding agents on tasks.

  \<^bold>\<open>The program.\<close>  A project has tasks, a task has attempts, and an attempt is worked on by execution
  processes: setup and clean-up scripts, coding agents and dev servers.  The rows live in SQLite
  (\<^verbatim>\<open>crates/db\<close>).  The container service (\<^verbatim>\<open>crates/services/src/services/container.rs\<close>, implemented in
  \<^verbatim>\<open>crates/local-deployment\<close>) makes the worktree of an attempt, starts a process in it, follows it with
  background tasks and moves the task through its states.  The output of a process goes into a message store
  (\<^verbatim>\<open>crates/utils/src/msg_store.rs\<close>), where the log normaliser of its agent (\<^verbatim>\<open>crates/executors\<close>) reads it and
  pushes JSON patches that build the conversation the user sees.  When an agent wants to use a tool, its
  client asks the approvals service, which marks the tool's entry in that conversation and waits for the
  user.  The drafts service keeps the follow-up messages a user prepares and starts them when they are queued.
  The HTTP routes of \<^verbatim>\<open>crates/server\<close> call these services.

  \<^bold>\<open>How code becomes definitions.\<close>  A struct is a record, an enum a datatype, a function or method one
  definition with the branches and early returns of the source.  \<^verbatim>\<open>Result\<close> is a sum with the error on the
  left, \<^verbatim>\<open>Option\<close> is option.  A table is the list of its rows and an SQL statement a function on the database
  with its constraints (\<open>Sql_Tables\<close>, \<open>Db_Schema\<close>).  A service method is a function of the state it returns
  with its result; \<open>and_then\<close> of \<open>Service_Actions\<close> is the \<^verbatim>\<open>?\<close> operator.  A spawned task is an element of the
  list of background tasks, and a step relation runs methods and tasks in any order.  Log normalisers are
  functions from a message, the normaliser's state and the entry counter to patches and the next state.
  Indexes and sizes are natural numbers with the bound \<open>usize_max\<close> of a 64-bit machine written out where the
  code saturates or wraps; versions and times are integers.  What lies outside the source (serde's
  readers, the file system, git, processes, identifiers, the clock, other crates) is an argument or a field
  of an environment record; a theorem that needs something of it has it as a hypothesis and a
  witness with a concrete environment.  Loops are structural recursion or \<open>function\<close>s with a measure; the loops of
  the plain text processor, which need a splitter that makes progress, are \<open>partial_function\<close>s with a theorem
  that they return.  No definition uses fuel.

  \<^bold>\<open>Shared theories.\<close>
  \<open>Prelude\<close>: strings, lines, saturating arithmetic, decimal numbers.
  \<open>Sql_Tables\<close>: updates, deletes, orderings and uniqueness on lists of rows.
  \<open>Service_Actions\<close>: the shape of a service method, with the locale \<open>step_relation\<close> for what a method keeps.
  \<open>Conversation\<close>: reading patches into the conversation by the rules of JSON patch, with the locales
  \<open>log_normalizer\<close> (patches fit the counter) and \<open>conversation_view\<close> (the conversation shows the state), which
  are interpreted for the agents' normalisers.

  \<^bold>\<open>Logs and stores.\<close>
  \<open>Log_Entries\<close> (\<^verbatim>\<open>executors/src/logs/mod.rs\<close>, \<^verbatim>\<open>logs/utils/patch.rs\<close>, \<^verbatim>\<open>utils/src/log_msg.rs\<close>, \<^verbatim>\<open>utils/src/approvals.rs\<close>):
  entries, actions, statuses, patches and log messages.
  \<open>Msg_Store\<close> (\<^verbatim>\<open>utils/src/msg_store.rs\<close>, \<^verbatim>\<open>logs/utils/entry_index.rs\<close>): the history never exceeds its budget and is
  a suffix of what was pushed, a subscriber gets each message at most once but can miss one, and a counter
  started from a store is above every index in it.
  \<open>Plain_Text\<close> (\<^verbatim>\<open>logs/plain_text_processor.rs\<close>, \<^verbatim>\<open>logs/stderr_processor.rs\<close>): the entries show the text that was
  written, the loops end, and what happens after a time gap.
  \<open>Text_Utils\<close> and \<open>Unified_Diff\<close> (\<^verbatim>\<open>utils/src/text.rs\<close>, \<^verbatim>\<open>path.rs\<close>, \<^verbatim>\<open>diff.rs\<close>): branch names, relative paths and unified
  diffs, with the round trip of hunks through a diff.

  \<^bold>\<open>Executors.\<close>
  \<open>Executor_Actions\<close> (\<^verbatim>\<open>executors/src/executors/mod.rs\<close>, \<^verbatim>\<open>actions\<close>, \<^verbatim>\<open>profile.rs\<close>): action chains, profiles, the
  round trip of overrides and that updated profiles are safe to use.
  \<open>Claude_Logs\<close>, \<open>Codex_Logs\<close>, \<open>Acp_Logs\<close>, \<open>Cursor_Logs\<close>, \<open>Opencode_Logs\<close> (\<^verbatim>\<open>claude.rs\<close>, \<^verbatim>\<open>codex/normalize_logs.rs\<close>, \<^verbatim>\<open>acp/\<close>,
  \<^verbatim>\<open>cursor.rs\<close>, \<^verbatim>\<open>opencode.rs\<close>): the log normalisers.  Their \<open>_Guarantees\<close> show that the patches apply to the
  conversation (Codex' except after an approval request for a patch that still has entries), which entries
  show what, that every reported call of an ACP agent is shown with its merged data, that the output may
  arrive in any chunks, and where a text, a result or an approval is lost.  A normaliser is the only writer
  of its conversation there: the task that shows the error output and shares its counter is not interleaved.
  \<open>Agent_Commands\<close>, \<open>Agent_Clients\<close>, \<open>Agent_Guarantees\<close> (\<^verbatim>\<open>command.rs\<close>, the command builders of the agents,
  \<^verbatim>\<open>claude/client.rs\<close>, \<^verbatim>\<open>claude/protocol.rs\<close>, \<^verbatim>\<open>codex/client.rs\<close>): command lines and the clients that ask about tools: which tools reach the approval service, and that
  Claude and Codex get the permission, the denial and the reason that its answer means.
  \<open>Mcp_Config\<close> (\<^verbatim>\<open>mcp_config.rs\<close>): reading, writing and adapting the MCP servers of an agent.

  \<^bold>\<open>Database.\<close>
  \<open>Db_Schema\<close>, \<open>Task_Models\<close>, \<open>Process_Models\<close>, \<open>Draft_Models\<close>, \<open>Misc_Models\<close> (\<^verbatim>\<open>crates/db/src/models\<close>): the rows and every
  statement.  \<open>Db_Integrity\<close>: keys, references and checks hold in every database that the statements reach.
  \<open>Process_Models\<close> also has the round trip of stored logs; \<open>Draft_Models\<close> that the sending mark is exclusive.

  \<^bold>\<open>Services.\<close>
  \<open>Approvals\<close> (\<^verbatim>\<open>services/approvals.rs\<close>): requests, answers and timeout watchers as interleaved steps; a request is
  resolved once, and, however the steps interleave, by the time its watcher has finished.
  \<open>Service_State\<close>, \<open>Image_Service\<close>, \<open>Container_Service\<close> (\<^verbatim>\<open>services/image.rs\<close>, \<^verbatim>\<open>services/container.rs\<close>,
  \<^verbatim>\<open>local-deployment/src/container.rs\<close>): the state, the environment and the methods.
  \<open>Container_Invariants\<close> has the locales \<open>container_relation\<close> and \<open>creating_relation\<close> between a method's statements
  and a property of its runs; \<open>Container_System\<close> the interleaved system, that every running process has its
  monitor, and what a start leaves behind, successful or not; \<open>Container_Failures\<close> the task of a failed process.
  \<open>Drafts_Service\<close>, \<open>Drafts_Guarantees\<close> (\<^verbatim>\<open>services/drafts.rs\<close>): versions, lost updates and failed starts.

  \<^bold>\<open>Bounds.\<close>  The theorems on normalisers assume that a log makes fewer than \<open>2\<^sup>6\<^sup>4 - 1\<close> entries, since the
  counter is a \<^verbatim>\<open>usize\<close>.  The budget of a message store is the constant of the code.

  \<^bold>\<open>Not modelled.\<close>  Spawning processes, pipes, sockets and JSON-RPC peers; libgit2 and the git binary; HTTP
  and network clients (GitHub, analytics, Omni, notifications); the file watcher, file search and diff streams; the configuration file and genie profiles; the wording of
  merge commits; routing,
  web sockets and serialisation by axum and serde; the release notes and frontend.  These are calls into
  other crates with little logic between them, and the model has them as parameters where it needs them.
\<close>

end
